theory Spec2Isabelle
  imports Complex_Main "HOL-Library.Monad_Syntax" "HOL-Library.Word"
begin

section \<open>Go runtime primitives\<close>

text \<open>
  A Go \<open>string\<close> and a \<open>[]byte\<close> are byte sequences: both are modelled by \<open>string\<close>
  (a \<open>char list\<close>, one \<open>char\<close> per byte, so a UTF-8 encoded rune takes several). A
  function that can raise a run-time panic (index out of range, slice bounds out of range)
  returns an \<open>option\<close>: \<open>None\<close> is the panic, \<open>Some r\<close> the returned value.

  \<open>float64\<close> arguments are modelled by their exact rational value (\<open>rat\<close>): every finite
  \<open>float64\<close> is a rational number, \<open>math.Abs\<close> and the comparisons with \<open>0\<close>, \<open>1\<close>, \<open>2\<close>
  are exact. A precision \<open>v uint64\<close> is a 64-bit word; the conversion \<open>int(v)\<close> keeps the
  bits and reads them as a signed number: it is \<open>sint v\<close>, negative from \<open>2 ^ 63\<close> on.
  A \<open>currency.Type\<close> is the index of a currency code, a \<open>nat\<close>.
\<close>

type_synonym uint64 = "64 word"

definition index :: "'a list \<Rightarrow> nat \<Rightarrow> 'a option" where
  \<comment> \<open>\<open>xs[i]\<close>: panics when \<open>i\<close> is out of range\<close>
  "index xs i = (if i < length xs then Some (xs ! i) else None)"

definition slice_to :: "string \<Rightarrow> int \<Rightarrow> string option" where
  \<comment> \<open>\<open>s[:hi]\<close>: panics unless \<open>0 \<le> hi \<le> len(s)\<close>\<close>
  "slice_to s hi = (if 0 \<le> hi \<and> hi \<le> int (length s) then Some (take (nat hi) s) else None)"

definition slice_from :: "string \<Rightarrow> nat \<Rightarrow> string option" where
  \<comment> \<open>\<open>s[lo:]\<close>: panics unless \<open>lo \<le> len(s)\<close>\<close>
  "slice_from s lo = (if lo \<le> length s then Some (drop lo s) else None)"

definition digit_char :: "nat \<Rightarrow> char" where
  "digit_char d = ''0123456789'' ! d"

definition is_digit :: "char \<Rightarrow> bool" where
  "is_digit c = (c \<in> set ''0123456789'')"

fun FormatUint :: "nat \<Rightarrow> string" where
  "FormatUint n =
     (if n < 10 then [digit_char n] else FormatUint (n div 10) @ [digit_char (n mod 10)])"

declare FormatUint.simps [simp del]

definition Itoa :: "int \<Rightarrow> string" where
  \<comment> \<open>\<open>strconv.Itoa(i)\<close>; \<open>strconv.AppendInt(b, i, 10)\<close> is \<open>b @ Itoa i\<close>\<close>
  "Itoa i = (if i < 0 then CHR ''-'' # FormatUint (nat (- i)) else FormatUint (nat i))"

definition round_half_even :: "rat \<Rightarrow> int" where
  "round_half_even x =
     (let f = \<lfloor>x\<rfloor>; r = x - of_int f
      in if r < 1 / 2 then f else if 1 / 2 < r then f + 1 else if even f then f else f + 1)"

definition FormatFixed :: "rat \<Rightarrow> nat \<Rightarrow> string" where
  \<comment> \<open>\<open>strconv.FormatFloat(x, 'f', prec, 64)\<close> for a finite \<open>x \<ge> 0\<close> (every call
      site passes \<open>math.Abs(num)\<close> or a fractional part) and \<open>prec \<ge> 0\<close>: the exact
      decimal expansion of \<open>x\<close>, correctly rounded to \<open>prec\<close> fraction digits, the
      radix point present only when \<open>prec > 0\<close>\<close>
  "FormatFixed x prec =
     (let n = nat (round_half_even (x * 10 ^ prec));
          whole = FormatUint (n div 10 ^ prec);
          frac = FormatUint (n mod 10 ^ prec)
      in if prec = 0 then whole
         else whole @ ''.'' @ replicate (prec - length frac) CHR ''0'' @ frac)"

text \<open>
  With a negative precision \<open>strconv.FormatFloat\<close> writes the shortest decimal that parses
  back to the same \<open>float64\<close>, and of the decimals of that length the one nearest to the
  value. \<open>float64_round\<close> is the parse: rounding to the nearest number with a 53-bit
  significand (spacing \<open>2 ^ (e - 52)\<close> in the binade of exponent \<open>e\<close>, \<open>2 ^ - 1074\<close> below
  \<open>2 ^ - 1022\<close>), ties to the even significand. The search tries 1, 2, ... significant
  digits; the digit positions are those of the value, whose first digit has the weight
  \<open>10 ^ (k - 1)\<close>.
\<close>

fun bit_length :: "nat \<Rightarrow> nat" where
  "bit_length n = (if n = 0 then 0 else Suc (bit_length (n div 2)))"

declare bit_length.simps [simp del]

definition floor_log2 :: "rat \<Rightarrow> int" where
  \<comment> \<open>the exponent \<open>e\<close> with \<open>2 ^ e \<le> y < 2 ^ (e + 1)\<close>, for \<open>y > 0\<close>\<close>
  "floor_log2 y =
     (if 1 \<le> y then int (bit_length (nat \<lfloor>y\<rfloor>)) - 1
      else - int (bit_length (nat \<lceil>1 / y\<rceil> - 1)))"

definition power_int2 :: "int \<Rightarrow> rat" where
  "power_int2 e = (if 0 \<le> e then 2 ^ nat e else 1 / 2 ^ nat (- e))"

definition power_int10 :: "int \<Rightarrow> rat" where
  "power_int10 e = (if 0 \<le> e then 10 ^ nat e else 1 / 10 ^ nat (- e))"

definition float64_round :: "rat \<Rightarrow> rat" where
  "float64_round y =
     (let e = max (floor_log2 y) (- 1022);
          q = power_int2 (e - 52)
      in of_int (round_half_even (y / q)) * q)"

definition decimal_exponent :: "rat \<Rightarrow> int" where
  \<comment> \<open>the \<open>k\<close> with \<open>10 ^ (k - 1) \<le> y < 10 ^ k\<close>, for \<open>y > 0\<close>\<close>
  "decimal_exponent y =
     (if 1 \<le> y then int (length (FormatUint (nat \<lfloor>y\<rfloor>)))
      else 1 - int (length (FormatUint (nat \<lceil>1 / y\<rceil> - 1))))"

fun shortest_search :: "rat \<Rightarrow> int \<Rightarrow> nat \<Rightarrow> nat \<Rightarrow> rat" where
  \<comment> \<open>\<open>shortest_search y k n fuel\<close>: the value written with \<open>n\<close> significant digits
      when truncating \<open>y\<close> there or rounding it up parses back to \<open>y\<close>, with one
      digit more otherwise; 17 digits always suffice for a \<open>float64\<close>\<close>
  "shortest_search y k n 0 = y"
| "shortest_search y k n (Suc fuel) =
     (let u = power_int10 (k - int n);
          lo = \<lfloor>y / u\<rfloor>;
          down = of_int lo * u;
          up = of_int (lo + 1) * u;
          okdown = (float64_round down = y);
          okup = (float64_round up = y)
      in if okdown \<and> okup then of_int (round_half_even (y / u)) * u
         else if okdown then down
         else if okup then up
         else shortest_search y k (Suc n) fuel)"

fun fraction_length :: "rat \<Rightarrow> nat \<Rightarrow> nat" where
  \<comment> \<open>the number of fraction digits of a decimal number (searched up to the fuel)\<close>
  "fraction_length r 0 = 0"
| "fraction_length r (Suc fuel) =
     (if of_int \<lfloor>r\<rfloor> = r then 0 else Suc (fraction_length (10 * r) fuel))"

definition FormatShortest :: "rat \<Rightarrow> string" where
  \<comment> \<open>\<open>strconv.FormatFloat(x, 'f', prec, 64)\<close> for a \<open>float64\<close> value \<open>x \<ge> 0\<close> and
      \<open>prec < 0\<close>; a \<open>float64\<close> has at most 1074 fraction digits\<close>
  "FormatShortest x =
     (if x = 0 then ''0''
      else let r = shortest_search x (decimal_exponent x) 1 17
           in FormatFixed r (fraction_length r 1100))"

definition FormatFloat :: "rat \<Rightarrow> int \<Rightarrow> string" where
  \<comment> \<open>\<open>strconv.FormatFloat(x, 'f', prec, 64)\<close>; the callers pass \<open>int(v)\<close>\<close>
  "FormatFloat x prec = (if prec < 0 then FormatShortest x else FormatFixed x (nat prec))"

record Time =
  \<comment> \<open>what the formatters read from a \<open>time.Time\<close>: the calendar and clock fields and the
      zone abbreviation that \<open>t.Zone()\<close> returns\<close>
  Year :: int
  Month :: int
  Day :: int
  Hour :: int
  Minute :: int
  Second :: int
  Zone :: string

section \<open>Package locales: plural categories\<close>

text \<open>
  Modelled from the spec: the enumeration \<open>locales.PluralRule\<close> (file \<open>rules.go\<close> of
  package \<open>locales\<close> is absent). The spec names the categories zero, one, two, few, many,
  other and unknown. The descriptors list categories by number; the numbering
  \<open>Unknown = 0, Zero = 1, One = 2, Two = 3, Few = 4, Many = 5, Other = 6\<close> is the one under
  which every descriptor below declares the categories its own cardinal rule returns.
\<close>

datatype PluralRule =
  PluralRuleUnknown | PluralRuleZero | PluralRuleOne | PluralRuleTwo
  | PluralRuleFew | PluralRuleMany | PluralRuleOther

fun PluralRule_of_nat :: "nat \<Rightarrow> PluralRule" where
  "PluralRule_of_nat n =
     (if n = 1 then PluralRuleZero else if n = 2 then PluralRuleOne
      else if n = 3 then PluralRuleTwo else if n = 4 then PluralRuleFew
      else if n = 5 then PluralRuleMany else if n = 6 then PluralRuleOther
      else PluralRuleUnknown)"

definition int64 :: "rat \<Rightarrow> int" where
  \<comment> \<open>the conversion \<open>int64(n)\<close> of a float \<open>n \<ge> 0\<close>: truncation. From \<open>2 ^ 63\<close>
      on the value does not fit and Go leaves the result to the implementation; it is
      \<open>- 2 ^ 63\<close> on amd64, the value taken here\<close>
  "int64 n = (if n < 2 ^ 63 then \<lfloor>n\<rfloor> else - (2 ^ 63))"

definition F :: "rat \<Rightarrow> uint64 \<Rightarrow> int" where
  \<comment> \<open>Modelled from the spec: \<open>locales.F(n, v)\<close> (\<open>rules.go\<close> is absent), the visible
      fraction digits of \<open>n\<close> read as an integer: the digits after the radix point of the
      fractional part of \<open>n\<close> formatted with \<open>v\<close> fraction digits, \<open>0\<close> when there are
      none\<close>
  "F n v = (if v = 0 then 0
            else int (nat (round_half_even ((n - of_int (int64 n)) * 10 ^ unat v))
                      mod 10 ^ unat v))"


section \<open>Locale descriptors\<close>

text \<open>
  Every locale package declares its own struct type with the same fields and fills it in
  \<open>New()\<close>; a field that \<open>New()\<close> leaves out holds Go's zero value (the empty string,
  the nil slice). One record type carries the fields the modelled methods read (the
  month, weekday and era name tables are read by none of them). The field \<open>locale\<close> is
  \<open>locale_name\<close>, \<open>group\<close> is \<open>group_sym\<close> and \<open>minus\<close> is \<open>minus_sym\<close> here. The map
  \<open>timezones\<close> is an association list with distinct keys, looked up with \<open>map_of\<close>.
\<close>

record locale_data =
  locale_name :: string
  pluralsCardinal :: "PluralRule list"
  pluralsOrdinal :: "PluralRule list"
  pluralsRange :: "PluralRule list"
  decimal :: string
  group_sym :: string
  minus_sym :: string
  percent :: string
  percentSuffix :: string
  perMille :: string
  timeSeparator :: string
  inifinity :: string
  currencies :: "string list"
  currencyPositivePrefix :: string
  currencyPositiveSuffix :: string
  currencyNegativePrefix :: string
  currencyNegativeSuffix :: string
  periodsAbbreviated :: "string list"
  periodsNarrow :: "string list"
  periodsWide :: "string list"
  timezones :: "(string \<times> string) list"

definition az_Latn_AZ_currencies :: "string list" where
  "az_Latn_AZ_currencies =
    [''ADP'', ''AED'', ''AFA'', ''AFN'', ''ALK'', ''ALL'', ''AMD'', ''ANG'', ''AOA'', ''AOK'',
     ''AON'', ''AOR'', ''ARA'', ''ARL'', ''ARM'', ''ARP'', ''ARS'', ''ATS'', ''AUD'', ''AWG'',
     ''AZM'', ''AZN'', ''BAD'', ''BAM'', ''BAN'', ''BBD'', ''BDT'', ''BEC'', ''BEF'', ''BEL'',
     ''BGL'', ''BGM'', ''BGN'', ''BGO'', ''BHD'', ''BIF'', ''BMD'', ''BND'', ''BOB'', ''BOL'',
     ''BOP'', ''BOV'', ''BRB'', ''BRC'', ''BRE'', ''BRL'', ''BRN'', ''BRR'', ''BRZ'', ''BSD'',
     ''BTN'', ''BUK'', ''BWP'', ''BYB'', ''BYN'', ''BYR'', ''BZD'', ''CAD'', ''CDF'', ''CHE'',
     ''CHF'', ''CHW'', ''CLE'', ''CLF'', ''CLP'', ''CNX'', ''CNY'', ''COP'', ''COU'', ''CRC'',
     ''CSD'', ''CSK'', ''CUC'', ''CUP'', ''CVE'', ''CYP'', ''CZK'', ''DDM'', ''DEM'', ''DJF'',
     ''DKK'', ''DOP'', ''DZD'', ''ECS'', ''ECV'', ''EEK'', ''EGP'', ''ERN'', ''ESA'', ''ESB'',
     ''ESP'', ''ETB'', ''EUR'', ''FIM'', ''FJD'', ''FKP'', ''FRF'', ''GBP'', ''GEK'', ''GEL'',
     ''GHC'', ''GHS'', ''GIP'', ''GMD'', ''GNF'', ''GNS'', ''GQE'', ''GRD'', ''GTQ'', ''GWE'',
     ''GWP'', ''GYD'', ''HKD'', ''HNL'', ''HRD'', ''HRK'', ''HTG'', ''HUF'', ''IDR'', ''IEP'',
     ''ILP'', ''ILR'', ''ILS'', ''INR'', ''IQD'', ''IRR'', ''ISJ'', ''ISK'', ''ITL'', ''JMD'',
     ''JOD'', ''JPY'', ''KES'', ''KGS'', ''KHR'', ''KMF'', ''KPW'', ''KRH'', ''KRO'', ''KRW'',
     ''KWD'', ''KYD'', ''KZT'', ''LAK'', ''LBP'', ''LKR'', ''LRD'', ''LSL'', ''LTL'', ''LTT'',
     ''LUC'', ''LUF'', ''LUL'', ''LVL'', ''LVR'', ''LYD'', ''MAD'', ''MAF'', ''MCF'', ''MDC'',
     ''MDL'', ''MGA'', ''MGF'', ''MKD'', ''MKN'', ''MLF'', ''MMK'', ''MNT'', ''MOP'', ''MRO'',
     ''MTL'', ''MTP'', ''MUR'', ''MVP'', ''MVR'', ''MWK'', ''MXN'', ''MXP'', ''MXV'', ''MYR'',
     ''MZE'', ''MZM'', ''MZN'', ''NAD'', ''NGN'', ''NIC'', ''NIO'', ''NLG'', ''NOK'', ''NPR'',
     ''NZD'', ''OMR'', ''PAB'', ''PEI'', ''PEN'', ''PES'', ''PGK'', ''PHP'', ''PKR'', ''PLN'',
     ''PLZ'', ''PTE'', ''PYG'', ''QAR'', ''RHD'', ''ROL'', ''RON'', ''RSD'', ''RUB'', ''RUR'',
     ''RWF'', ''SAR'', ''SBD'', ''SCR'', ''SDD'', ''SDG'', ''SDP'', ''SEK'', ''SGD'', ''SHP'',
     ''SIT'', ''SKK'', ''SLL'', ''SOS'', ''SRD'', ''SRG'', ''SSP'', ''STD'', ''SUR'', ''SVC'',
     ''SYP'', ''SZL'', ''THB'', ''TJR'', ''TJS'', ''TMM'', ''TMT'', ''TND'', ''TOP'', ''TPE'',
     ''TRL'', ''TRY'', ''TTD'', ''TWD'', ''TZS'', ''UAH'', ''UAK'', ''UGS'', ''UGX'', ''USD'',
     ''USN'', ''USS'', ''UYI'', ''UYP'', ''UYU'', ''UZS'', ''VEB'', ''VEF'', ''VND'', ''VNN'',
     ''VUV'', ''WST'', ''XAF'', ''XAG'', ''XAU'', ''XBA'', ''XBB'', ''XBC'', ''XBD'', ''XCD'',
     ''XDR'', ''XEU'', ''XFO'', ''XFU'', ''XOF'', ''XPD'', ''XPF'', ''XPT'', ''XRE'', ''XSU'',
     ''XTS'', ''XUA'', ''XXX'', ''YDD'', ''YER'', ''YUD'', ''YUM'', ''YUN'', ''YUR'', ''ZAL'',
     ''ZAR'', ''ZMK'', ''ZMW'', ''ZRN'', ''ZRZ'', ''ZWD'', ''ZWL'', ''ZWR'']"

definition az_Latn_AZ_timezones :: "(string \<times> string) list" where
  "az_Latn_AZ_timezones =
    [(''GFT'', ''Frans'' @ [CHR 0xC4, CHR 0xB1] @ ''z Qvianas'' @ [CHR 0xC4, CHR 0xB1] @ '' Vaxt'' @ [CHR 0xC4, CHR 0xB1]),
     (''PST'', [CHR 0xC5, CHR 0x9E] @ ''imali Amerika Sakit Okean Standart Vaxt'' @ [CHR 0xC4, CHR 0xB1]),
     (''CAT'', ''M'' @ [CHR 0xC9, CHR 0x99] @ ''rk'' @ [CHR 0xC9, CHR 0x99] @ ''zi Afrika Vaxt'' @ [CHR 0xC4, CHR 0xB1]),
     (''EST'', [CHR 0xC5, CHR 0x9E] @ ''imali '' @ [CHR 0xC5, CHR 0x9E, CHR 0xC9, CHR 0x99] @ ''rqi Amerika Standart Vaxt'' @ [CHR 0xC4, CHR 0xB1]),
     (''ChST'', [CHR 0xC3, CHR 0x87] @ ''amorro Vaxt'' @ [CHR 0xC4, CHR 0xB1]),
     (''CDT'', [CHR 0xC5, CHR 0x9E] @ ''imali M'' @ [CHR 0xC9, CHR 0x99] @ ''rk'' @ [CHR 0xC9, CHR 0x99] @ ''zi Amerika Yay Vaxt'' @ [CHR 0xC4, CHR 0xB1]),
     (''OESZ'', [CHR 0xC5, CHR 0x9E, CHR 0xC9, CHR 0x99] @ ''rqi Avropa Yay Vaxt'' @ [CHR 0xC4, CHR 0xB1]),
     (''COST'', ''Kolumbiya Yay Vaxt'' @ [CHR 0xC4, CHR 0xB1]),
     (''MDT'', [CHR 0xC5, CHR 0x9E] @ ''imali Da'' @ [CHR 0xC4, CHR 0x9F] @ ''l'' @ [CHR 0xC4, CHR 0xB1] @ ''q Amerika Yay Vaxt'' @ [CHR 0xC4, CHR 0xB1]),
     (''HAST'', ''Havay-Aleut Standart Vaxt'' @ [CHR 0xC4, CHR 0xB1]),
     (''CLST'', [CHR 0xC3, CHR 0x87] @ ''ili Yay Vaxt'' @ [CHR 0xC4, CHR 0xB1]),
     (''TMT'', ''T'' @ [CHR 0xC3, CHR 0xBC] @ ''rkm'' @ [CHR 0xC9, CHR 0x99] @ ''nistan Standart Vaxt'' @ [CHR 0xC4, CHR 0xB1]),
     (''WAT'', ''Q'' @ [CHR 0xC9, CHR 0x99] @ ''rbi Afrika Standart Vaxt'' @ [CHR 0xC4, CHR 0xB1]),
     (''HKT'', ''Honq Konq Standart Vaxt'' @ [CHR 0xC4, CHR 0xB1]),
     (''ACDT'', ''M'' @ [CHR 0xC9, CHR 0x99] @ ''rk'' @ [CHR 0xC9, CHR 0x99] @ ''zi Avstraliya Yay Vaxt'' @ [CHR 0xC4, CHR 0xB1]),
     (''SRT'', ''Surinam Vaxt'' @ [CHR 0xC4, CHR 0xB1]),
     (''ECT'', ''Ekvador Vaxt'' @ [CHR 0xC4, CHR 0xB1]),
     (''WESZ'', ''Q'' @ [CHR 0xC9, CHR 0x99] @ ''rbi Avropa Yay Vaxt'' @ [CHR 0xC4, CHR 0xB1]),
     (''AEST'', [CHR 0xC5, CHR 0x9E, CHR 0xC9, CHR 0x99] @ ''rqi Avstraliya Standart Vaxt'' @ [CHR 0xC4, CHR 0xB1]),
     (''JST'', ''Yaponiya Standart Vaxt'' @ [CHR 0xC4, CHR 0xB1]),
     (''WAST'', ''Q'' @ [CHR 0xC9, CHR 0x99] @ ''rbi Afrika Yay Vaxt'' @ [CHR 0xC4, CHR 0xB1]),
     (''HAT'', ''Nyufaundlend Yay Vaxt'' @ [CHR 0xC4, CHR 0xB1]),
     (''HNPM'', ''San Pier v'' @ [CHR 0xC9, CHR 0x99] @ '' Mikelon Standart Vaxt'' @ [CHR 0xC4, CHR 0xB1]),
     (''IST'', ''Hindistan Vaxt'' @ [CHR 0xC4, CHR 0xB1]),
     (''VET'', ''Venesuela Vaxt'' @ [CHR 0xC4, CHR 0xB1]),
     (''AST'', ''Atlantik Standart Vaxt''), (''BT'', ''Butan Vaxt'' @ [CHR 0xC4, CHR 0xB1]),
     ([CHR 0xE2, CHR 0x88, CHR 0x85, CHR 0xE2, CHR 0x88, CHR 0x85, CHR 0xE2, CHR 0x88, CHR 0x85], [CHR 0xE2, CHR 0x88, CHR 0x85, CHR 0xE2, CHR 0x88, CHR 0x85, CHR 0xE2, CHR 0x88, CHR 0x85]),
     (''WIT'', [CHR 0xC5, CHR 0x9E, CHR 0xC9, CHR 0x99] @ ''rqi '' @ [CHR 0xC4, CHR 0xB0] @ ''ndoneziya Vaxt'' @ [CHR 0xC4, CHR 0xB1]),
     (''AWDT'', ''Q'' @ [CHR 0xC9, CHR 0x99] @ ''rbi Avstraliya Yay Vaxt'' @ [CHR 0xC4, CHR 0xB1]),
     (''MYT'', ''Malayziya Vaxt'' @ [CHR 0xC4, CHR 0xB1]),
     (''COT'', ''Kolumbiya Standart Vaxt'' @ [CHR 0xC4, CHR 0xB1]),
     (''SAST'', ''C'' @ [CHR 0xC9, CHR 0x99] @ ''nubi Afrika Vaxt'' @ [CHR 0xC4, CHR 0xB1]),
     (''LHDT'', ''Lord Hau Yay vaxt'' @ [CHR 0xC4, CHR 0xB1]),
     (''HNPMX'', ''Meksika Sakit Okean Standart Vaxt'' @ [CHR 0xC4, CHR 0xB1]),
     (''JDT'', ''Yaponiya Yay Vaxt'' @ [CHR 0xC4, CHR 0xB1]),
     (''HENOMX'', [CHR 0xC5, CHR 0x9E] @ ''imal-Q'' @ [CHR 0xC9, CHR 0x99] @ ''rbi Meksika Yay Vaxt'' @ [CHR 0xC4, CHR 0xB1]),
     (''UYT'', ''Uruqvay Standart Vaxt'' @ [CHR 0xC4, CHR 0xB1]),
     (''UYST'', ''Uruqvay Yay Vaxt'' @ [CHR 0xC4, CHR 0xB1]),
     (''LHST'', ''Lord Hau Standart Vaxt'' @ [CHR 0xC4, CHR 0xB1]),
     (''SGT'', ''Sinqapur Vaxt'' @ [CHR 0xC4, CHR 0xB1]),
     (''NZST'', ''Yeni Zelandiya Standart Vaxt'' @ [CHR 0xC4, CHR 0xB1]),
     (''HEOG'', ''Q'' @ [CHR 0xC9, CHR 0x99] @ ''rbi Qrenlandiya Yay Vaxt'' @ [CHR 0xC4, CHR 0xB1]),
     (''GMT'', ''Qrinvi'' @ [CHR 0xC3, CHR 0xA7] @ '' Orta Vaxt'' @ [CHR 0xC4, CHR 0xB1]),
     (''HNNOMX'', [CHR 0xC5, CHR 0x9E] @ ''imal-Q'' @ [CHR 0xC9, CHR 0x99] @ ''rbi Meksika Standart Vaxt'' @ [CHR 0xC4, CHR 0xB1]),
     (''AWST'', ''Q'' @ [CHR 0xC9, CHR 0x99] @ ''rbi Avstraliya Standart Vaxt'' @ [CHR 0xC4, CHR 0xB1]),
     (''NZDT'', ''Yeni Zelandiya Yay Vaxt'' @ [CHR 0xC4, CHR 0xB1]),
     (''MESZ'', ''M'' @ [CHR 0xC9, CHR 0x99] @ ''rk'' @ [CHR 0xC9, CHR 0x99] @ ''zi Avropa Yay Vaxt'' @ [CHR 0xC4, CHR 0xB1]),
     (''ADT'', ''Atlantik Yay Vaxt'' @ [CHR 0xC4, CHR 0xB1]),
     (''OEZ'', [CHR 0xC5, CHR 0x9E, CHR 0xC9, CHR 0x99] @ ''rqi Avropa Standart Vaxt'' @ [CHR 0xC4, CHR 0xB1]),
     (''CLT'', [CHR 0xC3, CHR 0x87] @ ''ili Standart Vaxt'' @ [CHR 0xC4, CHR 0xB1]),
     (''ACST'', ''M'' @ [CHR 0xC9, CHR 0x99] @ ''rk'' @ [CHR 0xC9, CHR 0x99] @ ''zi Avstraliya Standart Vaxt'' @ [CHR 0xC4, CHR 0xB1]),
     (''ART'', ''Argentina Standart Vaxt'' @ [CHR 0xC4, CHR 0xB1]),
     (''AKST'', ''Alyaska Standart Vaxt'' @ [CHR 0xC4, CHR 0xB1]),
     (''HEPM'', ''San Pier v'' @ [CHR 0xC9, CHR 0x99] @ '' Mikelon Yay Vaxt'' @ [CHR 0xC4, CHR 0xB1]),
     (''HECU'', ''Kuba Yay Vaxt'' @ [CHR 0xC4, CHR 0xB1]),
     (''CHAST'', [CHR 0xC3, CHR 0x87] @ ''atham Standart Vaxt'' @ [CHR 0xC4, CHR 0xB1]),
     (''PDT'', [CHR 0xC5, CHR 0x9E] @ ''imali Amerika Sakit Okean Yay Vaxt'' @ [CHR 0xC4, CHR 0xB1]),
     (''ACWDT'', ''M'' @ [CHR 0xC9, CHR 0x99] @ ''rk'' @ [CHR 0xC9, CHR 0x99] @ ''zi Q'' @ [CHR 0xC9, CHR 0x99] @ ''rbi Avstraliya Yay Vaxt'' @ [CHR 0xC4, CHR 0xB1]),
     (''WEZ'', ''Q'' @ [CHR 0xC9, CHR 0x99] @ ''rbi Avropa Standart Vaxt'' @ [CHR 0xC4, CHR 0xB1]),
     (''HNT'', ''Nyufaundlend Standart Vaxt'' @ [CHR 0xC4, CHR 0xB1]),
     (''AKDT'', ''Alyaska Yay Vaxt'' @ [CHR 0xC4, CHR 0xB1]),
     (''GYT'', ''Qayana Vaxt'' @ [CHR 0xC4, CHR 0xB1]),
     (''WIB'', ''Q'' @ [CHR 0xC9, CHR 0x99] @ ''rbi '' @ [CHR 0xC4, CHR 0xB0] @ ''ndoneziya Vaxt'' @ [CHR 0xC4, CHR 0xB1]),
     (''WARST'', ''Q'' @ [CHR 0xC9, CHR 0x99] @ ''rbi Argentina Yay Vaxt'' @ [CHR 0xC4, CHR 0xB1]),
     (''EDT'', [CHR 0xC5, CHR 0x9E] @ ''imali '' @ [CHR 0xC5, CHR 0x9E, CHR 0xC9, CHR 0x99] @ ''rqi Amerika Yay Vaxt'' @ [CHR 0xC4, CHR 0xB1]),
     (''HNEG'', [CHR 0xC5, CHR 0x9E, CHR 0xC9, CHR 0x99] @ ''rqi Qrenlandiya Standart Vaxt'' @ [CHR 0xC4, CHR 0xB1]),
     (''AEDT'', [CHR 0xC5, CHR 0x9E, CHR 0xC9, CHR 0x99] @ ''rqi Avstraliya Yay Vaxt'' @ [CHR 0xC4, CHR 0xB1]),
     (''HEPMX'', ''Meksika Sakit Okean Yay Vaxt'' @ [CHR 0xC4, CHR 0xB1]),
     (''EAT'', [CHR 0xC5, CHR 0x9E, CHR 0xC9, CHR 0x99] @ ''rqi Afrika Vaxt'' @ [CHR 0xC4, CHR 0xB1]),
     (''HNCU'', ''Kuba Standart Vaxt'' @ [CHR 0xC4, CHR 0xB1]),
     (''MEZ'', ''M'' @ [CHR 0xC9, CHR 0x99] @ ''rk'' @ [CHR 0xC9, CHR 0x99] @ ''zi Avropa Standart Vaxt'' @ [CHR 0xC4, CHR 0xB1]),
     (''TMST'', ''T'' @ [CHR 0xC3, CHR 0xBC] @ ''rkm'' @ [CHR 0xC9, CHR 0x99] @ ''nistan Yay Vaxt'' @ [CHR 0xC4, CHR 0xB1]),
     (''HEEG'', [CHR 0xC5, CHR 0x9E, CHR 0xC9, CHR 0x99] @ ''rqi Qrenlandiya Yay Vaxt'' @ [CHR 0xC4, CHR 0xB1]),
     (''WITA'', ''M'' @ [CHR 0xC9, CHR 0x99] @ ''rk'' @ [CHR 0xC9, CHR 0x99] @ ''zi '' @ [CHR 0xC4, CHR 0xB0] @ ''ndoneziya Vaxt'' @ [CHR 0xC4, CHR 0xB1]),
     (''ACWST'', ''M'' @ [CHR 0xC9, CHR 0x99] @ ''rk'' @ [CHR 0xC9, CHR 0x99] @ ''zi Q'' @ [CHR 0xC9, CHR 0x99] @ ''rbi Avstraliya Standart Vaxt'' @ [CHR 0xC4, CHR 0xB1]),
     (''HNOG'', ''Q'' @ [CHR 0xC9, CHR 0x99] @ ''rbi Qrenlandiya Standart Vaxt'' @ [CHR 0xC4, CHR 0xB1]),
     (''WART'', ''Q'' @ [CHR 0xC9, CHR 0x99] @ ''rbi Argentina Standart Vaxt'' @ [CHR 0xC4, CHR 0xB1]),
     (''HKST'', ''Honq Konq Yay Vaxt'' @ [CHR 0xC4, CHR 0xB1]),
     (''MST'', [CHR 0xC5, CHR 0x9E] @ ''imali Da'' @ [CHR 0xC4, CHR 0x9F] @ ''l'' @ [CHR 0xC4, CHR 0xB1] @ ''q Amerika Standart Vaxt'' @ [CHR 0xC4, CHR 0xB1]),
     (''CST'', [CHR 0xC5, CHR 0x9E] @ ''imali M'' @ [CHR 0xC9, CHR 0x99] @ ''rk'' @ [CHR 0xC9, CHR 0x99] @ ''zi Amerika Standart Vaxt'' @ [CHR 0xC4, CHR 0xB1]),
     (''CHADT'', [CHR 0xC3, CHR 0x87] @ ''atham Yay Vaxt'' @ [CHR 0xC4, CHR 0xB1]),
     (''BOT'', ''Boliviya Vaxt'' @ [CHR 0xC4, CHR 0xB1]),
     (''HADT'', ''Havay-Aleut Yay Vaxt'' @ [CHR 0xC4, CHR 0xB1]),
     (''ARST'', ''Argentina Yay Vaxt'' @ [CHR 0xC4, CHR 0xB1])]"

definition bg_BG_currencies :: "string list" where
  "bg_BG_currencies =
    [''ADP'', ''AED'', ''AFA'', ''AFN'', ''ALK'', ''ALL'', ''AMD'', ''ANG'', ''AOA'', ''AOK'',
     ''AON'', ''AOR'', ''ARA'', ''ARL'', ''ARM'', ''ARP'', ''ARS'', ''ATS'', ''AUD'', ''AWG'',
     ''AZM'', ''AZN'', ''BAD'', ''BAM'', ''BAN'', ''BBD'', ''BDT'', ''BEC'', ''BEF'', ''BEL'',
     ''BGL'', ''BGM'', ''BGN'', ''BGO'', ''BHD'', ''BIF'', ''BMD'', ''BND'', ''BOB'', ''BOL'',
     ''BOP'', ''BOV'', ''BRB'', ''BRC'', ''BRE'', ''BRL'', ''BRN'', ''BRR'', ''BRZ'', ''BSD'',
     ''BTN'', ''BUK'', ''BWP'', ''BYB'', ''BYN'', ''BYR'', ''BZD'', ''CAD'', ''CDF'', ''CHE'',
     ''CHF'', ''CHW'', ''CLE'', ''CLF'', ''CLP'', ''CNX'', ''CNY'', ''COP'', ''COU'', ''CRC'',
     ''CSD'', ''CSK'', ''CUC'', ''CUP'', ''CVE'', ''CYP'', ''CZK'', ''DDM'', ''DEM'', ''DJF'',
     ''DKK'', ''DOP'', ''DZD'', ''ECS'', ''ECV'', ''EEK'', ''EGP'', ''ERN'', ''ESA'', ''ESB'',
     ''ESP'', ''ETB'', ''EUR'', ''FIM'', ''FJD'', ''FKP'', ''FRF'', ''GBP'', ''GEK'', ''GEL'',
     ''GHC'', ''GHS'', ''GIP'', ''GMD'', ''GNF'', ''GNS'', ''GQE'', ''GRD'', ''GTQ'', ''GWE'',
     ''GWP'', ''GYD'', ''HKD'', ''HNL'', ''HRD'', ''HRK'', ''HTG'', ''HUF'', ''IDR'', ''IEP'',
     ''ILP'', ''ILR'', ''ILS'', ''INR'', ''IQD'', ''IRR'', ''ISJ'', ''ISK'', ''ITL'', ''JMD'',
     ''JOD'', ''JPY'', ''KES'', ''KGS'', ''KHR'', ''KMF'', ''KPW'', ''KRH'', ''KRO'', ''KRW'',
     ''KWD'', ''KYD'', ''KZT'', ''LAK'', ''LBP'', ''LKR'', ''LRD'', ''LSL'', ''LTL'', ''LTT'',
     ''LUC'', ''LUF'', ''LUL'', ''LVL'', ''LVR'', ''LYD'', ''MAD'', ''MAF'', ''MCF'', ''MDC'',
     ''MDL'', ''MGA'', ''MGF'', ''MKD'', ''MKN'', ''MLF'', ''MMK'', ''MNT'', ''MOP'', ''MRO'',
     ''MTL'', ''MTP'', ''MUR'', ''MVP'', ''MVR'', ''MWK'', ''MXN'', ''MXP'', ''MXV'', ''MYR'',
     ''MZE'', ''MZM'', ''MZN'', ''NAD'', ''NGN'', ''NIC'', ''NIO'', ''NLG'', ''NOK'', ''NPR'',
     ''NZD'', ''OMR'', ''PAB'', ''PEI'', ''PEN'', ''PES'', ''PGK'', ''PHP'', ''PKR'', ''PLN'',
     ''PLZ'', ''PTE'', ''PYG'', ''QAR'', ''RHD'', ''ROL'', ''RON'', ''RSD'', ''RUB'', ''RUR'',
     ''RWF'', ''SAR'', ''SBD'', ''SCR'', ''SDD'', ''SDG'', ''SDP'', ''SEK'', ''SGD'', ''SHP'',
     ''SIT'', ''SKK'', ''SLL'', ''SOS'', ''SRD'', ''SRG'', ''SSP'', ''STD'', ''SUR'', ''SVC'',
     ''SYP'', ''SZL'', ''THB'', ''TJR'', ''TJS'', ''TMM'', ''TMT'', ''TND'', ''TOP'', ''TPE'',
     ''TRL'', ''TRY'', ''TTD'', ''TWD'', ''TZS'', ''UAH'', ''UAK'', ''UGS'', ''UGX'', ''USD'',
     ''USN'', ''USS'', ''UYI'', ''UYP'', ''UYU'', ''UZS'', ''VEB'', ''VEF'', ''VND'', ''VNN'',
     ''VUV'', ''WST'', ''XAF'', ''XAG'', ''XAU'', ''XBA'', ''XBB'', ''XBC'', ''XBD'', ''XCD'',
     ''XDR'', ''XEU'', ''XFO'', ''XFU'', ''XOF'', ''XPD'', ''XPF'', ''XPT'', ''XRE'', ''XSU'',
     ''XTS'', ''XUA'', ''XXX'', ''YDD'', ''YER'', ''YUD'', ''YUM'', ''YUN'', ''YUR'', ''ZAL'',
     ''ZAR'', ''ZMK'', ''ZMW'', ''ZRN'', ''ZRZ'', ''ZWD'', ''ZWL'', ''ZWR'']"

definition bg_BG_timezones :: "(string \<times> string) list" where
  "bg_BG_timezones =
    [(''CHAST'', [CHR 0xD0, CHR 0xA7, CHR 0xD0, CHR 0xB0, CHR 0xD1, CHR 0x82, CHR 0xD1, CHR 0x8A, CHR 0xD0, CHR 0xBC] @ '' '' @ [CHR 0xE2, CHR 0x80, CHR 0x93] @ '' '' @ [CHR 0xD1, CHR 0x81, CHR 0xD1, CHR 0x82, CHR 0xD0, CHR 0xB0, CHR 0xD0, CHR 0xBD, CHR 0xD0, CHR 0xB4, CHR 0xD0, CHR 0xB0, CHR 0xD1, CHR 0x80, CHR 0xD1, CHR 0x82, CHR 0xD0, CHR 0xBD, CHR 0xD0, CHR 0xBE] @ '' '' @ [CHR 0xD0, CHR 0xB2, CHR 0xD1, CHR 0x80, CHR 0xD0, CHR 0xB5, CHR 0xD0, CHR 0xBC, CHR 0xD0, CHR 0xB5]),
     (''NZDT'', [CHR 0xD0, CHR 0x9D, CHR 0xD0, CHR 0xBE, CHR 0xD0, CHR 0xB2, CHR 0xD0, CHR 0xBE, CHR 0xD0, CHR 0xB7, CHR 0xD0, CHR 0xB5, CHR 0xD0, CHR 0xBB, CHR 0xD0, CHR 0xB0, CHR 0xD0, CHR 0xBD, CHR 0xD0, CHR 0xB4, CHR 0xD1, CHR 0x81, CHR 0xD0, CHR 0xBA, CHR 0xD0, CHR 0xBE] @ '' '' @ [CHR 0xD0, CHR 0xBB, CHR 0xD1, CHR 0x8F, CHR 0xD1, CHR 0x82, CHR 0xD0, CHR 0xBD, CHR 0xD0, CHR 0xBE] @ '' '' @ [CHR 0xD1, CHR 0x87, CHR 0xD0, CHR 0xB0, CHR 0xD1, CHR 0x81, CHR 0xD0, CHR 0xBE, CHR 0xD0, CHR 0xB2, CHR 0xD0, CHR 0xBE] @ '' '' @ [CHR 0xD0, CHR 0xB2, CHR 0xD1, CHR 0x80, CHR 0xD0, CHR 0xB5, CHR 0xD0, CHR 0xBC, CHR 0xD0, CHR 0xB5]),
     (''CLST'', [CHR 0xD0, CHR 0xA7, CHR 0xD0, CHR 0xB8, CHR 0xD0, CHR 0xBB, CHR 0xD0, CHR 0xB8, CHR 0xD0, CHR 0xB9, CHR 0xD1, CHR 0x81, CHR 0xD0, CHR 0xBA, CHR 0xD0, CHR 0xBE] @ '' '' @ [CHR 0xD0, CHR 0xBB, CHR 0xD1, CHR 0x8F, CHR 0xD1, CHR 0x82, CHR 0xD0, CHR 0xBD, CHR 0xD0, CHR 0xBE] @ '' '' @ [CHR 0xD1, CHR 0x87, CHR 0xD0, CHR 0xB0, CHR 0xD1, CHR 0x81, CHR 0xD0, CHR 0xBE, CHR 0xD0, CHR 0xB2, CHR 0xD0, CHR 0xBE] @ '' '' @ [CHR 0xD0, CHR 0xB2, CHR 0xD1, CHR 0x80, CHR 0xD0, CHR 0xB5, CHR 0xD0, CHR 0xBC, CHR 0xD0, CHR 0xB5]),
     (''ACST'', [CHR 0xD0, CHR 0x90, CHR 0xD0, CHR 0xB2, CHR 0xD1, CHR 0x81, CHR 0xD1, CHR 0x82, CHR 0xD1, CHR 0x80, CHR 0xD0, CHR 0xB0, CHR 0xD0, CHR 0xBB, CHR 0xD0, CHR 0xB8, CHR 0xD1, CHR 0x8F] @ '' '' @ [CHR 0xE2, CHR 0x80, CHR 0x93] @ '' '' @ [CHR 0xD1, CHR 0x86, CHR 0xD0, CHR 0xB5, CHR 0xD0, CHR 0xBD, CHR 0xD1, CHR 0x82, CHR 0xD1, CHR 0x80, CHR 0xD0, CHR 0xB0, CHR 0xD0, CHR 0xBB, CHR 0xD0, CHR 0xBD, CHR 0xD0, CHR 0xBE] @ '' '' @ [CHR 0xD1, CHR 0x81, CHR 0xD1, CHR 0x82, CHR 0xD0, CHR 0xB0, CHR 0xD0, CHR 0xBD, CHR 0xD0, CHR 0xB4, CHR 0xD0, CHR 0xB0, CHR 0xD1, CHR 0x80, CHR 0xD1, CHR 0x82, CHR 0xD0, CHR 0xBD, CHR 0xD0, CHR 0xBE] @ '' '' @ [CHR 0xD0, CHR 0xB2, CHR 0xD1, CHR 0x80, CHR 0xD0, CHR 0xB5, CHR 0xD0, CHR 0xBC, CHR 0xD0, CHR 0xB5]),
     (''CHADT'', [CHR 0xD0, CHR 0xA7, CHR 0xD0, CHR 0xB0, CHR 0xD1, CHR 0x82, CHR 0xD1, CHR 0x8A, CHR 0xD0, CHR 0xBC] @ '' '' @ [CHR 0xE2, CHR 0x80, CHR 0x93] @ '' '' @ [CHR 0xD0, CHR 0xBB, CHR 0xD1, CHR 0x8F, CHR 0xD1, CHR 0x82, CHR 0xD0, CHR 0xBD, CHR 0xD0, CHR 0xBE] @ '' '' @ [CHR 0xD1, CHR 0x87, CHR 0xD0, CHR 0xB0, CHR 0xD1, CHR 0x81, CHR 0xD0, CHR 0xBE, CHR 0xD0, CHR 0xB2, CHR 0xD0, CHR 0xBE] @ '' '' @ [CHR 0xD0, CHR 0xB2, CHR 0xD1, CHR 0x80, CHR 0xD0, CHR 0xB5, CHR 0xD0, CHR 0xBC, CHR 0xD0, CHR 0xB5]),
     (''ECT'', [CHR 0xD0, CHR 0x95, CHR 0xD0, CHR 0xBA, CHR 0xD0, CHR 0xB2, CHR 0xD0, CHR 0xB0, CHR 0xD0, CHR 0xB4, CHR 0xD0, CHR 0xBE, CHR 0xD1, CHR 0x80, CHR 0xD1, CHR 0x81, CHR 0xD0, CHR 0xBA, CHR 0xD0, CHR 0xBE] @ '' '' @ [CHR 0xD0, CHR 0xB2, CHR 0xD1, CHR 0x80, CHR 0xD0, CHR 0xB5, CHR 0xD0, CHR 0xBC, CHR 0xD0, CHR 0xB5]),
     (''CAT'', [CHR 0xD0, CHR 0xA6, CHR 0xD0, CHR 0xB5, CHR 0xD0, CHR 0xBD, CHR 0xD1, CHR 0x82, CHR 0xD1, CHR 0x80, CHR 0xD0, CHR 0xB0, CHR 0xD0, CHR 0xBB, CHR 0xD0, CHR 0xBD, CHR 0xD0, CHR 0xBE, CHR 0xD0, CHR 0xB0, CHR 0xD1, CHR 0x84, CHR 0xD1, CHR 0x80, CHR 0xD0, CHR 0xB8, CHR 0xD0, CHR 0xBA, CHR 0xD0, CHR 0xB0, CHR 0xD0, CHR 0xBD, CHR 0xD1, CHR 0x81, CHR 0xD0, CHR 0xBA, CHR 0xD0, CHR 0xBE] @ '' '' @ [CHR 0xD0, CHR 0xB2, CHR 0xD1, CHR 0x80, CHR 0xD0, CHR 0xB5, CHR 0xD0, CHR 0xBC, CHR 0xD0, CHR 0xB5]),
     (''AST'', [CHR 0xD0, CHR 0xA1, CHR 0xD0, CHR 0xB5, CHR 0xD0, CHR 0xB2, CHR 0xD0, CHR 0xB5, CHR 0xD1, CHR 0x80, CHR 0xD0, CHR 0xBD, CHR 0xD0, CHR 0xBE, CHR 0xD0, CHR 0xB0, CHR 0xD0, CHR 0xBC, CHR 0xD0, CHR 0xB5, CHR 0xD1, CHR 0x80, CHR 0xD0, CHR 0xB8, CHR 0xD0, CHR 0xBA, CHR 0xD0, CHR 0xB0, CHR 0xD0, CHR 0xBD, CHR 0xD1, CHR 0x81, CHR 0xD0, CHR 0xBA, CHR 0xD0, CHR 0xBE] @ '' '' @ [CHR 0xD0, CHR 0xB0, CHR 0xD1, CHR 0x82, CHR 0xD0, CHR 0xBB, CHR 0xD0, CHR 0xB0, CHR 0xD0, CHR 0xBD, CHR 0xD1, CHR 0x82, CHR 0xD0, CHR 0xB8, CHR 0xD1, CHR 0x87, CHR 0xD0, CHR 0xB5, CHR 0xD1, CHR 0x81, CHR 0xD0, CHR 0xBA, CHR 0xD0, CHR 0xBE] @ '' '' @ [CHR 0xD1, CHR 0x81, CHR 0xD1, CHR 0x82, CHR 0xD0, CHR 0xB0, CHR 0xD0, CHR 0xBD, CHR 0xD0, CHR 0xB4, CHR 0xD0, CHR 0xB0, CHR 0xD1, CHR 0x80, CHR 0xD1, CHR 0x82, CHR 0xD0, CHR 0xBD, CHR 0xD0, CHR 0xBE] @ '' '' @ [CHR 0xD0, CHR 0xB2, CHR 0xD1, CHR 0x80, CHR 0xD0, CHR 0xB5, CHR 0xD0, CHR 0xBC, CHR 0xD0, CHR 0xB5]),
     (''COST'', [CHR 0xD0, CHR 0x9A, CHR 0xD0, CHR 0xBE, CHR 0xD0, CHR 0xBB, CHR 0xD1, CHR 0x83, CHR 0xD0, CHR 0xBC, CHR 0xD0, CHR 0xB1, CHR 0xD0, CHR 0xB8, CHR 0xD0, CHR 0xB9, CHR 0xD1, CHR 0x81, CHR 0xD0, CHR 0xBA, CHR 0xD0, CHR 0xBE] @ '' '' @ [CHR 0xD0, CHR 0xBB, CHR 0xD1, CHR 0x8F, CHR 0xD1, CHR 0x82, CHR 0xD0, CHR 0xBD, CHR 0xD0, CHR 0xBE] @ '' '' @ [CHR 0xD1, CHR 0x87, CHR 0xD0, CHR 0xB0, CHR 0xD1, CHR 0x81, CHR 0xD0, CHR 0xBE, CHR 0xD0, CHR 0xB2, CHR 0xD0, CHR 0xBE] @ '' '' @ [CHR 0xD0, CHR 0xB2, CHR 0xD1, CHR 0x80, CHR 0xD0, CHR 0xB5, CHR 0xD0, CHR 0xBC, CHR 0xD0, CHR 0xB5]),
     (''HNT'', [CHR 0xD0, CHR 0x9D, CHR 0xD1, CHR 0x8E, CHR 0xD1, CHR 0x84, CHR 0xD0, CHR 0xB0, CHR 0xD1, CHR 0x83, CHR 0xD0, CHR 0xBD, CHR 0xD0, CHR 0xB4, CHR 0xD0, CHR 0xBB, CHR 0xD0, CHR 0xB5, CHR 0xD0, CHR 0xBD, CHR 0xD0, CHR 0xB4, CHR 0xD1, CHR 0x81, CHR 0xD0, CHR 0xBA, CHR 0xD0, CHR 0xBE] @ '' '' @ [CHR 0xD1, CHR 0x81, CHR 0xD1, CHR 0x82, CHR 0xD0, CHR 0xB0, CHR 0xD0, CHR 0xBD, CHR 0xD0, CHR 0xB4, CHR 0xD0, CHR 0xB0, CHR 0xD1, CHR 0x80, CHR 0xD1, CHR 0x82, CHR 0xD0, CHR 0xBD, CHR 0xD0, CHR 0xBE] @ '' '' @ [CHR 0xD0, CHR 0xB2, CHR 0xD1, CHR 0x80, CHR 0xD0, CHR 0xB5, CHR 0xD0, CHR 0xBC, CHR 0xD0, CHR 0xB5]),
     (''AEDT'', [CHR 0xD0, CHR 0x90, CHR 0xD0, CHR 0xB2, CHR 0xD1, CHR 0x81, CHR 0xD1, CHR 0x82, CHR 0xD1, CHR 0x80, CHR 0xD0, CHR 0xB0, CHR 0xD0, CHR 0xBB, CHR 0xD0, CHR 0xB8, CHR 0xD1, CHR 0x8F] @ '' '' @ [CHR 0xE2, CHR 0x80, CHR 0x93] @ '' '' @ [CHR 0xD0, CHR 0xB8, CHR 0xD0, CHR 0xB7, CHR 0xD1, CHR 0x82, CHR 0xD0, CHR 0xBE, CHR 0xD1, CHR 0x87, CHR 0xD0, CHR 0xBD, CHR 0xD0, CHR 0xBE] @ '' '' @ [CHR 0xD0, CHR 0xBB, CHR 0xD1, CHR 0x8F, CHR 0xD1, CHR 0x82, CHR 0xD0, CHR 0xBD, CHR 0xD0, CHR 0xBE] @ '' '' @ [CHR 0xD1, CHR 0x87, CHR 0xD0, CHR 0xB0, CHR 0xD1, CHR 0x81, CHR 0xD0, CHR 0xBE, CHR 0xD0, CHR 0xB2, CHR 0xD0, CHR 0xBE] @ '' '' @ [CHR 0xD0, CHR 0xB2, CHR 0xD1, CHR 0x80, CHR 0xD0, CHR 0xB5, CHR 0xD0, CHR 0xBC, CHR 0xD0, CHR 0xB5]),
     (''HADT'', [CHR 0xD0, CHR 0xA5, CHR 0xD0, CHR 0xB0, CHR 0xD0, CHR 0xB2, CHR 0xD0, CHR 0xB0, CHR 0xD0, CHR 0xB9, CHR 0xD1, CHR 0x81, CHR 0xD0, CHR 0xBA, CHR 0xD0, CHR 0xBE] @ ''-'' @ [CHR 0xD0, CHR 0xB0, CHR 0xD0, CHR 0xBB, CHR 0xD0, CHR 0xB5, CHR 0xD1, CHR 0x83, CHR 0xD1, CHR 0x82, CHR 0xD1, CHR 0x81, CHR 0xD0, CHR 0xBA, CHR 0xD0, CHR 0xBE] @ '' '' @ [CHR 0xD0, CHR 0xBB, CHR 0xD1, CHR 0x8F, CHR 0xD1, CHR 0x82, CHR 0xD0, CHR 0xBD, CHR 0xD0, CHR 0xBE] @ '' '' @ [CHR 0xD1, CHR 0x87, CHR 0xD0, CHR 0xB0, CHR 0xD1, CHR 0x81, CHR 0xD0, CHR 0xBE, CHR 0xD0, CHR 0xB2, CHR 0xD0, CHR 0xBE] @ '' '' @ [CHR 0xD0, CHR 0xB2, CHR 0xD1, CHR 0x80, CHR 0xD0, CHR 0xB5, CHR 0xD0, CHR 0xBC, CHR 0xD0, CHR 0xB5]),
     (''VET'', [CHR 0xD0, CHR 0x92, CHR 0xD0, CHR 0xB5, CHR 0xD0, CHR 0xBD, CHR 0xD0, CHR 0xB5, CHR 0xD1, CHR 0x86, CHR 0xD1, CHR 0x83, CHR 0xD0, CHR 0xB5, CHR 0xD0, CHR 0xBB, CHR 0xD1, CHR 0x81, CHR 0xD0, CHR 0xBA, CHR 0xD0, CHR 0xBE] @ '' '' @ [CHR 0xD0, CHR 0xB2, CHR 0xD1, CHR 0x80, CHR 0xD0, CHR 0xB5, CHR 0xD0, CHR 0xBC, CHR 0xD0, CHR 0xB5]),
     (''CLT'', [CHR 0xD0, CHR 0xA7, CHR 0xD0, CHR 0xB8, CHR 0xD0, CHR 0xBB, CHR 0xD0, CHR 0xB8, CHR 0xD0, CHR 0xB9, CHR 0xD1, CHR 0x81, CHR 0xD0, CHR 0xBA, CHR 0xD0, CHR 0xBE] @ '' '' @ [CHR 0xD1, CHR 0x81, CHR 0xD1, CHR 0x82, CHR 0xD0, CHR 0xB0, CHR 0xD0, CHR 0xBD, CHR 0xD0, CHR 0xB4, CHR 0xD0, CHR 0xB0, CHR 0xD1, CHR 0x80, CHR 0xD1, CHR 0x82, CHR 0xD0, CHR 0xBD, CHR 0xD0, CHR 0xBE] @ '' '' @ [CHR 0xD0, CHR 0xB2, CHR 0xD1, CHR 0x80, CHR 0xD0, CHR 0xB5, CHR 0xD0, CHR 0xBC, CHR 0xD0, CHR 0xB5]),
     (''IST'', [CHR 0xD0, CHR 0x98, CHR 0xD0, CHR 0xBD, CHR 0xD0, CHR 0xB4, CHR 0xD0, CHR 0xB8, CHR 0xD0, CHR 0xB9, CHR 0xD1, CHR 0x81, CHR 0xD0, CHR 0xBA, CHR 0xD0, CHR 0xBE] @ '' '' @ [CHR 0xD1, CHR 0x81, CHR 0xD1, CHR 0x82, CHR 0xD0, CHR 0xB0, CHR 0xD0, CHR 0xBD, CHR 0xD0, CHR 0xB4, CHR 0xD0, CHR 0xB0, CHR 0xD1, CHR 0x80, CHR 0xD1, CHR 0x82, CHR 0xD0, CHR 0xBD, CHR 0xD0, CHR 0xBE] @ '' '' @ [CHR 0xD0, CHR 0xB2, CHR 0xD1, CHR 0x80, CHR 0xD0, CHR 0xB5, CHR 0xD0, CHR 0xBC, CHR 0xD0, CHR 0xB5]),
     (''WARST'', [CHR 0xD0, CHR 0x97, CHR 0xD0, CHR 0xB0, CHR 0xD0, CHR 0xBF, CHR 0xD0, CHR 0xB0, CHR 0xD0, CHR 0xB4, CHR 0xD0, CHR 0xBD, CHR 0xD0, CHR 0xBE, CHR 0xD0, CHR 0xB0, CHR 0xD1, CHR 0x80, CHR 0xD0, CHR 0xB6, CHR 0xD0, CHR 0xB5, CHR 0xD0, CHR 0xBD, CHR 0xD1, CHR 0x82, CHR 0xD0, CHR 0xB8, CHR 0xD0, CHR 0xBD, CHR 0xD1, CHR 0x81, CHR 0xD0, CHR 0xBA, CHR 0xD0, CHR 0xBE] @ '' '' @ [CHR 0xD0, CHR 0xBB, CHR 0xD1, CHR 0x8F, CHR 0xD1, CHR 0x82, CHR 0xD0, CHR 0xBD, CHR 0xD0, CHR 0xBE] @ '' '' @ [CHR 0xD1, CHR 0x87, CHR 0xD0, CHR 0xB0, CHR 0xD1, CHR 0x81, CHR 0xD0, CHR 0xBE, CHR 0xD0, CHR 0xB2, CHR 0xD0, CHR 0xBE] @ '' '' @ [CHR 0xD0, CHR 0xB2, CHR 0xD1, CHR 0x80, CHR 0xD0, CHR 0xB5, CHR 0xD0, CHR 0xBC, CHR 0xD0, CHR 0xB5]),
     (''HEEG'', [CHR 0xD0, CHR 0x98, CHR 0xD0, CHR 0xB7, CHR 0xD1, CHR 0x82, CHR 0xD0, CHR 0xBE, CHR 0xD1, CHR 0x87, CHR 0xD0, CHR 0xBD, CHR 0xD0, CHR 0xBE, CHR 0xD0, CHR 0xB3, CHR 0xD1, CHR 0x80, CHR 0xD0, CHR 0xB5, CHR 0xD0, CHR 0xBD, CHR 0xD0, CHR 0xBB, CHR 0xD0, CHR 0xB0, CHR 0xD0, CHR 0xBD, CHR 0xD0, CHR 0xB4, CHR 0xD1, CHR 0x81, CHR 0xD0, CHR 0xBA, CHR 0xD0, CHR 0xBE] @ '' '' @ [CHR 0xD0, CHR 0xBB, CHR 0xD1, CHR 0x8F, CHR 0xD1, CHR 0x82, CHR 0xD0, CHR 0xBD, CHR 0xD0, CHR 0xBE] @ '' '' @ [CHR 0xD1, CHR 0x87, CHR 0xD0, CHR 0xB0, CHR 0xD1, CHR 0x81, CHR 0xD0, CHR 0xBE, CHR 0xD0, CHR 0xB2, CHR 0xD0, CHR 0xBE] @ '' '' @ [CHR 0xD0, CHR 0xB2, CHR 0xD1, CHR 0x80, CHR 0xD0, CHR 0xB5, CHR 0xD0, CHR 0xBC, CHR 0xD0, CHR 0xB5]),
     (''EAT'', [CHR 0xD0, CHR 0x98, CHR 0xD0, CHR 0xB7, CHR 0xD1, CHR 0x82, CHR 0xD0, CHR 0xBE, CHR 0xD1, CHR 0x87, CHR 0xD0, CHR 0xBD, CHR 0xD0, CHR 0xBE, CHR 0xD0, CHR 0xB0, CHR 0xD1, CHR 0x84, CHR 0xD1, CHR 0x80, CHR 0xD0, CHR 0xB8, CHR 0xD0, CHR 0xBA, CHR 0xD0, CHR 0xB0, CHR 0xD0, CHR 0xBD, CHR 0xD1, CHR 0x81, CHR 0xD0, CHR 0xBA, CHR 0xD0, CHR 0xBE] @ '' '' @ [CHR 0xD0, CHR 0xB2, CHR 0xD1, CHR 0x80, CHR 0xD0, CHR 0xB5, CHR 0xD0, CHR 0xBC, CHR 0xD0, CHR 0xB5]),
     (''EDT'', [CHR 0xD0, CHR 0xA1, CHR 0xD0, CHR 0xB5, CHR 0xD0, CHR 0xB2, CHR 0xD0, CHR 0xB5, CHR 0xD1, CHR 0x80, CHR 0xD0, CHR 0xBD, CHR 0xD0, CHR 0xBE, CHR 0xD0, CHR 0xB0, CHR 0xD0, CHR 0xBC, CHR 0xD0, CHR 0xB5, CHR 0xD1, CHR 0x80, CHR 0xD0, CHR 0xB8, CHR 0xD0, CHR 0xBA, CHR 0xD0, CHR 0xB0, CHR 0xD0, CHR 0xBD, CHR 0xD1, CHR 0x81, CHR 0xD0, CHR 0xBA, CHR 0xD0, CHR 0xBE] @ '' '' @ [CHR 0xD0, CHR 0xB8, CHR 0xD0, CHR 0xB7, CHR 0xD1, CHR 0x82, CHR 0xD0, CHR 0xBE, CHR 0xD1, CHR 0x87, CHR 0xD0, CHR 0xBD, CHR 0xD0, CHR 0xBE] @ '' '' @ [CHR 0xD0, CHR 0xBB, CHR 0xD1, CHR 0x8F, CHR 0xD1, CHR 0x82, CHR 0xD0, CHR 0xBD, CHR 0xD0, CHR 0xBE] @ '' '' @ [CHR 0xD1, CHR 0x87, CHR 0xD0, CHR 0xB0, CHR 0xD1, CHR 0x81, CHR 0xD0, CHR 0xBE, CHR 0xD0, CHR 0xB2, CHR 0xD0, CHR 0xBE] @ '' '' @ [CHR 0xD0, CHR 0xB2, CHR 0xD1, CHR 0x80, CHR 0xD0, CHR 0xB5, CHR 0xD0, CHR 0xBC, CHR 0xD0, CHR 0xB5]),
     (''HNNOMX'', [CHR 0xD0, CHR 0x9C, CHR 0xD0, CHR 0xB5, CHR 0xD0, CHR 0xBA, CHR 0xD1, CHR 0x81, CHR 0xD0, CHR 0xB8, CHR 0xD0, CHR 0xBA, CHR 0xD0, CHR 0xBE] @ '' '' @ [CHR 0xE2, CHR 0x80, CHR 0x93] @ '' '' @ [CHR 0xD1, CHR 0x81, CHR 0xD0, CHR 0xB5, CHR 0xD0, CHR 0xB2, CHR 0xD0, CHR 0xB5, CHR 0xD1, CHR 0x80, CHR 0xD0, CHR 0xBE, CHR 0xD0, CHR 0xB7, CHR 0xD0, CHR 0xB0, CHR 0xD0, CHR 0xBF, CHR 0xD0, CHR 0xB0, CHR 0xD0, CHR 0xB4, CHR 0xD0, CHR 0xBD, CHR 0xD0, CHR 0xBE] @ '' '' @ [CHR 0xD1, CHR 0x81, CHR 0xD1, CHR 0x82, CHR 0xD0, CHR 0xB0, CHR 0xD0, CHR 0xBD, CHR 0xD0, CHR 0xB4, CHR 0xD0, CHR 0xB0, CHR 0xD1, CHR 0x80, CHR 0xD1, CHR 0x82, CHR 0xD0, CHR 0xBD, CHR 0xD0, CHR 0xBE] @ '' '' @ [CHR 0xD0, CHR 0xB2, CHR 0xD1, CHR 0x80, CHR 0xD0, CHR 0xB5, CHR 0xD0, CHR 0xBC, CHR 0xD0, CHR 0xB5]),
     (''HENOMX'', [CHR 0xD0, CHR 0x9C, CHR 0xD0, CHR 0xB5, CHR 0xD0, CHR 0xBA, CHR 0xD1, CHR 0x81, CHR 0xD0, CHR 0xB8, CHR 0xD0, CHR 0xBA, CHR 0xD0, CHR 0xBE] @ '' '' @ [CHR 0xE2, CHR 0x80, CHR 0x93] @ '' '' @ [CHR 0xD1, CHR 0x81, CHR 0xD0, CHR 0xB5, CHR 0xD0, CHR 0xB2, CHR 0xD0, CHR 0xB5, CHR 0xD1, CHR 0x80, CHR 0xD0, CHR 0xBE, CHR 0xD0, CHR 0xB7, CHR 0xD0, CHR 0xB0, CHR 0xD0, CHR 0xBF, CHR 0xD0, CHR 0xB0, CHR 0xD0, CHR 0xB4, CHR 0xD0, CHR 0xBD, CHR 0xD0, CHR 0xBE] @ '' '' @ [CHR 0xD0, CHR 0xBB, CHR 0xD1, CHR 0x8F, CHR 0xD1, CHR 0x82, CHR 0xD0, CHR 0xBD, CHR 0xD0, CHR 0xBE] @ '' '' @ [CHR 0xD1, CHR 0x87, CHR 0xD0, CHR 0xB0, CHR 0xD1, CHR 0x81, CHR 0xD0, CHR 0xBE, CHR 0xD0, CHR 0xB2, CHR 0xD0, CHR 0xBE] @ '' '' @ [CHR 0xD0, CHR 0xB2, CHR 0xD1, CHR 0x80, CHR 0xD0, CHR 0xB5, CHR 0xD0, CHR 0xBC, CHR 0xD0, CHR 0xB5]),
     (''AKDT'', [CHR 0xD0, CHR 0x90, CHR 0xD0, CHR 0xBB, CHR 0xD1, CHR 0x8F, CHR 0xD1, CHR 0x81, CHR 0xD0, CHR 0xBA, CHR 0xD0, CHR 0xB0] @ '' '' @ [CHR 0xE2, CHR 0x80, CHR 0x93] @ '' '' @ [CHR 0xD0, CHR 0xBB, CHR 0xD1, CHR 0x8F, CHR 0xD1, CHR 0x82, CHR 0xD0, CHR 0xBD, CHR 0xD0, CHR 0xBE] @ '' '' @ [CHR 0xD1, CHR 0x87, CHR 0xD0, CHR 0xB0, CHR 0xD1, CHR 0x81, CHR 0xD0, CHR 0xBE, CHR 0xD0, CHR 0xB2, CHR 0xD0, CHR 0xBE] @ '' '' @ [CHR 0xD0, CHR 0xB2, CHR 0xD1, CHR 0x80, CHR 0xD0, CHR 0xB5, CHR 0xD0, CHR 0xBC, CHR 0xD0, CHR 0xB5]),
     (''SRT'', [CHR 0xD0, CHR 0xA1, CHR 0xD1, CHR 0x83, CHR 0xD1, CHR 0x80, CHR 0xD0, CHR 0xB8, CHR 0xD0, CHR 0xBD, CHR 0xD0, CHR 0xB0, CHR 0xD0, CHR 0xBC, CHR 0xD1, CHR 0x81, CHR 0xD0, CHR 0xBA, CHR 0xD0, CHR 0xBE] @ '' '' @ [CHR 0xD0, CHR 0xB2, CHR 0xD1, CHR 0x80, CHR 0xD0, CHR 0xB5, CHR 0xD0, CHR 0xBC, CHR 0xD0, CHR 0xB5]),
     (''HNCU'', [CHR 0xD0, CHR 0x9A, CHR 0xD1, CHR 0x83, CHR 0xD0, CHR 0xB1, CHR 0xD0, CHR 0xB8, CHR 0xD0, CHR 0xBD, CHR 0xD1, CHR 0x81, CHR 0xD0, CHR 0xBA, CHR 0xD0, CHR 0xBE] @ '' '' @ [CHR 0xD1, CHR 0x81, CHR 0xD1, CHR 0x82, CHR 0xD0, CHR 0xB0, CHR 0xD0, CHR 0xBD, CHR 0xD0, CHR 0xB4, CHR 0xD0, CHR 0xB0, CHR 0xD1, CHR 0x80, CHR 0xD1, CHR 0x82, CHR 0xD0, CHR 0xBD, CHR 0xD0, CHR 0xBE] @ '' '' @ [CHR 0xD0, CHR 0xB2, CHR 0xD1, CHR 0x80, CHR 0xD0, CHR 0xB5, CHR 0xD0, CHR 0xBC, CHR 0xD0, CHR 0xB5]),
     (''BOT'', [CHR 0xD0, CHR 0x91, CHR 0xD0, CHR 0xBE, CHR 0xD0, CHR 0xBB, CHR 0xD0, CHR 0xB8, CHR 0xD0, CHR 0xB2, CHR 0xD0, CHR 0xB8, CHR 0xD0, CHR 0xB9, CHR 0xD1, CHR 0x81, CHR 0xD0, CHR 0xBA, CHR 0xD0, CHR 0xBE] @ '' '' @ [CHR 0xD0, CHR 0xB2, CHR 0xD1, CHR 0x80, CHR 0xD0, CHR 0xB5, CHR 0xD0, CHR 0xBC, CHR 0xD0, CHR 0xB5]),
     (''OEZ'', [CHR 0xD0, CHR 0x98, CHR 0xD0, CHR 0xB7, CHR 0xD1, CHR 0x82, CHR 0xD0, CHR 0xBE, CHR 0xD1, CHR 0x87, CHR 0xD0, CHR 0xBD, CHR 0xD0, CHR 0xBE, CHR 0xD0, CHR 0xB5, CHR 0xD0, CHR 0xB2, CHR 0xD1, CHR 0x80, CHR 0xD0, CHR 0xBE, CHR 0xD0, CHR 0xBF, CHR 0xD0, CHR 0xB5, CHR 0xD0, CHR 0xB9, CHR 0xD1, CHR 0x81, CHR 0xD0, CHR 0xBA, CHR 0xD0, CHR 0xBE] @ '' '' @ [CHR 0xD1, CHR 0x81, CHR 0xD1, CHR 0x82, CHR 0xD0, CHR 0xB0, CHR 0xD0, CHR 0xBD, CHR 0xD0, CHR 0xB4, CHR 0xD0, CHR 0xB0, CHR 0xD1, CHR 0x80, CHR 0xD1, CHR 0x82, CHR 0xD0, CHR 0xBD, CHR 0xD0, CHR 0xBE] @ '' '' @ [CHR 0xD0, CHR 0xB2, CHR 0xD1, CHR 0x80, CHR 0xD0, CHR 0xB5, CHR 0xD0, CHR 0xBC, CHR 0xD0, CHR 0xB5]),
     (''TMT'', [CHR 0xD0, CHR 0xA2, CHR 0xD1, CHR 0x83, CHR 0xD1, CHR 0x80, CHR 0xD0, CHR 0xBA, CHR 0xD0, CHR 0xBC, CHR 0xD0, CHR 0xB5, CHR 0xD0, CHR 0xBD, CHR 0xD0, CHR 0xB8, CHR 0xD1, CHR 0x81, CHR 0xD1, CHR 0x82, CHR 0xD0, CHR 0xB0, CHR 0xD0, CHR 0xBD, CHR 0xD1, CHR 0x81, CHR 0xD0, CHR 0xBA, CHR 0xD0, CHR 0xBE] @ '' '' @ [CHR 0xD1, CHR 0x81, CHR 0xD1, CHR 0x82, CHR 0xD0, CHR 0xB0, CHR 0xD0, CHR 0xBD, CHR 0xD0, CHR 0xB4, CHR 0xD0, CHR 0xB0, CHR 0xD1, CHR 0x80, CHR 0xD1, CHR 0x82, CHR 0xD0, CHR 0xBD, CHR 0xD0, CHR 0xBE] @ '' '' @ [CHR 0xD0, CHR 0xB2, CHR 0xD1, CHR 0x80, CHR 0xD0, CHR 0xB5, CHR 0xD0, CHR 0xBC, CHR 0xD0, CHR 0xB5]),
     (''WAT'', [CHR 0xD0, CHR 0x97, CHR 0xD0, CHR 0xB0, CHR 0xD0, CHR 0xBF, CHR 0xD0, CHR 0xB0, CHR 0xD0, CHR 0xB4, CHR 0xD0, CHR 0xBD, CHR 0xD0, CHR 0xBE, CHR 0xD0, CHR 0xB0, CHR 0xD1, CHR 0x84, CHR 0xD1, CHR 0x80, CHR 0xD0, CHR 0xB8, CHR 0xD0, CHR 0xBA, CHR 0xD0, CHR 0xB0, CHR 0xD0, CHR 0xBD, CHR 0xD1, CHR 0x81, CHR 0xD0, CHR 0xBA, CHR 0xD0, CHR 0xBE] @ '' '' @ [CHR 0xD1, CHR 0x81, CHR 0xD1, CHR 0x82, CHR 0xD0, CHR 0xB0, CHR 0xD0, CHR 0xBD, CHR 0xD0, CHR 0xB4, CHR 0xD0, CHR 0xB0, CHR 0xD1, CHR 0x80, CHR 0xD1, CHR 0x82, CHR 0xD0, CHR 0xBD, CHR 0xD0, CHR 0xBE] @ '' '' @ [CHR 0xD0, CHR 0xB2, CHR 0xD1, CHR 0x80, CHR 0xD0, CHR 0xB5, CHR 0xD0, CHR 0xBC, CHR 0xD0, CHR 0xB5]),
     (''ChST'', [CHR 0xD0, CHR 0xA7, CHR 0xD0, CHR 0xB0, CHR 0xD0, CHR 0xBC, CHR 0xD0, CHR 0xBE, CHR 0xD1, CHR 0x80, CHR 0xD0, CHR 0xBE] @ '' '' @ [CHR 0xE2, CHR 0x80, CHR 0x93] @ '' '' @ [CHR 0xD1, CHR 0x81, CHR 0xD1, CHR 0x82, CHR 0xD0, CHR 0xB0, CHR 0xD0, CHR 0xBD, CHR 0xD0, CHR 0xB4, CHR 0xD0, CHR 0xB0, CHR 0xD1, CHR 0x80, CHR 0xD1, CHR 0x82, CHR 0xD0, CHR 0xBD, CHR 0xD0, CHR 0xBE] @ '' '' @ [CHR 0xD0, CHR 0xB2, CHR 0xD1, CHR 0x80, CHR 0xD0, CHR 0xB5, CHR 0xD0, CHR 0xBC, CHR 0xD0, CHR 0xB5]),
     (''JST'', [CHR 0xD0, CHR 0xAF, CHR 0xD0, CHR 0xBF, CHR 0xD0, CHR 0xBE, CHR 0xD0, CHR 0xBD, CHR 0xD1, CHR 0x81, CHR 0xD0, CHR 0xBA, CHR 0xD0, CHR 0xBE] @ '' '' @ [CHR 0xD1, CHR 0x81, CHR 0xD1, CHR 0x82, CHR 0xD0, CHR 0xB0, CHR 0xD0, CHR 0xBD, CHR 0xD0, CHR 0xB4, CHR 0xD0, CHR 0xB0, CHR 0xD1, CHR 0x80, CHR 0xD1, CHR 0x82, CHR 0xD0, CHR 0xBD, CHR 0xD0, CHR 0xBE] @ '' '' @ [CHR 0xD0, CHR 0xB2, CHR 0xD1, CHR 0x80, CHR 0xD0, CHR 0xB5, CHR 0xD0, CHR 0xBC, CHR 0xD0, CHR 0xB5]),
     (''MST'', ''MST''), (''MDT'', ''MDT''),
     (''HAT'', [CHR 0xD0, CHR 0x9D, CHR 0xD1, CHR 0x8E, CHR 0xD1, CHR 0x84, CHR 0xD0, CHR 0xB0, CHR 0xD1, CHR 0x83, CHR 0xD0, CHR 0xBD, CHR 0xD0, CHR 0xB4, CHR 0xD0, CHR 0xBB, CHR 0xD0, CHR 0xB5, CHR 0xD0, CHR 0xBD, CHR 0xD0, CHR 0xB4, CHR 0xD1, CHR 0x81, CHR 0xD0, CHR 0xBA, CHR 0xD0, CHR 0xBE] @ '' '' @ [CHR 0xD0, CHR 0xBB, CHR 0xD1, CHR 0x8F, CHR 0xD1, CHR 0x82, CHR 0xD0, CHR 0xBD, CHR 0xD0, CHR 0xBE] @ '' '' @ [CHR 0xD1, CHR 0x87, CHR 0xD0, CHR 0xB0, CHR 0xD1, CHR 0x81, CHR 0xD0, CHR 0xBE, CHR 0xD0, CHR 0xB2, CHR 0xD0, CHR 0xBE] @ '' '' @ [CHR 0xD0, CHR 0xB2, CHR 0xD1, CHR 0x80, CHR 0xD0, CHR 0xB5, CHR 0xD0, CHR 0xBC, CHR 0xD0, CHR 0xB5]),
     (''GFT'', [CHR 0xD0, CHR 0xA4, CHR 0xD1, CHR 0x80, CHR 0xD0, CHR 0xB5, CHR 0xD0, CHR 0xBD, CHR 0xD1, CHR 0x81, CHR 0xD0, CHR 0xBA, CHR 0xD0, CHR 0xB0] @ '' '' @ [CHR 0xD0, CHR 0x93, CHR 0xD0, CHR 0xB2, CHR 0xD0, CHR 0xB8, CHR 0xD0, CHR 0xB0, CHR 0xD0, CHR 0xBD, CHR 0xD0, CHR 0xB0]),
     (''WITA'', [CHR 0xD0, CHR 0xA6, CHR 0xD0, CHR 0xB5, CHR 0xD0, CHR 0xBD, CHR 0xD1, CHR 0x82, CHR 0xD1, CHR 0x80, CHR 0xD0, CHR 0xB0, CHR 0xD0, CHR 0xBB, CHR 0xD0, CHR 0xBD, CHR 0xD0, CHR 0xBE, CHR 0xD0, CHR 0xB8, CHR 0xD0, CHR 0xBD, CHR 0xD0, CHR 0xB4, CHR 0xD0, CHR 0xBE, CHR 0xD0, CHR 0xBD, CHR 0xD0, CHR 0xB5, CHR 0xD0, CHR 0xB7, CHR 0xD0, CHR 0xB8, CHR 0xD0, CHR 0xB9, CHR 0xD1, CHR 0x81, CHR 0xD0, CHR 0xBA, CHR 0xD0, CHR 0xBE] @ '' '' @ [CHR 0xD0, CHR 0xB2, CHR 0xD1, CHR 0x80, CHR 0xD0, CHR 0xB5, CHR 0xD0, CHR 0xBC, CHR 0xD0, CHR 0xB5]),
     (''HNPMX'', [CHR 0xD0, CHR 0x9C, CHR 0xD0, CHR 0xB5, CHR 0xD0, CHR 0xBA, CHR 0xD1, CHR 0x81, CHR 0xD0, CHR 0xB8, CHR 0xD0, CHR 0xBA, CHR 0xD0, CHR 0xB0, CHR 0xD0, CHR 0xBD, CHR 0xD1, CHR 0x81, CHR 0xD0, CHR 0xBA, CHR 0xD0, CHR 0xBE] @ '' '' @ [CHR 0xD1, CHR 0x82, CHR 0xD0, CHR 0xB8, CHR 0xD1, CHR 0x85, CHR 0xD0, CHR 0xBE, CHR 0xD0, CHR 0xBE, CHR 0xD0, CHR 0xBA, CHR 0xD0, CHR 0xB5, CHR 0xD0, CHR 0xB0, CHR 0xD0, CHR 0xBD, CHR 0xD1, CHR 0x81, CHR 0xD0, CHR 0xBA, CHR 0xD0, CHR 0xBE] @ '' '' @ [CHR 0xD1, CHR 0x81, CHR 0xD1, CHR 0x82, CHR 0xD0, CHR 0xB0, CHR 0xD0, CHR 0xBD, CHR 0xD0, CHR 0xB4, CHR 0xD0, CHR 0xB0, CHR 0xD1, CHR 0x80, CHR 0xD1, CHR 0x82, CHR 0xD0, CHR 0xBD, CHR 0xD0, CHR 0xBE] @ '' '' @ [CHR 0xD0, CHR 0xB2, CHR 0xD1, CHR 0x80, CHR 0xD0, CHR 0xB5, CHR 0xD0, CHR 0xBC, CHR 0xD0, CHR 0xB5]),
     (''WIB'', [CHR 0xD0, CHR 0x97, CHR 0xD0, CHR 0xB0, CHR 0xD0, CHR 0xBF, CHR 0xD0, CHR 0xB0, CHR 0xD0, CHR 0xB4, CHR 0xD0, CHR 0xBD, CHR 0xD0, CHR 0xBE, CHR 0xD0, CHR 0xB8, CHR 0xD0, CHR 0xBD, CHR 0xD0, CHR 0xB4, CHR 0xD0, CHR 0xBE, CHR 0xD0, CHR 0xBD, CHR 0xD0, CHR 0xB5, CHR 0xD0, CHR 0xB7, CHR 0xD0, CHR 0xB8, CHR 0xD0, CHR 0xB9, CHR 0xD1, CHR 0x81, CHR 0xD0, CHR 0xBA, CHR 0xD0, CHR 0xBE] @ '' '' @ [CHR 0xD0, CHR 0xB2, CHR 0xD1, CHR 0x80, CHR 0xD0, CHR 0xB5, CHR 0xD0, CHR 0xBC, CHR 0xD0, CHR 0xB5]),
     ([CHR 0xE2, CHR 0x88, CHR 0x85, CHR 0xE2, CHR 0x88, CHR 0x85, CHR 0xE2, CHR 0x88, CHR 0x85], [CHR 0xD0, CHR 0x91, CHR 0xD1, CHR 0x80, CHR 0xD0, CHR 0xB0, CHR 0xD0, CHR 0xB7, CHR 0xD0, CHR 0xB8, CHR 0xD0, CHR 0xBB, CHR 0xD1, CHR 0x81, CHR 0xD0, CHR 0xBA, CHR 0xD0, CHR 0xBE] @ '' '' @ [CHR 0xD0, CHR 0xBB, CHR 0xD1, CHR 0x8F, CHR 0xD1, CHR 0x82, CHR 0xD0, CHR 0xBD, CHR 0xD0, CHR 0xBE] @ '' '' @ [CHR 0xD1, CHR 0x87, CHR 0xD0, CHR 0xB0, CHR 0xD1, CHR 0x81, CHR 0xD0, CHR 0xBE, CHR 0xD0, CHR 0xB2, CHR 0xD0, CHR 0xBE] @ '' '' @ [CHR 0xD0, CHR 0xB2, CHR 0xD1, CHR 0x80, CHR 0xD0, CHR 0xB5, CHR 0xD0, CHR 0xBC, CHR 0xD0, CHR 0xB5]),
     (''PST'', [CHR 0xD0, CHR 0xA1, CHR 0xD0, CHR 0xB5, CHR 0xD0, CHR 0xB2, CHR 0xD0, CHR 0xB5, CHR 0xD1, CHR 0x80, CHR 0xD0, CHR 0xBD, CHR 0xD0, CHR 0xBE, CHR 0xD0, CHR 0xB0, CHR 0xD0, CHR 0xBC, CHR 0xD0, CHR 0xB5, CHR 0xD1, CHR 0x80, CHR 0xD0, CHR 0xB8, CHR 0xD0, CHR 0xBA, CHR 0xD0, CHR 0xB0, CHR 0xD0, CHR 0xBD, CHR 0xD1, CHR 0x81, CHR 0xD0, CHR 0xBA, CHR 0xD0, CHR 0xBE] @ '' '' @ [CHR 0xD1, CHR 0x82, CHR 0xD0, CHR 0xB8, CHR 0xD1, CHR 0x85, CHR 0xD0, CHR 0xBE, CHR 0xD0, CHR 0xBE, CHR 0xD0, CHR 0xBA, CHR 0xD0, CHR 0xB5, CHR 0xD0, CHR 0xB0, CHR 0xD0, CHR 0xBD, CHR 0xD1, CHR 0x81, CHR 0xD0, CHR 0xBA, CHR 0xD0, CHR 0xBE] @ '' '' @ [CHR 0xD1, CHR 0x81, CHR 0xD1, CHR 0x82, CHR 0xD0, CHR 0xB0, CHR 0xD0, CHR 0xBD, CHR 0xD0, CHR 0xB4, CHR 0xD0, CHR 0xB0, CHR 0xD1, CHR 0x80, CHR 0xD1, CHR 0x82, CHR 0xD0, CHR 0xBD, CHR 0xD0, CHR 0xBE] @ '' '' @ [CHR 0xD0, CHR 0xB2, CHR 0xD1, CHR 0x80, CHR 0xD0, CHR 0xB5, CHR 0xD0, CHR 0xBC, CHR 0xD0, CHR 0xB5]),
     (''PDT'', [CHR 0xD0, CHR 0xA1, CHR 0xD0, CHR 0xB5, CHR 0xD0, CHR 0xB2, CHR 0xD0, CHR 0xB5, CHR 0xD1, CHR 0x80, CHR 0xD0, CHR 0xBD, CHR 0xD0, CHR 0xBE, CHR 0xD0, CHR 0xB0, CHR 0xD0, CHR 0xBC, CHR 0xD0, CHR 0xB5, CHR 0xD1, CHR 0x80, CHR 0xD0, CHR 0xB8, CHR 0xD0, CHR 0xBA, CHR 0xD0, CHR 0xB0, CHR 0xD0, CHR 0xBD, CHR 0xD1, CHR 0x81, CHR 0xD0, CHR 0xBA, CHR 0xD0, CHR 0xBE] @ '' '' @ [CHR 0xD1, CHR 0x82, CHR 0xD0, CHR 0xB8, CHR 0xD1, CHR 0x85, CHR 0xD0, CHR 0xBE, CHR 0xD0, CHR 0xBE, CHR 0xD0, CHR 0xBA, CHR 0xD0, CHR 0xB5, CHR 0xD0, CHR 0xB0, CHR 0xD0, CHR 0xBD, CHR 0xD1, CHR 0x81, CHR 0xD0, CHR 0xBA, CHR 0xD0, CHR 0xBE] @ '' '' @ [CHR 0xD0, CHR 0xBB, CHR 0xD1, CHR 0x8F, CHR 0xD1, CHR 0x82, CHR 0xD0, CHR 0xBD, CHR 0xD0, CHR 0xBE] @ '' '' @ [CHR 0xD1, CHR 0x87, CHR 0xD0, CHR 0xB0, CHR 0xD1, CHR 0x81, CHR 0xD0, CHR 0xBE, CHR 0xD0, CHR 0xB2, CHR 0xD0, CHR 0xBE] @ '' '' @ [CHR 0xD0, CHR 0xB2, CHR 0xD1, CHR 0x80, CHR 0xD0, CHR 0xB5, CHR 0xD0, CHR 0xBC, CHR 0xD0, CHR 0xB5]),
     (''HEOG'', [CHR 0xD0, CHR 0x97, CHR 0xD0, CHR 0xB0, CHR 0xD0, CHR 0xBF, CHR 0xD0, CHR 0xB0, CHR 0xD0, CHR 0xB4, CHR 0xD0, CHR 0xBD, CHR 0xD0, CHR 0xBE, CHR 0xD0, CHR 0xB3, CHR 0xD1, CHR 0x80, CHR 0xD0, CHR 0xB5, CHR 0xD0, CHR 0xBD, CHR 0xD0, CHR 0xBB, CHR 0xD0, CHR 0xB0, CHR 0xD0, CHR 0xBD, CHR 0xD0, CHR 0xB4, CHR 0xD1, CHR 0x81, CHR 0xD0, CHR 0xBA, CHR 0xD0, CHR 0xBE] @ '' '' @ [CHR 0xD0, CHR 0xBB, CHR 0xD1, CHR 0x8F, CHR 0xD1, CHR 0x82, CHR 0xD0, CHR 0xBD, CHR 0xD0, CHR 0xBE] @ '' '' @ [CHR 0xD1, CHR 0x87, CHR 0xD0, CHR 0xB0, CHR 0xD1, CHR 0x81, CHR 0xD0, CHR 0xBE, CHR 0xD0, CHR 0xB2, CHR 0xD0, CHR 0xBE] @ '' '' @ [CHR 0xD0, CHR 0xB2, CHR 0xD1, CHR 0x80, CHR 0xD0, CHR 0xB5, CHR 0xD0, CHR 0xBC, CHR 0xD0, CHR 0xB5]),
     (''HKT'', [CHR 0xD0, CHR 0xA5, CHR 0xD0, CHR 0xBE, CHR 0xD0, CHR 0xBD, CHR 0xD0, CHR 0xBA, CHR 0xD0, CHR 0xBE, CHR 0xD0, CHR 0xBD, CHR 0xD0, CHR 0xB3, CHR 0xD1, CHR 0x81, CHR 0xD0, CHR 0xBA, CHR 0xD0, CHR 0xBE] @ '' '' @ [CHR 0xD1, CHR 0x81, CHR 0xD1, CHR 0x82, CHR 0xD0, CHR 0xB0, CHR 0xD0, CHR 0xBD, CHR 0xD0, CHR 0xB4, CHR 0xD0, CHR 0xB0, CHR 0xD1, CHR 0x80, CHR 0xD1, CHR 0x82, CHR 0xD0, CHR 0xBD, CHR 0xD0, CHR 0xBE] @ '' '' @ [CHR 0xD0, CHR 0xB2, CHR 0xD1, CHR 0x80, CHR 0xD0, CHR 0xB5, CHR 0xD0, CHR 0xBC, CHR 0xD0, CHR 0xB5]),
     (''AWDT'', [CHR 0xD0, CHR 0x90, CHR 0xD0, CHR 0xB2, CHR 0xD1, CHR 0x81, CHR 0xD1, CHR 0x82, CHR 0xD1, CHR 0x80, CHR 0xD0, CHR 0xB0, CHR 0xD0, CHR 0xBB, CHR 0xD0, CHR 0xB8, CHR 0xD1, CHR 0x8F] @ '' '' @ [CHR 0xE2, CHR 0x80, CHR 0x93] @ '' '' @ [CHR 0xD0, CHR 0xB7, CHR 0xD0, CHR 0xB0, CHR 0xD0, CHR 0xBF, CHR 0xD0, CHR 0xB0, CHR 0xD0, CHR 0xB4, CHR 0xD0, CHR 0xBD, CHR 0xD0, CHR 0xBE] @ '' '' @ [CHR 0xD0, CHR 0xBB, CHR 0xD1, CHR 0x8F, CHR 0xD1, CHR 0x82, CHR 0xD0, CHR 0xBD, CHR 0xD0, CHR 0xBE] @ '' '' @ [CHR 0xD1, CHR 0x87, CHR 0xD0, CHR 0xB0, CHR 0xD1, CHR 0x81, CHR 0xD0, CHR 0xBE, CHR 0xD0, CHR 0xB2, CHR 0xD0, CHR 0xBE] @ '' '' @ [CHR 0xD0, CHR 0xB2, CHR 0xD1, CHR 0x80, CHR 0xD0, CHR 0xB5, CHR 0xD0, CHR 0xBC, CHR 0xD0, CHR 0xB5]),
     (''MEZ'', [CHR 0xD0, CHR 0xA6, CHR 0xD0, CHR 0xB5, CHR 0xD0, CHR 0xBD, CHR 0xD1, CHR 0x82, CHR 0xD1, CHR 0x80, CHR 0xD0, CHR 0xB0, CHR 0xD0, CHR 0xBB, CHR 0xD0, CHR 0xBD, CHR 0xD0, CHR 0xBE, CHR 0xD0, CHR 0xB5, CHR 0xD0, CHR 0xB2, CHR 0xD1, CHR 0x80, CHR 0xD0, CHR 0xBE, CHR 0xD0, CHR 0xBF, CHR 0xD0, CHR 0xB5, CHR 0xD0, CHR 0xB9, CHR 0xD1, CHR 0x81, CHR 0xD0, CHR 0xBA, CHR 0xD0, CHR 0xBE] @ '' '' @ [CHR 0xD1, CHR 0x81, CHR 0xD1, CHR 0x82, CHR 0xD0, CHR 0xB0, CHR 0xD0, CHR 0xBD, CHR 0xD0, CHR 0xB4, CHR 0xD0, CHR 0xB0, CHR 0xD1, CHR 0x80, CHR 0xD1, CHR 0x82, CHR 0xD0, CHR 0xBD, CHR 0xD0, CHR 0xBE] @ '' '' @ [CHR 0xD0, CHR 0xB2, CHR 0xD1, CHR 0x80, CHR 0xD0, CHR 0xB5, CHR 0xD0, CHR 0xBC, CHR 0xD0, CHR 0xB5]),
     (''OESZ'', [CHR 0xD0, CHR 0x98, CHR 0xD0, CHR 0xB7, CHR 0xD1, CHR 0x82, CHR 0xD0, CHR 0xBE, CHR 0xD1, CHR 0x87, CHR 0xD0, CHR 0xBD, CHR 0xD0, CHR 0xBE, CHR 0xD0, CHR 0xB5, CHR 0xD0, CHR 0xB2, CHR 0xD1, CHR 0x80, CHR 0xD0, CHR 0xBE, CHR 0xD0, CHR 0xBF, CHR 0xD0, CHR 0xB5, CHR 0xD0, CHR 0xB9, CHR 0xD1, CHR 0x81, CHR 0xD0, CHR 0xBA, CHR 0xD0, CHR 0xBE] @ '' '' @ [CHR 0xD0, CHR 0xBB, CHR 0xD1, CHR 0x8F, CHR 0xD1, CHR 0x82, CHR 0xD0, CHR 0xBD, CHR 0xD0, CHR 0xBE] @ '' '' @ [CHR 0xD1, CHR 0x87, CHR 0xD0, CHR 0xB0, CHR 0xD1, CHR 0x81, CHR 0xD0, CHR 0xBE, CHR 0xD0, CHR 0xB2, CHR 0xD0, CHR 0xBE] @ '' '' @ [CHR 0xD0, CHR 0xB2, CHR 0xD1, CHR 0x80, CHR 0xD0, CHR 0xB5, CHR 0xD0, CHR 0xBC, CHR 0xD0, CHR 0xB5]),
     (''MYT'', [CHR 0xD0, CHR 0x9C, CHR 0xD0, CHR 0xB0, CHR 0xD0, CHR 0xBB, CHR 0xD0, CHR 0xB0, CHR 0xD0, CHR 0xB9, CHR 0xD0, CHR 0xB7, CHR 0xD0, CHR 0xB8, CHR 0xD0, CHR 0xB9, CHR 0xD1, CHR 0x81, CHR 0xD0, CHR 0xBA, CHR 0xD0, CHR 0xBE] @ '' '' @ [CHR 0xD0, CHR 0xB2, CHR 0xD1, CHR 0x80, CHR 0xD0, CHR 0xB5, CHR 0xD0, CHR 0xBC, CHR 0xD0, CHR 0xB5]),
     (''UYST'', [CHR 0xD0, CHR 0xA3, CHR 0xD1, CHR 0x80, CHR 0xD1, CHR 0x83, CHR 0xD0, CHR 0xB3, CHR 0xD0, CHR 0xB2, CHR 0xD0, CHR 0xB0, CHR 0xD0, CHR 0xB9, CHR 0xD1, CHR 0x81, CHR 0xD0, CHR 0xBA, CHR 0xD0, CHR 0xBE] @ '' '' @ [CHR 0xD0, CHR 0xBB, CHR 0xD1, CHR 0x8F, CHR 0xD1, CHR 0x82, CHR 0xD0, CHR 0xBD, CHR 0xD0, CHR 0xBE] @ '' '' @ [CHR 0xD1, CHR 0x87, CHR 0xD0, CHR 0xB0, CHR 0xD1, CHR 0x81, CHR 0xD0, CHR 0xBE, CHR 0xD0, CHR 0xB2, CHR 0xD0, CHR 0xBE] @ '' '' @ [CHR 0xD0, CHR 0xB2, CHR 0xD1, CHR 0x80, CHR 0xD0, CHR 0xB5, CHR 0xD0, CHR 0xBC, CHR 0xD0, CHR 0xB5]),
     (''HNPM'', [CHR 0xD0, CHR 0xA1, CHR 0xD0, CHR 0xB5, CHR 0xD0, CHR 0xBD] @ '' '' @ [CHR 0xD0, CHR 0x9F, CHR 0xD0, CHR 0xB8, CHR 0xD0, CHR 0xB5, CHR 0xD1, CHR 0x80] @ '' '' @ [CHR 0xD0, CHR 0xB8] @ '' '' @ [CHR 0xD0, CHR 0x9C, CHR 0xD0, CHR 0xB8, CHR 0xD0, CHR 0xBA, CHR 0xD0, CHR 0xB5, CHR 0xD0, CHR 0xBB, CHR 0xD0, CHR 0xBE, CHR 0xD0, CHR 0xBD] @ '' '' @ [CHR 0xE2, CHR 0x80, CHR 0x93] @ '' '' @ [CHR 0xD1, CHR 0x81, CHR 0xD1, CHR 0x82, CHR 0xD0, CHR 0xB0, CHR 0xD0, CHR 0xBD, CHR 0xD0, CHR 0xB4, CHR 0xD0, CHR 0xB0, CHR 0xD1, CHR 0x80, CHR 0xD1, CHR 0x82, CHR 0xD0, CHR 0xBD, CHR 0xD0, CHR 0xBE] @ '' '' @ [CHR 0xD0, CHR 0xB2, CHR 0xD1, CHR 0x80, CHR 0xD0, CHR 0xB5, CHR 0xD0, CHR 0xBC, CHR 0xD0, CHR 0xB5]),
     (''HEPM'', [CHR 0xD0, CHR 0xA1, CHR 0xD0, CHR 0xB5, CHR 0xD0, CHR 0xBD] @ '' '' @ [CHR 0xD0, CHR 0x9F, CHR 0xD0, CHR 0xB8, CHR 0xD0, CHR 0xB5, CHR 0xD1, CHR 0x80] @ '' '' @ [CHR 0xD0, CHR 0xB8] @ '' '' @ [CHR 0xD0, CHR 0x9C, CHR 0xD0, CHR 0xB8, CHR 0xD0, CHR 0xBA, CHR 0xD0, CHR 0xB5, CHR 0xD0, CHR 0xBB, CHR 0xD0, CHR 0xBE, CHR 0xD0, CHR 0xBD] @ '' '' @ [CHR 0xE2, CHR 0x80, CHR 0x93] @ '' '' @ [CHR 0xD0, CHR 0xBB, CHR 0xD1, CHR 0x8F, CHR 0xD1, CHR 0x82, CHR 0xD0, CHR 0xBD, CHR 0xD0, CHR 0xBE] @ '' '' @ [CHR 0xD1, CHR 0x87, CHR 0xD0, CHR 0xB0, CHR 0xD1, CHR 0x81, CHR 0xD0, CHR 0xBE, CHR 0xD0, CHR 0xB2, CHR 0xD0, CHR 0xBE] @ '' '' @ [CHR 0xD0, CHR 0xB2, CHR 0xD1, CHR 0x80, CHR 0xD0, CHR 0xB5, CHR 0xD0, CHR 0xBC, CHR 0xD0, CHR 0xB5]),
     (''CDT'', [CHR 0xD0, CHR 0xA1, CHR 0xD0, CHR 0xB5, CHR 0xD0, CHR 0xB2, CHR 0xD0, CHR 0xB5, CHR 0xD1, CHR 0x80, CHR 0xD0, CHR 0xBD, CHR 0xD0, CHR 0xBE, CHR 0xD0, CHR 0xB0, CHR 0xD0, CHR 0xBC, CHR 0xD0, CHR 0xB5, CHR 0xD1, CHR 0x80, CHR 0xD0, CHR 0xB8, CHR 0xD0, CHR 0xBA, CHR 0xD0, CHR 0xB0, CHR 0xD0, CHR 0xBD, CHR 0xD1, CHR 0x81, CHR 0xD0, CHR 0xBA, CHR 0xD0, CHR 0xBE] @ '' '' @ [CHR 0xD1, CHR 0x86, CHR 0xD0, CHR 0xB5, CHR 0xD0, CHR 0xBD, CHR 0xD1, CHR 0x82, CHR 0xD1, CHR 0x80, CHR 0xD0, CHR 0xB0, CHR 0xD0, CHR 0xBB, CHR 0xD0, CHR 0xBD, CHR 0xD0, CHR 0xBE] @ '' '' @ [CHR 0xD0, CHR 0xBB, CHR 0xD1, CHR 0x8F, CHR 0xD1, CHR 0x82, CHR 0xD0, CHR 0xBD, CHR 0xD0, CHR 0xBE] @ '' '' @ [CHR 0xD1, CHR 0x87, CHR 0xD0, CHR 0xB0, CHR 0xD1, CHR 0x81, CHR 0xD0, CHR 0xBE, CHR 0xD0, CHR 0xB2, CHR 0xD0, CHR 0xBE] @ '' '' @ [CHR 0xD0, CHR 0xB2, CHR 0xD1, CHR 0x80, CHR 0xD0, CHR 0xB5, CHR 0xD0, CHR 0xBC, CHR 0xD0, CHR 0xB5]),
     (''ACWST'', [CHR 0xD0, CHR 0x90, CHR 0xD0, CHR 0xB2, CHR 0xD1, CHR 0x81, CHR 0xD1, CHR 0x82, CHR 0xD1, CHR 0x80, CHR 0xD0, CHR 0xB0, CHR 0xD0, CHR 0xBB, CHR 0xD0, CHR 0xB8, CHR 0xD1, CHR 0x8F] @ '' '' @ [CHR 0xE2, CHR 0x80, CHR 0x93] @ '' '' @ [CHR 0xD0, CHR 0xB7, CHR 0xD0, CHR 0xB0, CHR 0xD0, CHR 0xBF, CHR 0xD0, CHR 0xB0, CHR 0xD0, CHR 0xB4, CHR 0xD0, CHR 0xBD, CHR 0xD0, CHR 0xBE] @ '' '' @ [CHR 0xD1, CHR 0x86, CHR 0xD0, CHR 0xB5, CHR 0xD0, CHR 0xBD, CHR 0xD1, CHR 0x82, CHR 0xD1, CHR 0x80, CHR 0xD0, CHR 0xB0, CHR 0xD0, CHR 0xBB, CHR 0xD0, CHR 0xBD, CHR 0xD0, CHR 0xBE] @ '' '' @ [CHR 0xD1, CHR 0x81, CHR 0xD1, CHR 0x82, CHR 0xD0, CHR 0xB0, CHR 0xD0, CHR 0xBD, CHR 0xD0, CHR 0xB4, CHR 0xD0, CHR 0xB0, CHR 0xD1, CHR 0x80, CHR 0xD1, CHR 0x82, CHR 0xD0, CHR 0xBD, CHR 0xD0, CHR 0xBE] @ '' '' @ [CHR 0xD0, CHR 0xB2, CHR 0xD1, CHR 0x80, CHR 0xD0, CHR 0xB5, CHR 0xD0, CHR 0xBC, CHR 0xD0, CHR 0xB5]),
     (''ACWDT'', [CHR 0xD0, CHR 0x90, CHR 0xD0, CHR 0xB2, CHR 0xD1, CHR 0x81, CHR 0xD1, CHR 0x82, CHR 0xD1, CHR 0x80, CHR 0xD0, CHR 0xB0, CHR 0xD0, CHR 0xBB, CHR 0xD0, CHR 0xB8, CHR 0xD1, CHR 0x8F] @ '' '' @ [CHR 0xE2, CHR 0x80, CHR 0x93] @ '' '' @ [CHR 0xD0, CHR 0xB7, CHR 0xD0, CHR 0xB0, CHR 0xD0, CHR 0xBF, CHR 0xD0, CHR 0xB0, CHR 0xD0, CHR 0xB4, CHR 0xD0, CHR 0xBD, CHR 0xD0, CHR 0xBE] @ '' '' @ [CHR 0xD1, CHR 0x86, CHR 0xD0, CHR 0xB5, CHR 0xD0, CHR 0xBD, CHR 0xD1, CHR 0x82, CHR 0xD1, CHR 0x80, CHR 0xD0, CHR 0xB0, CHR 0xD0, CHR 0xBB, CHR 0xD0, CHR 0xBD, CHR 0xD0, CHR 0xBE] @ '' '' @ [CHR 0xD0, CHR 0xBB, CHR 0xD1, CHR 0x8F, CHR 0xD1, CHR 0x82, CHR 0xD0, CHR 0xBD, CHR 0xD0, CHR 0xBE] @ '' '' @ [CHR 0xD1, CHR 0x87, CHR 0xD0, CHR 0xB0, CHR 0xD1, CHR 0x81, CHR 0xD0, CHR 0xBE, CHR 0xD0, CHR 0xB2, CHR 0xD0, CHR 0xBE] @ '' '' @ [CHR 0xD0, CHR 0xB2, CHR 0xD1, CHR 0x80, CHR 0xD0, CHR 0xB5, CHR 0xD0, CHR 0xBC, CHR 0xD0, CHR 0xB5]),
     (''MESZ'', [CHR 0xD0, CHR 0xA6, CHR 0xD0, CHR 0xB5, CHR 0xD0, CHR 0xBD, CHR 0xD1, CHR 0x82, CHR 0xD1, CHR 0x80, CHR 0xD0, CHR 0xB0, CHR 0xD0, CHR 0xBB, CHR 0xD0, CHR 0xBD, CHR 0xD0, CHR 0xBE, CHR 0xD0, CHR 0xB5, CHR 0xD0, CHR 0xB2, CHR 0xD1, CHR 0x80, CHR 0xD0, CHR 0xBE, CHR 0xD0, CHR 0xBF, CHR 0xD0, CHR 0xB5, CHR 0xD0, CHR 0xB9, CHR 0xD1, CHR 0x81, CHR 0xD0, CHR 0xBA, CHR 0xD0, CHR 0xBE] @ '' '' @ [CHR 0xD0, CHR 0xBB, CHR 0xD1, CHR 0x8F, CHR 0xD1, CHR 0x82, CHR 0xD0, CHR 0xBD, CHR 0xD0, CHR 0xBE] @ '' '' @ [CHR 0xD1, CHR 0x87, CHR 0xD0, CHR 0xB0, CHR 0xD1, CHR 0x81, CHR 0xD0, CHR 0xBE, CHR 0xD0, CHR 0xB2, CHR 0xD0, CHR 0xBE] @ '' '' @ [CHR 0xD0, CHR 0xB2, CHR 0xD1, CHR 0x80, CHR 0xD0, CHR 0xB5, CHR 0xD0, CHR 0xBC, CHR 0xD0, CHR 0xB5]),
     (''HNOG'', [CHR 0xD0, CHR 0x97, CHR 0xD0, CHR 0xB0, CHR 0xD0, CHR 0xBF, CHR 0xD0, CHR 0xB0, CHR 0xD0, CHR 0xB4, CHR 0xD0, CHR 0xBD, CHR 0xD0, CHR 0xBE, CHR 0xD0, CHR 0xB3, CHR 0xD1, CHR 0x80, CHR 0xD0, CHR 0xB5, CHR 0xD0, CHR 0xBD, CHR 0xD0, CHR 0xBB, CHR 0xD0, CHR 0xB0, CHR 0xD0, CHR 0xBD, CHR 0xD0, CHR 0xB4, CHR 0xD1, CHR 0x81, CHR 0xD0, CHR 0xBA, CHR 0xD0, CHR 0xBE] @ '' '' @ [CHR 0xD1, CHR 0x81, CHR 0xD1, CHR 0x82, CHR 0xD0, CHR 0xB0, CHR 0xD0, CHR 0xBD, CHR 0xD0, CHR 0xB4, CHR 0xD0, CHR 0xB0, CHR 0xD1, CHR 0x80, CHR 0xD1, CHR 0x82, CHR 0xD0, CHR 0xBD, CHR 0xD0, CHR 0xBE] @ '' '' @ [CHR 0xD0, CHR 0xB2, CHR 0xD1, CHR 0x80, CHR 0xD0, CHR 0xB5, CHR 0xD0, CHR 0xBC, CHR 0xD0, CHR 0xB5]),
     (''ARST'', [CHR 0xD0, CHR 0x90, CHR 0xD1, CHR 0x80, CHR 0xD0, CHR 0xB6, CHR 0xD0, CHR 0xB5, CHR 0xD0, CHR 0xBD, CHR 0xD1, CHR 0x82, CHR 0xD0, CHR 0xB8, CHR 0xD0, CHR 0xBD, CHR 0xD1, CHR 0x81, CHR 0xD0, CHR 0xBA, CHR 0xD0, CHR 0xBE] @ '' '' @ [CHR 0xD0, CHR 0xBB, CHR 0xD1, CHR 0x8F, CHR 0xD1, CHR 0x82, CHR 0xD0, CHR 0xBD, CHR 0xD0, CHR 0xBE] @ '' '' @ [CHR 0xD1, CHR 0x87, CHR 0xD0, CHR 0xB0, CHR 0xD1, CHR 0x81, CHR 0xD0, CHR 0xBE, CHR 0xD0, CHR 0xB2, CHR 0xD0, CHR 0xBE] @ '' '' @ [CHR 0xD0, CHR 0xB2, CHR 0xD1, CHR 0x80, CHR 0xD0, CHR 0xB5, CHR 0xD0, CHR 0xBC, CHR 0xD0, CHR 0xB5]),
     (''EST'', [CHR 0xD0, CHR 0xA1, CHR 0xD0, CHR 0xB5, CHR 0xD0, CHR 0xB2, CHR 0xD0, CHR 0xB5, CHR 0xD1, CHR 0x80, CHR 0xD0, CHR 0xBD, CHR 0xD0, CHR 0xBE, CHR 0xD0, CHR 0xB0, CHR 0xD0, CHR 0xBC, CHR 0xD0, CHR 0xB5, CHR 0xD1, CHR 0x80, CHR 0xD0, CHR 0xB8, CHR 0xD0, CHR 0xBA, CHR 0xD0, CHR 0xB0, CHR 0xD0, CHR 0xBD, CHR 0xD1, CHR 0x81, CHR 0xD0, CHR 0xBA, CHR 0xD0, CHR 0xBE] @ '' '' @ [CHR 0xD0, CHR 0xB8, CHR 0xD0, CHR 0xB7, CHR 0xD1, CHR 0x82, CHR 0xD0, CHR 0xBE, CHR 0xD1, CHR 0x87, CHR 0xD0, CHR 0xBD, CHR 0xD0, CHR 0xBE] @ '' '' @ [CHR 0xD1, CHR 0x81, CHR 0xD1, CHR 0x82, CHR 0xD0, CHR 0xB0, CHR 0xD0, CHR 0xBD, CHR 0xD0, CHR 0xB4, CHR 0xD0, CHR 0xB0, CHR 0xD1, CHR 0x80, CHR 0xD1, CHR 0x82, CHR 0xD0, CHR 0xBD, CHR 0xD0, CHR 0xBE] @ '' '' @ [CHR 0xD0, CHR 0xB2, CHR 0xD1, CHR 0x80, CHR 0xD0, CHR 0xB5, CHR 0xD0, CHR 0xBC, CHR 0xD0, CHR 0xB5]),
     (''ACDT'', [CHR 0xD0, CHR 0x90, CHR 0xD0, CHR 0xB2, CHR 0xD1, CHR 0x81, CHR 0xD1, CHR 0x82, CHR 0xD1, CHR 0x80, CHR 0xD0, CHR 0xB0, CHR 0xD0, CHR 0xBB, CHR 0xD0, CHR 0xB8, CHR 0xD1, CHR 0x8F] @ '' '' @ [CHR 0xE2, CHR 0x80, CHR 0x93] @ '' '' @ [CHR 0xD1, CHR 0x86, CHR 0xD0, CHR 0xB5, CHR 0xD0, CHR 0xBD, CHR 0xD1, CHR 0x82, CHR 0xD1, CHR 0x80, CHR 0xD0, CHR 0xB0, CHR 0xD0, CHR 0xBB, CHR 0xD0, CHR 0xBD, CHR 0xD0, CHR 0xBE] @ '' '' @ [CHR 0xD0, CHR 0xBB, CHR 0xD1, CHR 0x8F, CHR 0xD1, CHR 0x82, CHR 0xD0, CHR 0xBD, CHR 0xD0, CHR 0xBE] @ '' '' @ [CHR 0xD1, CHR 0x87, CHR 0xD0, CHR 0xB0, CHR 0xD1, CHR 0x81, CHR 0xD0, CHR 0xBE, CHR 0xD0, CHR 0xB2, CHR 0xD0, CHR 0xBE] @ '' '' @ [CHR 0xD0, CHR 0xB2, CHR 0xD1, CHR 0x80, CHR 0xD0, CHR 0xB5, CHR 0xD0, CHR 0xBC, CHR 0xD0, CHR 0xB5]),
     (''HAST'', [CHR 0xD0, CHR 0xA5, CHR 0xD0, CHR 0xB0, CHR 0xD0, CHR 0xB2, CHR 0xD0, CHR 0xB0, CHR 0xD0, CHR 0xB9, CHR 0xD1, CHR 0x81, CHR 0xD0, CHR 0xBA, CHR 0xD0, CHR 0xBE] @ ''-'' @ [CHR 0xD0, CHR 0xB0, CHR 0xD0, CHR 0xBB, CHR 0xD0, CHR 0xB5, CHR 0xD1, CHR 0x83, CHR 0xD1, CHR 0x82, CHR 0xD1, CHR 0x81, CHR 0xD0, CHR 0xBA, CHR 0xD0, CHR 0xBE] @ '' '' @ [CHR 0xD1, CHR 0x81, CHR 0xD1, CHR 0x82, CHR 0xD0, CHR 0xB0, CHR 0xD0, CHR 0xBD, CHR 0xD0, CHR 0xB4, CHR 0xD0, CHR 0xB0, CHR 0xD1, CHR 0x80, CHR 0xD1, CHR 0x82, CHR 0xD0, CHR 0xBD, CHR 0xD0, CHR 0xBE] @ '' '' @ [CHR 0xD0, CHR 0xB2, CHR 0xD1, CHR 0x80, CHR 0xD0, CHR 0xB5, CHR 0xD0, CHR 0xBC, CHR 0xD0, CHR 0xB5]),
     (''ADT'', [CHR 0xD0, CHR 0xA1, CHR 0xD0, CHR 0xB5, CHR 0xD0, CHR 0xB2, CHR 0xD0, CHR 0xB5, CHR 0xD1, CHR 0x80, CHR 0xD0, CHR 0xBD, CHR 0xD0, CHR 0xBE, CHR 0xD0, CHR 0xB0, CHR 0xD0, CHR 0xBC, CHR 0xD0, CHR 0xB5, CHR 0xD1, CHR 0x80, CHR 0xD0, CHR 0xB8, CHR 0xD0, CHR 0xBA, CHR 0xD0, CHR 0xB0, CHR 0xD0, CHR 0xBD, CHR 0xD1, CHR 0x81, CHR 0xD0, CHR 0xBA, CHR 0xD0, CHR 0xBE] @ '' '' @ [CHR 0xD0, CHR 0xB0, CHR 0xD1, CHR 0x82, CHR 0xD0, CHR 0xBB, CHR 0xD0, CHR 0xB0, CHR 0xD0, CHR 0xBD, CHR 0xD1, CHR 0x82, CHR 0xD0, CHR 0xB8, CHR 0xD1, CHR 0x87, CHR 0xD0, CHR 0xB5, CHR 0xD1, CHR 0x81, CHR 0xD0, CHR 0xBA, CHR 0xD0, CHR 0xBE] @ '' '' @ [CHR 0xD0, CHR 0xBB, CHR 0xD1, CHR 0x8F, CHR 0xD1, CHR 0x82, CHR 0xD0, CHR 0xBD, CHR 0xD0, CHR 0xBE] @ '' '' @ [CHR 0xD1, CHR 0x87, CHR 0xD0, CHR 0xB0, CHR 0xD1, CHR 0x81, CHR 0xD0, CHR 0xBE, CHR 0xD0, CHR 0xB2, CHR 0xD0, CHR 0xBE] @ '' '' @ [CHR 0xD0, CHR 0xB2, CHR 0xD1, CHR 0x80, CHR 0xD0, CHR 0xB5, CHR 0xD0, CHR 0xBC, CHR 0xD0, CHR 0xB5]),
     (''WEZ'', [CHR 0xD0, CHR 0x97, CHR 0xD0, CHR 0xB0, CHR 0xD0, CHR 0xBF, CHR 0xD0, CHR 0xB0, CHR 0xD0, CHR 0xB4, CHR 0xD0, CHR 0xBD, CHR 0xD0, CHR 0xBE, CHR 0xD0, CHR 0xB5, CHR 0xD0, CHR 0xB2, CHR 0xD1, CHR 0x80, CHR 0xD0, CHR 0xBE, CHR 0xD0, CHR 0xBF, CHR 0xD0, CHR 0xB5, CHR 0xD0, CHR 0xB9, CHR 0xD1, CHR 0x81, CHR 0xD0, CHR 0xBA, CHR 0xD0, CHR 0xBE] @ '' '' @ [CHR 0xD1, CHR 0x81, CHR 0xD1, CHR 0x82, CHR 0xD0, CHR 0xB0, CHR 0xD0, CHR 0xBD, CHR 0xD0, CHR 0xB4, CHR 0xD0, CHR 0xB0, CHR 0xD1, CHR 0x80, CHR 0xD1, CHR 0x82, CHR 0xD0, CHR 0xBD, CHR 0xD0, CHR 0xBE] @ '' '' @ [CHR 0xD0, CHR 0xB2, CHR 0xD1, CHR 0x80, CHR 0xD0, CHR 0xB5, CHR 0xD0, CHR 0xBC, CHR 0xD0, CHR 0xB5]),
     (''BT'', [CHR 0xD0, CHR 0x91, CHR 0xD1, CHR 0x83, CHR 0xD1, CHR 0x82, CHR 0xD0, CHR 0xB0, CHR 0xD0, CHR 0xBD, CHR 0xD1, CHR 0x81, CHR 0xD0, CHR 0xBA, CHR 0xD0, CHR 0xBE] @ '' '' @ [CHR 0xD0, CHR 0xB2, CHR 0xD1, CHR 0x80, CHR 0xD0, CHR 0xB5, CHR 0xD0, CHR 0xBC, CHR 0xD0, CHR 0xB5]),
     (''HNEG'', [CHR 0xD0, CHR 0x98, CHR 0xD0, CHR 0xB7, CHR 0xD1, CHR 0x82, CHR 0xD0, CHR 0xBE, CHR 0xD1, CHR 0x87, CHR 0xD0, CHR 0xBD, CHR 0xD0, CHR 0xBE, CHR 0xD0, CHR 0xB3, CHR 0xD1, CHR 0x80, CHR 0xD0, CHR 0xB5, CHR 0xD0, CHR 0xBD, CHR 0xD0, CHR 0xBB, CHR 0xD0, CHR 0xB0, CHR 0xD0, CHR 0xBD, CHR 0xD0, CHR 0xB4, CHR 0xD1, CHR 0x81, CHR 0xD0, CHR 0xBA, CHR 0xD0, CHR 0xBE] @ '' '' @ [CHR 0xD1, CHR 0x81, CHR 0xD1, CHR 0x82, CHR 0xD0, CHR 0xB0, CHR 0xD0, CHR 0xBD, CHR 0xD0, CHR 0xB4, CHR 0xD0, CHR 0xB0, CHR 0xD1, CHR 0x80, CHR 0xD1, CHR 0x82, CHR 0xD0, CHR 0xBD, CHR 0xD0, CHR 0xBE] @ '' '' @ [CHR 0xD0, CHR 0xB2, CHR 0xD1, CHR 0x80, CHR 0xD0, CHR 0xB5, CHR 0xD0, CHR 0xBC, CHR 0xD0, CHR 0xB5]),
     (''AKST'', [CHR 0xD0, CHR 0x90, CHR 0xD0, CHR 0xBB, CHR 0xD1, CHR 0x8F, CHR 0xD1, CHR 0x81, CHR 0xD0, CHR 0xBA, CHR 0xD0, CHR 0xB0] @ '' '' @ [CHR 0xE2, CHR 0x80, CHR 0x93] @ '' '' @ [CHR 0xD1, CHR 0x81, CHR 0xD1, CHR 0x82, CHR 0xD0, CHR 0xB0, CHR 0xD0, CHR 0xBD, CHR 0xD0, CHR 0xB4, CHR 0xD0, CHR 0xB0, CHR 0xD1, CHR 0x80, CHR 0xD1, CHR 0x82, CHR 0xD0, CHR 0xBD, CHR 0xD0, CHR 0xBE] @ '' '' @ [CHR 0xD0, CHR 0xB2, CHR 0xD1, CHR 0x80, CHR 0xD0, CHR 0xB5, CHR 0xD0, CHR 0xBC, CHR 0xD0, CHR 0xB5]),
     (''SAST'', [CHR 0xD0, CHR 0xAE, CHR 0xD0, CHR 0xB6, CHR 0xD0, CHR 0xBD, CHR 0xD0, CHR 0xBE, CHR 0xD0, CHR 0xB0, CHR 0xD1, CHR 0x84, CHR 0xD1, CHR 0x80, CHR 0xD0, CHR 0xB8, CHR 0xD0, CHR 0xBA, CHR 0xD0, CHR 0xB0, CHR 0xD0, CHR 0xBD, CHR 0xD1, CHR 0x81, CHR 0xD0, CHR 0xBA, CHR 0xD0, CHR 0xBE] @ '' '' @ [CHR 0xD0, CHR 0xB2, CHR 0xD1, CHR 0x80, CHR 0xD0, CHR 0xB5, CHR 0xD0, CHR 0xBC, CHR 0xD0, CHR 0xB5]),
     (''WIT'', [CHR 0xD0, CHR 0x98, CHR 0xD0, CHR 0xB7, CHR 0xD1, CHR 0x82, CHR 0xD0, CHR 0xBE, CHR 0xD1, CHR 0x87, CHR 0xD0, CHR 0xBD, CHR 0xD0, CHR 0xBE, CHR 0xD0, CHR 0xB8, CHR 0xD0, CHR 0xBD, CHR 0xD0, CHR 0xB4, CHR 0xD0, CHR 0xBE, CHR 0xD0, CHR 0xBD, CHR 0xD0, CHR 0xB5, CHR 0xD0, CHR 0xB7, CHR 0xD0, CHR 0xB8, CHR 0xD0, CHR 0xB9, CHR 0xD1, CHR 0x81, CHR 0xD0, CHR 0xBA, CHR 0xD0, CHR 0xBE] @ '' '' @ [CHR 0xD0, CHR 0xB2, CHR 0xD1, CHR 0x80, CHR 0xD0, CHR 0xB5, CHR 0xD0, CHR 0xBC, CHR 0xD0, CHR 0xB5]),
     (''AWST'', [CHR 0xD0, CHR 0x90, CHR 0xD0, CHR 0xB2, CHR 0xD1, CHR 0x81, CHR 0xD1, CHR 0x82, CHR 0xD1, CHR 0x80, CHR 0xD0, CHR 0xB0, CHR 0xD0, CHR 0xBB, CHR 0xD0, CHR 0xB8, CHR 0xD1, CHR 0x8F] @ '' '' @ [CHR 0xE2, CHR 0x80, CHR 0x93] @ '' '' @ [CHR 0xD0, CHR 0xB7, CHR 0xD0, CHR 0xB0, CHR 0xD0, CHR 0xBF, CHR 0xD0, CHR 0xB0, CHR 0xD0, CHR 0xB4, CHR 0xD0, CHR 0xBD, CHR 0xD0, CHR 0xBE] @ '' '' @ [CHR 0xD1, CHR 0x81, CHR 0xD1, CHR 0x82, CHR 0xD0, CHR 0xB0, CHR 0xD0, CHR 0xBD, CHR 0xD0, CHR 0xB4, CHR 0xD0, CHR 0xB0, CHR 0xD1, CHR 0x80, CHR 0xD1, CHR 0x82, CHR 0xD0, CHR 0xBD, CHR 0xD0, CHR 0xBE] @ '' '' @ [CHR 0xD0, CHR 0xB2, CHR 0xD1, CHR 0x80, CHR 0xD0, CHR 0xB5, CHR 0xD0, CHR 0xBC, CHR 0xD0, CHR 0xB5]),
     (''WART'', [CHR 0xD0, CHR 0x97, CHR 0xD0, CHR 0xB0, CHR 0xD0, CHR 0xBF, CHR 0xD0, CHR 0xB0, CHR 0xD0, CHR 0xB4, CHR 0xD0, CHR 0xBD, CHR 0xD0, CHR 0xBE, CHR 0xD0, CHR 0xB0, CHR 0xD1, CHR 0x80, CHR 0xD0, CHR 0xB6, CHR 0xD0, CHR 0xB5, CHR 0xD0, CHR 0xBD, CHR 0xD1, CHR 0x82, CHR 0xD0, CHR 0xB8, CHR 0xD0, CHR 0xBD, CHR 0xD1, CHR 0x81, CHR 0xD0, CHR 0xBA, CHR 0xD0, CHR 0xBE] @ '' '' @ [CHR 0xD1, CHR 0x81, CHR 0xD1, CHR 0x82, CHR 0xD0, CHR 0xB0, CHR 0xD0, CHR 0xBD, CHR 0xD0, CHR 0xB4, CHR 0xD0, CHR 0xB0, CHR 0xD1, CHR 0x80, CHR 0xD1, CHR 0x82, CHR 0xD0, CHR 0xBD, CHR 0xD0, CHR 0xBE] @ '' '' @ [CHR 0xD0, CHR 0xB2, CHR 0xD1, CHR 0x80, CHR 0xD0, CHR 0xB5, CHR 0xD0, CHR 0xBC, CHR 0xD0, CHR 0xB5]),
     (''ART'', [CHR 0xD0, CHR 0x90, CHR 0xD1, CHR 0x80, CHR 0xD0, CHR 0xB6, CHR 0xD0, CHR 0xB5, CHR 0xD0, CHR 0xBD, CHR 0xD1, CHR 0x82, CHR 0xD0, CHR 0xB8, CHR 0xD0, CHR 0xBD, CHR 0xD1, CHR 0x81, CHR 0xD0, CHR 0xBA, CHR 0xD0, CHR 0xBE] @ '' '' @ [CHR 0xD1, CHR 0x81, CHR 0xD1, CHR 0x82, CHR 0xD0, CHR 0xB0, CHR 0xD0, CHR 0xBD, CHR 0xD0, CHR 0xB4, CHR 0xD0, CHR 0xB0, CHR 0xD1, CHR 0x80, CHR 0xD1, CHR 0x82, CHR 0xD0, CHR 0xBD, CHR 0xD0, CHR 0xBE] @ '' '' @ [CHR 0xD0, CHR 0xB2, CHR 0xD1, CHR 0x80, CHR 0xD0, CHR 0xB5, CHR 0xD0, CHR 0xBC, CHR 0xD0, CHR 0xB5]),
     (''LHDT'', [CHR 0xD0, CHR 0x9B, CHR 0xD0, CHR 0xBE, CHR 0xD1, CHR 0x80, CHR 0xD0, CHR 0xB4] @ '' '' @ [CHR 0xD0, CHR 0xA5, CHR 0xD0, CHR 0xB0, CHR 0xD1, CHR 0x83] @ '' '' @ [CHR 0xE2, CHR 0x80, CHR 0x93] @ '' '' @ [CHR 0xD0, CHR 0xBB, CHR 0xD1, CHR 0x8F, CHR 0xD1, CHR 0x82, CHR 0xD0, CHR 0xBD, CHR 0xD0, CHR 0xBE] @ '' '' @ [CHR 0xD1, CHR 0x87, CHR 0xD0, CHR 0xB0, CHR 0xD1, CHR 0x81, CHR 0xD0, CHR 0xBE, CHR 0xD0, CHR 0xB2, CHR 0xD0, CHR 0xBE] @ '' '' @ [CHR 0xD0, CHR 0xB2, CHR 0xD1, CHR 0x80, CHR 0xD0, CHR 0xB5, CHR 0xD0, CHR 0xBC, CHR 0xD0, CHR 0xB5]),
     (''GMT'', [CHR 0xD0, CHR 0xA1, CHR 0xD1, CHR 0x80, CHR 0xD0, CHR 0xB5, CHR 0xD0, CHR 0xB4, CHR 0xD0, CHR 0xBD, CHR 0xD0, CHR 0xBE] @ '' '' @ [CHR 0xD0, CHR 0xB3, CHR 0xD1, CHR 0x80, CHR 0xD0, CHR 0xB8, CHR 0xD0, CHR 0xBD, CHR 0xD1, CHR 0x83, CHR 0xD0, CHR 0xB8, CHR 0xD1, CHR 0x87, CHR 0xD0, CHR 0xBA, CHR 0xD0, CHR 0xBE] @ '' '' @ [CHR 0xD0, CHR 0xB2, CHR 0xD1, CHR 0x80, CHR 0xD0, CHR 0xB5, CHR 0xD0, CHR 0xBC, CHR 0xD0, CHR 0xB5]),
     (''TMST'', [CHR 0xD0, CHR 0xA2, CHR 0xD1, CHR 0x83, CHR 0xD1, CHR 0x80, CHR 0xD0, CHR 0xBA, CHR 0xD0, CHR 0xBC, CHR 0xD0, CHR 0xB5, CHR 0xD0, CHR 0xBD, CHR 0xD0, CHR 0xB8, CHR 0xD1, CHR 0x81, CHR 0xD1, CHR 0x82, CHR 0xD0, CHR 0xB0, CHR 0xD0, CHR 0xBD, CHR 0xD1, CHR 0x81, CHR 0xD0, CHR 0xBA, CHR 0xD0, CHR 0xBE] @ '' '' @ [CHR 0xD0, CHR 0xBB, CHR 0xD1, CHR 0x8F, CHR 0xD1, CHR 0x82, CHR 0xD0, CHR 0xBD, CHR 0xD0, CHR 0xBE] @ '' '' @ [CHR 0xD1, CHR 0x87, CHR 0xD0, CHR 0xB0, CHR 0xD1, CHR 0x81, CHR 0xD0, CHR 0xBE, CHR 0xD0, CHR 0xB2, CHR 0xD0, CHR 0xBE] @ '' '' @ [CHR 0xD0, CHR 0xB2, CHR 0xD1, CHR 0x80, CHR 0xD0, CHR 0xB5, CHR 0xD0, CHR 0xBC, CHR 0xD0, CHR 0xB5]),
     (''CST'', [CHR 0xD0, CHR 0xA1, CHR 0xD0, CHR 0xB5, CHR 0xD0, CHR 0xB2, CHR 0xD0, CHR 0xB5, CHR 0xD1, CHR 0x80, CHR 0xD0, CHR 0xBD, CHR 0xD0, CHR 0xBE, CHR 0xD0, CHR 0xB0, CHR 0xD0, CHR 0xBC, CHR 0xD0, CHR 0xB5, CHR 0xD1, CHR 0x80, CHR 0xD0, CHR 0xB8, CHR 0xD0, CHR 0xBA, CHR 0xD0, CHR 0xB0, CHR 0xD0, CHR 0xBD, CHR 0xD1, CHR 0x81, CHR 0xD0, CHR 0xBA, CHR 0xD0, CHR 0xBE] @ '' '' @ [CHR 0xD1, CHR 0x86, CHR 0xD0, CHR 0xB5, CHR 0xD0, CHR 0xBD, CHR 0xD1, CHR 0x82, CHR 0xD1, CHR 0x80, CHR 0xD0, CHR 0xB0, CHR 0xD0, CHR 0xBB, CHR 0xD0, CHR 0xBD, CHR 0xD0, CHR 0xBE] @ '' '' @ [CHR 0xD1, CHR 0x81, CHR 0xD1, CHR 0x82, CHR 0xD0, CHR 0xB0, CHR 0xD0, CHR 0xBD, CHR 0xD0, CHR 0xB4, CHR 0xD0, CHR 0xB0, CHR 0xD1, CHR 0x80, CHR 0xD1, CHR 0x82, CHR 0xD0, CHR 0xBD, CHR 0xD0, CHR 0xBE] @ '' '' @ [CHR 0xD0, CHR 0xB2, CHR 0xD1, CHR 0x80, CHR 0xD0, CHR 0xB5, CHR 0xD0, CHR 0xBC, CHR 0xD0, CHR 0xB5]),
     (''NZST'', [CHR 0xD0, CHR 0x9D, CHR 0xD0, CHR 0xBE, CHR 0xD0, CHR 0xB2, CHR 0xD0, CHR 0xBE, CHR 0xD0, CHR 0xB7, CHR 0xD0, CHR 0xB5, CHR 0xD0, CHR 0xBB, CHR 0xD0, CHR 0xB0, CHR 0xD0, CHR 0xBD, CHR 0xD0, CHR 0xB4, CHR 0xD1, CHR 0x81, CHR 0xD0, CHR 0xBA, CHR 0xD0, CHR 0xBE] @ '' '' @ [CHR 0xD1, CHR 0x81, CHR 0xD1, CHR 0x82, CHR 0xD0, CHR 0xB0, CHR 0xD0, CHR 0xBD, CHR 0xD0, CHR 0xB4, CHR 0xD0, CHR 0xB0, CHR 0xD1, CHR 0x80, CHR 0xD1, CHR 0x82, CHR 0xD0, CHR 0xBD, CHR 0xD0, CHR 0xBE] @ '' '' @ [CHR 0xD0, CHR 0xB2, CHR 0xD1, CHR 0x80, CHR 0xD0, CHR 0xB5, CHR 0xD0, CHR 0xBC, CHR 0xD0, CHR 0xB5]),
     (''WESZ'', [CHR 0xD0, CHR 0x97, CHR 0xD0, CHR 0xB0, CHR 0xD0, CHR 0xBF, CHR 0xD0, CHR 0xB0, CHR 0xD0, CHR 0xB4, CHR 0xD0, CHR 0xBD, CHR 0xD0, CHR 0xBE, CHR 0xD0, CHR 0xB5, CHR 0xD0, CHR 0xB2, CHR 0xD1, CHR 0x80, CHR 0xD0, CHR 0xBE, CHR 0xD0, CHR 0xBF, CHR 0xD0, CHR 0xB5, CHR 0xD0, CHR 0xB9, CHR 0xD1, CHR 0x81, CHR 0xD0, CHR 0xBA, CHR 0xD0, CHR 0xBE] @ '' '' @ [CHR 0xD0, CHR 0xBB, CHR 0xD1, CHR 0x8F, CHR 0xD1, CHR 0x82, CHR 0xD0, CHR 0xBD, CHR 0xD0, CHR 0xBE] @ '' '' @ [CHR 0xD0, CHR 0xB2, CHR 0xD1, CHR 0x80, CHR 0xD0, CHR 0xB5, CHR 0xD0, CHR 0xBC, CHR 0xD0, CHR 0xB5]),
     (''WAST'', [CHR 0xD0, CHR 0x97, CHR 0xD0, CHR 0xB0, CHR 0xD0, CHR 0xBF, CHR 0xD0, CHR 0xB0, CHR 0xD0, CHR 0xB4, CHR 0xD0, CHR 0xBD, CHR 0xD0, CHR 0xBE, CHR 0xD0, CHR 0xB0, CHR 0xD1, CHR 0x84, CHR 0xD1, CHR 0x80, CHR 0xD0, CHR 0xB8, CHR 0xD0, CHR 0xBA, CHR 0xD0, CHR 0xB0, CHR 0xD0, CHR 0xBD, CHR 0xD1, CHR 0x81, CHR 0xD0, CHR 0xBA, CHR 0xD0, CHR 0xBE] @ '' '' @ [CHR 0xD0, CHR 0xBB, CHR 0xD1, CHR 0x8F, CHR 0xD1, CHR 0x82, CHR 0xD0, CHR 0xBD, CHR 0xD0, CHR 0xBE] @ '' '' @ [CHR 0xD1, CHR 0x87, CHR 0xD0, CHR 0xB0, CHR 0xD1, CHR 0x81, CHR 0xD0, CHR 0xBE, CHR 0xD0, CHR 0xB2, CHR 0xD0, CHR 0xBE] @ '' '' @ [CHR 0xD0, CHR 0xB2, CHR 0xD1, CHR 0x80, CHR 0xD0, CHR 0xB5, CHR 0xD0, CHR 0xBC, CHR 0xD0, CHR 0xB5]),
     (''HECU'', [CHR 0xD0, CHR 0x9A, CHR 0xD1, CHR 0x83, CHR 0xD0, CHR 0xB1, CHR 0xD0, CHR 0xB8, CHR 0xD0, CHR 0xBD, CHR 0xD1, CHR 0x81, CHR 0xD0, CHR 0xBA, CHR 0xD0, CHR 0xBE] @ '' '' @ [CHR 0xD0, CHR 0xBB, CHR 0xD1, CHR 0x8F, CHR 0xD1, CHR 0x82, CHR 0xD0, CHR 0xBD, CHR 0xD0, CHR 0xBE] @ '' '' @ [CHR 0xD1, CHR 0x87, CHR 0xD0, CHR 0xB0, CHR 0xD1, CHR 0x81, CHR 0xD0, CHR 0xBE, CHR 0xD0, CHR 0xB2, CHR 0xD0, CHR 0xBE] @ '' '' @ [CHR 0xD0, CHR 0xB2, CHR 0xD1, CHR 0x80, CHR 0xD0, CHR 0xB5, CHR 0xD0, CHR 0xBC, CHR 0xD0, CHR 0xB5]),
     (''SGT'', [CHR 0xD0, CHR 0xA1, CHR 0xD0, CHR 0xB8, CHR 0xD0, CHR 0xBD, CHR 0xD0, CHR 0xB3, CHR 0xD0, CHR 0xB0, CHR 0xD0, CHR 0xBF, CHR 0xD1, CHR 0x83, CHR 0xD1, CHR 0x80, CHR 0xD1, CHR 0x81, CHR 0xD0, CHR 0xBA, CHR 0xD0, CHR 0xBE] @ '' '' @ [CHR 0xD0, CHR 0xB2, CHR 0xD1, CHR 0x80, CHR 0xD0, CHR 0xB5, CHR 0xD0, CHR 0xBC, CHR 0xD0, CHR 0xB5]),
     (''JDT'', [CHR 0xD0, CHR 0xAF, CHR 0xD0, CHR 0xBF, CHR 0xD0, CHR 0xBE, CHR 0xD0, CHR 0xBD, CHR 0xD1, CHR 0x81, CHR 0xD0, CHR 0xBA, CHR 0xD0, CHR 0xBE] @ '' '' @ [CHR 0xD0, CHR 0xBB, CHR 0xD1, CHR 0x8F, CHR 0xD1, CHR 0x82, CHR 0xD0, CHR 0xBD, CHR 0xD0, CHR 0xBE] @ '' '' @ [CHR 0xD1, CHR 0x87, CHR 0xD0, CHR 0xB0, CHR 0xD1, CHR 0x81, CHR 0xD0, CHR 0xBE, CHR 0xD0, CHR 0xB2, CHR 0xD0, CHR 0xBE] @ '' '' @ [CHR 0xD0, CHR 0xB2, CHR 0xD1, CHR 0x80, CHR 0xD0, CHR 0xB5, CHR 0xD0, CHR 0xBC, CHR 0xD0, CHR 0xB5]),
     (''HKST'', [CHR 0xD0, CHR 0xA5, CHR 0xD0, CHR 0xBE, CHR 0xD0, CHR 0xBD, CHR 0xD0, CHR 0xBA, CHR 0xD0, CHR 0xBE, CHR 0xD0, CHR 0xBD, CHR 0xD0, CHR 0xB3, CHR 0xD1, CHR 0x81, CHR 0xD0, CHR 0xBA, CHR 0xD0, CHR 0xBE] @ '' '' @ [CHR 0xD0, CHR 0xBB, CHR 0xD1, CHR 0x8F, CHR 0xD1, CHR 0x82, CHR 0xD0, CHR 0xBD, CHR 0xD0, CHR 0xBE] @ '' '' @ [CHR 0xD1, CHR 0x87, CHR 0xD0, CHR 0xB0, CHR 0xD1, CHR 0x81, CHR 0xD0, CHR 0xBE, CHR 0xD0, CHR 0xB2, CHR 0xD0, CHR 0xBE] @ '' '' @ [CHR 0xD0, CHR 0xB2, CHR 0xD1, CHR 0x80, CHR 0xD0, CHR 0xB5, CHR 0xD0, CHR 0xBC, CHR 0xD0, CHR 0xB5]),
     (''COT'', [CHR 0xD0, CHR 0x9A, CHR 0xD0, CHR 0xBE, CHR 0xD0, CHR 0xBB, CHR 0xD1, CHR 0x83, CHR 0xD0, CHR 0xBC, CHR 0xD0, CHR 0xB1, CHR 0xD0, CHR 0xB8, CHR 0xD0, CHR 0xB9, CHR 0xD1, CHR 0x81, CHR 0xD0, CHR 0xBA, CHR 0xD0, CHR 0xBE] @ '' '' @ [CHR 0xD1, CHR 0x81, CHR 0xD1, CHR 0x82, CHR 0xD0, CHR 0xB0, CHR 0xD0, CHR 0xBD, CHR 0xD0, CHR 0xB4, CHR 0xD0, CHR 0xB0, CHR 0xD1, CHR 0x80, CHR 0xD1, CHR 0x82, CHR 0xD0, CHR 0xBD, CHR 0xD0, CHR 0xBE] @ '' '' @ [CHR 0xD0, CHR 0xB2, CHR 0xD1, CHR 0x80, CHR 0xD0, CHR 0xB5, CHR 0xD0, CHR 0xBC, CHR 0xD0, CHR 0xB5]),
     (''AEST'', [CHR 0xD0, CHR 0x90, CHR 0xD0, CHR 0xB2, CHR 0xD1, CHR 0x81, CHR 0xD1, CHR 0x82, CHR 0xD1, CHR 0x80, CHR 0xD0, CHR 0xB0, CHR 0xD0, CHR 0xBB, CHR 0xD0, CHR 0xB8, CHR 0xD1, CHR 0x8F] @ '' '' @ [CHR 0xE2, CHR 0x80, CHR 0x93] @ '' '' @ [CHR 0xD0, CHR 0xB8, CHR 0xD0, CHR 0xB7, CHR 0xD1, CHR 0x82, CHR 0xD0, CHR 0xBE, CHR 0xD1, CHR 0x87, CHR 0xD0, CHR 0xBD, CHR 0xD0, CHR 0xBE] @ '' '' @ [CHR 0xD1, CHR 0x81, CHR 0xD1, CHR 0x82, CHR 0xD0, CHR 0xB0, CHR 0xD0, CHR 0xBD, CHR 0xD0, CHR 0xB4, CHR 0xD0, CHR 0xB0, CHR 0xD1, CHR 0x80, CHR 0xD1, CHR 0x82, CHR 0xD0, CHR 0xBD, CHR 0xD0, CHR 0xBE] @ '' '' @ [CHR 0xD0, CHR 0xB2, CHR 0xD1, CHR 0x80, CHR 0xD0, CHR 0xB5, CHR 0xD0, CHR 0xBC, CHR 0xD0, CHR 0xB5]),
     (''HEPMX'', [CHR 0xD0, CHR 0x9C, CHR 0xD0, CHR 0xB5, CHR 0xD0, CHR 0xBA, CHR 0xD1, CHR 0x81, CHR 0xD0, CHR 0xB8, CHR 0xD0, CHR 0xBA, CHR 0xD0, CHR 0xB0, CHR 0xD0, CHR 0xBD, CHR 0xD1, CHR 0x81, CHR 0xD0, CHR 0xBA, CHR 0xD0, CHR 0xBE] @ '' '' @ [CHR 0xD1, CHR 0x82, CHR 0xD0, CHR 0xB8, CHR 0xD1, CHR 0x85, CHR 0xD0, CHR 0xBE, CHR 0xD0, CHR 0xBE, CHR 0xD0, CHR 0xBA, CHR 0xD0, CHR 0xB5, CHR 0xD0, CHR 0xB0, CHR 0xD0, CHR 0xBD, CHR 0xD1, CHR 0x81, CHR 0xD0, CHR 0xBA, CHR 0xD0, CHR 0xBE] @ '' '' @ [CHR 0xD0, CHR 0xBB, CHR 0xD1, CHR 0x8F, CHR 0xD1, CHR 0x82, CHR 0xD0, CHR 0xBD, CHR 0xD0, CHR 0xBE] @ '' '' @ [CHR 0xD1, CHR 0x87, CHR 0xD0, CHR 0xB0, CHR 0xD1, CHR 0x81, CHR 0xD0, CHR 0xBE, CHR 0xD0, CHR 0xB2, CHR 0xD0, CHR 0xBE] @ '' '' @ [CHR 0xD0, CHR 0xB2, CHR 0xD1, CHR 0x80, CHR 0xD0, CHR 0xB5, CHR 0xD0, CHR 0xBC, CHR 0xD0, CHR 0xB5]),
     (''GYT'', [CHR 0xD0, CHR 0x93, CHR 0xD0, CHR 0xB0, CHR 0xD1, CHR 0x8F, CHR 0xD0, CHR 0xBD, CHR 0xD0, CHR 0xB0]),
     (''UYT'', [CHR 0xD0, CHR 0xA3, CHR 0xD1, CHR 0x80, CHR 0xD1, CHR 0x83, CHR 0xD0, CHR 0xB3, CHR 0xD0, CHR 0xB2, CHR 0xD0, CHR 0xB0, CHR 0xD0, CHR 0xB9, CHR 0xD1, CHR 0x81, CHR 0xD0, CHR 0xBA, CHR 0xD0, CHR 0xBE] @ '' '' @ [CHR 0xD1, CHR 0x81, CHR 0xD1, CHR 0x82, CHR 0xD0, CHR 0xB0, CHR 0xD0, CHR 0xBD, CHR 0xD0, CHR 0xB4, CHR 0xD0, CHR 0xB0, CHR 0xD1, CHR 0x80, CHR 0xD1, CHR 0x82, CHR 0xD0, CHR 0xBD, CHR 0xD0, CHR 0xBE] @ '' '' @ [CHR 0xD0, CHR 0xB2, CHR 0xD1, CHR 0x80, CHR 0xD0, CHR 0xB5, CHR 0xD0, CHR 0xBC, CHR 0xD0, CHR 0xB5]),
     (''LHST'', [CHR 0xD0, CHR 0x9B, CHR 0xD0, CHR 0xBE, CHR 0xD1, CHR 0x80, CHR 0xD0, CHR 0xB4] @ '' '' @ [CHR 0xD0, CHR 0xA5, CHR 0xD0, CHR 0xB0, CHR 0xD1, CHR 0x83] @ '' '' @ [CHR 0xE2, CHR 0x80, CHR 0x93] @ '' '' @ [CHR 0xD1, CHR 0x81, CHR 0xD1, CHR 0x82, CHR 0xD0, CHR 0xB0, CHR 0xD0, CHR 0xBD, CHR 0xD0, CHR 0xB4, CHR 0xD0, CHR 0xB0, CHR 0xD1, CHR 0x80, CHR 0xD1, CHR 0x82, CHR 0xD0, CHR 0xBD, CHR 0xD0, CHR 0xBE] @ '' '' @ [CHR 0xD0, CHR 0xB2, CHR 0xD1, CHR 0x80, CHR 0xD0, CHR 0xB5, CHR 0xD0, CHR 0xBC, CHR 0xD0, CHR 0xB5])]"

definition bs_currencies :: "string list" where
  "bs_currencies =
    [''ADP'', ''AED'', ''AFA'', ''AFN'', ''ALK'', ''ALL'', ''AMD'', ''ANG'', ''AOA'', ''AOK'',
     ''AON'', ''AOR'', ''ARA'', ''ARL'', ''ARM'', ''ARP'', ''ARS'', ''ATS'', ''AUD'', ''AWG'',
     ''AZM'', ''AZN'', ''BAD'', ''KM'', ''BAN'', ''BBD'', ''BDT'', ''BEC'', ''BEF'', ''BEL'',
     ''BGL'', ''BGM'', ''BGN'', ''BGO'', ''BHD'', ''BIF'', ''BMD'', ''BND'', ''BOB'', ''BOL'',
     ''BOP'', ''BOV'', ''BRB'', ''BRC'', ''BRE'', ''BRL'', ''BRN'', ''BRR'', ''BRZ'', ''BSD'',
     ''BTN'', ''BUK'', ''BWP'', ''BYB'', ''BYN'', ''BYR'', ''BZD'', ''CAD'', ''CDF'', ''CHE'',
     ''CHF'', ''CHW'', ''CLE'', ''CLF'', ''CLP'', ''CNX'', ''CNY'', ''COP'', ''COU'', ''CRC'',
     ''CSD'', ''CSK'', ''CUC'', ''CUP'', ''CVE'', ''CYP'', ''CZK'', ''DDM'', ''DEM'', ''DJF'',
     ''DKK'', ''DOP'', ''DZD'', ''ECS'', ''ECV'', ''EEK'', ''EGP'', ''ERN'', ''ESA'', ''ESB'',
     ''ESP'', ''ETB'', [CHR 0xE2, CHR 0x82, CHR 0xAC], ''FIM'', ''FJD'', ''FKP'', ''FRF'',
     ''GBP'', ''GEK'', ''GEL'', ''GHC'', ''GHS'', ''GIP'', ''GMD'', ''GNF'', ''GNS'', ''GQE'',
     ''GRD'', ''GTQ'', ''GWE'', ''GWP'', ''GYD'', ''HKD'', ''HNL'', ''HRD'', ''kn'', ''HTG'',
     ''HUF'', ''IDR'', ''IEP'', ''ILP'', ''ILR'', ''ILS'', [CHR 0xE2, CHR 0x82, CHR 0xB9],
     ''IQD'', ''IRR'', ''ISJ'', ''ISK'', ''ITL'', ''JMD'', ''JOD'', [CHR 0xC2, CHR 0xA5],
     ''KES'', ''KGS'', ''KHR'', ''KMF'', ''KPW'', ''KRH'', ''KRO'',
     [CHR 0xE2, CHR 0x82, CHR 0xA9], ''KWD'', ''KYD'', ''KZT'', ''LAK'', ''LBP'', ''LKR'',
     ''LRD'', ''LSL'', ''LTL'', ''LTT'', ''LUC'', ''LUF'', ''LUL'', ''LVL'', ''LVR'', ''LYD'',
     ''MAD'', ''MAF'', ''MCF'', ''MDC'', ''MDL'', ''MGA'', ''MGF'', ''MKD'', ''MKN'', ''MLF'',
     ''MMK'', ''MNT'', ''MOP'', ''MRO'', ''MTL'', ''MTP'', ''MUR'', ''MVP'', ''MVR'', ''MWK'',
     ''MXN'', ''MXP'', ''MXV'', ''MYR'', ''MZE'', ''MZM'', ''MZN'', ''NAD'', ''NGN'', ''NIC'',
     ''NIO'', ''NLG'', ''NOK'', ''NPR'', ''NZD'', ''OMR'', ''PAB'', ''PEI'', ''PEN'', ''PES'',
     ''PGK'', ''PHP'', ''PKR'', ''PLN'', ''PLZ'', ''PTE'', ''PYG'', ''QAR'', ''RHD'', ''ROL'',
     ''RON'', ''din.'', ''RUB'', ''RUR'', ''RWF'', ''SAR'', ''SBD'', ''SCR'', ''SDD'', ''SDG'',
     ''SDP'', ''SEK'', ''SGD'', ''SHP'', ''SIT'', ''SKK'', ''SLL'', ''SOS'', ''SRD'', ''SRG'',
     ''SSP'', ''STD'', ''SUR'', ''SVC'', ''SYP'', ''SZL'', [CHR 0xE0, CHR 0xB8, CHR 0xBF],
     ''TJR'', ''TJS'', ''TMM'', ''TMT'', ''TND'', ''TOP'', ''TPE'', ''TRL'', ''TRY'', ''TTD'',
     ''NT$'', ''TZS'', ''UAH'', ''UAK'', ''UGS'', ''UGX'', ''USD'', ''USN'', ''USS'', ''UYI'',
     ''UYP'', ''UYU'', ''UZS'', ''VEB'', ''VEF'', [CHR 0xE2, CHR 0x82, CHR 0xAB], ''VNN'',
     ''VUV'', ''WST'', ''FCFA'', ''XAG'', ''XAU'', ''XBA'', ''XBB'', ''XBC'', ''XBD'', ''XCD'',
     ''XDR'', ''XEU'', ''XFO'', ''XFU'', ''CFA'', ''XPD'', ''XPF'', ''XPT'', ''XRE'', ''XSU'',
     ''XTS'', ''XUA'', ''XXX'', ''YDD'', ''YER'', ''YUD'', ''YUM'', ''YUN'', ''YUR'', ''ZAL'',
     ''ZAR'', ''ZMK'', ''ZMW'', ''ZRN'', ''ZRZ'', ''ZWD'', ''ZWL'', ''ZWR'']"

definition bs_timezones :: "(string \<times> string) list" where
  "bs_timezones =
    [(''MDT'', ''Makao letnje ra'' @ [CHR 0xC4, CHR 0x8D] @ ''unanje vremena''),
     (''PDT'', ''Sjevernoameri'' @ [CHR 0xC4, CHR 0x8D] @ ''ko pacifi'' @ [CHR 0xC4, CHR 0x8D] @ ''ko ljetno vrijeme''),
     (''OEZ'', ''Isto'' @ [CHR 0xC4, CHR 0x8D] @ ''noevropsko standardno vrijeme''),
     (''WEZ'', ''Zapadnoevropsko standardno vrijeme''),
     (''HKT'', ''Hongkon'' @ [CHR 0xC5, CHR 0xA1] @ ''ko standardno vrijeme''),
     (''COT'', ''Kolumbijsko standardno vrijeme''),
     (''CDT'', ''Sjevernoameri'' @ [CHR 0xC4, CHR 0x8D] @ ''ko centralno ljetno vrijeme''),
     (''JST'', ''Japansko standardno vrijeme''),
     (''AST'', ''Sjevernoameri'' @ [CHR 0xC4, CHR 0x8D] @ ''ko atlantsko standardno vrijeme''),
     (''MST'', ''Makao standardno vreme''),
     (''AEDT'', ''Isto'' @ [CHR 0xC4, CHR 0x8D] @ ''noaustralijsko ljetno vrijeme''),
     (''WIT'', ''Isto'' @ [CHR 0xC4, CHR 0x8D] @ ''noindonezijsko vrijeme''),
     (''ECT'', ''Ekvadorsko vrijeme''),
     (''HEEG'', ''Isto'' @ [CHR 0xC4, CHR 0x8D] @ ''nogrenlandsko ljetno vrijeme''),
     (''CST'', ''Sjevernoameri'' @ [CHR 0xC4, CHR 0x8D] @ ''ko centralno standardno vrijeme''),
     (''TMT'', ''Turkmenistansko standardno vrijeme''),
     (''HKST'', ''Hongkon'' @ [CHR 0xC5, CHR 0xA1] @ ''ko ljetno vrijeme''),
     (''ACST'', ''Centralnoaustralijsko standardno vrijeme''),
     (''HEPMX'', ''Meksi'' @ [CHR 0xC4, CHR 0x8D] @ ''ko pacifi'' @ [CHR 0xC4, CHR 0x8D] @ ''ko ljetno vrijeme''),
     (''AWST'', ''Zapadnoaustralijsko standardno vrijeme''),
     (''CLST'', [CHR 0xC4, CHR 0x8C] @ ''ileansko ljetno vrijeme''),
     (''ARST'', ''Argentinsko ljetno vrijeme''), (''COST'', ''Kolumbijsko ljetno vrijeme''),
     (''HNPM'', ''Standardno vrijeme na Ostrvima Sen Pjer i Mikelon''),
     (''LHDT'', ''Ljetno vrijeme na Ostrvu Lord Hau''), (''SRT'', ''Surinamsko vrijeme''),
     (''BOT'', ''Bolivijsko vrijeme''), (''MESZ'', ''Centralnoevropsko ljetno vrijeme''),
     (''ART'', ''Argentinsko standardno vrijeme''),
     (''HNNOMX'', ''Sjeverozapadno meksi'' @ [CHR 0xC4, CHR 0x8D] @ ''ko standardno vrijeme''),
     ([CHR 0xE2, CHR 0x88, CHR 0x85, CHR 0xE2, CHR 0x88, CHR 0x85, CHR 0xE2, CHR 0x88, CHR 0x85], ''Peruansko ljetno vrijeme''),
     (''WITA'', ''Centralnoindonezijsko vrijeme''),
     (''HNPMX'', ''Meksi'' @ [CHR 0xC4, CHR 0x8D] @ ''ko pacifi'' @ [CHR 0xC4, CHR 0x8D] @ ''ko standardno vrijeme''),
     (''VET'', ''Venecuelansko vrijeme''),
     (''ADT'', ''Sjevernoameri'' @ [CHR 0xC4, CHR 0x8D] @ ''ko atlantsko ljetno vrijeme''),
     (''EAT'', ''Isto'' @ [CHR 0xC4, CHR 0x8D] @ ''noafri'' @ [CHR 0xC4, CHR 0x8D] @ ''ko vrijeme''),
     (''CAT'', ''Centralnoafri'' @ [CHR 0xC4, CHR 0x8D] @ ''ko vrijeme''),
     (''CHAST'', [CHR 0xC4, CHR 0x8C] @ ''atamsko standardno vrijeme''),
     (''CHADT'', [CHR 0xC4, CHR 0x8C] @ ''atamsko ljetno vrijeme''),
     (''SGT'', ''Singapursko standardno vrijeme''),
     (''HENOMX'', ''Sjeverozapadno meksi'' @ [CHR 0xC4, CHR 0x8D] @ ''ko ljetno vrijeme''),
     (''HNEG'', ''Isto'' @ [CHR 0xC4, CHR 0x8D] @ ''nogrenlandsko standardno vrijeme''),
     (''AKDT'', ''Aljaskansko ljetno vrijeme''),
     (''ChST'', [CHR 0xC4, CHR 0x8C] @ ''amorsko standardno vrijeme''),
     (''HECU'', ''Kubansko ljetno vrijeme''),
     (''ACWDT'', ''Australijsko centralnozapadno ljetno vrijeme''),
     (''SAST'', ''Ju'' @ [CHR 0xC5, CHR 0xBE] @ ''noafri'' @ [CHR 0xC4, CHR 0x8D] @ ''ko standardno vrijeme''),
     (''GMT'', ''Grini'' @ [CHR 0xC4, CHR 0x8D] @ ''ko vrijeme''),
     (''WAST'', ''Zapadnoafri'' @ [CHR 0xC4, CHR 0x8D] @ ''ko ljetno vrijeme''),
     (''EST'', ''Sjevernoameri'' @ [CHR 0xC4, CHR 0x8D] @ ''ko isto'' @ [CHR 0xC4, CHR 0x8D] @ ''no standardno vrijeme''),
     (''AKST'', ''Aljaskansko standardno vrijeme''),
     (''HEPM'', ''Ljetno vrijeme na Ostrvima Sen Pjer i Mikelon''),
     (''JDT'', ''Japansko ljetno vrijeme''),
     (''HNOG'', ''Zapadnogrenlandsko standardno vrijeme''), (''MYT'', ''Malezijsko vrijeme''),
     (''BT'', ''Butansko vrijeme''), (''GYT'', ''Gvajansko vrijeme''),
     (''NZST'', ''Novozelandsko standardno vrijeme''),
     (''IST'', ''Indijsko standardno vrijeme''),
     (''WART'', ''Zapadnoargentinsko standardno vrijeme''),
     (''WESZ'', ''Zapadnoevropsko ljetno vrijeme''),
     (''LHST'', ''Standardno vrijeme na Ostrvu Lord Hau''),
     (''AWDT'', ''Zapadnoaustralijsko ljetno vrijeme''),
     (''HADT'', ''Havajsko-aleu'' @ [CHR 0xC4, CHR 0x87] @ ''ansko ljetno vrijeme''),
     (''HNT'', ''Njufaundlendsko standardno vrijeme''),
     (''MEZ'', ''Centralnoevropsko standardno vrijeme''),
     (''CLT'', [CHR 0xC4, CHR 0x8C] @ ''ileansko standardno vrijeme''),
     (''ACDT'', ''Centralnoaustralijsko ljetno vrijeme''),
     (''HNCU'', ''Kubansko standardno vrijeme''), (''WIB'', ''Zapadnoindonezijsko vrijeme''),
     (''PST'', ''Sjevernoameri'' @ [CHR 0xC4, CHR 0x8D] @ ''ko pacifi'' @ [CHR 0xC4, CHR 0x8D] @ ''ko standardno vrijeme''),
     (''HAST'', ''Havajsko-aleu'' @ [CHR 0xC4, CHR 0x87] @ ''ansko standardno vrijeme''),
     (''ACWST'', ''Australijsko centralnozapadno standardno vrijeme''),
     (''NZDT'', ''Novozelandsko ljetno vrijeme''),
     (''HEOG'', ''Zapadnogrenlandsko ljetno vrijeme''),
     (''OESZ'', ''Isto'' @ [CHR 0xC4, CHR 0x8D] @ ''noevropsko ljetno vrijeme''),
     (''WAT'', ''Zapadnoafri'' @ [CHR 0xC4, CHR 0x8D] @ ''ko standardno vrijeme''),
     (''HAT'', ''Njufaundlendsko ljetno vrijeme''), (''UYST'', ''Urugvajsko ljetno vrijeme''),
     (''UYT'', ''Urugvajsko standardno vrijeme''),
     (''WARST'', ''Zapadnoargentinsko ljetno vrijeme''),
     (''TMST'', ''Turkmenistansko ljetno vrijeme''),
     (''EDT'', ''Sjevernoameri'' @ [CHR 0xC4, CHR 0x8D] @ ''ko isto'' @ [CHR 0xC4, CHR 0x8D] @ ''no ljetno vrijeme''),
     (''GFT'', ''Francuskogvajansko vrijeme''),
     (''AEST'', ''Isto'' @ [CHR 0xC4, CHR 0x8D] @ ''noaustralijsko standardno vrijeme'')]"

definition ca_IT_currencies :: "string list" where
  "ca_IT_currencies =
    [''ADP'', ''AED'', ''AFA'', ''AFN'', ''ALK'', ''ALL'', ''AMD'', ''ANG'', ''AOA'', ''AOK'',
     ''AON'', ''AOR'', ''ARA'', ''ARL'', ''ARM'', ''ARP'', ''ARS'', ''ATS'', ''AUD'', ''AWG'',
     ''AZM'', ''AZN'', ''BAD'', ''BAM'', ''BAN'', ''BBD'', ''BDT'', ''BEC'', ''BEF'', ''BEL'',
     ''BGL'', ''BGM'', ''BGN'', ''BGO'', ''BHD'', ''BIF'', ''BMD'', ''BND'', ''BOB'', ''BOL'',
     ''BOP'', ''BOV'', ''BRB'', ''BRC'', ''BRE'', ''BRL'', ''BRN'', ''BRR'', ''BRZ'', ''BSD'',
     ''BTN'', ''BUK'', ''BWP'', ''BYB'', ''BYN'', ''BYR'', ''BZD'', ''CAD'', ''CDF'', ''CHE'',
     ''CHF'', ''CHW'', ''CLE'', ''CLF'', ''CLP'', ''CNX'', ''CNY'', ''COP'', ''COU'', ''CRC'',
     ''CSD'', ''CSK'', ''CUC'', ''CUP'', ''CVE'', ''CYP'', ''CZK'', ''DDM'', ''DEM'', ''DJF'',
     ''DKK'', ''DOP'', ''DZD'', ''ECS'', ''ECV'', ''EEK'', ''EGP'', ''ERN'', ''ESA'', ''ESB'',
     ''ESP'', ''ETB'', ''EUR'', ''FIM'', ''FJD'', ''FKP'', ''FRF'', ''GBP'', ''GEK'', ''GEL'',
     ''GHC'', ''GHS'', ''GIP'', ''GMD'', ''GNF'', ''GNS'', ''GQE'', ''GRD'', ''GTQ'', ''GWE'',
     ''GWP'', ''GYD'', ''HKD'', ''HNL'', ''HRD'', ''HRK'', ''HTG'', ''HUF'', ''IDR'', ''IEP'',
     ''ILP'', ''ILR'', ''ILS'', ''INR'', ''IQD'', ''IRR'', ''ISJ'', ''ISK'', ''ITL'', ''JMD'',
     ''JOD'', ''JPY'', ''KES'', ''KGS'', ''KHR'', ''KMF'', ''KPW'', ''KRH'', ''KRO'', ''KRW'',
     ''KWD'', ''KYD'', ''KZT'', ''LAK'', ''LBP'', ''LKR'', ''LRD'', ''LSL'', ''LTL'', ''LTT'',
     ''LUC'', ''LUF'', ''LUL'', ''LVL'', ''LVR'', ''LYD'', ''MAD'', ''MAF'', ''MCF'', ''MDC'',
     ''MDL'', ''MGA'', ''MGF'', ''MKD'', ''MKN'', ''MLF'', ''MMK'', ''MNT'', ''MOP'', ''MRO'',
     ''MTL'', ''MTP'', ''MUR'', ''MVP'', ''MVR'', ''MWK'', ''MXN'', ''MXP'', ''MXV'', ''MYR'',
     ''MZE'', ''MZM'', ''MZN'', ''NAD'', ''NGN'', ''NIC'', ''NIO'', ''NLG'', ''NOK'', ''NPR'',
     ''NZD'', ''OMR'', ''PAB'', ''PEI'', ''PEN'', ''PES'', ''PGK'', ''PHP'', ''PKR'', ''PLN'',
     ''PLZ'', ''PTE'', ''PYG'', ''QAR'', ''RHD'', ''ROL'', ''RON'', ''RSD'', ''RUB'', ''RUR'',
     ''RWF'', ''SAR'', ''SBD'', ''SCR'', ''SDD'', ''SDG'', ''SDP'', ''SEK'', ''SGD'', ''SHP'',
     ''SIT'', ''SKK'', ''SLL'', ''SOS'', ''SRD'', ''SRG'', ''SSP'', ''STD'', ''SUR'', ''SVC'',
     ''SYP'', ''SZL'', ''THB'', ''TJR'', ''TJS'', ''TMM'', ''TMT'', ''TND'', ''TOP'', ''TPE'',
     ''TRL'', ''TRY'', ''TTD'', ''TWD'', ''TZS'', ''UAH'', ''UAK'', ''UGS'', ''UGX'', ''USD'',
     ''USN'', ''USS'', ''UYI'', ''UYP'', ''UYU'', ''UZS'', ''VEB'', ''VEF'', ''VND'', ''VNN'',
     ''VUV'', ''WST'', ''XAF'', ''XAG'', ''XAU'', ''XBA'', ''XBB'', ''XBC'', ''XBD'', ''XCD'',
     ''XDR'', ''XEU'', ''XFO'', ''XFU'', ''XOF'', ''XPD'', ''XPF'', ''XPT'', ''XRE'', ''XSU'',
     ''XTS'', ''XUA'', ''XXX'', ''YDD'', ''YER'', ''YUD'', ''YUM'', ''YUN'', ''YUR'', ''ZAL'',
     ''ZAR'', ''ZMK'', ''ZMW'', ''ZRN'', ''ZRZ'', ''ZWD'', ''ZWL'', ''ZWR'']"

definition ca_IT_timezones :: "(string \<times> string) list" where
  "ca_IT_timezones =
    [(''MST'', ''Hora est'' @ [CHR 0xC3, CHR 0xA0] @ ''ndard de muntanya d'' @ [CHR 0xE2, CHR 0x80, CHR 0x99] @ ''Am'' @ [CHR 0xC3, CHR 0xA8] @ ''rica del Nord''),
     (''HEPMX'', ''Hora d'' @ [CHR 0xE2, CHR 0x80, CHR 0x99] @ ''estiu del Pac'' @ [CHR 0xC3, CHR 0xAD] @ ''fic de M'' @ [CHR 0xC3, CHR 0xA8] @ ''xic''),
     (''CST'', ''Hora est'' @ [CHR 0xC3, CHR 0xA0] @ ''ndard central d'' @ [CHR 0xE2, CHR 0x80, CHR 0x99] @ ''Am'' @ [CHR 0xC3, CHR 0xA8] @ ''rica del Nord''),
     (''CDT'', ''Hora d'' @ [CHR 0xE2, CHR 0x80, CHR 0x99] @ ''estiu central d'' @ [CHR 0xE2, CHR 0x80, CHR 0x99] @ ''Am'' @ [CHR 0xC3, CHR 0xA8] @ ''rica del Nord''),
     (''MYT'', ''Hora de Mal'' @ [CHR 0xC3, CHR 0xA0] @ ''isia''),
     (''ART'', ''Hora est'' @ [CHR 0xC3, CHR 0xA0] @ ''ndard de l'' @ [CHR 0xE2, CHR 0x80, CHR 0x99] @ ''Argentina''),
     (''HKT'', ''Hora est'' @ [CHR 0xC3, CHR 0xA0] @ ''ndard de Hong Kong''),
     (''AKDT'', ''Hora d'' @ [CHR 0xE2, CHR 0x80, CHR 0x99] @ ''estiu d'' @ [CHR 0xE2, CHR 0x80, CHR 0x99] @ ''Alaska''),
     (''HNEG'', ''Hora est'' @ [CHR 0xC3, CHR 0xA0] @ ''ndard de l'' @ [CHR 0xE2, CHR 0x80, CHR 0x99] @ ''Est de Grenl'' @ [CHR 0xC3, CHR 0xA0] @ ''ndia''),
     (''WESZ'', ''Hora d'' @ [CHR 0xE2, CHR 0x80, CHR 0x99] @ ''estiu de l'' @ [CHR 0xE2, CHR 0x80, CHR 0x99] @ ''Oest d'' @ [CHR 0xE2, CHR 0x80, CHR 0x99] @ ''Europa''),
     (''CLST'', ''Hora d'' @ [CHR 0xE2, CHR 0x80, CHR 0x99] @ ''estiu de Xile''),
     (''HKST'', ''Hora d'' @ [CHR 0xE2, CHR 0x80, CHR 0x99] @ ''estiu de Hong Kong''),
     (''BT'', ''Hora de Bhutan''),
     (''HAST'', ''Hora est'' @ [CHR 0xC3, CHR 0xA0] @ ''ndard de Hawaii-Aleutianes''),
     (''VET'', ''Hora de Vene'' @ [CHR 0xC3, CHR 0xA7] @ ''uela''),
     (''ARST'', ''Hora d'' @ [CHR 0xE2, CHR 0x80, CHR 0x99] @ ''estiu de l'' @ [CHR 0xE2, CHR 0x80, CHR 0x99] @ ''Argentina''),
     (''SAST'', ''Hora est'' @ [CHR 0xC3, CHR 0xA0] @ ''ndard del sud de l'' @ [CHR 0xE2, CHR 0x80, CHR 0x99, CHR 0xC3, CHR 0x80] @ ''frica''),
     (''MESZ'', ''Hora d'' @ [CHR 0xE2, CHR 0x80, CHR 0x99] @ ''estiu del Centre d'' @ [CHR 0xE2, CHR 0x80, CHR 0x99] @ ''Europa''),
     (''HNPMX'', ''Hora est'' @ [CHR 0xC3, CHR 0xA0] @ ''ndard del Pac'' @ [CHR 0xC3, CHR 0xAD] @ ''fic de M'' @ [CHR 0xC3, CHR 0xA8] @ ''xic''),
     (''HEOG'', ''Hora d'' @ [CHR 0xE2, CHR 0x80, CHR 0x99] @ ''estiu de l'' @ [CHR 0xE2, CHR 0x80, CHR 0x99] @ ''Oest de Grenl'' @ [CHR 0xC3, CHR 0xA0] @ ''ndia''),
     (''WART'', ''Hora est'' @ [CHR 0xC3, CHR 0xA0] @ ''ndard de l'' @ [CHR 0xE2, CHR 0x80, CHR 0x99] @ ''oest de l'' @ [CHR 0xE2, CHR 0x80, CHR 0x99] @ ''Argentina''),
     (''TMT'', ''Hora est'' @ [CHR 0xC3, CHR 0xA0] @ ''ndard del Turkmenistan''),
     (''EST'', ''Hora est'' @ [CHR 0xC3, CHR 0xA0] @ ''ndard oriental d'' @ [CHR 0xE2, CHR 0x80, CHR 0x99] @ ''Am'' @ [CHR 0xC3, CHR 0xA8] @ ''rica del Nord''),
     (''ECT'', ''Hora de l'' @ [CHR 0xE2, CHR 0x80, CHR 0x99] @ ''Equador''),
     (''UYT'', ''Hora est'' @ [CHR 0xC3, CHR 0xA0] @ ''ndard de l'' @ [CHR 0xE2, CHR 0x80, CHR 0x99] @ ''Uruguai''),
     (''SRT'', ''Hora de Surinam''),
     (''WIB'', ''Hora de l'' @ [CHR 0xE2, CHR 0x80, CHR 0x99] @ ''oest d'' @ [CHR 0xE2, CHR 0x80, CHR 0x99] @ ''Indon'' @ [CHR 0xC3, CHR 0xA8] @ ''sia''),
     (''JST'', ''Hora est'' @ [CHR 0xC3, CHR 0xA0] @ ''ndard del Jap'' @ [CHR 0xC3, CHR 0xB3]),
     (''ACDT'', ''Hora d'' @ [CHR 0xE2, CHR 0x80, CHR 0x99] @ ''estiu d'' @ [CHR 0xE2, CHR 0x80, CHR 0x99] @ ''Austr'' @ [CHR 0xC3, CHR 0xA0] @ ''lia Central''),
     (''COT'', ''Hora est'' @ [CHR 0xC3, CHR 0xA0] @ ''ndard de Col'' @ [CHR 0xC3, CHR 0xB2] @ ''mbia''),
     (''AEST'', ''Hora est'' @ [CHR 0xC3, CHR 0xA0] @ ''ndard d'' @ [CHR 0xE2, CHR 0x80, CHR 0x99] @ ''Austr'' @ [CHR 0xC3, CHR 0xA0] @ ''lia Oriental''),
     (''EAT'', ''Hora de l'' @ [CHR 0xE2, CHR 0x80, CHR 0x99, CHR 0xC3, CHR 0x80] @ ''frica Oriental''),
     (''COST'', ''Hora d'' @ [CHR 0xE2, CHR 0x80, CHR 0x99] @ ''estiu de Col'' @ [CHR 0xC3, CHR 0xB2] @ ''mbia''),
     (''HNT'', ''Hora est'' @ [CHR 0xC3, CHR 0xA0] @ ''ndard de Terranova''),
     (''BOT'', ''Hora de Bol'' @ [CHR 0xC3, CHR 0xAD] @ ''via''),
     (''HADT'', ''Hora d'' @ [CHR 0xE2, CHR 0x80, CHR 0x99] @ ''estiu de Hawaii-Aleutianes''),
     (''IST'', ''Hora est'' @ [CHR 0xC3, CHR 0xA0] @ ''ndard de l'' @ [CHR 0xE2, CHR 0x80, CHR 0x99, CHR 0xC3, CHR 0x8D] @ ''ndia''),
     (''HENOMX'', ''Hora d'' @ [CHR 0xE2, CHR 0x80, CHR 0x99] @ ''estiu del nord-oest de M'' @ [CHR 0xC3, CHR 0xA8] @ ''xic''),
     (''SGT'', ''Hora de Singapur''),
     (''PST'', ''Hora est'' @ [CHR 0xC3, CHR 0xA0] @ ''ndard del Pac'' @ [CHR 0xC3, CHR 0xAD] @ ''fic''),
     (''WARST'', ''Hora d'' @ [CHR 0xE2, CHR 0x80, CHR 0x99] @ ''estiu de l'' @ [CHR 0xE2, CHR 0x80, CHR 0x99] @ ''oest de l'' @ [CHR 0xE2, CHR 0x80, CHR 0x99] @ ''Argentina''),
     (''WAST'', ''Hora d'' @ [CHR 0xE2, CHR 0x80, CHR 0x99] @ ''estiu de l'' @ [CHR 0xE2, CHR 0x80, CHR 0x99, CHR 0xC3, CHR 0x80] @ ''frica Occidental''),
     (''HEPM'', ''Hora d'' @ [CHR 0xE2, CHR 0x80, CHR 0x99] @ ''estiu de Saint-Pierre i Miquelon''),
     (''WIT'', ''Hora de l'' @ [CHR 0xE2, CHR 0x80, CHR 0x99] @ ''est d'' @ [CHR 0xE2, CHR 0x80, CHR 0x99] @ ''Indon'' @ [CHR 0xC3, CHR 0xA8] @ ''sia''),
     (''AWDT'', ''Hora d'' @ [CHR 0xE2, CHR 0x80, CHR 0x99] @ ''estiu d'' @ [CHR 0xE2, CHR 0x80, CHR 0x99] @ ''Austr'' @ [CHR 0xC3, CHR 0xA0] @ ''lia Occidental''),
     (''PDT'', ''Hora d'' @ [CHR 0xE2, CHR 0x80, CHR 0x99] @ ''estiu del Pac'' @ [CHR 0xC3, CHR 0xAD] @ ''fic''),
     (''WEZ'', ''Hora est'' @ [CHR 0xC3, CHR 0xA0] @ ''ndard de l'' @ [CHR 0xE2, CHR 0x80, CHR 0x99] @ ''Oest d'' @ [CHR 0xE2, CHR 0x80, CHR 0x99] @ ''Europa''),
     (''TMST'', ''Hora d'' @ [CHR 0xE2, CHR 0x80, CHR 0x99] @ ''estiu del Turkmenistan''),
     (''MDT'', ''Hora d'' @ [CHR 0xE2, CHR 0x80, CHR 0x99] @ ''estiu de muntanya d'' @ [CHR 0xE2, CHR 0x80, CHR 0x99] @ ''Am'' @ [CHR 0xC3, CHR 0xA8] @ ''rica del Nord''),
     (''AEDT'', ''Hora d'' @ [CHR 0xE2, CHR 0x80, CHR 0x99] @ ''estiu d'' @ [CHR 0xE2, CHR 0x80, CHR 0x99] @ ''Austr'' @ [CHR 0xC3, CHR 0xA0] @ ''lia Oriental''),
     (''AST'', ''Hora est'' @ [CHR 0xC3, CHR 0xA0] @ ''ndard de l'' @ [CHR 0xE2, CHR 0x80, CHR 0x99] @ ''Atl'' @ [CHR 0xC3, CHR 0xA0] @ ''ntic''),
     (''CLT'', ''Hora est'' @ [CHR 0xC3, CHR 0xA0] @ ''ndard de Xile''),
     (''AKST'', ''Hora est'' @ [CHR 0xC3, CHR 0xA0] @ ''ndard d'' @ [CHR 0xE2, CHR 0x80, CHR 0x99] @ ''Alaska''),
     (''LHST'', ''Hora est'' @ [CHR 0xC3, CHR 0xA0] @ ''ndard de Lord Howe''),
     (''HECU'', ''Hora d'' @ [CHR 0xE2, CHR 0x80, CHR 0x99] @ ''estiu de Cuba''),
     (''ACWST'', ''Hora est'' @ [CHR 0xC3, CHR 0xA0] @ ''ndard d'' @ [CHR 0xE2, CHR 0x80, CHR 0x99] @ ''Austr'' @ [CHR 0xC3, CHR 0xA0] @ ''lia centre-occidental''),
     (''MEZ'', ''Hora est'' @ [CHR 0xC3, CHR 0xA0] @ ''ndard del Centre d'' @ [CHR 0xE2, CHR 0x80, CHR 0x99] @ ''Europa''),
     (''OESZ'', ''Hora d'' @ [CHR 0xE2, CHR 0x80, CHR 0x99] @ ''estiu de l'' @ [CHR 0xE2, CHR 0x80, CHR 0x99] @ ''Est d'' @ [CHR 0xE2, CHR 0x80, CHR 0x99] @ ''Europa''),
     (''WAT'', ''Hora est'' @ [CHR 0xC3, CHR 0xA0] @ ''ndard de l'' @ [CHR 0xE2, CHR 0x80, CHR 0x99, CHR 0xC3, CHR 0x80] @ ''frica Occidental''),
     (''ACST'', ''Hora est'' @ [CHR 0xC3, CHR 0xA0] @ ''ndard d'' @ [CHR 0xE2, CHR 0x80, CHR 0x99] @ ''Austr'' @ [CHR 0xC3, CHR 0xA0] @ ''lia Central''),
     (''UYST'', ''Hora d'' @ [CHR 0xE2, CHR 0x80, CHR 0x99] @ ''estiu de l'' @ [CHR 0xE2, CHR 0x80, CHR 0x99] @ ''Uruguai''),
     (''HEEG'', ''Hora d'' @ [CHR 0xE2, CHR 0x80, CHR 0x99] @ ''estiu de l'' @ [CHR 0xE2, CHR 0x80, CHR 0x99] @ ''Est de Grenl'' @ [CHR 0xC3, CHR 0xA0] @ ''ndia''),
     ([CHR 0xE2, CHR 0x88, CHR 0x85, CHR 0xE2, CHR 0x88, CHR 0x85, CHR 0xE2, CHR 0x88, CHR 0x85], [CHR 0xE2, CHR 0x88, CHR 0x85, CHR 0xE2, CHR 0x88, CHR 0x85, CHR 0xE2, CHR 0x88, CHR 0x85]),
     (''HNCU'', ''Hora est'' @ [CHR 0xC3, CHR 0xA0] @ ''ndard de Cuba''),
     (''ACWDT'', ''Hora d'' @ [CHR 0xE2, CHR 0x80, CHR 0x99] @ ''estiu d'' @ [CHR 0xE2, CHR 0x80, CHR 0x99] @ ''Austr'' @ [CHR 0xC3, CHR 0xA0] @ ''lia centre-occidental''),
     (''NZST'', ''Hora est'' @ [CHR 0xC3, CHR 0xA0] @ ''ndard de Nova Zelanda''),
     (''HNOG'', ''Hora est'' @ [CHR 0xC3, CHR 0xA0] @ ''ndard de l'' @ [CHR 0xE2, CHR 0x80, CHR 0x99] @ ''Oest de Grenl'' @ [CHR 0xC3, CHR 0xA0] @ ''ndia''),
     (''OEZ'', ''Hora est'' @ [CHR 0xC3, CHR 0xA0] @ ''ndard de l'' @ [CHR 0xE2, CHR 0x80, CHR 0x99] @ ''Est d'' @ [CHR 0xE2, CHR 0x80, CHR 0x99] @ ''Europa''),
     (''HAT'', ''Hora d'' @ [CHR 0xE2, CHR 0x80, CHR 0x99] @ ''estiu de Terranova''),
     (''EDT'', ''Hora d'' @ [CHR 0xE2, CHR 0x80, CHR 0x99] @ ''estiu oriental d'' @ [CHR 0xE2, CHR 0x80, CHR 0x99] @ ''Am'' @ [CHR 0xC3, CHR 0xA8] @ ''rica del Nord''),
     (''HNNOMX'', ''Hora est'' @ [CHR 0xC3, CHR 0xA0] @ ''ndard del nord-oest de M'' @ [CHR 0xC3, CHR 0xA8] @ ''xic''),
     (''GMT'', ''Hora del Meridi'' @ [CHR 0xC3, CHR 0xA0] @ '' de Greenwich''),
     (''GYT'', ''Hora de Guyana''),
     (''CAT'', ''Hora de l'' @ [CHR 0xE2, CHR 0x80, CHR 0x99, CHR 0xC3, CHR 0x80] @ ''frica Central''),
     (''NZDT'', ''Hora d'' @ [CHR 0xE2, CHR 0x80, CHR 0x99] @ ''estiu de Nova Zelanda''),
     (''JDT'', ''Hora d'' @ [CHR 0xE2, CHR 0x80, CHR 0x99] @ ''estiu del Jap'' @ [CHR 0xC3, CHR 0xB3]),
     (''WITA'', ''Hora central d'' @ [CHR 0xE2, CHR 0x80, CHR 0x99] @ ''Indon'' @ [CHR 0xC3, CHR 0xA8] @ ''sia''),
     (''AWST'', ''Hora est'' @ [CHR 0xC3, CHR 0xA0] @ ''ndard d'' @ [CHR 0xE2, CHR 0x80, CHR 0x99] @ ''Austr'' @ [CHR 0xC3, CHR 0xA0] @ ''lia Occidental''),
     (''ChST'', ''Hora de Chamorro''),
     (''HNPM'', ''Hora est'' @ [CHR 0xC3, CHR 0xA0] @ ''ndard de Saint-Pierre i Miquelon''),
     (''LHDT'', ''Horari d'' @ [CHR 0xE2, CHR 0x80, CHR 0x99] @ ''estiu de Lord Howe''),
     (''CHAST'', ''Hora est'' @ [CHR 0xC3, CHR 0xA0] @ ''ndard de Chatham''),
     (''CHADT'', ''Hora d'' @ [CHR 0xE2, CHR 0x80, CHR 0x99] @ ''estiu de Chatham''),
     (''ADT'', ''Hora d'' @ [CHR 0xE2, CHR 0x80, CHR 0x99] @ ''estiu de l'' @ [CHR 0xE2, CHR 0x80, CHR 0x99] @ ''Atl'' @ [CHR 0xC3, CHR 0xA0] @ ''ntic''),
     (''GFT'', ''Hora de la Guaiana Francesa'')]"

definition chr_currencies :: "string list" where
  "chr_currencies =
    [''ADP'', ''AED'', ''AFA'', ''AFN'', ''ALK'', ''ALL'', ''AMD'', ''ANG'', ''AOA'', ''AOK'',
     ''AON'', ''AOR'', ''ARA'', ''ARL'', ''ARM'', ''ARP'', ''ARS'', ''ATS'', ''A$'', ''AWG'',
     ''AZM'', ''AZN'', ''BAD'', ''BAM'', ''BAN'', ''BBD'', ''BDT'', ''BEC'', ''BEF'', ''BEL'',
     ''BGL'', ''BGM'', ''BGN'', ''BGO'', ''BHD'', ''BIF'', ''BMD'', ''BND'', ''BOB'', ''BOL'',
     ''BOP'', ''BOV'', ''BRB'', ''BRC'', ''BRE'', ''R$'', ''BRN'', ''BRR'', ''BRZ'', ''BSD'',
     ''BTN'', ''BUK'', ''BWP'', ''BYB'', ''BYN'', ''BYR'', ''BZD'', ''CA$'', ''CDF'', ''CHE'',
     ''CHF'', ''CHW'', ''CLE'', ''CLF'', ''CLP'', ''CNX'', ''CN'' @ [CHR 0xC2, CHR 0xA5],
     ''COP'', ''COU'', ''CRC'', ''CSD'', ''CSK'', ''CUC'', ''CUP'', ''CVE'', ''CYP'', ''CZK'',
     ''DDM'', ''DEM'', ''DJF'', ''DKK'', ''DOP'', ''DZD'', ''ECS'', ''ECV'', ''EEK'', ''EGP'',
     ''ERN'', ''ESA'', ''ESB'', ''ESP'', ''ETB'', [CHR 0xE2, CHR 0x82, CHR 0xAC], ''FIM'',
     ''FJD'', ''FKP'', ''FRF'', [CHR 0xC2, CHR 0xA3], ''GEK'', ''GEL'', ''GHC'', ''GHS'',
     ''GIP'', ''GMD'', ''GNF'', ''GNS'', ''GQE'', ''GRD'', ''GTQ'', ''GWE'', ''GWP'', ''GYD'',
     ''HK$'', ''HNL'', ''HRD'', ''HRK'', ''HTG'', ''HUF'', ''IDR'', ''IEP'', ''ILP'', ''ILR'',
     [CHR 0xE2, CHR 0x82, CHR 0xAA], [CHR 0xE2, CHR 0x82, CHR 0xB9], ''IQD'', ''IRR'', ''ISJ'',
     ''ISK'', ''ITL'', ''JMD'', ''JOD'', ''JP'' @ [CHR 0xC2, CHR 0xA5], ''KES'', ''KGS'',
     ''KHR'', ''KMF'', ''KPW'', ''KRH'', ''KRO'', [CHR 0xE2, CHR 0x82, CHR 0xA9], ''KWD'',
     ''KYD'', ''KZT'', ''LAK'', ''LBP'', ''LKR'', ''LRD'', ''LSL'', ''LTL'', ''LTT'', ''LUC'',
     ''LUF'', ''LUL'', ''LVL'', ''LVR'', ''LYD'', ''MAD'', ''MAF'', ''MCF'', ''MDC'', ''MDL'',
     ''MGA'', ''MGF'', ''MKD'', ''MKN'', ''MLF'', ''MMK'', ''MNT'', ''MOP'', ''MRO'', ''MTL'',
     ''MTP'', ''MUR'', ''MVP'', ''MVR'', ''MWK'', ''MX$'', ''MXP'', ''MXV'', ''MYR'', ''MZE'',
     ''MZM'', ''MZN'', ''NAD'', ''NGN'', ''NIC'', ''NIO'', ''NLG'', ''NOK'', ''NPR'', ''NZ$'',
     ''OMR'', ''PAB'', ''PEI'', ''PEN'', ''PES'', ''PGK'', ''PHP'', ''PKR'', ''PLN'', ''PLZ'',
     ''PTE'', ''PYG'', ''QAR'', ''RHD'', ''ROL'', ''RON'', ''RSD'', ''RUB'', ''RUR'', ''RWF'',
     ''SAR'', ''SBD'', ''SCR'', ''SDD'', ''SDG'', ''SDP'', ''SEK'', ''SGD'', ''SHP'', ''SIT'',
     ''SKK'', ''SLL'', ''SOS'', ''SRD'', ''SRG'', ''SSP'', ''STD'', ''SUR'', ''SVC'', ''SYP'',
     ''SZL'', ''THB'', ''TJR'', ''TJS'', ''TMM'', ''TMT'', ''TND'', ''TOP'', ''TPE'', ''TRL'',
     ''TRY'', ''TTD'', ''NT$'', ''TZS'', ''UAH'', ''UAK'', ''UGS'', ''UGX'', ''$'', ''USN'',
     ''USS'', ''UYI'', ''UYP'', ''UYU'', ''UZS'', ''VEB'', ''VEF'',
     [CHR 0xE2, CHR 0x82, CHR 0xAB], ''VNN'', ''VUV'', ''WST'', ''FCFA'', ''XAG'', ''XAU'',
     ''XBA'', ''XBB'', ''XBC'', ''XBD'', ''EC$'', ''XDR'', ''XEU'', ''XFO'', ''XFU'', ''CFA'',
     ''XPD'', ''CFPF'', ''XPT'', ''XRE'', ''XSU'', ''XTS'', ''XUA'', ''XXX'', ''YDD'', ''YER'',
     ''YUD'', ''YUM'', ''YUN'', ''YUR'', ''ZAL'', ''ZAR'', ''ZMK'', ''ZMW'', ''ZRN'', ''ZRZ'',
     ''ZWD'', ''ZWL'', ''ZWR'']"

definition chr_timezones :: "(string \<times> string) list" where
  "chr_timezones =
    [(''AWDT'', [CHR 0xE1, CHR 0x8E, CHR 0xA1, CHR 0xE1, CHR 0x8E, CHR 0xB3, CHR 0xE1, CHR 0x8F, CHR 0x97, CHR 0xE1, CHR 0x8F, CHR 0x9C] @ '' '' @ [CHR 0xE1, CHR 0x8F, CHR 0xAD, CHR 0xE1, CHR 0x8F, CHR 0x95, CHR 0xE1, CHR 0x8E, CHR 0xB5, CHR 0xE1, CHR 0x8E, CHR 0xAC] @ '' '' @ [CHR 0xE1, CHR 0x8F, CHR 0x97, CHR 0xE1, CHR 0x8F, CHR 0x9C] @ '' '' @ [CHR 0xE1, CHR 0x8E, CHR 0xAA, CHR 0xE1, CHR 0x8E, CHR 0xAF] @ '' '' @ [CHR 0xE1, CHR 0x8E, CHR 0xA2, CHR 0xE1, CHR 0x8E, CHR 0xA6] @ '' '' @ [CHR 0xE1, CHR 0x8E, CHR 0xA0, CHR 0xE1, CHR 0x8F, CHR 0x9F, CHR 0xE1, CHR 0x8E, CHR 0xA2, CHR 0xE1, CHR 0x8E, CHR 0xB5, CHR 0xE1, CHR 0x8F, CHR 0x92, CHR 0xE1, CHR 0x8E, CHR 0xA9]),
     (''CHADT'', [CHR 0xE1, CHR 0x8F, CHR 0xA3, CHR 0xE1, CHR 0x8F, CHR 0x9D, CHR 0xE1, CHR 0x8E, CHR 0xBB] @ '' '' @ [CHR 0xE1, CHR 0x8E, CHR 0xAA, CHR 0xE1, CHR 0x8E, CHR 0xAF] @ '' '' @ [CHR 0xE1, CHR 0x8E, CHR 0xA2, CHR 0xE1, CHR 0x8E, CHR 0xA6] @ '' '' @ [CHR 0xE1, CHR 0x8E, CHR 0xA0, CHR 0xE1, CHR 0x8F, CHR 0x9F, CHR 0xE1, CHR 0x8E, CHR 0xA2, CHR 0xE1, CHR 0x8E, CHR 0xB5, CHR 0xE1, CHR 0x8F, CHR 0x92, CHR 0xE1, CHR 0x8E, CHR 0xA9]),
     (''WEZ'', [CHR 0xE1, CHR 0x8F, CHR 0xAD, CHR 0xE1, CHR 0x8F, CHR 0x95, CHR 0xE1, CHR 0x8E, CHR 0xB5, CHR 0xE1, CHR 0x8E, CHR 0xAC] @ '' '' @ [CHR 0xE1, CHR 0x8F, CHR 0x97, CHR 0xE1, CHR 0x8F, CHR 0x9C] @ '' '' @ [CHR 0xE1, CHR 0x8F, CHR 0xB3, CHR 0xE1, CHR 0x8E, CHR 0xB3, CHR 0xE1, CHR 0x8F, CHR 0x88] @ '' '' @ [CHR 0xE1, CHR 0x8E, CHR 0xA0, CHR 0xE1, CHR 0x8F, CHR 0x9F, CHR 0xE1, CHR 0x8E, CHR 0xB6, CHR 0xE1, CHR 0x8F, CHR 0x8D, CHR 0xE1, CHR 0x8F, CHR 0x97] @ '' '' @ [CHR 0xE1, CHR 0x8E, CHR 0xA0, CHR 0xE1, CHR 0x8F, CHR 0x9F, CHR 0xE1, CHR 0x8E, CHR 0xA2, CHR 0xE1, CHR 0x8E, CHR 0xB5, CHR 0xE1, CHR 0x8F, CHR 0x92]),
     (''HNT'', [CHR 0xE1, CHR 0x8E, CHR 0xA2, CHR 0xE1, CHR 0x8F, CHR 0xA4, CHR 0xE1, CHR 0x8E, CHR 0xA4, CHR 0xE1, CHR 0x8F, CHR 0x82, CHR 0xE1, CHR 0x8F, CHR 0xA9, CHR 0xE1, CHR 0x8F, CHR 0x9B, CHR 0xE1, CHR 0x8F, CHR 0x93, CHR 0xE1, CHR 0x8E, CHR 0xA6, CHR 0xE1, CHR 0x8F, CHR 0x99, CHR 0xE1, CHR 0x8E, CHR 0xAF] @ '' '' @ [CHR 0xE1, CHR 0x8E, CHR 0xA0, CHR 0xE1, CHR 0x8F, CHR 0x9F, CHR 0xE1, CHR 0x8E, CHR 0xB6, CHR 0xE1, CHR 0x8F, CHR 0x8D, CHR 0xE1, CHR 0x8F, CHR 0x97] @ '' '' @ [CHR 0xE1, CHR 0x8E, CHR 0xA0, CHR 0xE1, CHR 0x8F, CHR 0x9F, CHR 0xE1, CHR 0x8E, CHR 0xA2, CHR 0xE1, CHR 0x8E, CHR 0xB5, CHR 0xE1, CHR 0x8F, CHR 0x92]),
     (''HADT'', [CHR 0xE1, CHR 0x8E, CHR 0xAD, CHR 0xE1, CHR 0x8F, CHR 0xA9, CHR 0xE1, CHR 0x8F, CHR 0xB1] @ ''-'' @ [CHR 0xE1, CHR 0x8E, CHR 0xA0, CHR 0xE1, CHR 0x8E, CHR 0xB5, CHR 0xE1, CHR 0x8F, CHR 0xB3, CHR 0xE1, CHR 0x8F, CHR 0x8F, CHR 0xE1, CHR 0x8E, CHR 0xA0, CHR 0xE1, CHR 0x8F, CHR 0x82] @ '' '' @ [CHR 0xE1, CHR 0x8E, CHR 0xAA, CHR 0xE1, CHR 0x8E, CHR 0xAF] @ '' '' @ [CHR 0xE1, CHR 0x8E, CHR 0xA2, CHR 0xE1, CHR 0x8E, CHR 0xA6] @ '' '' @ [CHR 0xE1, CHR 0x8E, CHR 0xA0, CHR 0xE1, CHR 0x8F, CHR 0x9F, CHR 0xE1, CHR 0x8E, CHR 0xA2, CHR 0xE1, CHR 0x8E, CHR 0xB5, CHR 0xE1, CHR 0x8F, CHR 0x8D, CHR 0xE1, CHR 0x8F, CHR 0x92, CHR 0xE1, CHR 0x8E, CHR 0xA9]),
     (''MESZ'', [CHR 0xE1, CHR 0x8E, CHR 0xA0, CHR 0xE1, CHR 0x8F, CHR 0xB0, CHR 0xE1, CHR 0x8F, CHR 0x9F] @ '' '' @ [CHR 0xE1, CHR 0x8F, CHR 0xB3, CHR 0xE1, CHR 0x8E, CHR 0xB3, CHR 0xE1, CHR 0x8F, CHR 0x88] @ '' '' @ [CHR 0xE1, CHR 0x8E, CHR 0xAA, CHR 0xE1, CHR 0x8E, CHR 0xA9] @ '' '' @ [CHR 0xE1, CHR 0x8E, CHR 0xA0, CHR 0xE1, CHR 0x8F, CHR 0x9F, CHR 0xE1, CHR 0x8E, CHR 0xA2, CHR 0xE1, CHR 0x8E, CHR 0xB5, CHR 0xE1, CHR 0x8F, CHR 0x92]),
     (''OEZ'', [CHR 0xE1, CHR 0x8F, CHR 0x97, CHR 0xE1, CHR 0x8E, CHR 0xA7, CHR 0xE1, CHR 0x8E, CHR 0xB8, CHR 0xE1, CHR 0x8E, CHR 0xAC] @ '' '' @ [CHR 0xE1, CHR 0x8F, CHR 0x97, CHR 0xE1, CHR 0x8F, CHR 0x9C] @ '' '' @ [CHR 0xE1, CHR 0x8F, CHR 0xB3, CHR 0xE1, CHR 0x8E, CHR 0xB3, CHR 0xE1, CHR 0x8F, CHR 0x88] @ '' '' @ [CHR 0xE1, CHR 0x8E, CHR 0xA0, CHR 0xE1, CHR 0x8F, CHR 0x9F, CHR 0xE1, CHR 0x8E, CHR 0xB6, CHR 0xE1, CHR 0x8F, CHR 0x8D, CHR 0xE1, CHR 0x8F, CHR 0x97] @ '' '' @ [CHR 0xE1, CHR 0x8E, CHR 0xA0, CHR 0xE1, CHR 0x8F, CHR 0x9F, CHR 0xE1, CHR 0x8E, CHR 0xA2, CHR 0xE1, CHR 0x8E, CHR 0xB5, CHR 0xE1, CHR 0x8F, CHR 0x92]),
     (''TMT'', [CHR 0xE1, CHR 0x8F, CHR 0x9B, CHR 0xE1, CHR 0x8E, CHR 0xB5, CHR 0xE1, CHR 0x8E, CHR 0xA9, CHR 0xE1, CHR 0x8E, CHR 0xBA, CHR 0xE1, CHR 0x8F, CHR 0x82, CHR 0xE1, CHR 0x8F, CHR 0x8D, CHR 0xE1, CHR 0x8F, CHR 0x94, CHR 0xE1, CHR 0x8F, CHR 0x82] @ '' '' @ [CHR 0xE1, CHR 0x8E, CHR 0xA0, CHR 0xE1, CHR 0x8F, CHR 0x9F, CHR 0xE1, CHR 0x8E, CHR 0xB6, CHR 0xE1, CHR 0x8F, CHR 0x8D, CHR 0xE1, CHR 0x8F, CHR 0x97] @ '' '' @ [CHR 0xE1, CHR 0x8E, CHR 0xA0, CHR 0xE1, CHR 0x8F, CHR 0x9F, CHR 0xE1, CHR 0x8E, CHR 0xA2, CHR 0xE1, CHR 0x8E, CHR 0xB5, CHR 0xE1, CHR 0x8F, CHR 0x92]),
     (''EDT'', [CHR 0xE1, CHR 0x8F, CHR 0x97, CHR 0xE1, CHR 0x8E, CHR 0xA7, CHR 0xE1, CHR 0x8E, CHR 0xB8, CHR 0xE1, CHR 0x8E, CHR 0xAC] @ '' '' @ [CHR 0xE1, CHR 0x8F, CHR 0x97, CHR 0xE1, CHR 0x8F, CHR 0x9C] @ '' '' @ [CHR 0xE1, CHR 0x8E, CHR 0xAA, CHR 0xE1, CHR 0x8E, CHR 0xAF] @ '' '' @ [CHR 0xE1, CHR 0x8E, CHR 0xA2, CHR 0xE1, CHR 0x8E, CHR 0xA6] @ '' '' @ [CHR 0xE1, CHR 0x8E, CHR 0xA0, CHR 0xE1, CHR 0x8F, CHR 0x9F, CHR 0xE1, CHR 0x8E, CHR 0xA2, CHR 0xE1, CHR 0x8E, CHR 0xB5, CHR 0xE1, CHR 0x8F, CHR 0x8D, CHR 0xE1, CHR 0x8F, CHR 0x92, CHR 0xE1, CHR 0x8E, CHR 0xA9]),
     (''HNCU'', [CHR 0xE1, CHR 0x8E, CHR 0xAB, CHR 0xE1, CHR 0x8F, CHR 0x86] @ '' '' @ [CHR 0xE1, CHR 0x8E, CHR 0xA0, CHR 0xE1, CHR 0x8F, CHR 0x9F, CHR 0xE1, CHR 0x8E, CHR 0xB6, CHR 0xE1, CHR 0x8F, CHR 0x8D, CHR 0xE1, CHR 0x8F, CHR 0x97] @ '' '' @ [CHR 0xE1, CHR 0x8E, CHR 0xA0, CHR 0xE1, CHR 0x8F, CHR 0x9F, CHR 0xE1, CHR 0x8E, CHR 0xA2, CHR 0xE1, CHR 0x8E, CHR 0xB5, CHR 0xE1, CHR 0x8F, CHR 0x92]),
     (''NZDT'', [CHR 0xE1, CHR 0x8E, CHR 0xA2, CHR 0xE1, CHR 0x8F, CHR 0xA4] @ '' '' @ [CHR 0xE1, CHR 0x8F, CHR 0x8F, CHR 0xE1, CHR 0x8E, CHR 0xA2, CHR 0xE1, CHR 0x8E, CHR 0xB4, CHR 0xE1, CHR 0x8F, CHR 0x82, CHR 0xE1, CHR 0x8F, CHR 0x97] @ '' '' @ [CHR 0xE1, CHR 0x8E, CHR 0xAA, CHR 0xE1, CHR 0x8E, CHR 0xAF] @ '' '' @ [CHR 0xE1, CHR 0x8E, CHR 0xA2, CHR 0xE1, CHR 0x8E, CHR 0xA6] @ '' '' @ [CHR 0xE1, CHR 0x8E, CHR 0xA0, CHR 0xE1, CHR 0x8F, CHR 0x9F, CHR 0xE1, CHR 0x8E, CHR 0xA2, CHR 0xE1, CHR 0x8E, CHR 0xB5, CHR 0xE1, CHR 0x8F, CHR 0x92, CHR 0xE1, CHR 0x8E, CHR 0xA9]),
     (''HEOG'', [CHR 0xE1, CHR 0x8F, CHR 0xAD, CHR 0xE1, CHR 0x8F, CHR 0x95, CHR 0xE1, CHR 0x8E, CHR 0xB5, CHR 0xE1, CHR 0x8E, CHR 0xAC] @ '' '' @ [CHR 0xE1, CHR 0x8E, CHR 0xA2, CHR 0xE1, CHR 0x8F, CHR 0xA4, CHR 0xE1, CHR 0x8F, CHR 0x8D, CHR 0xE1, CHR 0x8F, CHR 0x9B, CHR 0xE1, CHR 0x8F, CHR 0xB1] @ '' '' @ [CHR 0xE1, CHR 0x8E, CHR 0xAA, CHR 0xE1, CHR 0x8E, CHR 0xA9] @ '' '' @ [CHR 0xE1, CHR 0x8E, CHR 0xA0, CHR 0xE1, CHR 0x8F, CHR 0x9F, CHR 0xE1, CHR 0x8E, CHR 0xA2, CHR 0xE1, CHR 0x8E, CHR 0xB5, CHR 0xE1, CHR 0x8F, CHR 0x92]),
     (''ACST'', [CHR 0xE1, CHR 0x8E, CHR 0xA0, CHR 0xE1, CHR 0x8F, CHR 0xB0, CHR 0xE1, CHR 0x8F, CHR 0x9F] @ '' '' @ [CHR 0xE1, CHR 0x8E, CHR 0xA1, CHR 0xE1, CHR 0x8E, CHR 0xB3, CHR 0xE1, CHR 0x8F, CHR 0x97, CHR 0xE1, CHR 0x8F, CHR 0x9C] @ '' '' @ [CHR 0xE1, CHR 0x8E, CHR 0xA0, CHR 0xE1, CHR 0x8F, CHR 0x9F, CHR 0xE1, CHR 0x8E, CHR 0xB6, CHR 0xE1, CHR 0x8F, CHR 0x8D, CHR 0xE1, CHR 0x8F, CHR 0x97] @ '' '' @ [CHR 0xE1, CHR 0x8E, CHR 0xA0, CHR 0xE1, CHR 0x8F, CHR 0x9F, CHR 0xE1, CHR 0x8E, CHR 0xA2, CHR 0xE1, CHR 0x8E, CHR 0xB5, CHR 0xE1, CHR 0x8F, CHR 0x92]),
     (''WITA'', [CHR 0xE1, CHR 0x8E, CHR 0xA0, CHR 0xE1, CHR 0x8F, CHR 0xB0, CHR 0xE1, CHR 0x8F, CHR 0x9F] @ '' '' @ [CHR 0xE1, CHR 0x8E, CHR 0xA2, CHR 0xE1, CHR 0x8F, CHR 0x82, CHR 0xE1, CHR 0x8F, CHR 0x99, CHR 0xE1, CHR 0x8F, CHR 0x82, CHR 0xE1, CHR 0x8F, CHR 0x8D, CHR 0xE1, CHR 0x8F, CHR 0xAF] @ '' '' @ [CHR 0xE1, CHR 0x8E, CHR 0xA0, CHR 0xE1, CHR 0x8F, CHR 0x9F, CHR 0xE1, CHR 0x8E, CHR 0xA2, CHR 0xE1, CHR 0x8E, CHR 0xB5, CHR 0xE1, CHR 0x8F, CHR 0x92]),
     (''PDT'', [CHR 0xE1, CHR 0x8F, CHR 0xAD, CHR 0xE1, CHR 0x8F, CHR 0x95, CHR 0xE1, CHR 0x8E, CHR 0xB5, CHR 0xE1, CHR 0x8E, CHR 0xAC] @ '' '' @ [CHR 0xE1, CHR 0x8E, CHR 0xAA, CHR 0xE1, CHR 0x8E, CHR 0xAF] @ '' '' @ [CHR 0xE1, CHR 0x8E, CHR 0xA2, CHR 0xE1, CHR 0x8E, CHR 0xA6] @ '' '' @ [CHR 0xE1, CHR 0x8E, CHR 0xA0, CHR 0xE1, CHR 0x8F, CHR 0x9F, CHR 0xE1, CHR 0x8E, CHR 0xA2, CHR 0xE1, CHR 0x8E, CHR 0xB5, CHR 0xE1, CHR 0x8F, CHR 0x8D, CHR 0xE1, CHR 0x8F, CHR 0x92, CHR 0xE1, CHR 0x8E, CHR 0xA9]),
     (''HNEG'', [CHR 0xE1, CHR 0x8F, CHR 0x97, CHR 0xE1, CHR 0x8E, CHR 0xA7, CHR 0xE1, CHR 0x8E, CHR 0xB8, CHR 0xE1, CHR 0x8E, CHR 0xAC] @ '' '' @ [CHR 0xE1, CHR 0x8E, CHR 0xA2, CHR 0xE1, CHR 0x8F, CHR 0xA4, CHR 0xE1, CHR 0x8F, CHR 0x8D, CHR 0xE1, CHR 0x8F, CHR 0x9B, CHR 0xE1, CHR 0x8F, CHR 0xB1] @ '' '' @ [CHR 0xE1, CHR 0x8E, CHR 0xA0, CHR 0xE1, CHR 0x8F, CHR 0x9F, CHR 0xE1, CHR 0x8E, CHR 0xB6, CHR 0xE1, CHR 0x8F, CHR 0x8D, CHR 0xE1, CHR 0x8F, CHR 0x97] @ '' '' @ [CHR 0xE1, CHR 0x8E, CHR 0xA0, CHR 0xE1, CHR 0x8E, CHR 0xB5, CHR 0xE1, CHR 0x8E, CHR 0xA2, CHR 0xE1, CHR 0x8E, CHR 0xB5, CHR 0xE1, CHR 0x8F, CHR 0x92]),
     (''UYST'', [CHR 0xE1, CHR 0x8F, CHR 0xB3, CHR 0xE1, CHR 0x8E, CHR 0xB7, CHR 0xE1, CHR 0x8F, CHR 0x87] @ '' '' @ [CHR 0xE1, CHR 0x8E, CHR 0xAA, CHR 0xE1, CHR 0x8E, CHR 0xA9] @ '' '' @ [CHR 0xE1, CHR 0x8E, CHR 0xA0, CHR 0xE1, CHR 0x8F, CHR 0x9F, CHR 0xE1, CHR 0x8E, CHR 0xA2, CHR 0xE1, CHR 0x8E, CHR 0xB5, CHR 0xE1, CHR 0x8F, CHR 0x92]),
     (''LHST'', [CHR 0xE1, CHR 0x8E, CHR 0xA4, CHR 0xE1, CHR 0x8E, CHR 0xAC, CHR 0xE1, CHR 0x8F, CHR 0xAB, CHR 0xE1, CHR 0x8F, CHR 0xB3, CHR 0xE1, CHR 0x8E, CHR 0xAF] @ '' '' @ [CHR 0xE1, CHR 0x8E, CHR 0xAD, CHR 0xE1, CHR 0x8F, CHR 0xAB] @ '' '' @ [CHR 0xE1, CHR 0x8E, CHR 0xA0, CHR 0xE1, CHR 0x8F, CHR 0x9F, CHR 0xE1, CHR 0x8E, CHR 0xB6, CHR 0xE1, CHR 0x8F, CHR 0x8D, CHR 0xE1, CHR 0x8F, CHR 0x97] @ '' '' @ [CHR 0xE1, CHR 0x8E, CHR 0xA0, CHR 0xE1, CHR 0x8F, CHR 0x9F, CHR 0xE1, CHR 0x8E, CHR 0xA2, CHR 0xE1, CHR 0x8E, CHR 0xB5, CHR 0xE1, CHR 0x8F, CHR 0x92]),
     (''LHDT'', [CHR 0xE1, CHR 0x8E, CHR 0xA4, CHR 0xE1, CHR 0x8E, CHR 0xAC, CHR 0xE1, CHR 0x8F, CHR 0xAB, CHR 0xE1, CHR 0x8F, CHR 0xB3, CHR 0xE1, CHR 0x8E, CHR 0xAF] @ '' '' @ [CHR 0xE1, CHR 0x8E, CHR 0xAD, CHR 0xE1, CHR 0x8F, CHR 0xAB] @ '' '' @ [CHR 0xE1, CHR 0x8E, CHR 0xAA, CHR 0xE1, CHR 0x8E, CHR 0xAF] @ '' '' @ [CHR 0xE1, CHR 0x8E, CHR 0xA2, CHR 0xE1, CHR 0x8E, CHR 0xA6] @ '' '' @ [CHR 0xE1, CHR 0x8E, CHR 0xA0, CHR 0xE1, CHR 0x8F, CHR 0x9F, CHR 0xE1, CHR 0x8E, CHR 0xA2, CHR 0xE1, CHR 0x8E, CHR 0xB5, CHR 0xE1, CHR 0x8F, CHR 0x92, CHR 0xE1, CHR 0x8E, CHR 0xA9]),
     (''SAST'', [CHR 0xE1, CHR 0x8F, CHR 0xA7, CHR 0xE1, CHR 0x8E, CHR 0xA6, CHR 0xE1, CHR 0x8E, CHR 0xBE, CHR 0xE1, CHR 0x8F, CHR 0xAE] @ '' '' @ [CHR 0xE1, CHR 0x8E, CHR 0xAC, CHR 0xE1, CHR 0x8E, CHR 0xBF, CHR 0xE1, CHR 0x8E, CHR 0xA8, CHR 0xE1, CHR 0x8F, CHR 0x8D, CHR 0xE1, CHR 0x8F, CHR 0x9B] @ '' '' @ [CHR 0xE1, CHR 0x8E, CHR 0xA0, CHR 0xE1, CHR 0x8F, CHR 0x9F, CHR 0xE1, CHR 0x8E, CHR 0xB6, CHR 0xE1, CHR 0x8F, CHR 0x8D, CHR 0xE1, CHR 0x8F, CHR 0x97] @ '' '' @ [CHR 0xE1, CHR 0x8E, CHR 0xA0, CHR 0xE1, CHR 0x8F, CHR 0x9F, CHR 0xE1, CHR 0x8E, CHR 0xA2, CHR 0xE1, CHR 0x8E, CHR 0xB5, CHR 0xE1, CHR 0x8F, CHR 0x92]),
     (''GYT'', [CHR 0xE1, CHR 0x8E, CHR 0xA6, CHR 0xE1, CHR 0x8F, CHR 0xAF, CHR 0xE1, CHR 0x8E, CHR 0xBE] @ '' '' @ [CHR 0xE1, CHR 0x8E, CHR 0xA0, CHR 0xE1, CHR 0x8F, CHR 0x9F, CHR 0xE1, CHR 0x8E, CHR 0xA2, CHR 0xE1, CHR 0x8E, CHR 0xB5, CHR 0xE1, CHR 0x8F, CHR 0x92]),
     (''CST'', [CHR 0xE1, CHR 0x8E, CHR 0xA0, CHR 0xE1, CHR 0x8F, CHR 0xB0, CHR 0xE1, CHR 0x8F, CHR 0x9F] @ '' '' @ [CHR 0xE1, CHR 0x8E, CHR 0xA0, CHR 0xE1, CHR 0x8F, CHR 0x9F, CHR 0xE1, CHR 0x8E, CHR 0xB6, CHR 0xE1, CHR 0x8F, CHR 0x8D, CHR 0xE1, CHR 0x8F, CHR 0x97] @ '' '' @ [CHR 0xE1, CHR 0x8E, CHR 0xA0, CHR 0xE1, CHR 0x8F, CHR 0x9F, CHR 0xE1, CHR 0x8E, CHR 0xA2, CHR 0xE1, CHR 0x8E, CHR 0xB5, CHR 0xE1, CHR 0x8F, CHR 0x92]),
     (''JDT'', [CHR 0xE1, CHR 0x8F, CHR 0xA3, CHR 0xE1, CHR 0x8F, CHR 0xA9, CHR 0xE1, CHR 0x8F, CHR 0x82, CHR 0xE1, CHR 0x8F, CHR 0x8F] @ '' '' @ [CHR 0xE1, CHR 0x8E, CHR 0xAA, CHR 0xE1, CHR 0x8E, CHR 0xAF] @ '' '' @ [CHR 0xE1, CHR 0x8E, CHR 0xA2, CHR 0xE1, CHR 0x8E, CHR 0xA6] @ '' '' @ [CHR 0xE1, CHR 0x8E, CHR 0xA0, CHR 0xE1, CHR 0x8F, CHR 0x9F, CHR 0xE1, CHR 0x8E, CHR 0xA2, CHR 0xE1, CHR 0x8E, CHR 0xB5, CHR 0xE1, CHR 0x8F, CHR 0x92, CHR 0xE1, CHR 0x8E, CHR 0xA9]),
     (''WARST'', [CHR 0xE1, CHR 0x8F, CHR 0xAD, CHR 0xE1, CHR 0x8F, CHR 0x95, CHR 0xE1, CHR 0x8E, CHR 0xB5, CHR 0xE1, CHR 0x8E, CHR 0xAC] @ '' '' @ [CHR 0xE1, CHR 0x8F, CHR 0x97, CHR 0xE1, CHR 0x8F, CHR 0x9C] @ '' '' @ [CHR 0xE1, CHR 0x8E, CHR 0xA0, CHR 0xE1, CHR 0x8F, CHR 0xA5, CHR 0xE1, CHR 0x8F, CHR 0x82, CHR 0xE1, CHR 0x8F, CHR 0x98, CHR 0xE1, CHR 0x8F, CHR 0x82, CHR 0xE1, CHR 0x8E, CHR 0xA0] @ '' '' @ [CHR 0xE1, CHR 0x8E, CHR 0xAA, CHR 0xE1, CHR 0x8E, CHR 0xA9] @ '' '' @ [CHR 0xE1, CHR 0x8E, CHR 0xA0, CHR 0xE1, CHR 0x8F, CHR 0x9F, CHR 0xE1, CHR 0x8E, CHR 0xB6, CHR 0xE1, CHR 0x8F, CHR 0x8D, CHR 0xE1, CHR 0x8F, CHR 0x97] @ '' '' @ [CHR 0xE1, CHR 0x8E, CHR 0xA0, CHR 0xE1, CHR 0x8F, CHR 0x9F, CHR 0xE1, CHR 0x8E, CHR 0xA2, CHR 0xE1, CHR 0x8E, CHR 0xB5, CHR 0xE1, CHR 0x8F, CHR 0x92]),
     (''HECU'', [CHR 0xE1, CHR 0x8E, CHR 0xAB, CHR 0xE1, CHR 0x8F, CHR 0x86] @ '' '' @ [CHR 0xE1, CHR 0x8E, CHR 0xAA, CHR 0xE1, CHR 0x8E, CHR 0xAF] @ '' '' @ [CHR 0xE1, CHR 0x8E, CHR 0xA2, CHR 0xE1, CHR 0x8E, CHR 0xA6] @ '' '' @ [CHR 0xE1, CHR 0x8E, CHR 0xA0, CHR 0xE1, CHR 0x8F, CHR 0x9F, CHR 0xE1, CHR 0x8E, CHR 0xA2, CHR 0xE1, CHR 0x8E, CHR 0xB5, CHR 0xE1, CHR 0x8F, CHR 0x8D, CHR 0xE1, CHR 0x8F, CHR 0x92, CHR 0xE1, CHR 0x8E, CHR 0xA9]),
     (''EAT'', [CHR 0xE1, CHR 0x8F, CHR 0x97, CHR 0xE1, CHR 0x8E, CHR 0xA7, CHR 0xE1, CHR 0x8E, CHR 0xB8, CHR 0xE1, CHR 0x8E, CHR 0xAC] @ '' '' @ [CHR 0xE1, CHR 0x8E, CHR 0xAC, CHR 0xE1, CHR 0x8E, CHR 0xBF, CHR 0xE1, CHR 0x8E, CHR 0xA8, CHR 0xE1, CHR 0x8F, CHR 0x8D, CHR 0xE1, CHR 0x8F, CHR 0x9B] @ '' '' @ [CHR 0xE1, CHR 0x8E, CHR 0xA0, CHR 0xE1, CHR 0x8F, CHR 0x9F, CHR 0xE1, CHR 0x8E, CHR 0xA2, CHR 0xE1, CHR 0x8E, CHR 0xB5, CHR 0xE1, CHR 0x8F, CHR 0x92]),
     (''HEEG'', [CHR 0xE1, CHR 0x8F, CHR 0x97, CHR 0xE1, CHR 0x8E, CHR 0xA7, CHR 0xE1, CHR 0x8E, CHR 0xB8, CHR 0xE1, CHR 0x8E, CHR 0xAC] @ '' '' @ [CHR 0xE1, CHR 0x8E, CHR 0xA2, CHR 0xE1, CHR 0x8F, CHR 0xA4, CHR 0xE1, CHR 0x8F, CHR 0x8D, CHR 0xE1, CHR 0x8F, CHR 0x9B, CHR 0xE1, CHR 0x8F, CHR 0xB1] @ '' '' @ [CHR 0xE1, CHR 0x8E, CHR 0xAA, CHR 0xE1, CHR 0x8E, CHR 0xA9] @ '' '' @ [CHR 0xE1, CHR 0x8E, CHR 0xA0, CHR 0xE1, CHR 0x8F, CHR 0x9F, CHR 0xE1, CHR 0x8E, CHR 0xA2, CHR 0xE1, CHR 0x8E, CHR 0xB5, CHR 0xE1, CHR 0x8F, CHR 0x92]),
     (''BT'', [CHR 0xE1, CHR 0x8F, CHR 0x8A, CHR 0xE1, CHR 0x8F, CHR 0x94, CHR 0xE1, CHR 0x8F, CHR 0x82] @ '' '' @ [CHR 0xE1, CHR 0x8E, CHR 0xA0, CHR 0xE1, CHR 0x8F, CHR 0x9F, CHR 0xE1, CHR 0x8E, CHR 0xA2, CHR 0xE1, CHR 0x8E, CHR 0xB5, CHR 0xE1, CHR 0x8F, CHR 0x92]),
     (''ACDT'', [CHR 0xE1, CHR 0x8E, CHR 0xA0, CHR 0xE1, CHR 0x8F, CHR 0xB0, CHR 0xE1, CHR 0x8F, CHR 0x9F] @ '' '' @ [CHR 0xE1, CHR 0x8E, CHR 0xA1, CHR 0xE1, CHR 0x8E, CHR 0xB3, CHR 0xE1, CHR 0x8F, CHR 0x97, CHR 0xE1, CHR 0x8F, CHR 0x9C] @ '' '' @ [CHR 0xE1, CHR 0x8E, CHR 0xAA, CHR 0xE1, CHR 0x8E, CHR 0xAF] @ '' '' @ [CHR 0xE1, CHR 0x8E, CHR 0xA2, CHR 0xE1, CHR 0x8E, CHR 0xA6] @ '' '' @ [CHR 0xE1, CHR 0x8E, CHR 0xA0, CHR 0xE1, CHR 0x8F, CHR 0x9F, CHR 0xE1, CHR 0x8E, CHR 0xA2, CHR 0xE1, CHR 0x8E, CHR 0xB5, CHR 0xE1, CHR 0x8F, CHR 0x92, CHR 0xE1, CHR 0x8E, CHR 0xA9]),
     (''HEPMX'', [CHR 0xE1, CHR 0x8E, CHR 0xA0, CHR 0xE1, CHR 0x8F, CHR 0x82, CHR 0xE1, CHR 0x8F, CHR 0x8D, CHR 0xE1, CHR 0x8F, CHR 0x86, CHR 0xE1, CHR 0x8F, CHR 0x82] @ '' '' @ [CHR 0xE1, CHR 0x8F, CHR 0xAD, CHR 0xE1, CHR 0x8F, CHR 0x95, CHR 0xE1, CHR 0x8E, CHR 0xB5, CHR 0xE1, CHR 0x8E, CHR 0xAC] @ '' '' @ [CHR 0xE1, CHR 0x8E, CHR 0xAA, CHR 0xE1, CHR 0x8E, CHR 0xAF] @ '' '' @ [CHR 0xE1, CHR 0x8E, CHR 0xA2, CHR 0xE1, CHR 0x8E, CHR 0xA6] @ '' '' @ [CHR 0xE1, CHR 0x8E, CHR 0xA0, CHR 0xE1, CHR 0x8F, CHR 0x9F, CHR 0xE1, CHR 0x8E, CHR 0xA2, CHR 0xE1, CHR 0x8E, CHR 0xB5, CHR 0xE1, CHR 0x8F, CHR 0x8D, CHR 0xE1, CHR 0x8F, CHR 0x92, CHR 0xE1, CHR 0x8E, CHR 0xA9]),
     (''CDT'', [CHR 0xE1, CHR 0x8E, CHR 0xA0, CHR 0xE1, CHR 0x8F, CHR 0xB0, CHR 0xE1, CHR 0x8F, CHR 0x9F] @ '' '' @ [CHR 0xE1, CHR 0x8E, CHR 0xAA, CHR 0xE1, CHR 0x8E, CHR 0xAF] @ '' '' @ [CHR 0xE1, CHR 0x8E, CHR 0xA2, CHR 0xE1, CHR 0x8E, CHR 0xA6] @ '' '' @ [CHR 0xE1, CHR 0x8E, CHR 0xA0, CHR 0xE1, CHR 0x8F, CHR 0x9F, CHR 0xE1, CHR 0x8E, CHR 0xA2, CHR 0xE1, CHR 0x8E, CHR 0xB5, CHR 0xE1, CHR 0x8F, CHR 0x8D, CHR 0xE1, CHR 0x8F, CHR 0x92, CHR 0xE1, CHR 0x8E, CHR 0xA9]),
     (''BOT'', [CHR 0xE1, CHR 0x8F, CHR 0x89, CHR 0xE1, CHR 0x8E, CHR 0xB5, CHR 0xE1, CHR 0x8F, CHR 0xAB, CHR 0xE1, CHR 0x8E, CHR 0xA0] @ '' '' @ [CHR 0xE1, CHR 0x8E, CHR 0xA0, CHR 0xE1, CHR 0x8F, CHR 0x9F, CHR 0xE1, CHR 0x8E, CHR 0xA2, CHR 0xE1, CHR 0x8E, CHR 0xB5, CHR 0xE1, CHR 0x8F, CHR 0x92]),
     (''NZST'', [CHR 0xE1, CHR 0x8E, CHR 0xA2, CHR 0xE1, CHR 0x8F, CHR 0xA4] @ '' '' @ [CHR 0xE1, CHR 0x8F, CHR 0x8F, CHR 0xE1, CHR 0x8E, CHR 0xA2, CHR 0xE1, CHR 0x8E, CHR 0xB4, CHR 0xE1, CHR 0x8F, CHR 0x82, CHR 0xE1, CHR 0x8F, CHR 0x97] @ '' '' @ [CHR 0xE1, CHR 0x8E, CHR 0xA0, CHR 0xE1, CHR 0x8F, CHR 0x9F, CHR 0xE1, CHR 0x8E, CHR 0xB6, CHR 0xE1, CHR 0x8F, CHR 0x8D, CHR 0xE1, CHR 0x8F, CHR 0x97] @ '' '' @ [CHR 0xE1, CHR 0x8E, CHR 0xA0, CHR 0xE1, CHR 0x8F, CHR 0x9F, CHR 0xE1, CHR 0x8E, CHR 0xA2, CHR 0xE1, CHR 0x8E, CHR 0xB5, CHR 0xE1, CHR 0x8F, CHR 0x92]),
     (''JST'', [CHR 0xE1, CHR 0x8F, CHR 0xA3, CHR 0xE1, CHR 0x8F, CHR 0xA9, CHR 0xE1, CHR 0x8F, CHR 0x82, CHR 0xE1, CHR 0x8F, CHR 0x8F] @ '' '' @ [CHR 0xE1, CHR 0x8E, CHR 0xA0, CHR 0xE1, CHR 0x8F, CHR 0x9F, CHR 0xE1, CHR 0x8E, CHR 0xB6, CHR 0xE1, CHR 0x8F, CHR 0x8D, CHR 0xE1, CHR 0x8F, CHR 0x97] @ '' '' @ [CHR 0xE1, CHR 0x8E, CHR 0xA0, CHR 0xE1, CHR 0x8F, CHR 0x9F, CHR 0xE1, CHR 0x8E, CHR 0xA2, CHR 0xE1, CHR 0x8E, CHR 0xB5, CHR 0xE1, CHR 0x8F, CHR 0x92]),
     (''AWST'', [CHR 0xE1, CHR 0x8E, CHR 0xA1, CHR 0xE1, CHR 0x8E, CHR 0xB3, CHR 0xE1, CHR 0x8F, CHR 0x97, CHR 0xE1, CHR 0x8F, CHR 0x9C] @ '' '' @ [CHR 0xE1, CHR 0x8F, CHR 0xAD, CHR 0xE1, CHR 0x8F, CHR 0x95, CHR 0xE1, CHR 0x8E, CHR 0xB5, CHR 0xE1, CHR 0x8E, CHR 0xAC] @ '' '' @ [CHR 0xE1, CHR 0x8F, CHR 0x97, CHR 0xE1, CHR 0x8F, CHR 0x9C] @ '' '' @ [CHR 0xE1, CHR 0x8E, CHR 0xA0, CHR 0xE1, CHR 0x8F, CHR 0x9F, CHR 0xE1, CHR 0x8E, CHR 0xB6, CHR 0xE1, CHR 0x8F, CHR 0x8D, CHR 0xE1, CHR 0x8F, CHR 0x97] @ '' '' @ [CHR 0xE1, CHR 0x8E, CHR 0xA0, CHR 0xE1, CHR 0x8F, CHR 0x9F, CHR 0xE1, CHR 0x8E, CHR 0xA2, CHR 0xE1, CHR 0x8E, CHR 0xB5, CHR 0xE1, CHR 0x8F, CHR 0x92]),
     (''PST'', [CHR 0xE1, CHR 0x8F, CHR 0xAD, CHR 0xE1, CHR 0x8F, CHR 0x95, CHR 0xE1, CHR 0x8E, CHR 0xB5, CHR 0xE1, CHR 0x8E, CHR 0xAC] @ '' '' @ [CHR 0xE1, CHR 0x8E, CHR 0xA0, CHR 0xE1, CHR 0x8F, CHR 0x9F, CHR 0xE1, CHR 0x8E, CHR 0xB6, CHR 0xE1, CHR 0x8F, CHR 0x8D, CHR 0xE1, CHR 0x8F, CHR 0x97] @ '' '' @ [CHR 0xE1, CHR 0x8E, CHR 0xA0, CHR 0xE1, CHR 0x8F, CHR 0x9F, CHR 0xE1, CHR 0x8E, CHR 0xA2, CHR 0xE1, CHR 0x8E, CHR 0xB5, CHR 0xE1, CHR 0x8F, CHR 0x92]),
     (''HNOG'', [CHR 0xE1, CHR 0x8F, CHR 0xAD, CHR 0xE1, CHR 0x8F, CHR 0x95, CHR 0xE1, CHR 0x8E, CHR 0xB5, CHR 0xE1, CHR 0x8E, CHR 0xAC] @ '' '' @ [CHR 0xE1, CHR 0x8E, CHR 0xA2, CHR 0xE1, CHR 0x8F, CHR 0xA4, CHR 0xE1, CHR 0x8F, CHR 0x8D, CHR 0xE1, CHR 0x8F, CHR 0x9B, CHR 0xE1, CHR 0x8F, CHR 0xB1] @ '' '' @ [CHR 0xE1, CHR 0x8E, CHR 0xA0, CHR 0xE1, CHR 0x8F, CHR 0x9F, CHR 0xE1, CHR 0x8E, CHR 0xB6, CHR 0xE1, CHR 0x8F, CHR 0x8D, CHR 0xE1, CHR 0x8F, CHR 0x97] @ '' '' @ [CHR 0xE1, CHR 0x8E, CHR 0xA0, CHR 0xE1, CHR 0x8E, CHR 0xB5, CHR 0xE1, CHR 0x8E, CHR 0xA2, CHR 0xE1, CHR 0x8E, CHR 0xB5, CHR 0xE1, CHR 0x8F, CHR 0x92]),
     (''WAST'', [CHR 0xE1, CHR 0x8F, CHR 0xAD, CHR 0xE1, CHR 0x8F, CHR 0x95, CHR 0xE1, CHR 0x8E, CHR 0xB5, CHR 0xE1, CHR 0x8E, CHR 0xAC] @ '' '' @ [CHR 0xE1, CHR 0x8E, CHR 0xAC, CHR 0xE1, CHR 0x8E, CHR 0xBF, CHR 0xE1, CHR 0x8E, CHR 0xA8, CHR 0xE1, CHR 0x8F, CHR 0x8D, CHR 0xE1, CHR 0x8F, CHR 0x9B] @ '' '' @ [CHR 0xE1, CHR 0x8E, CHR 0xAA, CHR 0xE1, CHR 0x8E, CHR 0xA9] @ '' '' @ [CHR 0xE1, CHR 0x8E, CHR 0xA0, CHR 0xE1, CHR 0x8F, CHR 0x9F, CHR 0xE1, CHR 0x8E, CHR 0xA2, CHR 0xE1, CHR 0x8E, CHR 0xB5, CHR 0xE1, CHR 0x8F, CHR 0x92]),
     (''ChST'', [CHR 0xE1, CHR 0x8F, CHR 0xA3, CHR 0xE1, CHR 0x8E, CHR 0xBC, CHR 0xE1, CHR 0x8E, CHR 0xB6] @ '' '' @ [CHR 0xE1, CHR 0x8E, CHR 0xA0, CHR 0xE1, CHR 0x8F, CHR 0x9F, CHR 0xE1, CHR 0x8E, CHR 0xB6, CHR 0xE1, CHR 0x8F, CHR 0x8D, CHR 0xE1, CHR 0x8F, CHR 0x97] @ '' '' @ [CHR 0xE1, CHR 0x8E, CHR 0xA0, CHR 0xE1, CHR 0x8F, CHR 0x9F, CHR 0xE1, CHR 0x8E, CHR 0xA2, CHR 0xE1, CHR 0x8E, CHR 0xB5, CHR 0xE1, CHR 0x8F, CHR 0x92]),
     (''CHAST'', [CHR 0xE1, CHR 0x8F, CHR 0xA3, CHR 0xE1, CHR 0x8F, CHR 0x9D, CHR 0xE1, CHR 0x8E, CHR 0xBB] @ '' '' @ [CHR 0xE1, CHR 0x8E, CHR 0xA0, CHR 0xE1, CHR 0x8F, CHR 0x9F, CHR 0xE1, CHR 0x8E, CHR 0xB6, CHR 0xE1, CHR 0x8F, CHR 0x8D, CHR 0xE1, CHR 0x8F, CHR 0x97] @ '' '' @ [CHR 0xE1, CHR 0x8E, CHR 0xA0, CHR 0xE1, CHR 0x8F, CHR 0x9F, CHR 0xE1, CHR 0x8E, CHR 0xA2, CHR 0xE1, CHR 0x8E, CHR 0xB5, CHR 0xE1, CHR 0x8F, CHR 0x92]),
     (''WESZ'', [CHR 0xE1, CHR 0x8F, CHR 0xAD, CHR 0xE1, CHR 0x8F, CHR 0x95, CHR 0xE1, CHR 0x8E, CHR 0xB5, CHR 0xE1, CHR 0x8E, CHR 0xAC] @ '' '' @ [CHR 0xE1, CHR 0x8F, CHR 0x97, CHR 0xE1, CHR 0x8F, CHR 0x9C] @ '' '' @ [CHR 0xE1, CHR 0x8F, CHR 0xB3, CHR 0xE1, CHR 0x8E, CHR 0xB3, CHR 0xE1, CHR 0x8F, CHR 0x88] @ '' '' @ [CHR 0xE1, CHR 0x8E, CHR 0xAA, CHR 0xE1, CHR 0x8E, CHR 0xA9] @ '' '' @ [CHR 0xE1, CHR 0x8E, CHR 0xA0, CHR 0xE1, CHR 0x8F, CHR 0x9F, CHR 0xE1, CHR 0x8E, CHR 0xA2, CHR 0xE1, CHR 0x8E, CHR 0xB5, CHR 0xE1, CHR 0x8F, CHR 0x92]),
     (''MYT'', [CHR 0xE1, CHR 0x8E, CHR 0xB9, CHR 0xE1, CHR 0x8E, CHR 0xB4, CHR 0xE1, CHR 0x8F, CHR 0x8F, CHR 0xE1, CHR 0x8E, CHR 0xA2, CHR 0xE1, CHR 0x8E, CHR 0xA0] @ '' '' @ [CHR 0xE1, CHR 0x8E, CHR 0xA0, CHR 0xE1, CHR 0x8F, CHR 0x9F, CHR 0xE1, CHR 0x8E, CHR 0xA2, CHR 0xE1, CHR 0x8E, CHR 0xB5, CHR 0xE1, CHR 0x8F, CHR 0x92]),
     (''HNNOMX'', [CHR 0xE1, CHR 0x8F, CHR 0xA7, CHR 0xE1, CHR 0x8F, CHR 0xB4, CHR 0xE1, CHR 0x8F, CHR 0xA2] @ '' '' @ [CHR 0xE1, CHR 0x8F, CHR 0xAD, CHR 0xE1, CHR 0x8F, CHR 0x95, CHR 0xE1, CHR 0x8E, CHR 0xB5, CHR 0xE1, CHR 0x8E, CHR 0xAC] @ '' '' @ [CHR 0xE1, CHR 0x8E, CHR 0xA0, CHR 0xE1, CHR 0x8F, CHR 0x82, CHR 0xE1, CHR 0x8F, CHR 0x8D, CHR 0xE1, CHR 0x8F, CHR 0x86, CHR 0xE1, CHR 0x8F, CHR 0x82] @ '' '' @ [CHR 0xE1, CHR 0x8E, CHR 0xA0, CHR 0xE1, CHR 0x8F, CHR 0x9F, CHR 0xE1, CHR 0x8E, CHR 0xB6, CHR 0xE1, CHR 0x8F, CHR 0x8D, CHR 0xE1, CHR 0x8F, CHR 0x97] @ '' '' @ [CHR 0xE1, CHR 0x8E, CHR 0xA0, CHR 0xE1, CHR 0x8F, CHR 0x9F, CHR 0xE1, CHR 0x8E, CHR 0xA2, CHR 0xE1, CHR 0x8E, CHR 0xB5, CHR 0xE1, CHR 0x8F, CHR 0x92]),
     (''COT'', [CHR 0xE1, CHR 0x8E, CHR 0xAA, CHR 0xE1, CHR 0x8E, CHR 0xB8, CHR 0xE1, CHR 0x8E, CHR 0xBB, CHR 0xE1, CHR 0x8F, CHR 0x88, CHR 0xE1, CHR 0x8E, CHR 0xA2, CHR 0xE1, CHR 0x8E, CHR 0xA0] @ '' '' @ [CHR 0xE1, CHR 0x8E, CHR 0xA0, CHR 0xE1, CHR 0x8F, CHR 0x9F, CHR 0xE1, CHR 0x8E, CHR 0xB6, CHR 0xE1, CHR 0x8F, CHR 0x8D, CHR 0xE1, CHR 0x8F, CHR 0x97] @ '' '' @ [CHR 0xE1, CHR 0x8E, CHR 0xA0, CHR 0xE1, CHR 0x8F, CHR 0x9F, CHR 0xE1, CHR 0x8E, CHR 0xA2, CHR 0xE1, CHR 0x8E, CHR 0xB5, CHR 0xE1, CHR 0x8F, CHR 0x92]),
     (''AEDT'', [CHR 0xE1, CHR 0x8E, CHR 0xA1, CHR 0xE1, CHR 0x8E, CHR 0xB3, CHR 0xE1, CHR 0x8F, CHR 0x97, CHR 0xE1, CHR 0x8F, CHR 0x9C] @ '' '' @ [CHR 0xE1, CHR 0x8F, CHR 0x97, CHR 0xE1, CHR 0x8E, CHR 0xA7, CHR 0xE1, CHR 0x8E, CHR 0xB8, CHR 0xE1, CHR 0x8E, CHR 0xAC] @ '' '' @ [CHR 0xE1, CHR 0x8F, CHR 0x97, CHR 0xE1, CHR 0x8F, CHR 0x9C] @ '' '' @ [CHR 0xE1, CHR 0x8E, CHR 0xAA, CHR 0xE1, CHR 0x8E, CHR 0xAF] @ '' '' @ [CHR 0xE1, CHR 0x8E, CHR 0xA2, CHR 0xE1, CHR 0x8E, CHR 0xA6] @ '' '' @ [CHR 0xE1, CHR 0x8E, CHR 0xA0, CHR 0xE1, CHR 0x8F, CHR 0x9F, CHR 0xE1, CHR 0x8E, CHR 0xA2, CHR 0xE1, CHR 0x8E, CHR 0xB5, CHR 0xE1, CHR 0x8F, CHR 0x92, CHR 0xE1, CHR 0x8E, CHR 0xA9]),
     (''HNPMX'', [CHR 0xE1, CHR 0x8E, CHR 0xA0, CHR 0xE1, CHR 0x8F, CHR 0x82, CHR 0xE1, CHR 0x8F, CHR 0x8D, CHR 0xE1, CHR 0x8F, CHR 0x86, CHR 0xE1, CHR 0x8F, CHR 0x82] @ '' '' @ [CHR 0xE1, CHR 0x8F, CHR 0xAD, CHR 0xE1, CHR 0x8F, CHR 0x95, CHR 0xE1, CHR 0x8E, CHR 0xB5, CHR 0xE1, CHR 0x8E, CHR 0xAC] @ '' '' @ [CHR 0xE1, CHR 0x8E, CHR 0xA0, CHR 0xE1, CHR 0x8F, CHR 0x9F, CHR 0xE1, CHR 0x8E, CHR 0xB6, CHR 0xE1, CHR 0x8F, CHR 0x8D, CHR 0xE1, CHR 0x8F, CHR 0x97] @ '' '' @ [CHR 0xE1, CHR 0x8E, CHR 0xA0, CHR 0xE1, CHR 0x8F, CHR 0x9F, CHR 0xE1, CHR 0x8E, CHR 0xA2, CHR 0xE1, CHR 0x8E, CHR 0xB5, CHR 0xE1, CHR 0x8F, CHR 0x92]),
     (''OESZ'', [CHR 0xE1, CHR 0x8F, CHR 0x97, CHR 0xE1, CHR 0x8E, CHR 0xA7, CHR 0xE1, CHR 0x8E, CHR 0xB8, CHR 0xE1, CHR 0x8E, CHR 0xAC] @ '' '' @ [CHR 0xE1, CHR 0x8F, CHR 0x97, CHR 0xE1, CHR 0x8F, CHR 0x9C] @ '' '' @ [CHR 0xE1, CHR 0x8F, CHR 0xB3, CHR 0xE1, CHR 0x8E, CHR 0xB3, CHR 0xE1, CHR 0x8F, CHR 0x88] @ '' '' @ [CHR 0xE1, CHR 0x8E, CHR 0xAA, CHR 0xE1, CHR 0x8E, CHR 0xA9] @ '' '' @ [CHR 0xE1, CHR 0x8E, CHR 0xA0, CHR 0xE1, CHR 0x8F, CHR 0x9F, CHR 0xE1, CHR 0x8E, CHR 0xA2, CHR 0xE1, CHR 0x8E, CHR 0xB5, CHR 0xE1, CHR 0x8F, CHR 0x92]),
     (''CLST'', [CHR 0xE1, CHR 0x8F, CHR 0xA5, CHR 0xE1, CHR 0x8E, CHR 0xB5] @ '' '' @ [CHR 0xE1, CHR 0x8E, CHR 0xAA, CHR 0xE1, CHR 0x8E, CHR 0xA9] @ '' '' @ [CHR 0xE1, CHR 0x8E, CHR 0xA0, CHR 0xE1, CHR 0x8F, CHR 0x9F, CHR 0xE1, CHR 0x8E, CHR 0xA2, CHR 0xE1, CHR 0x8E, CHR 0xB5, CHR 0xE1, CHR 0x8F, CHR 0x92]),
     (''ADT'', [CHR 0xE1, CHR 0x8F, CHR 0x97, CHR 0xE1, CHR 0x8E, CHR 0xA7, CHR 0xE1, CHR 0x8E, CHR 0xB8, CHR 0xE1, CHR 0x8E, CHR 0xAC] @ '' '' @ [CHR 0xE1, CHR 0x8E, CHR 0xAA, CHR 0xE1, CHR 0x8E, CHR 0xAF] @ '' '' @ [CHR 0xE1, CHR 0x8E, CHR 0xA2, CHR 0xE1, CHR 0x8E, CHR 0xA6] @ '' '' @ [CHR 0xE1, CHR 0x8E, CHR 0xA0, CHR 0xE1, CHR 0x8F, CHR 0x9F, CHR 0xE1, CHR 0x8E, CHR 0xA2, CHR 0xE1, CHR 0x8E, CHR 0xB5, CHR 0xE1, CHR 0x8F, CHR 0x8D, CHR 0xE1, CHR 0x8F, CHR 0x92, CHR 0xE1, CHR 0x8E, CHR 0xA9]),
     (''HKST'', [CHR 0xE1, CHR 0x8E, CHR 0xB0, CHR 0xE1, CHR 0x8F, CHR 0x82, CHR 0xE1, CHR 0x8E, CHR 0xA9] @ '' '' @ [CHR 0xE1, CHR 0x8E, CHR 0xAA, CHR 0xE1, CHR 0x8F, CHR 0x82, CHR 0xE1, CHR 0x8E, CHR 0xA9] @ '' '' @ [CHR 0xE1, CHR 0x8E, CHR 0xAA, CHR 0xE1, CHR 0x8E, CHR 0xA9] @ '' '' @ [CHR 0xE1, CHR 0x8E, CHR 0xA0, CHR 0xE1, CHR 0x8F, CHR 0x9F, CHR 0xE1, CHR 0x8E, CHR 0xA2, CHR 0xE1, CHR 0x8E, CHR 0xB5, CHR 0xE1, CHR 0x8F, CHR 0x92]),
     (''SRT'', [CHR 0xE1, CHR 0x8F, CHR 0x92, CHR 0xE1, CHR 0x8E, CHR 0xB5, CHR 0xE1, CHR 0x8E, CHR 0xBE, CHR 0xE1, CHR 0x8E, CHR 0xBB] @ '' '' @ [CHR 0xE1, CHR 0x8E, CHR 0xA0, CHR 0xE1, CHR 0x8F, CHR 0x9F, CHR 0xE1, CHR 0x8E, CHR 0xA2, CHR 0xE1, CHR 0x8E, CHR 0xB5, CHR 0xE1, CHR 0x8F, CHR 0x92]),
     (''SGT'', [CHR 0xE1, CHR 0x8F, CHR 0x8F, CHR 0xE1, CHR 0x8F, CHR 0x82, CHR 0xE1, CHR 0x8E, CHR 0xA6, CHR 0xE1, CHR 0x8F, CHR 0x89, CHR 0xE1, CHR 0x8E, CHR 0xB5] @ '' '' @ [CHR 0xE1, CHR 0x8E, CHR 0xA0, CHR 0xE1, CHR 0x8F, CHR 0x9F, CHR 0xE1, CHR 0x8E, CHR 0xB6, CHR 0xE1, CHR 0x8F, CHR 0x8D, CHR 0xE1, CHR 0x8F, CHR 0x97] @ '' '' @ [CHR 0xE1, CHR 0x8E, CHR 0xA0, CHR 0xE1, CHR 0x8F, CHR 0x9F, CHR 0xE1, CHR 0x8E, CHR 0xA2, CHR 0xE1, CHR 0x8E, CHR 0xB5, CHR 0xE1, CHR 0x8F, CHR 0x92]),
     (''EST'', [CHR 0xE1, CHR 0x8F, CHR 0x97, CHR 0xE1, CHR 0x8E, CHR 0xA7, CHR 0xE1, CHR 0x8E, CHR 0xB8, CHR 0xE1, CHR 0x8E, CHR 0xAC] @ '' '' @ [CHR 0xE1, CHR 0x8F, CHR 0x97, CHR 0xE1, CHR 0x8F, CHR 0x9C] @ '' '' @ [CHR 0xE1, CHR 0x8E, CHR 0xA0, CHR 0xE1, CHR 0x8F, CHR 0x9F, CHR 0xE1, CHR 0x8E, CHR 0xB6, CHR 0xE1, CHR 0x8F, CHR 0x8D, CHR 0xE1, CHR 0x8F, CHR 0x97] @ '' '' @ [CHR 0xE1, CHR 0x8E, CHR 0xA0, CHR 0xE1, CHR 0x8F, CHR 0x9F, CHR 0xE1, CHR 0x8E, CHR 0xA2, CHR 0xE1, CHR 0x8E, CHR 0xB5, CHR 0xE1, CHR 0x8F, CHR 0x92]),
     (''HAT'', [CHR 0xE1, CHR 0x8E, CHR 0xA2, CHR 0xE1, CHR 0x8F, CHR 0xA4, CHR 0xE1, CHR 0x8E, CHR 0xA4, CHR 0xE1, CHR 0x8F, CHR 0x82, CHR 0xE1, CHR 0x8F, CHR 0xA9, CHR 0xE1, CHR 0x8F, CHR 0x9B, CHR 0xE1, CHR 0x8F, CHR 0x93, CHR 0xE1, CHR 0x8E, CHR 0xA6, CHR 0xE1, CHR 0x8F, CHR 0x99, CHR 0xE1, CHR 0x8E, CHR 0xAF] @ '' '' @ [CHR 0xE1, CHR 0x8E, CHR 0xAA, CHR 0xE1, CHR 0x8E, CHR 0xAF] @ '' '' @ [CHR 0xE1, CHR 0x8E, CHR 0xA2, CHR 0xE1, CHR 0x8E, CHR 0xA6] @ '' '' @ [CHR 0xE1, CHR 0x8E, CHR 0xA0, CHR 0xE1, CHR 0x8F, CHR 0x9F, CHR 0xE1, CHR 0x8E, CHR 0xA2, CHR 0xE1, CHR 0x8E, CHR 0xB5, CHR 0xE1, CHR 0x8F, CHR 0x8D, CHR 0xE1, CHR 0x8F, CHR 0x92, CHR 0xE1, CHR 0x8E, CHR 0xA9]),
     (''AEST'', [CHR 0xE1, CHR 0x8E, CHR 0xA1, CHR 0xE1, CHR 0x8E, CHR 0xB3, CHR 0xE1, CHR 0x8F, CHR 0x97, CHR 0xE1, CHR 0x8F, CHR 0x9C] @ '' '' @ [CHR 0xE1, CHR 0x8F, CHR 0x97, CHR 0xE1, CHR 0x8E, CHR 0xA7, CHR 0xE1, CHR 0x8E, CHR 0xB8, CHR 0xE1, CHR 0x8E, CHR 0xAC] @ '' '' @ [CHR 0xE1, CHR 0x8F, CHR 0x97, CHR 0xE1, CHR 0x8F, CHR 0x9C] @ '' '' @ [CHR 0xE1, CHR 0x8E, CHR 0xA0, CHR 0xE1, CHR 0x8F, CHR 0x9F, CHR 0xE1, CHR 0x8E, CHR 0xB6, CHR 0xE1, CHR 0x8F, CHR 0x8D, CHR 0xE1, CHR 0x8F, CHR 0x97] @ '' '' @ [CHR 0xE1, CHR 0x8E, CHR 0xA0, CHR 0xE1, CHR 0x8F, CHR 0x9F, CHR 0xE1, CHR 0x8E, CHR 0xA2, CHR 0xE1, CHR 0x8E, CHR 0xB5, CHR 0xE1, CHR 0x8F, CHR 0x92]),
     (''WIT'', [CHR 0xE1, CHR 0x8F, CHR 0x97, CHR 0xE1, CHR 0x8E, CHR 0xA7, CHR 0xE1, CHR 0x8E, CHR 0xB8, CHR 0xE1, CHR 0x8E, CHR 0xAC] @ '' '' @ [CHR 0xE1, CHR 0x8F, CHR 0x97, CHR 0xE1, CHR 0x8F, CHR 0x9C] @ '' '' @ [CHR 0xE1, CHR 0x8E, CHR 0xA2, CHR 0xE1, CHR 0x8F, CHR 0x82, CHR 0xE1, CHR 0x8F, CHR 0x99, CHR 0xE1, CHR 0x8F, CHR 0x82, CHR 0xE1, CHR 0x8F, CHR 0x8D, CHR 0xE1, CHR 0x8F, CHR 0xAF] @ '' '' @ [CHR 0xE1, CHR 0x8E, CHR 0xA0, CHR 0xE1, CHR 0x8F, CHR 0x9F, CHR 0xE1, CHR 0x8E, CHR 0xA2, CHR 0xE1, CHR 0x8E, CHR 0xB5, CHR 0xE1, CHR 0x8F, CHR 0x92]),
     (''IST'', [CHR 0xE1, CHR 0x8E, CHR 0xA2, CHR 0xE1, CHR 0x8F, CHR 0x82, CHR 0xE1, CHR 0x8F, CHR 0x97, CHR 0xE1, CHR 0x8E, CHR 0xA2, CHR 0xE1, CHR 0x8E, CHR 0xA0] @ '' '' @ [CHR 0xE1, CHR 0x8E, CHR 0xA0, CHR 0xE1, CHR 0x8F, CHR 0x9F, CHR 0xE1, CHR 0x8E, CHR 0xB6, CHR 0xE1, CHR 0x8F, CHR 0x8D, CHR 0xE1, CHR 0x8F, CHR 0x97] @ '' '' @ [CHR 0xE1, CHR 0x8E, CHR 0xA0, CHR 0xE1, CHR 0x8F, CHR 0x9F, CHR 0xE1, CHR 0x8E, CHR 0xA2, CHR 0xE1, CHR 0x8E, CHR 0xB5, CHR 0xE1, CHR 0x8F, CHR 0x92]),
     (''GMT'', [CHR 0xE1, CHR 0x8E, CHR 0xA2, CHR 0xE1, CHR 0x8F, CHR 0xA4] @ '' '' @ [CHR 0xE1, CHR 0x8E, CHR 0xA2, CHR 0xE1, CHR 0x8F, CHR 0xB3, CHR 0xE1, CHR 0x8F, CHR 0x8D, CHR 0xE1, CHR 0x8F, CHR 0x97] @ '' '' @ [CHR 0xE1, CHR 0x8E, CHR 0xA0, CHR 0xE1, CHR 0x8F, CHR 0x9F, CHR 0xE1, CHR 0x8E, CHR 0xA2, CHR 0xE1, CHR 0x8E, CHR 0xB5, CHR 0xE1, CHR 0x8F, CHR 0x92]),
     (''WART'', [CHR 0xE1, CHR 0x8F, CHR 0xAD, CHR 0xE1, CHR 0x8F, CHR 0x95, CHR 0xE1, CHR 0x8E, CHR 0xB5, CHR 0xE1, CHR 0x8E, CHR 0xAC] @ '' '' @ [CHR 0xE1, CHR 0x8F, CHR 0x97, CHR 0xE1, CHR 0x8F, CHR 0x9C] @ '' '' @ [CHR 0xE1, CHR 0x8E, CHR 0xA0, CHR 0xE1, CHR 0x8F, CHR 0xA5, CHR 0xE1, CHR 0x8F, CHR 0x82, CHR 0xE1, CHR 0x8F, CHR 0x98, CHR 0xE1, CHR 0x8F, CHR 0x82, CHR 0xE1, CHR 0x8E, CHR 0xA0] @ '' '' @ [CHR 0xE1, CHR 0x8E, CHR 0xA0, CHR 0xE1, CHR 0x8F, CHR 0x9F, CHR 0xE1, CHR 0x8E, CHR 0xB6, CHR 0xE1, CHR 0x8F, CHR 0x8D, CHR 0xE1, CHR 0x8F, CHR 0x97] @ '' '' @ [CHR 0xE1, CHR 0x8E, CHR 0xA0, CHR 0xE1, CHR 0x8F, CHR 0x9F, CHR 0xE1, CHR 0x8E, CHR 0xA2, CHR 0xE1, CHR 0x8E, CHR 0xB5, CHR 0xE1, CHR 0x8F, CHR 0x92]),
     (''TMST'', [CHR 0xE1, CHR 0x8F, CHR 0x9B, CHR 0xE1, CHR 0x8E, CHR 0xB5, CHR 0xE1, CHR 0x8E, CHR 0xA9, CHR 0xE1, CHR 0x8E, CHR 0xBA, CHR 0xE1, CHR 0x8F, CHR 0x82, CHR 0xE1, CHR 0x8F, CHR 0x8D, CHR 0xE1, CHR 0x8F, CHR 0x94, CHR 0xE1, CHR 0x8F, CHR 0x82] @ '' '' @ [CHR 0xE1, CHR 0x8E, CHR 0xAA, CHR 0xE1, CHR 0x8E, CHR 0xA9] @ '' '' @ [CHR 0xE1, CHR 0x8E, CHR 0xA0, CHR 0xE1, CHR 0x8F, CHR 0x9F, CHR 0xE1, CHR 0x8E, CHR 0xA2, CHR 0xE1, CHR 0x8E, CHR 0xB5, CHR 0xE1, CHR 0x8F, CHR 0x92]),
     (''HEPM'', [CHR 0xE1, CHR 0x8E, CHR 0xA4, CHR 0xE1, CHR 0x8F, CHR 0x93, CHR 0xE1, CHR 0x8F, CHR 0x85, CHR 0xE1, CHR 0x8F, CHR 0x98] @ '' '' @ [CHR 0xE1, CHR 0x8F, CHR 0x88, CHR 0xE1, CHR 0x8F, CHR 0xB0] @ '' '' @ [CHR 0xE1, CHR 0x8E, CHR 0xA0, CHR 0xE1, CHR 0x8E, CHR 0xB4] @ '' '' @ [CHR 0xE1, CHR 0x8E, CHR 0xBB, CHR 0xE1, CHR 0x8F, CHR 0x87, CHR 0xE1, CHR 0x8E, CHR 0xB6, CHR 0xE1, CHR 0x8F, CHR 0x82] @ '' '' @ [CHR 0xE1, CHR 0x8E, CHR 0xAA, CHR 0xE1, CHR 0x8E, CHR 0xAF] @ '' '' @ [CHR 0xE1, CHR 0x8E, CHR 0xA2, CHR 0xE1, CHR 0x8E, CHR 0xA6] @ '' '' @ [CHR 0xE1, CHR 0x8E, CHR 0xA0, CHR 0xE1, CHR 0x8F, CHR 0x9F, CHR 0xE1, CHR 0x8E, CHR 0xA2, CHR 0xE1, CHR 0x8E, CHR 0xB5, CHR 0xE1, CHR 0x8F, CHR 0x92, CHR 0xE1, CHR 0x8E, CHR 0xA9]),
     (''CLT'', [CHR 0xE1, CHR 0x8F, CHR 0xA5, CHR 0xE1, CHR 0x8E, CHR 0xB5] @ '' '' @ [CHR 0xE1, CHR 0x8E, CHR 0xA0, CHR 0xE1, CHR 0x8F, CHR 0x9F, CHR 0xE1, CHR 0x8E, CHR 0xB6, CHR 0xE1, CHR 0x8F, CHR 0x8D, CHR 0xE1, CHR 0x8F, CHR 0x97] @ '' '' @ [CHR 0xE1, CHR 0x8E, CHR 0xA0, CHR 0xE1, CHR 0x8F, CHR 0x9F, CHR 0xE1, CHR 0x8E, CHR 0xA2, CHR 0xE1, CHR 0x8E, CHR 0xB5, CHR 0xE1, CHR 0x8F, CHR 0x92]),
     (''AST'', [CHR 0xE1, CHR 0x8F, CHR 0x97, CHR 0xE1, CHR 0x8E, CHR 0xA7, CHR 0xE1, CHR 0x8E, CHR 0xB8, CHR 0xE1, CHR 0x8E, CHR 0xAC] @ '' '' @ [CHR 0xE1, CHR 0x8E, CHR 0xA0, CHR 0xE1, CHR 0x8F, CHR 0x9F, CHR 0xE1, CHR 0x8E, CHR 0xB6, CHR 0xE1, CHR 0x8F, CHR 0x8D, CHR 0xE1, CHR 0x8F, CHR 0x97] @ '' '' @ [CHR 0xE1, CHR 0x8E, CHR 0xA0, CHR 0xE1, CHR 0x8F, CHR 0x9F, CHR 0xE1, CHR 0x8E, CHR 0xA2, CHR 0xE1, CHR 0x8E, CHR 0xB5, CHR 0xE1, CHR 0x8F, CHR 0x92]),
     (''MST'', ''MST''),
     (''WAT'', [CHR 0xE1, CHR 0x8F, CHR 0xAD, CHR 0xE1, CHR 0x8F, CHR 0x95, CHR 0xE1, CHR 0x8E, CHR 0xB5, CHR 0xE1, CHR 0x8E, CHR 0xAC] @ '' '' @ [CHR 0xE1, CHR 0x8E, CHR 0xAC, CHR 0xE1, CHR 0x8E, CHR 0xBF, CHR 0xE1, CHR 0x8E, CHR 0xA8, CHR 0xE1, CHR 0x8F, CHR 0x8D, CHR 0xE1, CHR 0x8F, CHR 0x9B] @ '' '' @ [CHR 0xE1, CHR 0x8E, CHR 0xA0, CHR 0xE1, CHR 0x8F, CHR 0x9F, CHR 0xE1, CHR 0x8E, CHR 0xB6, CHR 0xE1, CHR 0x8F, CHR 0x8D, CHR 0xE1, CHR 0x8F, CHR 0x97] @ '' '' @ [CHR 0xE1, CHR 0x8E, CHR 0xA0, CHR 0xE1, CHR 0x8F, CHR 0x9F, CHR 0xE1, CHR 0x8E, CHR 0xA2, CHR 0xE1, CHR 0x8E, CHR 0xB5, CHR 0xE1, CHR 0x8F, CHR 0x92]),
     (''AKDT'', [CHR 0xE1, CHR 0x8E, CHR 0xA0, CHR 0xE1, CHR 0x8E, CHR 0xB3, CHR 0xE1, CHR 0x8F, CHR 0x8D, CHR 0xE1, CHR 0x8E, CHR 0xA6] @ '' '' @ [CHR 0xE1, CHR 0x8E, CHR 0xAA, CHR 0xE1, CHR 0x8E, CHR 0xAF] @ '' '' @ [CHR 0xE1, CHR 0x8E, CHR 0xA2, CHR 0xE1, CHR 0x8E, CHR 0xA6] @ '' '' @ [CHR 0xE1, CHR 0x8E, CHR 0xA0, CHR 0xE1, CHR 0x8F, CHR 0x9F, CHR 0xE1, CHR 0x8E, CHR 0xA2, CHR 0xE1, CHR 0x8E, CHR 0xB5, CHR 0xE1, CHR 0x8F, CHR 0x8D, CHR 0xE1, CHR 0x8F, CHR 0x92, CHR 0xE1, CHR 0x8E, CHR 0xA9]),
     (''ARST'', [CHR 0xE1, CHR 0x8E, CHR 0xA0, CHR 0xE1, CHR 0x8F, CHR 0xA5, CHR 0xE1, CHR 0x8F, CHR 0x82, CHR 0xE1, CHR 0x8F, CHR 0x98, CHR 0xE1, CHR 0x8F, CHR 0x82, CHR 0xE1, CHR 0x8E, CHR 0xA0] @ '' '' @ [CHR 0xE1, CHR 0x8E, CHR 0xAA, CHR 0xE1, CHR 0x8E, CHR 0xA9] @ '' '' @ [CHR 0xE1, CHR 0x8E, CHR 0xA0, CHR 0xE1, CHR 0x8F, CHR 0x9F, CHR 0xE1, CHR 0x8E, CHR 0xA2, CHR 0xE1, CHR 0x8E, CHR 0xB5, CHR 0xE1, CHR 0x8F, CHR 0x92]),
     (''COST'', [CHR 0xE1, CHR 0x8E, CHR 0xAA, CHR 0xE1, CHR 0x8E, CHR 0xB8, CHR 0xE1, CHR 0x8E, CHR 0xBB, CHR 0xE1, CHR 0x8F, CHR 0x88, CHR 0xE1, CHR 0x8E, CHR 0xA2, CHR 0xE1, CHR 0x8E, CHR 0xA0] @ '' '' @ [CHR 0xE1, CHR 0x8E, CHR 0xAA, CHR 0xE1, CHR 0x8E, CHR 0xA9] @ '' '' @ [CHR 0xE1, CHR 0x8E, CHR 0xA0, CHR 0xE1, CHR 0x8F, CHR 0x9F, CHR 0xE1, CHR 0x8E, CHR 0xA2, CHR 0xE1, CHR 0x8E, CHR 0xB5, CHR 0xE1, CHR 0x8F, CHR 0x92]),
     (''GFT'', [CHR 0xE1, CHR 0x8E, CHR 0xA0, CHR 0xE1, CHR 0x8F, CHR 0x82, CHR 0xE1, CHR 0x8E, CHR 0xA6, CHR 0xE1, CHR 0x8E, CHR 0xB8] @ '' '' @ [CHR 0xE1, CHR 0x8F, CHR 0x88, CHR 0xE1, CHR 0x8F, CHR 0xAF, CHR 0xE1, CHR 0x8E, CHR 0xBE] @ '' '' @ [CHR 0xE1, CHR 0x8E, CHR 0xA0, CHR 0xE1, CHR 0x8F, CHR 0x9F, CHR 0xE1, CHR 0x8E, CHR 0xA2, CHR 0xE1, CHR 0x8E, CHR 0xB5, CHR 0xE1, CHR 0x8F, CHR 0x92]),
     (''HAST'', [CHR 0xE1, CHR 0x8E, CHR 0xAD, CHR 0xE1, CHR 0x8F, CHR 0xA9, CHR 0xE1, CHR 0x8F, CHR 0xB1] @ ''-'' @ [CHR 0xE1, CHR 0x8E, CHR 0xA0, CHR 0xE1, CHR 0x8E, CHR 0xB5, CHR 0xE1, CHR 0x8F, CHR 0xB3, CHR 0xE1, CHR 0x8F, CHR 0x8F, CHR 0xE1, CHR 0x8E, CHR 0xA0, CHR 0xE1, CHR 0x8F, CHR 0x82] @ '' '' @ [CHR 0xE1, CHR 0x8E, CHR 0xA0, CHR 0xE1, CHR 0x8F, CHR 0x9F, CHR 0xE1, CHR 0x8E, CHR 0xB6, CHR 0xE1, CHR 0x8F, CHR 0x8D, CHR 0xE1, CHR 0x8F, CHR 0x97] @ '' '' @ [CHR 0xE1, CHR 0x8E, CHR 0xA0, CHR 0xE1, CHR 0x8F, CHR 0x9F, CHR 0xE1, CHR 0x8E, CHR 0xA2, CHR 0xE1, CHR 0x8E, CHR 0xB5, CHR 0xE1, CHR 0x8F, CHR 0x92]),
     (''ACWST'', [CHR 0xE1, CHR 0x8E, CHR 0xA0, CHR 0xE1, CHR 0x8F, CHR 0xB0, CHR 0xE1, CHR 0x8F, CHR 0x9F] @ '' '' @ [CHR 0xE1, CHR 0x8E, CHR 0xA1, CHR 0xE1, CHR 0x8E, CHR 0xB3, CHR 0xE1, CHR 0x8F, CHR 0x97, CHR 0xE1, CHR 0x8F, CHR 0x9C] @ '' '' @ [CHR 0xE1, CHR 0x8F, CHR 0xAD, CHR 0xE1, CHR 0x8F, CHR 0x95, CHR 0xE1, CHR 0x8E, CHR 0xB5, CHR 0xE1, CHR 0x8E, CHR 0xAC] @ '' '' @ [CHR 0xE1, CHR 0x8F, CHR 0x97, CHR 0xE1, CHR 0x8F, CHR 0x9C] @ '' '' @ [CHR 0xE1, CHR 0x8E, CHR 0xA0, CHR 0xE1, CHR 0x8F, CHR 0x9F, CHR 0xE1, CHR 0x8E, CHR 0xB6, CHR 0xE1, CHR 0x8F, CHR 0x8D, CHR 0xE1, CHR 0x8F, CHR 0x97] @ '' '' @ [CHR 0xE1, CHR 0x8E, CHR 0xA0, CHR 0xE1, CHR 0x8F, CHR 0x9F, CHR 0xE1, CHR 0x8E, CHR 0xA2, CHR 0xE1, CHR 0x8E, CHR 0xB5, CHR 0xE1, CHR 0x8F, CHR 0x92]),
     (''VET'', [CHR 0xE1, CHR 0x8F, CHR 0xAA, CHR 0xE1, CHR 0x8F, CHR 0x81, CHR 0xE1, CHR 0x8F, CHR 0x91, CHR 0xE1, CHR 0x8F, CHR 0xAA, CHR 0xE1, CHR 0x8E, CHR 0xB3] @ '' '' @ [CHR 0xE1, CHR 0x8E, CHR 0xA0, CHR 0xE1, CHR 0x8F, CHR 0x9F, CHR 0xE1, CHR 0x8E, CHR 0xA2, CHR 0xE1, CHR 0x8E, CHR 0xB5, CHR 0xE1, CHR 0x8F, CHR 0x92]),
     (''MEZ'', [CHR 0xE1, CHR 0x8E, CHR 0xA0, CHR 0xE1, CHR 0x8F, CHR 0xB0, CHR 0xE1, CHR 0x8F, CHR 0x9F] @ '' '' @ [CHR 0xE1, CHR 0x8F, CHR 0xB3, CHR 0xE1, CHR 0x8E, CHR 0xB3, CHR 0xE1, CHR 0x8F, CHR 0x88] @ '' '' @ [CHR 0xE1, CHR 0x8E, CHR 0xA0, CHR 0xE1, CHR 0x8F, CHR 0x9F, CHR 0xE1, CHR 0x8E, CHR 0xB6, CHR 0xE1, CHR 0x8F, CHR 0x8D, CHR 0xE1, CHR 0x8F, CHR 0x97] @ '' '' @ [CHR 0xE1, CHR 0x8E, CHR 0xA0, CHR 0xE1, CHR 0x8F, CHR 0x9F, CHR 0xE1, CHR 0x8E, CHR 0xA2, CHR 0xE1, CHR 0x8E, CHR 0xB5, CHR 0xE1, CHR 0x8F, CHR 0x92]),
     (''ART'', [CHR 0xE1, CHR 0x8E, CHR 0xA0, CHR 0xE1, CHR 0x8F, CHR 0xA5, CHR 0xE1, CHR 0x8F, CHR 0x82, CHR 0xE1, CHR 0x8F, CHR 0x98, CHR 0xE1, CHR 0x8F, CHR 0x82, CHR 0xE1, CHR 0x8E, CHR 0xA0] @ '' '' @ [CHR 0xE1, CHR 0x8E, CHR 0xA0, CHR 0xE1, CHR 0x8F, CHR 0x9F, CHR 0xE1, CHR 0x8E, CHR 0xB6, CHR 0xE1, CHR 0x8F, CHR 0x8D, CHR 0xE1, CHR 0x8F, CHR 0x97] @ '' '' @ [CHR 0xE1, CHR 0x8E, CHR 0xA0, CHR 0xE1, CHR 0x8F, CHR 0x9F, CHR 0xE1, CHR 0x8E, CHR 0xA2, CHR 0xE1, CHR 0x8E, CHR 0xB5, CHR 0xE1, CHR 0x8F, CHR 0x92]),
     (''HNPM'', [CHR 0xE1, CHR 0x8E, CHR 0xA4, CHR 0xE1, CHR 0x8F, CHR 0x93, CHR 0xE1, CHR 0x8F, CHR 0x85, CHR 0xE1, CHR 0x8F, CHR 0x98] @ '' '' @ [CHR 0xE1, CHR 0x8F, CHR 0x88, CHR 0xE1, CHR 0x8F, CHR 0xB0] @ '' '' @ [CHR 0xE1, CHR 0x8E, CHR 0xA0, CHR 0xE1, CHR 0x8E, CHR 0xB4] @ '' '' @ [CHR 0xE1, CHR 0x8E, CHR 0xBB, CHR 0xE1, CHR 0x8F, CHR 0x87, CHR 0xE1, CHR 0x8E, CHR 0xB6, CHR 0xE1, CHR 0x8F, CHR 0x82] @ '' '' @ [CHR 0xE1, CHR 0x8E, CHR 0xA0, CHR 0xE1, CHR 0x8F, CHR 0x9F, CHR 0xE1, CHR 0x8E, CHR 0xB6, CHR 0xE1, CHR 0x8F, CHR 0x8D, CHR 0xE1, CHR 0x8F, CHR 0x97] @ '' '' @ [CHR 0xE1, CHR 0x8E, CHR 0xA0, CHR 0xE1, CHR 0x8F, CHR 0x9F, CHR 0xE1, CHR 0x8E, CHR 0xA2, CHR 0xE1, CHR 0x8E, CHR 0xB5, CHR 0xE1, CHR 0x8F, CHR 0x92]),
     (''HKT'', [CHR 0xE1, CHR 0x8E, CHR 0xB0, CHR 0xE1, CHR 0x8F, CHR 0x82, CHR 0xE1, CHR 0x8E, CHR 0xA9] @ '' '' @ [CHR 0xE1, CHR 0x8E, CHR 0xAA, CHR 0xE1, CHR 0x8F, CHR 0x82, CHR 0xE1, CHR 0x8E, CHR 0xA9] @ '' '' @ [CHR 0xE1, CHR 0x8E, CHR 0xA0, CHR 0xE1, CHR 0x8F, CHR 0x9F, CHR 0xE1, CHR 0x8E, CHR 0xB6, CHR 0xE1, CHR 0x8F, CHR 0x8D, CHR 0xE1, CHR 0x8F, CHR 0x97] @ '' '' @ [CHR 0xE1, CHR 0x8E, CHR 0xA0, CHR 0xE1, CHR 0x8F, CHR 0x9F, CHR 0xE1, CHR 0x8E, CHR 0xA2, CHR 0xE1, CHR 0x8E, CHR 0xB5, CHR 0xE1, CHR 0x8F, CHR 0x92]),
     (''AKST'', [CHR 0xE1, CHR 0x8E, CHR 0xA0, CHR 0xE1, CHR 0x8E, CHR 0xB3, CHR 0xE1, CHR 0x8F, CHR 0x8D, CHR 0xE1, CHR 0x8E, CHR 0xA6] @ '' '' @ [CHR 0xE1, CHR 0x8E, CHR 0xA0, CHR 0xE1, CHR 0x8F, CHR 0x9F, CHR 0xE1, CHR 0x8E, CHR 0xB6, CHR 0xE1, CHR 0x8F, CHR 0x8D, CHR 0xE1, CHR 0x8F, CHR 0x97] @ '' '' @ [CHR 0xE1, CHR 0x8E, CHR 0xA0, CHR 0xE1, CHR 0x8F, CHR 0x9F, CHR 0xE1, CHR 0x8E, CHR 0xA2, CHR 0xE1, CHR 0x8E, CHR 0xB5, CHR 0xE1, CHR 0x8F, CHR 0x92]),
     ([CHR 0xE2, CHR 0x88, CHR 0x85, CHR 0xE2, CHR 0x88, CHR 0x85, CHR 0xE2, CHR 0x88, CHR 0x85], [CHR 0xE1, CHR 0x8E, CHR 0xA0, CHR 0xE1, CHR 0x8F, CHR 0x90, CHR 0xE1, CHR 0x8E, CHR 0xB4, CHR 0xE1, CHR 0x8F, CHR 0x8F] @ '' '' @ [CHR 0xE1, CHR 0x8E, CHR 0xAA, CHR 0xE1, CHR 0x8E, CHR 0xA9] @ '' '' @ [CHR 0xE1, CHR 0x8E, CHR 0xA0, CHR 0xE1, CHR 0x8F, CHR 0x9F, CHR 0xE1, CHR 0x8E, CHR 0xA2, CHR 0xE1, CHR 0x8E, CHR 0xB5, CHR 0xE1, CHR 0x8F, CHR 0x92]),
     (''WIB'', [CHR 0xE1, CHR 0x8F, CHR 0xAD, CHR 0xE1, CHR 0x8F, CHR 0x95, CHR 0xE1, CHR 0x8E, CHR 0xB5, CHR 0xE1, CHR 0x8E, CHR 0xAC] @ '' '' @ [CHR 0xE1, CHR 0x8F, CHR 0x97, CHR 0xE1, CHR 0x8F, CHR 0x9C] @ '' '' @ [CHR 0xE1, CHR 0x8E, CHR 0xA2, CHR 0xE1, CHR 0x8F, CHR 0x82, CHR 0xE1, CHR 0x8F, CHR 0x99, CHR 0xE1, CHR 0x8F, CHR 0x82, CHR 0xE1, CHR 0x8F, CHR 0x8D, CHR 0xE1, CHR 0x8F, CHR 0xAF] @ '' '' @ [CHR 0xE1, CHR 0x8E, CHR 0xA0, CHR 0xE1, CHR 0x8F, CHR 0x9F, CHR 0xE1, CHR 0x8E, CHR 0xA2, CHR 0xE1, CHR 0x8E, CHR 0xB5, CHR 0xE1, CHR 0x8F, CHR 0x92]),
     (''ECT'', [CHR 0xE1, CHR 0x8E, CHR 0xA1, CHR 0xE1, CHR 0x8F, CHR 0x86, CHR 0xE1, CHR 0x8F, CHR 0x99, CHR 0xE1, CHR 0x8E, CHR 0xB5] @ '' '' @ [CHR 0xE1, CHR 0x8E, CHR 0xA0, CHR 0xE1, CHR 0x8F, CHR 0x9F, CHR 0xE1, CHR 0x8E, CHR 0xA2, CHR 0xE1, CHR 0x8E, CHR 0xB5, CHR 0xE1, CHR 0x8F, CHR 0x92]),
     (''ACWDT'', [CHR 0xE1, CHR 0x8E, CHR 0xA0, CHR 0xE1, CHR 0x8F, CHR 0xB0, CHR 0xE1, CHR 0x8F, CHR 0x9F] @ '' '' @ [CHR 0xE1, CHR 0x8E, CHR 0xA1, CHR 0xE1, CHR 0x8E, CHR 0xB3, CHR 0xE1, CHR 0x8F, CHR 0x97, CHR 0xE1, CHR 0x8F, CHR 0x9C] @ '' '' @ [CHR 0xE1, CHR 0x8F, CHR 0xAD, CHR 0xE1, CHR 0x8F, CHR 0x95, CHR 0xE1, CHR 0x8E, CHR 0xB5, CHR 0xE1, CHR 0x8E, CHR 0xAC] @ '' '' @ [CHR 0xE1, CHR 0x8F, CHR 0x97, CHR 0xE1, CHR 0x8F, CHR 0x9C] @ '' '' @ [CHR 0xE1, CHR 0x8E, CHR 0xAA, CHR 0xE1, CHR 0x8E, CHR 0xAF] @ '' '' @ [CHR 0xE1, CHR 0x8E, CHR 0xA2, CHR 0xE1, CHR 0x8E, CHR 0xA6] @ '' '' @ [CHR 0xE1, CHR 0x8E, CHR 0xA0, CHR 0xE1, CHR 0x8F, CHR 0x9F, CHR 0xE1, CHR 0x8E, CHR 0xA2, CHR 0xE1, CHR 0x8E, CHR 0xB5, CHR 0xE1, CHR 0x8F, CHR 0x92, CHR 0xE1, CHR 0x8E, CHR 0xA9]),
     (''CAT'', [CHR 0xE1, CHR 0x8E, CHR 0xA0, CHR 0xE1, CHR 0x8F, CHR 0xB0, CHR 0xE1, CHR 0x8F, CHR 0x9F] @ '' '' @ [CHR 0xE1, CHR 0x8E, CHR 0xAC, CHR 0xE1, CHR 0x8E, CHR 0xBF, CHR 0xE1, CHR 0x8E, CHR 0xA8, CHR 0xE1, CHR 0x8F, CHR 0x8D, CHR 0xE1, CHR 0x8F, CHR 0x9B] @ '' '' @ [CHR 0xE1, CHR 0x8E, CHR 0xA0, CHR 0xE1, CHR 0x8F, CHR 0x9F, CHR 0xE1, CHR 0x8E, CHR 0xA2, CHR 0xE1, CHR 0x8E, CHR 0xB5, CHR 0xE1, CHR 0x8F, CHR 0x92]),
     (''MDT'', ''MDT''),
     (''HENOMX'', [CHR 0xE1, CHR 0x8F, CHR 0xA7, CHR 0xE1, CHR 0x8F, CHR 0xB4, CHR 0xE1, CHR 0x8F, CHR 0xA2] @ '' '' @ [CHR 0xE1, CHR 0x8F, CHR 0xAD, CHR 0xE1, CHR 0x8F, CHR 0x95, CHR 0xE1, CHR 0x8E, CHR 0xB5, CHR 0xE1, CHR 0x8E, CHR 0xAC] @ '' '' @ [CHR 0xE1, CHR 0x8E, CHR 0xA0, CHR 0xE1, CHR 0x8F, CHR 0x82, CHR 0xE1, CHR 0x8F, CHR 0x8D, CHR 0xE1, CHR 0x8F, CHR 0x86, CHR 0xE1, CHR 0x8F, CHR 0x82] @ '' '' @ [CHR 0xE1, CHR 0x8E, CHR 0xAA, CHR 0xE1, CHR 0x8E, CHR 0xAF] @ '' '' @ [CHR 0xE1, CHR 0x8E, CHR 0xA2, CHR 0xE1, CHR 0x8E, CHR 0xA6] @ '' '' @ [CHR 0xE1, CHR 0x8E, CHR 0xA0, CHR 0xE1, CHR 0x8F, CHR 0x9F, CHR 0xE1, CHR 0x8E, CHR 0xA2, CHR 0xE1, CHR 0x8E, CHR 0xB5, CHR 0xE1, CHR 0x8F, CHR 0x8D, CHR 0xE1, CHR 0x8F, CHR 0x92, CHR 0xE1, CHR 0x8E, CHR 0xA9]),
     (''UYT'', [CHR 0xE1, CHR 0x8F, CHR 0xB3, CHR 0xE1, CHR 0x8E, CHR 0xB7, CHR 0xE1, CHR 0x8F, CHR 0x87] @ '' '' @ [CHR 0xE1, CHR 0x8E, CHR 0xA0, CHR 0xE1, CHR 0x8F, CHR 0x9F, CHR 0xE1, CHR 0x8E, CHR 0xB6, CHR 0xE1, CHR 0x8F, CHR 0x8D, CHR 0xE1, CHR 0x8F, CHR 0x97] @ '' '' @ [CHR 0xE1, CHR 0x8E, CHR 0xA0, CHR 0xE1, CHR 0x8F, CHR 0x9F, CHR 0xE1, CHR 0x8E, CHR 0xA2, CHR 0xE1, CHR 0x8E, CHR 0xB5, CHR 0xE1, CHR 0x8F, CHR 0x92])]"

definition en_NU_currencies :: "string list" where
  "en_NU_currencies =
    [''ADP'', ''AED'', ''AFA'', ''AFN'', ''ALK'', ''ALL'', ''AMD'', ''ANG'', ''AOA'', ''AOK'',
     ''AON'', ''AOR'', ''ARA'', ''ARL'', ''ARM'', ''ARP'', ''ARS'', ''ATS'', ''AUD'', ''AWG'',
     ''AZM'', ''AZN'', ''BAD'', ''BAM'', ''BAN'', ''BBD'', ''BDT'', ''BEC'', ''BEF'', ''BEL'',
     ''BGL'', ''BGM'', ''BGN'', ''BGO'', ''BHD'', ''BIF'', ''BMD'', ''BND'', ''BOB'', ''BOL'',
     ''BOP'', ''BOV'', ''BRB'', ''BRC'', ''BRE'', ''BRL'', ''BRN'', ''BRR'', ''BRZ'', ''BSD'',
     ''BTN'', ''BUK'', ''BWP'', ''BYB'', ''BYN'', ''BYR'', ''BZD'', ''CAD'', ''CDF'', ''CHE'',
     ''CHF'', ''CHW'', ''CLE'', ''CLF'', ''CLP'', ''CNX'', ''CNY'', ''COP'', ''COU'', ''CRC'',
     ''CSD'', ''CSK'', ''CUC'', ''CUP'', ''CVE'', ''CYP'', ''CZK'', ''DDM'', ''DEM'', ''DJF'',
     ''DKK'', ''DOP'', ''DZD'', ''ECS'', ''ECV'', ''EEK'', ''EGP'', ''ERN'', ''ESA'', ''ESB'',
     ''ESP'', ''ETB'', ''EUR'', ''FIM'', ''FJD'', ''FKP'', ''FRF'', ''GBP'', ''GEK'', ''GEL'',
     ''GHC'', ''GHS'', ''GIP'', ''GMD'', ''GNF'', ''GNS'', ''GQE'', ''GRD'', ''GTQ'', ''GWE'',
     ''GWP'', ''GYD'', ''HKD'', ''HNL'', ''HRD'', ''HRK'', ''HTG'', ''HUF'', ''IDR'', ''IEP'',
     ''ILP'', ''ILR'', ''ILS'', ''INR'', ''IQD'', ''IRR'', ''ISJ'', ''ISK'', ''ITL'', ''JMD'',
     ''JOD'', ''JPY'', ''KES'', ''KGS'', ''KHR'', ''KMF'', ''KPW'', ''KRH'', ''KRO'', ''KRW'',
     ''KWD'', ''KYD'', ''KZT'', ''LAK'', ''LBP'', ''LKR'', ''LRD'', ''LSL'', ''LTL'', ''LTT'',
     ''LUC'', ''LUF'', ''LUL'', ''LVL'', ''LVR'', ''LYD'', ''MAD'', ''MAF'', ''MCF'', ''MDC'',
     ''MDL'', ''MGA'', ''MGF'', ''MKD'', ''MKN'', ''MLF'', ''MMK'', ''MNT'', ''MOP'', ''MRO'',
     ''MTL'', ''MTP'', ''MUR'', ''MVP'', ''MVR'', ''MWK'', ''MXN'', ''MXP'', ''MXV'', ''MYR'',
     ''MZE'', ''MZM'', ''MZN'', ''NAD'', ''NGN'', ''NIC'', ''NIO'', ''NLG'', ''NOK'', ''NPR'',
     ''$'', ''OMR'', ''PAB'', ''PEI'', ''PEN'', ''PES'', ''PGK'', ''PHP'', ''PKR'', ''PLN'',
     ''PLZ'', ''PTE'', ''PYG'', ''QAR'', ''RHD'', ''ROL'', ''RON'', ''RSD'', ''RUB'', ''RUR'',
     ''RWF'', ''SAR'', ''SBD'', ''SCR'', ''SDD'', ''SDG'', ''SDP'', ''SEK'', ''SGD'', ''SHP'',
     ''SIT'', ''SKK'', ''SLL'', ''SOS'', ''SRD'', ''SRG'', ''SSP'', ''STD'', ''SUR'', ''SVC'',
     ''SYP'', ''SZL'', ''THB'', ''TJR'', ''TJS'', ''TMM'', ''TMT'', ''TND'', ''TOP'', ''TPE'',
     ''TRL'', ''TRY'', ''TTD'', ''TWD'', ''TZS'', ''UAH'', ''UAK'', ''UGS'', ''UGX'', ''USD'',
     ''USN'', ''USS'', ''UYI'', ''UYP'', ''UYU'', ''UZS'', ''VEB'', ''VEF'', ''VND'', ''VNN'',
     ''VUV'', ''WST'', ''XAF'', ''XAG'', ''XAU'', ''XBA'', ''XBB'', ''XBC'', ''XBD'', ''XCD'',
     ''XDR'', ''XEU'', ''XFO'', ''XFU'', ''XOF'', ''XPD'', ''XPF'', ''XPT'', ''XRE'', ''XSU'',
     ''XTS'', ''XUA'', ''XXX'', ''YDD'', ''YER'', ''YUD'', ''YUM'', ''YUN'', ''YUR'', ''ZAL'',
     ''ZAR'', ''ZMK'', ''ZMW'', ''ZRN'', ''ZRZ'', ''ZWD'', ''ZWL'', ''ZWR'']"

definition en_NU_timezones :: "(string \<times> string) list" where
  "en_NU_timezones =
    [(''WART'', ''Western Argentina Standard Time''), (''CLT'', ''Chile Standard Time''),
     (''AST'', ''Atlantic Standard Time''), (''ART'', ''Argentina Standard Time''),
     (''EDT'', ''Eastern Daylight Time''), (''ACST'', ''Australian Central Standard Time''),
     (''BOT'', ''Bolivia Time''), (''JST'', ''Japan Standard Time''),
     (''AKST'', ''Alaska Standard Time''), (''HADT'', ''Hawaii-Aleutian Daylight Time''),
     (''AWST'', ''Australian Western Standard Time''),
     (''HNPM'', ''St. Pierre '' @ [CHR 0x26] @ '' Miquelon Standard Time''),
     (''PDT'', ''Pacific Daylight Time''), (''OESZ'', ''Eastern European Summer Time''),
     (''LHST'', ''Lord Howe Standard Time''), (''CHAST'', ''Chatham Standard Time''),
     (''ECT'', ''Ecuador Time''), (''WARST'', ''Western Argentina Summer Time''),
     (''MDT'', ''Macau Summer Time''), (''HNNOMX'', ''Northwest Mexico Standard Time''),
     (''HNT'', ''Newfoundland Standard Time''), (''UYT'', ''Uruguay Standard Time''),
     (''UYST'', ''Uruguay Summer Time''),
     ([CHR 0xE2, CHR 0x88, CHR 0x85, CHR 0xE2, CHR 0x88, CHR 0x85, CHR 0xE2, CHR 0x88, CHR 0x85], ''Brasilia Summer Time''),
     (''ACWDT'', ''Australian Central Western Daylight Time''), (''SRT'', ''Suriname Time''),
     (''HEOG'', ''West Greenland Summer Time''), (''OEZ'', ''Eastern European Standard Time''),
     (''WEZ'', ''Western European Standard Time''), (''WAT'', ''West Africa Standard Time''),
     (''HENOMX'', ''Northwest Mexico Daylight Time''),
     (''HNEG'', ''East Greenland Standard Time''), (''CAT'', ''Central Africa Time''),
     (''HNOG'', ''West Greenland Standard Time''), (''GYT'', ''Guyana Time''),
     (''HEEG'', ''East Greenland Summer Time''), (''WITA'', ''Central Indonesia Time''),
     (''EST'', ''Eastern Standard Time''), (''EAT'', ''East Africa Time''),
     (''MEZ'', ''Central European Standard Time''), (''IST'', ''India Standard Time''),
     (''JDT'', ''Japan Daylight Time''), (''CLST'', ''Chile Summer Time''),
     (''GMT'', ''Greenwich Mean Time''), (''MYT'', ''Malaysia Time''),
     (''COT'', ''Colombia Standard Time''), (''WIB'', ''Western Indonesia Time''),
     (''WIT'', ''Eastern Indonesia Time''),
     (''HEPM'', ''St. Pierre '' @ [CHR 0x26] @ '' Miquelon Daylight Time''),
     (''NZST'', ''New Zealand Standard Time''), (''MESZ'', ''Central European Summer Time''),
     (''WESZ'', ''Western European Summer Time''), (''TMST'', ''Turkmenistan Summer Time''),
     (''MST'', ''Macau Standard Time''), (''HKST'', ''Hong Kong Summer Time''),
     (''PST'', ''Pacific Standard Time''), (''HAST'', ''Hawaii-Aleutian Standard Time''),
     (''AKDT'', ''Alaska Daylight Time''), (''LHDT'', ''Lord Howe Daylight Time''),
     (''CHADT'', ''Chatham Daylight Time''), (''BT'', ''Bhutan Time''),
     (''SGT'', ''Singapore Standard Time''), (''NZDT'', ''New Zealand Daylight Time''),
     (''TMT'', ''Turkmenistan Standard Time''), (''HKT'', ''Hong Kong Standard Time''),
     (''AEST'', ''Australian Eastern Standard Time''),
     (''SAST'', ''South Africa Standard Time''), (''HECU'', ''Cuba Daylight Time''),
     (''CDT'', ''Central Daylight Time''), (''COST'', ''Colombia Summer Time''),
     (''GFT'', ''French Guiana Time''), (''AEDT'', ''Australian Eastern Daylight Time''),
     (''HNPMX'', ''Mexican Pacific Standard Time''), (''HNCU'', ''Cuba Standard Time''),
     (''AWDT'', ''Australian Western Daylight Time''), (''ARST'', ''Argentina Summer Time''),
     (''HEPMX'', ''Mexican Pacific Daylight Time''), (''CST'', ''Central Standard Time''),
     (''ADT'', ''Atlantic Daylight Time''), (''WAST'', ''West Africa Summer Time''),
     (''ACDT'', ''Australian Central Daylight Time''),
     (''HAT'', ''Newfoundland Daylight Time''), (''ChST'', ''Chamorro Standard Time''),
     (''ACWST'', ''Australian Central Western Standard Time''), (''VET'', ''Venezuela Time'')]"

definition es_US_currencies :: "string list" where
  "es_US_currencies =
    [''ADP'', ''AED'', ''AFA'', ''AFN'', ''ALK'', ''ALL'', ''AMD'', ''ANG'', ''AOA'', ''AOK'',
     ''AON'', ''AOR'', ''ARA'', ''ARL'', ''ARM'', ''ARP'', ''ARS'', ''ATS'', ''AUD'', ''AWG'',
     ''AZM'', ''AZN'', ''BAD'', ''BAM'', ''BAN'', ''BBD'', ''BDT'', ''BEC'', ''BEF'', ''BEL'',
     ''BGL'', ''BGM'', ''BGN'', ''BGO'', ''BHD'', ''BIF'', ''BMD'', ''BND'', ''BOB'', ''BOL'',
     ''BOP'', ''BOV'', ''BRB'', ''BRC'', ''BRE'', ''BRL'', ''BRN'', ''BRR'', ''BRZ'', ''BSD'',
     ''BTN'', ''BUK'', ''BWP'', ''BYB'', ''BYN'', ''BYR'', ''BZD'', ''CAD'', ''CDF'', ''CHE'',
     ''CHF'', ''CHW'', ''CLE'', ''CLF'', ''CLP'', ''CNX'', ''CNY'', ''COP'', ''COU'', ''CRC'',
     ''CSD'', ''CSK'', ''CUC'', ''CUP'', ''CVE'', ''CYP'', ''CZK'', ''DDM'', ''DEM'', ''DJF'',
     ''DKK'', ''DOP'', ''DZD'', ''ECS'', ''ECV'', ''EEK'', ''EGP'', ''ERN'', ''ESA'', ''ESB'',
     ''ESP'', ''ETB'', ''EUR'', ''FIM'', ''FJD'', ''FKP'', ''FRF'', ''GBP'', ''GEK'', ''GEL'',
     ''GHC'', ''GHS'', ''GIP'', ''GMD'', ''GNF'', ''GNS'', ''GQE'', ''GRD'', ''GTQ'', ''GWE'',
     ''GWP'', ''GYD'', ''HKD'', ''HNL'', ''HRD'', ''HRK'', ''HTG'', ''HUF'', ''IDR'', ''IEP'',
     ''ILP'', ''ILR'', ''ILS'', ''INR'', ''IQD'', ''IRR'', ''ISJ'', ''ISK'', ''ITL'', ''JMD'',
     ''JOD'', [CHR 0xC2, CHR 0xA5], ''KES'', ''KGS'', ''KHR'', ''KMF'', ''KPW'', ''KRH'',
     ''KRO'', ''KRW'', ''KWD'', ''KYD'', ''KZT'', ''LAK'', ''LBP'', ''LKR'', ''LRD'', ''LSL'',
     ''LTL'', ''LTT'', ''LUC'', ''LUF'', ''LUL'', ''LVL'', ''LVR'', ''LYD'', ''MAD'', ''MAF'',
     ''MCF'', ''MDC'', ''MDL'', ''MGA'', ''MGF'', ''MKD'', ''MKN'', ''MLF'', ''MMK'', ''MNT'',
     ''MOP'', ''MRO'', ''MTL'', ''MTP'', ''MUR'', ''MVP'', ''MVR'', ''MWK'', ''MXN'', ''MXP'',
     ''MXV'', ''MYR'', ''MZE'', ''MZM'', ''MZN'', ''NAD'', ''NGN'', ''NIC'', ''NIO'', ''NLG'',
     ''NOK'', ''NPR'', ''NZD'', ''OMR'', ''PAB'', ''PEI'', ''PEN'', ''PES'', ''PGK'', ''PHP'',
     ''PKR'', ''PLN'', ''PLZ'', ''PTE'', ''PYG'', ''QAR'', ''RHD'', ''ROL'', ''lei'', ''RSD'',
     ''RUB'', ''RUR'', ''RWF'', ''SAR'', ''SBD'', ''SCR'', ''SDD'', ''SDG'', ''SDP'', ''SEK'',
     ''SGD'', ''SHP'', ''SIT'', ''SKK'', ''SLL'', ''SOS'', ''SRD'', ''SRG'', ''SSP'', ''STD'',
     ''SUR'', ''SVC'', ''SYP'', ''SZL'', ''THB'', ''TJR'', ''TJS'', ''TMM'', ''TMT'', ''TND'',
     ''TOP'', ''TPE'', ''TRL'', ''TRY'', ''TTD'', ''TWD'', ''TZS'', ''UAH'', ''UAK'', ''UGS'',
     ''UGX'', ''$'', ''USN'', ''USS'', ''UYI'', ''UYP'', ''UYU'', ''UZS'', ''VEB'', ''VEF'',
     ''VND'', ''VNN'', ''VUV'', ''WST'', ''XAF'', ''XAG'', ''XAU'', ''XBA'', ''XBB'', ''XBC'',
     ''XBD'', ''XCD'', ''XDR'', ''XEU'', ''XFO'', ''XFU'', ''XOF'', ''XPD'', ''XPF'', ''XPT'',
     ''XRE'', ''XSU'', ''XTS'', ''XUA'', ''XXX'', ''YDD'', ''YER'', ''YUD'', ''YUM'', ''YUN'',
     ''YUR'', ''ZAL'', ''ZAR'', ''ZMK'', ''ZMW'', ''ZRN'', ''ZRZ'', ''ZWD'', ''ZWL'', ''ZWR'']"

definition es_US_timezones :: "(string \<times> string) list" where
  "es_US_timezones =
    [(''WITA'', ''hora de Indonesia central''),
     (''SAST'', ''hora de Sud'' @ [CHR 0xC3, CHR 0xA1] @ ''frica''),
     (''CHADT'', ''hora de verano de Chatham''),
     (''TMST'', ''hora de verano de Turkmenist'' @ [CHR 0xC3, CHR 0xA1] @ ''n''),
     (''HAT'', ''hora de verano de Terranova''),
     (''HNEG'', ''hora est'' @ [CHR 0xC3, CHR 0xA1] @ ''ndar de Groenlandia oriental''),
     (''AEST'', ''hora est'' @ [CHR 0xC3, CHR 0xA1] @ ''ndar de Australia oriental''),
     (''HECU'', ''hora de verano de Cuba''),
     (''OEZ'', ''hora est'' @ [CHR 0xC3, CHR 0xA1] @ ''ndar de Europa oriental''),
     (''COT'', ''hora est'' @ [CHR 0xC3, CHR 0xA1] @ ''ndar de Colombia''),
     (''HEEG'', ''hora de verano de Groenlandia oriental''),
     (''MST'', ''hora est'' @ [CHR 0xC3, CHR 0xA1] @ ''ndar de las Monta'' @ [CHR 0xC3, CHR 0xB1] @ ''as''),
     (''HNPM'', ''hora est'' @ [CHR 0xC3, CHR 0xA1] @ ''ndar de San Pedro y Miquel'' @ [CHR 0xC3, CHR 0xB3] @ ''n''),
     (''WIB'', ''hora de Indonesia occidental''),
     (''NZDT'', ''hora de verano de Nueva Zelanda''), (''VET'', ''hora de Venezuela''),
     (''JDT'', ''hora de verano de Jap'' @ [CHR 0xC3, CHR 0xB3] @ ''n''),
     (''ACST'', ''hora est'' @ [CHR 0xC3, CHR 0xA1] @ ''ndar de Australia central''),
     (''MDT'', ''hora de verano de las Monta'' @ [CHR 0xC3, CHR 0xB1] @ ''as''),
     (''ACWST'', ''hora est'' @ [CHR 0xC3, CHR 0xA1] @ ''ndar de Australia centroccidental''),
     (''AKST'', ''hora est'' @ [CHR 0xC3, CHR 0xA1] @ ''ndar de Alaska''),
     (''AKDT'', ''hora de verano de Alaska''), (''LHDT'', ''hora de verano de Lord Howe''),
     (''GYT'', ''hora de Guyana''), (''BOT'', ''hora de Bolivia''),
     (''HADT'', ''hora de verano de Haw'' @ [CHR 0xC3, CHR 0xA1] @ ''i-Aleutiano''),
     (''ART'', ''hora est'' @ [CHR 0xC3, CHR 0xA1] @ ''ndar de Argentina''),
     (''MYT'', ''hora de Malasia''), (''WESZ'', ''hora de verano de Europa occidental''),
     (''EST'', ''hora est'' @ [CHR 0xC3, CHR 0xA1] @ ''ndar oriental''),
     (''HKST'', ''hora de verano de Hong Kong''), (''GFT'', ''hora de la Guayana Francesa''),
     (''LHST'', ''hora est'' @ [CHR 0xC3, CHR 0xA1] @ ''ndar de Lord Howe''),
     (''CDT'', ''hora de verano central''),
     (''IST'', ''hora est'' @ [CHR 0xC3, CHR 0xA1] @ ''ndar de la India''),
     (''CLT'', ''hora est'' @ [CHR 0xC3, CHR 0xA1] @ ''ndar de Chile''),
     (''HEOG'', ''hora de verano de Groenlandia occidental''),
     (''MEZ'', ''hora est'' @ [CHR 0xC3, CHR 0xA1] @ ''ndar de Europa central''),
     (''OESZ'', ''hora de verano de Europa oriental''), (''EDT'', ''hora de verano oriental''),
     (''COST'', ''hora de verano de Colombia''),
     ([CHR 0xE2, CHR 0x88, CHR 0x85, CHR 0xE2, CHR 0x88, CHR 0x85, CHR 0xE2, CHR 0x88, CHR 0x85], ''hora de verano de las Azores''),
     (''EAT'', ''hora de '' @ [CHR 0xC3, CHR 0x81] @ ''frica oriental''),
     (''NZST'', ''hora est'' @ [CHR 0xC3, CHR 0xA1] @ ''ndar de Nueva Zelanda''),
     (''JST'', ''hora est'' @ [CHR 0xC3, CHR 0xA1] @ ''ndar de Jap'' @ [CHR 0xC3, CHR 0xB3] @ ''n''),
     (''HKT'', ''hora est'' @ [CHR 0xC3, CHR 0xA1] @ ''ndar de Hong Kong''),
     (''BT'', ''hora de But'' @ [CHR 0xC3, CHR 0xA1] @ ''n''),
     (''HNT'', ''hora est'' @ [CHR 0xC3, CHR 0xA1] @ ''ndar de Terranova''),
     (''CST'', ''hora est'' @ [CHR 0xC3, CHR 0xA1] @ ''ndar central''),
     (''AWDT'', ''hora de verano de Australia occidental''),
     (''WAST'', ''hora de verano de '' @ [CHR 0xC3, CHR 0x81] @ ''frica occidental''),
     (''HNCU'', ''hora est'' @ [CHR 0xC3, CHR 0xA1] @ ''ndar de Cuba''),
     (''ECT'', ''hora de Ecuador''),
     (''HNOG'', ''hora est'' @ [CHR 0xC3, CHR 0xA1] @ ''ndar de Groenlandia occidental''),
     (''AST'', ''hora est'' @ [CHR 0xC3, CHR 0xA1] @ ''ndar del Atl'' @ [CHR 0xC3, CHR 0xA1] @ ''ntico''),
     (''WEZ'', ''hora est'' @ [CHR 0xC3, CHR 0xA1] @ ''ndar de Europa occidental''),
     (''ACDT'', ''hora de verano de Australia central''),
     (''UYST'', ''hora de verano de Uruguay''),
     (''HNPMX'', ''hora est'' @ [CHR 0xC3, CHR 0xA1] @ ''ndar del Pac'' @ [CHR 0xC3, CHR 0xAD] @ ''fico de M'' @ [CHR 0xC3, CHR 0xA9] @ ''xico''),
     (''CHAST'', ''hora est'' @ [CHR 0xC3, CHR 0xA1] @ ''ndar de Chatham''),
     (''MESZ'', ''hora de verano de Europa central''),
     (''HNNOMX'', ''hora est'' @ [CHR 0xC3, CHR 0xA1] @ ''ndar del noroeste de M'' @ [CHR 0xC3, CHR 0xA9] @ ''xico''),
     (''WAT'', ''hora est'' @ [CHR 0xC3, CHR 0xA1] @ ''ndar de '' @ [CHR 0xC3, CHR 0x81] @ ''frica occidental''),
     (''ChST'', ''hora de Chamorro''),
     (''UYT'', ''hora est'' @ [CHR 0xC3, CHR 0xA1] @ ''ndar de Uruguay''),
     (''SGT'', ''hora de Singapur''),
     (''HAST'', ''hora est'' @ [CHR 0xC3, CHR 0xA1] @ ''ndar de Haw'' @ [CHR 0xC3, CHR 0xA1] @ ''i-Aleutiano''),
     (''CAT'', ''hora de '' @ [CHR 0xC3, CHR 0x81] @ ''frica central''),
     (''ADT'', ''hora de verano del Atl'' @ [CHR 0xC3, CHR 0xA1] @ ''ntico''),
     (''ARST'', ''hora de verano de Argentina''),
     (''HENOMX'', ''hora de verano del noroeste de M'' @ [CHR 0xC3, CHR 0xA9] @ ''xico''),
     (''AEDT'', ''hora de verano de Australia oriental''), (''SRT'', ''hora de Surinam''),
     (''HEPMX'', ''hora de verano del Pac'' @ [CHR 0xC3, CHR 0xAD] @ ''fico de M'' @ [CHR 0xC3, CHR 0xA9] @ ''xico''),
     (''AWST'', ''hora est'' @ [CHR 0xC3, CHR 0xA1] @ ''ndar de Australia occidental''),
     (''PST'', ''hora est'' @ [CHR 0xC3, CHR 0xA1] @ ''ndar del Pac'' @ [CHR 0xC3, CHR 0xAD] @ ''fico''),
     (''GMT'', ''hora del meridiano de Greenwich''),
     (''TMT'', ''hora est'' @ [CHR 0xC3, CHR 0xA1] @ ''ndar de Turkmenist'' @ [CHR 0xC3, CHR 0xA1] @ ''n''),
     (''HEPM'', ''hora de verano de San Pedro y Miquel'' @ [CHR 0xC3, CHR 0xB3] @ ''n''),
     (''ACWDT'', ''hora de verano de Australia centroccidental''),
     (''WART'', ''hora est'' @ [CHR 0xC3, CHR 0xA1] @ ''ndar de Argentina occidental''),
     (''WIT'', ''hora de Indonesia oriental''),
     (''PDT'', ''hora de verano del Pac'' @ [CHR 0xC3, CHR 0xAD] @ ''fico''),
     (''WARST'', ''hora de verano de Argentina occidental''),
     (''CLST'', ''hora de verano de Chile'')]"

definition ksf_CM_currencies :: "string list" where
  "ksf_CM_currencies =
    [''ADP'', ''AED'', ''AFA'', ''AFN'', ''ALK'', ''ALL'', ''AMD'', ''ANG'', ''AOA'', ''AOK'',
     ''AON'', ''AOR'', ''ARA'', ''ARL'', ''ARM'', ''ARP'', ''ARS'', ''ATS'', ''AUD'', ''AWG'',
     ''AZM'', ''AZN'', ''BAD'', ''BAM'', ''BAN'', ''BBD'', ''BDT'', ''BEC'', ''BEF'', ''BEL'',
     ''BGL'', ''BGM'', ''BGN'', ''BGO'', ''BHD'', ''BIF'', ''BMD'', ''BND'', ''BOB'', ''BOL'',
     ''BOP'', ''BOV'', ''BRB'', ''BRC'', ''BRE'', ''BRL'', ''BRN'', ''BRR'', ''BRZ'', ''BSD'',
     ''BTN'', ''BUK'', ''BWP'', ''BYB'', ''BYN'', ''BYR'', ''BZD'', ''CAD'', ''CDF'', ''CHE'',
     ''CHF'', ''CHW'', ''CLE'', ''CLF'', ''CLP'', ''CNX'', ''CNY'', ''COP'', ''COU'', ''CRC'',
     ''CSD'', ''CSK'', ''CUC'', ''CUP'', ''CVE'', ''CYP'', ''CZK'', ''DDM'', ''DEM'', ''DJF'',
     ''DKK'', ''DOP'', ''DZD'', ''ECS'', ''ECV'', ''EEK'', ''EGP'', ''ERN'', ''ESA'', ''ESB'',
     ''ESP'', ''ETB'', ''EUR'', ''FIM'', ''FJD'', ''FKP'', ''FRF'', ''GBP'', ''GEK'', ''GEL'',
     ''GHC'', ''GHS'', ''GIP'', ''GMD'', ''GNF'', ''GNS'', ''GQE'', ''GRD'', ''GTQ'', ''GWE'',
     ''GWP'', ''GYD'', ''HKD'', ''HNL'', ''HRD'', ''HRK'', ''HTG'', ''HUF'', ''IDR'', ''IEP'',
     ''ILP'', ''ILR'', ''ILS'', ''INR'', ''IQD'', ''IRR'', ''ISJ'', ''ISK'', ''ITL'', ''JMD'',
     ''JOD'', ''JPY'', ''KES'', ''KGS'', ''KHR'', ''KMF'', ''KPW'', ''KRH'', ''KRO'', ''KRW'',
     ''KWD'', ''KYD'', ''KZT'', ''LAK'', ''LBP'', ''LKR'', ''LRD'', ''LSL'', ''LTL'', ''LTT'',
     ''LUC'', ''LUF'', ''LUL'', ''LVL'', ''LVR'', ''LYD'', ''MAD'', ''MAF'', ''MCF'', ''MDC'',
     ''MDL'', ''MGA'', ''MGF'', ''MKD'', ''MKN'', ''MLF'', ''MMK'', ''MNT'', ''MOP'', ''MRO'',
     ''MTL'', ''MTP'', ''MUR'', ''MVP'', ''MVR'', ''MWK'', ''MXN'', ''MXP'', ''MXV'', ''MYR'',
     ''MZE'', ''MZM'', ''MZN'', ''NAD'', ''NGN'', ''NIC'', ''NIO'', ''NLG'', ''NOK'', ''NPR'',
     ''NZD'', ''OMR'', ''PAB'', ''PEI'', ''PEN'', ''PES'', ''PGK'', ''PHP'', ''PKR'', ''PLN'',
     ''PLZ'', ''PTE'', ''PYG'', ''QAR'', ''RHD'', ''ROL'', ''RON'', ''RSD'', ''RUB'', ''RUR'',
     ''RWF'', ''SAR'', ''SBD'', ''SCR'', ''SDD'', ''SDG'', ''SDP'', ''SEK'', ''SGD'', ''SHP'',
     ''SIT'', ''SKK'', ''SLL'', ''SOS'', ''SRD'', ''SRG'', ''SSP'', ''STD'', ''SUR'', ''SVC'',
     ''SYP'', ''SZL'', ''THB'', ''TJR'', ''TJS'', ''TMM'', ''TMT'', ''TND'', ''TOP'', ''TPE'',
     ''TRL'', ''TRY'', ''TTD'', ''TWD'', ''TZS'', ''UAH'', ''UAK'', ''UGS'', ''UGX'', ''USD'',
     ''USN'', ''USS'', ''UYI'', ''UYP'', ''UYU'', ''UZS'', ''VEB'', ''VEF'', ''VND'', ''VNN'',
     ''VUV'', ''WST'', ''XAF'', ''XAG'', ''XAU'', ''XBA'', ''XBB'', ''XBC'', ''XBD'', ''XCD'',
     ''XDR'', ''XEU'', ''XFO'', ''XFU'', ''XOF'', ''XPD'', ''XPF'', ''XPT'', ''XRE'', ''XSU'',
     ''XTS'', ''XUA'', ''XXX'', ''YDD'', ''YER'', ''YUD'', ''YUM'', ''YUN'', ''YUR'', ''ZAL'',
     ''ZAR'', ''ZMK'', ''ZMW'', ''ZRN'', ''ZRZ'', ''ZWD'', ''ZWL'', ''ZWR'']"

definition ksf_CM_timezones :: "(string \<times> string) list" where
  "ksf_CM_timezones =
    [(''HEPMX'', ''HEPMX''), (''IST'', ''IST''), (''ACST'', ''ACST''),
     ([CHR 0xE2, CHR 0x88, CHR 0x85, CHR 0xE2, CHR 0x88, CHR 0x85, CHR 0xE2, CHR 0x88, CHR 0x85], [CHR 0xE2, CHR 0x88, CHR 0x85, CHR 0xE2, CHR 0x88, CHR 0x85, CHR 0xE2, CHR 0x88, CHR 0x85]),
     (''WIB'', ''WIB''), (''NZDT'', ''NZDT''), (''MEZ'', ''MEZ''), (''ADT'', ''ADT''),
     (''HNCU'', ''HNCU''), (''MESZ'', ''MESZ''), (''AST'', ''AST''), (''WEZ'', ''WEZ''),
     (''EDT'', ''EDT''), (''BT'', ''BT''), (''LHST'', ''LHST''), (''PDT'', ''PDT''),
     (''HNOG'', ''HNOG''), (''GMT'', ''GMT''), (''TMT'', ''TMT''), (''HEPM'', ''HEPM''),
     (''OESZ'', ''OESZ''), (''MYT'', ''MYT''), (''TMST'', ''TMST''), (''HNNOMX'', ''HNNOMX''),
     (''WITA'', ''WITA''), (''ECT'', ''ECT''), (''ACWDT'', ''ACWDT''), (''NZST'', ''NZST''),
     (''MDT'', ''MDT''), (''HNEG'', ''HNEG''), (''UYST'', ''UYST''), (''VET'', ''VET''),
     (''OEZ'', ''OEZ''), (''EST'', ''EST''), (''HAT'', ''HAT''), (''ChST'', ''ChST''),
     (''HAST'', ''HAST''), (''HADT'', ''HADT''), (''WARST'', ''WARST''), (''ACDT'', ''ACDT''),
     (''AKST'', ''AKST''), (''LHDT'', ''LHDT''), (''WIT'', ''WIT''), (''CHAST'', ''CHAST''),
     (''WART'', ''WART''), (''CLST'', ''CLST''), (''WAT'', ''WAT''), (''COT'', ''COT''),
     (''EAT'', ''EAT''), (''HECU'', ''HECU''), (''CHADT'', ''CHADT''), (''CAT'', ''CAT''),
     (''HENOMX'', ''HENOMX''), (''SAST'', ''SAST''), (''AWST'', ''AWST''), (''JST'', ''JST''),
     (''COST'', ''COST''), (''AKDT'', ''AKDT''), (''HNPMX'', ''HNPMX''), (''BOT'', ''BOT''),
     (''CLT'', ''CLT''), (''HNT'', ''HNT''), (''AEST'', ''AEST''), (''HNPM'', ''HNPM''),
     (''ART'', ''ART''), (''GYT'', ''GYT''), (''CST'', ''CST''), (''CDT'', ''CDT''),
     (''PST'', ''PST''), (''ACWST'', ''ACWST''), (''JDT'', ''JDT''), (''MST'', ''MST''),
     (''WAST'', ''WAST''), (''UYT'', ''UYT''), (''AWDT'', ''AWDT''), (''SGT'', ''SGT''),
     (''ARST'', ''ARST''), (''HKT'', ''HKT''), (''AEDT'', ''AEDT''), (''GFT'', ''GFT''),
     (''SRT'', ''SRT''), (''HEOG'', ''HEOG''), (''WESZ'', ''WESZ''), (''HKST'', ''HKST''),
     (''HEEG'', ''HEEG'')]"

definition kw_currencies :: "string list" where
  "kw_currencies =
    [''ADP'', ''AED'', ''AFA'', ''AFN'', ''ALK'', ''ALL'', ''AMD'', ''ANG'', ''AOA'', ''AOK'',
     ''AON'', ''AOR'', ''ARA'', ''ARL'', ''ARM'', ''ARP'', ''ARS'', ''ATS'', ''AUD'', ''AWG'',
     ''AZM'', ''AZN'', ''BAD'', ''BAM'', ''BAN'', ''BBD'', ''BDT'', ''BEC'', ''BEF'', ''BEL'',
     ''BGL'', ''BGM'', ''BGN'', ''BGO'', ''BHD'', ''BIF'', ''BMD'', ''BND'', ''BOB'', ''BOL'',
     ''BOP'', ''BOV'', ''BRB'', ''BRC'', ''BRE'', ''BRL'', ''BRN'', ''BRR'', ''BRZ'', ''BSD'',
     ''BTN'', ''BUK'', ''BWP'', ''BYB'', ''BYN'', ''BYR'', ''BZD'', ''CAD'', ''CDF'', ''CHE'',
     ''CHF'', ''CHW'', ''CLE'', ''CLF'', ''CLP'', ''CNX'', ''CNY'', ''COP'', ''COU'', ''CRC'',
     ''CSD'', ''CSK'', ''CUC'', ''CUP'', ''CVE'', ''CYP'', ''CZK'', ''DDM'', ''DEM'', ''DJF'',
     ''DKK'', ''DOP'', ''DZD'', ''ECS'', ''ECV'', ''EEK'', ''EGP'', ''ERN'', ''ESA'', ''ESB'',
     ''ESP'', ''ETB'', ''EUR'', ''FIM'', ''FJD'', ''FKP'', ''FRF'', ''GBP'', ''GEK'', ''GEL'',
     ''GHC'', ''GHS'', ''GIP'', ''GMD'', ''GNF'', ''GNS'', ''GQE'', ''GRD'', ''GTQ'', ''GWE'',
     ''GWP'', ''GYD'', ''HKD'', ''HNL'', ''HRD'', ''HRK'', ''HTG'', ''HUF'', ''IDR'', ''IEP'',
     ''ILP'', ''ILR'', ''ILS'', ''INR'', ''IQD'', ''IRR'', ''ISJ'', ''ISK'', ''ITL'', ''JMD'',
     ''JOD'', ''JPY'', ''KES'', ''KGS'', ''KHR'', ''KMF'', ''KPW'', ''KRH'', ''KRO'', ''KRW'',
     ''KWD'', ''KYD'', ''KZT'', ''LAK'', ''LBP'', ''LKR'', ''LRD'', ''LSL'', ''LTL'', ''LTT'',
     ''LUC'', ''LUF'', ''LUL'', ''LVL'', ''LVR'', ''LYD'', ''MAD'', ''MAF'', ''MCF'', ''MDC'',
     ''MDL'', ''MGA'', ''MGF'', ''MKD'', ''MKN'', ''MLF'', ''MMK'', ''MNT'', ''MOP'', ''MRO'',
     ''MTL'', ''MTP'', ''MUR'', ''MVP'', ''MVR'', ''MWK'', ''MXN'', ''MXP'', ''MXV'', ''MYR'',
     ''MZE'', ''MZM'', ''MZN'', ''NAD'', ''NGN'', ''NIC'', ''NIO'', ''NLG'', ''NOK'', ''NPR'',
     ''NZD'', ''OMR'', ''PAB'', ''PEI'', ''PEN'', ''PES'', ''PGK'', ''PHP'', ''PKR'', ''PLN'',
     ''PLZ'', ''PTE'', ''PYG'', ''QAR'', ''RHD'', ''ROL'', ''RON'', ''RSD'', ''RUB'', ''RUR'',
     ''RWF'', ''SAR'', ''SBD'', ''SCR'', ''SDD'', ''SDG'', ''SDP'', ''SEK'', ''SGD'', ''SHP'',
     ''SIT'', ''SKK'', ''SLL'', ''SOS'', ''SRD'', ''SRG'', ''SSP'', ''STD'', ''SUR'', ''SVC'',
     ''SYP'', ''SZL'', ''THB'', ''TJR'', ''TJS'', ''TMM'', ''TMT'', ''TND'', ''TOP'', ''TPE'',
     ''TRL'', ''TRY'', ''TTD'', ''TWD'', ''TZS'', ''UAH'', ''UAK'', ''UGS'', ''UGX'', ''USD'',
     ''USN'', ''USS'', ''UYI'', ''UYP'', ''UYU'', ''UZS'', ''VEB'', ''VEF'', ''VND'', ''VNN'',
     ''VUV'', ''WST'', ''XAF'', ''XAG'', ''XAU'', ''XBA'', ''XBB'', ''XBC'', ''XBD'', ''XCD'',
     ''XDR'', ''XEU'', ''XFO'', ''XFU'', ''XOF'', ''XPD'', ''XPF'', ''XPT'', ''XRE'', ''XSU'',
     ''XTS'', ''XUA'', ''XXX'', ''YDD'', ''YER'', ''YUD'', ''YUM'', ''YUN'', ''YUR'', ''ZAL'',
     ''ZAR'', ''ZMK'', ''ZMW'', ''ZRN'', ''ZRZ'', ''ZWD'', ''ZWL'', ''ZWR'']"

definition kw_timezones :: "(string \<times> string) list" where
  "kw_timezones =
    [(''HAT'', ''HAT''), (''AEDT'', ''AEDT''), (''CHADT'', ''CHADT''), (''CAT'', ''CAT''),
     (''MEZ'', ''MEZ''), (''MST'', ''MST''), (''ACST'', ''ACST''), (''BT'', ''BT''),
     (''JDT'', ''JDT''), (''HECU'', ''HECU''), (''CST'', ''CST''), (''OESZ'', ''OESZ''),
     (''EST'', ''EST''), (''HNEG'', ''HNEG''), (''HEPM'', ''HEPM''), (''HNT'', ''HNT''),
     (''HNPMX'', ''HNPMX''), (''EAT'', ''EAT''), (''PDT'', ''PDT''), (''MESZ'', ''MESZ''),
     (''HKST'', ''HKST''), (''ACDT'', ''ACDT''), (''HENOMX'', ''HENOMX''), (''TMT'', ''TMT''),
     (''WEZ'', ''WEZ''), (''AKST'', ''AKST''), (''AEST'', ''AEST''), (''ChST'', ''ChST''),
     (''LHDT'', ''LHDT''), (''WIB'', ''WIB''), (''WARST'', ''WARST''), (''HAST'', ''HAST''),
     (''CLT'', ''CLT''), (''CLST'', ''CLST''), (''AST'', ''AST''), (''WESZ'', ''WESZ''),
     (''ARST'', ''ARST''), (''HEEG'', ''HEEG''), (''BOT'', ''BOT''), (''LHST'', ''LHST''),
     (''AWDT'', ''AWDT''), (''GMT'', ''GMT''), (''SAST'', ''SAST''), (''WIT'', ''WIT''),
     (''AWST'', ''AWST''), (''SGT'', ''SGT''), (''PST'', ''PST''), (''HNNOMX'', ''HNNOMX''),
     (''GFT'', ''GFT''), (''HNPM'', ''HNPM''), (''HADT'', ''HADT''), (''NZST'', ''NZST''),
     (''MDT'', ''MDT''), (''WAST'', ''WAST''),
     ([CHR 0xE2, CHR 0x88, CHR 0x85, CHR 0xE2, CHR 0x88, CHR 0x85, CHR 0xE2, CHR 0x88, CHR 0x85], [CHR 0xE2, CHR 0x88, CHR 0x85, CHR 0xE2, CHR 0x88, CHR 0x85, CHR 0xE2, CHR 0x88, CHR 0x85]),
     (''SRT'', ''SRT''), (''ADT'', ''ADT''), (''TMST'', ''TMST''), (''VET'', ''VET''),
     (''HNOG'', ''HNOG''), (''WAT'', ''WAT''), (''CHAST'', ''CHAST''), (''OEZ'', ''OEZ''),
     (''EDT'', ''EDT''), (''COT'', ''COT''), (''GYT'', ''GYT''), (''JST'', ''JST''),
     (''WART'', ''WART''), (''HEOG'', ''HEOG''), (''HNCU'', ''HNCU''), (''CDT'', ''CDT''),
     (''ACWDT'', ''ACWDT''), (''WITA'', ''WITA''), (''HEPMX'', ''HEPMX''), (''ECT'', ''ECT''),
     (''IST'', ''IST''), (''ACWST'', ''ACWST''), (''ART'', ''ART''), (''HKT'', ''HKT''),
     (''COST'', ''COST''), (''MYT'', ''MYT''), (''NZDT'', ''NZDT''), (''AKDT'', ''AKDT''),
     (''UYT'', ''UYT''), (''UYST'', ''UYST'')]"

definition rwk_currencies :: "string list" where
  "rwk_currencies =
    [''ADP'', ''AED'', ''AFA'', ''AFN'', ''ALK'', ''ALL'', ''AMD'', ''ANG'', ''AOA'', ''AOK'',
     ''AON'', ''AOR'', ''ARA'', ''ARL'', ''ARM'', ''ARP'', ''ARS'', ''ATS'', ''AUD'', ''AWG'',
     ''AZM'', ''AZN'', ''BAD'', ''BAM'', ''BAN'', ''BBD'', ''BDT'', ''BEC'', ''BEF'', ''BEL'',
     ''BGL'', ''BGM'', ''BGN'', ''BGO'', ''BHD'', ''BIF'', ''BMD'', ''BND'', ''BOB'', ''BOL'',
     ''BOP'', ''BOV'', ''BRB'', ''BRC'', ''BRE'', ''BRL'', ''BRN'', ''BRR'', ''BRZ'', ''BSD'',
     ''BTN'', ''BUK'', ''BWP'', ''BYB'', ''BYN'', ''BYR'', ''BZD'', ''CAD'', ''CDF'', ''CHE'',
     ''CHF'', ''CHW'', ''CLE'', ''CLF'', ''CLP'', ''CNX'', ''CNY'', ''COP'', ''COU'', ''CRC'',
     ''CSD'', ''CSK'', ''CUC'', ''CUP'', ''CVE'', ''CYP'', ''CZK'', ''DDM'', ''DEM'', ''DJF'',
     ''DKK'', ''DOP'', ''DZD'', ''ECS'', ''ECV'', ''EEK'', ''EGP'', ''ERN'', ''ESA'', ''ESB'',
     ''ESP'', ''ETB'', ''EUR'', ''FIM'', ''FJD'', ''FKP'', ''FRF'', ''GBP'', ''GEK'', ''GEL'',
     ''GHC'', ''GHS'', ''GIP'', ''GMD'', ''GNF'', ''GNS'', ''GQE'', ''GRD'', ''GTQ'', ''GWE'',
     ''GWP'', ''GYD'', ''HKD'', ''HNL'', ''HRD'', ''HRK'', ''HTG'', ''HUF'', ''IDR'', ''IEP'',
     ''ILP'', ''ILR'', ''ILS'', ''INR'', ''IQD'', ''IRR'', ''ISJ'', ''ISK'', ''ITL'', ''JMD'',
     ''JOD'', ''JPY'', ''KES'', ''KGS'', ''KHR'', ''KMF'', ''KPW'', ''KRH'', ''KRO'', ''KRW'',
     ''KWD'', ''KYD'', ''KZT'', ''LAK'', ''LBP'', ''LKR'', ''LRD'', ''LSL'', ''LTL'', ''LTT'',
     ''LUC'', ''LUF'', ''LUL'', ''LVL'', ''LVR'', ''LYD'', ''MAD'', ''MAF'', ''MCF'', ''MDC'',
     ''MDL'', ''MGA'', ''MGF'', ''MKD'', ''MKN'', ''MLF'', ''MMK'', ''MNT'', ''MOP'', ''MRO'',
     ''MTL'', ''MTP'', ''MUR'', ''MVP'', ''MVR'', ''MWK'', ''MXN'', ''MXP'', ''MXV'', ''MYR'',
     ''MZE'', ''MZM'', ''MZN'', ''NAD'', ''NGN'', ''NIC'', ''NIO'', ''NLG'', ''NOK'', ''NPR'',
     ''NZD'', ''OMR'', ''PAB'', ''PEI'', ''PEN'', ''PES'', ''PGK'', ''PHP'', ''PKR'', ''PLN'',
     ''PLZ'', ''PTE'', ''PYG'', ''QAR'', ''RHD'', ''ROL'', ''RON'', ''RSD'', ''RUB'', ''RUR'',
     ''RWF'', ''SAR'', ''SBD'', ''SCR'', ''SDD'', ''SDG'', ''SDP'', ''SEK'', ''SGD'', ''SHP'',
     ''SIT'', ''SKK'', ''SLL'', ''SOS'', ''SRD'', ''SRG'', ''SSP'', ''STD'', ''SUR'', ''SVC'',
     ''SYP'', ''SZL'', ''THB'', ''TJR'', ''TJS'', ''TMM'', ''TMT'', ''TND'', ''TOP'', ''TPE'',
     ''TRL'', ''TRY'', ''TTD'', ''TWD'', ''TSh'', ''UAH'', ''UAK'', ''UGS'', ''UGX'', ''USD'',
     ''USN'', ''USS'', ''UYI'', ''UYP'', ''UYU'', ''UZS'', ''VEB'', ''VEF'', ''VND'', ''VNN'',
     ''VUV'', ''WST'', ''XAF'', ''XAG'', ''XAU'', ''XBA'', ''XBB'', ''XBC'', ''XBD'', ''XCD'',
     ''XDR'', ''XEU'', ''XFO'', ''XFU'', ''XOF'', ''XPD'', ''XPF'', ''XPT'', ''XRE'', ''XSU'',
     ''XTS'', ''XUA'', ''XXX'', ''YDD'', ''YER'', ''YUD'', ''YUM'', ''YUN'', ''YUR'', ''ZAL'',
     ''ZAR'', ''ZMK'', ''ZMW'', ''ZRN'', ''ZRZ'', ''ZWD'', ''ZWL'', ''ZWR'']"

definition rwk_timezones :: "(string \<times> string) list" where
  "rwk_timezones =
    [(''AKDT'', ''AKDT''), (''ACWST'', ''ACWST''), (''VET'', ''VET''), (''WARST'', ''WARST''),
     (''HNOG'', ''HNOG''), (''MDT'', ''MDT''), (''HEEG'', ''HEEG''), (''PDT'', ''PDT''),
     (''MEZ'', ''MEZ''), (''MST'', ''MST''), (''UYT'', ''UYT''), (''WIT'', ''WIT''),
     (''AWST'', ''AWST''), (''HAST'', ''HAST''), (''WEZ'', ''WEZ''), (''ART'', ''ART''),
     (''HAT'', ''HAT''), (''WITA'', ''WITA''), (''WIB'', ''WIB''), (''ECT'', ''ECT''),
     (''JDT'', ''JDT''), (''COT'', ''COT''), (''HNT'', ''HNT''), (''HNPM'', ''HNPM''),
     (''BOT'', ''BOT''), (''MYT'', ''MYT''), (''HNNOMX'', ''HNNOMX''), (''AKST'', ''AKST''),
     (''AEST'', ''AEST''), (''AEDT'', ''AEDT''), (''PST'', ''PST''), (''HADT'', ''HADT''),
     (''HEPM'', ''HEPM''), (''SAST'', ''SAST''), (''GYT'', ''GYT''), (''AWDT'', ''AWDT''),
     (''IST'', ''IST''), (''EDT'', ''EDT''), (''HKT'', ''HKT''), (''GMT'', ''GMT''),
     (''HEPMX'', ''HEPMX''), (''CAT'', ''CAT''), (''JST'', ''JST''), (''ARST'', ''ARST''),
     (''HKST'', ''HKST''), (''BT'', ''BT''), (''HNPMX'', ''HNPMX''), (''SRT'', ''SRT''),
     (''CST'', ''CST''), (''MESZ'', ''MESZ''), (''CLT'', ''CLT''), (''HEOG'', ''HEOG''),
     (''AST'', ''AST''), (''ADT'', ''ADT''), (''TMST'', ''TMST''), (''ACST'', ''ACST''),
     (''ACDT'', ''ACDT''), (''CHADT'', ''CHADT''), (''SGT'', ''SGT''), (''NZST'', ''NZST''),
     (''CLST'', ''CLST''), (''OEZ'', ''OEZ''), (''WAST'', ''WAST''), (''WART'', ''WART''),
     (''HENOMX'', ''HENOMX''), (''LHST'', ''LHST''), (''LHDT'', ''LHDT''), (''EAT'', ''EAT''),
     (''ACWDT'', ''ACWDT''), (''EST'', ''EST''), (''ChST'', ''ChST''), (''UYST'', ''UYST''),
     (''CDT'', ''CDT''), (''COST'', ''COST''), (''HNCU'', ''HNCU''), (''CHAST'', ''CHAST''),
     ([CHR 0xE2, CHR 0x88, CHR 0x85, CHR 0xE2, CHR 0x88, CHR 0x85, CHR 0xE2, CHR 0x88, CHR 0x85], [CHR 0xE2, CHR 0x88, CHR 0x85, CHR 0xE2, CHR 0x88, CHR 0x85, CHR 0xE2, CHR 0x88, CHR 0x85]),
     (''NZDT'', ''NZDT''), (''OESZ'', ''OESZ''), (''WESZ'', ''WESZ''), (''TMT'', ''TMT''),
     (''WAT'', ''WAT''), (''HNEG'', ''HNEG''), (''GFT'', ''GFT''), (''HECU'', ''HECU'')]"

definition saq_KE_currencies :: "string list" where
  "saq_KE_currencies =
    [''ADP'', ''AED'', ''AFA'', ''AFN'', ''ALK'', ''ALL'', ''AMD'', ''ANG'', ''AOA'', ''AOK'',
     ''AON'', ''AOR'', ''ARA'', ''ARL'', ''ARM'', ''ARP'', ''ARS'', ''ATS'', ''AUD'', ''AWG'',
     ''AZM'', ''AZN'', ''BAD'', ''BAM'', ''BAN'', ''BBD'', ''BDT'', ''BEC'', ''BEF'', ''BEL'',
     ''BGL'', ''BGM'', ''BGN'', ''BGO'', ''BHD'', ''BIF'', ''BMD'', ''BND'', ''BOB'', ''BOL'',
     ''BOP'', ''BOV'', ''BRB'', ''BRC'', ''BRE'', ''BRL'', ''BRN'', ''BRR'', ''BRZ'', ''BSD'',
     ''BTN'', ''BUK'', ''BWP'', ''BYB'', ''BYN'', ''BYR'', ''BZD'', ''CAD'', ''CDF'', ''CHE'',
     ''CHF'', ''CHW'', ''CLE'', ''CLF'', ''CLP'', ''CNX'', ''CNY'', ''COP'', ''COU'', ''CRC'',
     ''CSD'', ''CSK'', ''CUC'', ''CUP'', ''CVE'', ''CYP'', ''CZK'', ''DDM'', ''DEM'', ''DJF'',
     ''DKK'', ''DOP'', ''DZD'', ''ECS'', ''ECV'', ''EEK'', ''EGP'', ''ERN'', ''ESA'', ''ESB'',
     ''ESP'', ''ETB'', ''EUR'', ''FIM'', ''FJD'', ''FKP'', ''FRF'', ''GBP'', ''GEK'', ''GEL'',
     ''GHC'', ''GHS'', ''GIP'', ''GMD'', ''GNF'', ''GNS'', ''GQE'', ''GRD'', ''GTQ'', ''GWE'',
     ''GWP'', ''GYD'', ''HKD'', ''HNL'', ''HRD'', ''HRK'', ''HTG'', ''HUF'', ''IDR'', ''IEP'',
     ''ILP'', ''ILR'', ''ILS'', ''INR'', ''IQD'', ''IRR'', ''ISJ'', ''ISK'', ''ITL'', ''JMD'',
     ''JOD'', ''JPY'', ''KES'', ''KGS'', ''KHR'', ''KMF'', ''KPW'', ''KRH'', ''KRO'', ''KRW'',
     ''KWD'', ''KYD'', ''KZT'', ''LAK'', ''LBP'', ''LKR'', ''LRD'', ''LSL'', ''LTL'', ''LTT'',
     ''LUC'', ''LUF'', ''LUL'', ''LVL'', ''LVR'', ''LYD'', ''MAD'', ''MAF'', ''MCF'', ''MDC'',
     ''MDL'', ''MGA'', ''MGF'', ''MKD'', ''MKN'', ''MLF'', ''MMK'', ''MNT'', ''MOP'', ''MRO'',
     ''MTL'', ''MTP'', ''MUR'', ''MVP'', ''MVR'', ''MWK'', ''MXN'', ''MXP'', ''MXV'', ''MYR'',
     ''MZE'', ''MZM'', ''MZN'', ''NAD'', ''NGN'', ''NIC'', ''NIO'', ''NLG'', ''NOK'', ''NPR'',
     ''NZD'', ''OMR'', ''PAB'', ''PEI'', ''PEN'', ''PES'', ''PGK'', ''PHP'', ''PKR'', ''PLN'',
     ''PLZ'', ''PTE'', ''PYG'', ''QAR'', ''RHD'', ''ROL'', ''RON'', ''RSD'', ''RUB'', ''RUR'',
     ''RWF'', ''SAR'', ''SBD'', ''SCR'', ''SDD'', ''SDG'', ''SDP'', ''SEK'', ''SGD'', ''SHP'',
     ''SIT'', ''SKK'', ''SLL'', ''SOS'', ''SRD'', ''SRG'', ''SSP'', ''STD'', ''SUR'', ''SVC'',
     ''SYP'', ''SZL'', ''THB'', ''TJR'', ''TJS'', ''TMM'', ''TMT'', ''TND'', ''TOP'', ''TPE'',
     ''TRL'', ''TRY'', ''TTD'', ''TWD'', ''TZS'', ''UAH'', ''UAK'', ''UGS'', ''UGX'', ''USD'',
     ''USN'', ''USS'', ''UYI'', ''UYP'', ''UYU'', ''UZS'', ''VEB'', ''VEF'', ''VND'', ''VNN'',
     ''VUV'', ''WST'', ''XAF'', ''XAG'', ''XAU'', ''XBA'', ''XBB'', ''XBC'', ''XBD'', ''XCD'',
     ''XDR'', ''XEU'', ''XFO'', ''XFU'', ''XOF'', ''XPD'', ''XPF'', ''XPT'', ''XRE'', ''XSU'',
     ''XTS'', ''XUA'', ''XXX'', ''YDD'', ''YER'', ''YUD'', ''YUM'', ''YUN'', ''YUR'', ''ZAL'',
     ''ZAR'', ''ZMK'', ''ZMW'', ''ZRN'', ''ZRZ'', ''ZWD'', ''ZWL'', ''ZWR'']"

definition saq_KE_timezones :: "(string \<times> string) list" where
  "saq_KE_timezones =
    [(''AEST'', ''AEST''), (''HNPM'', ''HNPM''), (''AWST'', ''AWST''), (''SGT'', ''SGT''),
     (''ECT'', ''ECT''), (''ACWST'', ''ACWST''), (''WART'', ''WART''), (''ACDT'', ''ACDT''),
     (''WEZ'', ''WEZ''), (''JST'', ''JST''), (''HECU'', ''HECU''), (''NZST'', ''NZST''),
     (''SAST'', ''SAST''), (''AKDT'', ''AKDT''), (''HAST'', ''HAST''), (''VET'', ''VET''),
     (''AST'', ''AST''), (''ART'', ''ART''), (''PST'', ''PST''), (''HEOG'', ''HEOG''),
     (''ARST'', ''ARST''), (''MDT'', ''MDT''), (''ACST'', ''ACST''), (''AKST'', ''AKST''),
     (''ChST'', ''ChST''), (''UYST'', ''UYST''), (''GYT'', ''GYT''), (''WIB'', ''WIB''),
     (''MST'', ''MST''), (''OEZ'', ''OEZ''), (''MESZ'', ''MESZ''), (''GFT'', ''GFT''),
     (''HNCU'', ''HNCU''), (''IST'', ''IST''), (''ADT'', ''ADT''), (''HNT'', ''HNT''),
     (''WESZ'', ''WESZ''), (''WARST'', ''WARST''), (''EDT'', ''EDT''), (''BT'', ''BT''),
     (''HNEG'', ''HNEG''),
     ([CHR 0xE2, CHR 0x88, CHR 0x85, CHR 0xE2, CHR 0x88, CHR 0x85, CHR 0xE2, CHR 0x88, CHR 0x85], [CHR 0xE2, CHR 0x88, CHR 0x85, CHR 0xE2, CHR 0x88, CHR 0x85, CHR 0xE2, CHR 0x88, CHR 0x85]),
     (''UYT'', ''UYT''), (''LHST'', ''LHST''), (''HEPMX'', ''HEPMX''), (''AWDT'', ''AWDT''),
     (''HNNOMX'', ''HNNOMX''), (''MYT'', ''MYT''), (''TMST'', ''TMST''), (''JDT'', ''JDT''),
     (''CST'', ''CST''), (''HNOG'', ''HNOG''), (''HEPM'', ''HEPM''), (''EST'', ''EST''),
     (''HENOMX'', ''HENOMX''), (''PDT'', ''PDT''), (''CAT'', ''CAT''), (''MEZ'', ''MEZ''),
     (''OESZ'', ''OESZ''), (''WAST'', ''WAST''), (''HKST'', ''HKST''), (''HAT'', ''HAT''),
     (''HEEG'', ''HEEG''), (''ACWDT'', ''ACWDT''), (''GMT'', ''GMT''), (''WAT'', ''WAT''),
     (''HNPMX'', ''HNPMX''), (''BOT'', ''BOT''), (''HADT'', ''HADT''), (''LHDT'', ''LHDT''),
     (''COT'', ''COT''), (''SRT'', ''SRT''), (''EAT'', ''EAT''), (''WIT'', ''WIT''),
     (''NZDT'', ''NZDT''), (''CLT'', ''CLT''), (''CLST'', ''CLST''), (''HKT'', ''HKT''),
     (''AEDT'', ''AEDT''), (''TMT'', ''TMT''), (''COST'', ''COST''), (''CDT'', ''CDT''),
     (''CHAST'', ''CHAST''), (''CHADT'', ''CHADT''), (''WITA'', ''WITA'')]"

definition az_Latn_AZ_New :: locale_data where
  "az_Latn_AZ_New =
     \<lparr>locale_name = ''az_Latn_AZ'',
       pluralsCardinal = map PluralRule_of_nat [2, 6],
       pluralsOrdinal = map PluralRule_of_nat [2, 4, 5, 6],
       pluralsRange = map PluralRule_of_nat [2, 6],
       decimal = '','',
       group_sym = ''.'',
       minus_sym = ''-'',
       percent = ''%'',
       percentSuffix = [],
       perMille = [CHR 0xE2, CHR 0x80, CHR 0xB0],
       timeSeparator = '':'',
       inifinity = [CHR 0xE2, CHR 0x88, CHR 0x9E],
       currencies = az_Latn_AZ_currencies,
       currencyPositivePrefix = [CHR 0xC2, CHR 0xA0],
       currencyPositiveSuffix = [],
       currencyNegativePrefix = [CHR 0xC2, CHR 0xA0],
       currencyNegativeSuffix = [],
       periodsAbbreviated = [''AM'', ''PM''],
       periodsNarrow = [''a'', ''p''],
       periodsWide = [''AM'', ''PM''],
       timezones = az_Latn_AZ_timezones\<rparr>"

definition bg_BG_New :: locale_data where
  "bg_BG_New =
     \<lparr>locale_name = ''bg_BG'',
       pluralsCardinal = map PluralRule_of_nat [2, 6],
       pluralsOrdinal = map PluralRule_of_nat [6],
       pluralsRange = map PluralRule_of_nat [6],
       decimal = '','',
       group_sym = [CHR 0xC2, CHR 0xA0],
       minus_sym = ''-'',
       percent = ''%'',
       percentSuffix = [],
       perMille = [CHR 0xE2, CHR 0x80, CHR 0xB0],
       timeSeparator = '':'',
       inifinity = [CHR 0xE2, CHR 0x88, CHR 0x9E],
       currencies = bg_BG_currencies,
       currencyPositivePrefix = [],
       currencyPositiveSuffix = [CHR 0xC2, CHR 0xA0],
       currencyNegativePrefix = ''('',
       currencyNegativeSuffix = [CHR 0xC2, CHR 0xA0] @ '')'',
       periodsAbbreviated = [''am'', ''pm''],
       periodsNarrow = [''am'', ''pm''],
       periodsWide = [ [CHR 0xD0, CHR 0xBF, CHR 0xD1, CHR 0x80] @ ''.'' @ [CHR 0xD0, CHR 0xBE, CHR 0xD0, CHR 0xB1] @ ''.'', [CHR 0xD1, CHR 0x81, CHR 0xD0, CHR 0xBB] @ ''.'' @ [CHR 0xD0, CHR 0xBE, CHR 0xD0, CHR 0xB1] @ ''.''],
       timezones = bg_BG_timezones\<rparr>"

definition bs_New :: locale_data where
  "bs_New =
     \<lparr>locale_name = ''bs'',
       pluralsCardinal = map PluralRule_of_nat [2, 4, 6],
       pluralsOrdinal = map PluralRule_of_nat [6],
       pluralsRange = map PluralRule_of_nat [2, 4, 6],
       decimal = '','',
       group_sym = ''.'',
       minus_sym = ''-'',
       percent = ''%'',
       percentSuffix = [CHR 0xC2, CHR 0xA0],
       perMille = [CHR 0xE2, CHR 0x80, CHR 0xB0],
       timeSeparator = '':'',
       inifinity = [CHR 0xE2, CHR 0x88, CHR 0x9E],
       currencies = bs_currencies,
       currencyPositivePrefix = [],
       currencyPositiveSuffix = [CHR 0xC2, CHR 0xA0],
       currencyNegativePrefix = [],
       currencyNegativeSuffix = [CHR 0xC2, CHR 0xA0],
       periodsAbbreviated = [''prijepodne'', ''popodne''],
       periodsNarrow = [''prijepodne'', ''popodne''],
       periodsWide = [''prijepodne'', ''popodne''],
       timezones = bs_timezones\<rparr>"

definition ca_IT_New :: locale_data where
  "ca_IT_New =
     \<lparr>locale_name = ''ca_IT'',
       pluralsCardinal = map PluralRule_of_nat [2, 6],
       pluralsOrdinal = map PluralRule_of_nat [2, 3, 4, 6],
       pluralsRange = map PluralRule_of_nat [6],
       decimal = '','',
       group_sym = ''.'',
       minus_sym = ''-'',
       percent = ''%'',
       percentSuffix = [],
       perMille = [CHR 0xE2, CHR 0x80, CHR 0xB0],
       timeSeparator = '':'',
       inifinity = [CHR 0xE2, CHR 0x88, CHR 0x9E],
       currencies = ca_IT_currencies,
       currencyPositivePrefix = [],
       currencyPositiveSuffix = [CHR 0xC2, CHR 0xA0],
       currencyNegativePrefix = ''('',
       currencyNegativeSuffix = [CHR 0xC2, CHR 0xA0] @ '')'',
       periodsAbbreviated = [''a. m.'', ''p. m.''],
       periodsNarrow = [''a. m.'', ''p. m.''],
       periodsWide = [''a. m.'', ''p. m.''],
       timezones = ca_IT_timezones\<rparr>"

definition chr_New :: locale_data where
  "chr_New =
     \<lparr>locale_name = ''chr'',
       pluralsCardinal = map PluralRule_of_nat [2, 6],
       pluralsOrdinal = [],
       pluralsRange = [],
       decimal = ''.'',
       group_sym = '','',
       minus_sym = ''-'',
       percent = ''%'',
       percentSuffix = [],
       perMille = [CHR 0xE2, CHR 0x80, CHR 0xB0],
       timeSeparator = '':'',
       inifinity = [CHR 0xE2, CHR 0x88, CHR 0x9E],
       currencies = chr_currencies,
       currencyPositivePrefix = [],
       currencyPositiveSuffix = [],
       currencyNegativePrefix = ''('',
       currencyNegativeSuffix = '')'',
       periodsAbbreviated = [ [CHR 0xE1, CHR 0x8F, CHR 0x8C, CHR 0xE1, CHR 0x8E, CHR 0xBE, CHR 0xE1, CHR 0x8E, CHR 0xB4], [CHR 0xE1, CHR 0x8F, CHR 0x92, CHR 0xE1, CHR 0x8E, CHR 0xAF, CHR 0xE1, CHR 0x8F, CHR 0xB1, CHR 0xE1, CHR 0x8E, CHR 0xA2, CHR 0xE1, CHR 0x8F, CHR 0x97, CHR 0xE1, CHR 0x8F, CHR 0xA2]],
       periodsNarrow = [ [CHR 0xE1, CHR 0x8F, CHR 0x8C], [CHR 0xE1, CHR 0x8F, CHR 0x92]],
       periodsWide = [ [CHR 0xE1, CHR 0x8F, CHR 0x8C, CHR 0xE1, CHR 0x8E, CHR 0xBE, CHR 0xE1, CHR 0x8E, CHR 0xB4], [CHR 0xE1, CHR 0x8F, CHR 0x92, CHR 0xE1, CHR 0x8E, CHR 0xAF, CHR 0xE1, CHR 0x8F, CHR 0xB1, CHR 0xE1, CHR 0x8E, CHR 0xA2, CHR 0xE1, CHR 0x8F, CHR 0x97, CHR 0xE1, CHR 0x8F, CHR 0xA2]],
       timezones = chr_timezones\<rparr>"

definition en_NU_New :: locale_data where
  "en_NU_New =
     \<lparr>locale_name = ''en_NU'',
       pluralsCardinal = map PluralRule_of_nat [2, 6],
       pluralsOrdinal = map PluralRule_of_nat [2, 3, 4, 6],
       pluralsRange = map PluralRule_of_nat [6],
       decimal = ''.'',
       group_sym = '','',
       minus_sym = ''-'',
       percent = ''%'',
       percentSuffix = [],
       perMille = [CHR 0xE2, CHR 0x80, CHR 0xB0],
       timeSeparator = '':'',
       inifinity = [CHR 0xE2, CHR 0x88, CHR 0x9E],
       currencies = en_NU_currencies,
       currencyPositivePrefix = [],
       currencyPositiveSuffix = [],
       currencyNegativePrefix = ''('',
       currencyNegativeSuffix = '')'',
       periodsAbbreviated = [''am'', ''pm''],
       periodsNarrow = [''a'', ''p''],
       periodsWide = [''am'', ''pm''],
       timezones = en_NU_timezones\<rparr>"

definition es_US_New :: locale_data where
  "es_US_New =
     \<lparr>locale_name = ''es_US'',
       pluralsCardinal = map PluralRule_of_nat [2, 6],
       pluralsOrdinal = map PluralRule_of_nat [6],
       pluralsRange = map PluralRule_of_nat [6],
       decimal = '','',
       group_sym = ''.'',
       minus_sym = ''-'',
       percent = ''%'',
       percentSuffix = [CHR 0xC2, CHR 0xA0],
       perMille = [CHR 0xE2, CHR 0x80, CHR 0xB0],
       timeSeparator = '':'',
       inifinity = [CHR 0xE2, CHR 0x88, CHR 0x9E],
       currencies = es_US_currencies,
       currencyPositivePrefix = [],
       currencyPositiveSuffix = [CHR 0xC2, CHR 0xA0],
       currencyNegativePrefix = [],
       currencyNegativeSuffix = [CHR 0xC2, CHR 0xA0],
       periodsAbbreviated = [''a. m.'', ''p. m.''],
       periodsNarrow = [ [], []],
       periodsWide = [''a. m.'', ''p. m.''],
       timezones = es_US_timezones\<rparr>"

definition ksf_CM_New :: locale_data where
  "ksf_CM_New =
     \<lparr>locale_name = ''ksf_CM'',
       pluralsCardinal = [],
       pluralsOrdinal = [],
       pluralsRange = [],
       decimal = '','',
       group_sym = [CHR 0xC2, CHR 0xA0],
       minus_sym = [],
       percent = [],
       percentSuffix = [],
       perMille = [],
       timeSeparator = '':'',
       inifinity = [],
       currencies = ksf_CM_currencies,
       currencyPositivePrefix = [],
       currencyPositiveSuffix = [CHR 0xC2, CHR 0xA0],
       currencyNegativePrefix = [],
       currencyNegativeSuffix = [CHR 0xC2, CHR 0xA0],
       periodsAbbreviated = [''s'' @ [CHR 0xC3, CHR 0xA1] @ ''r'' @ [CHR 0xC3, CHR 0xBA] @ ''w'' @ [CHR 0xC3, CHR 0xA1], ''c'' @ [CHR 0xC9, CHR 0x9B, CHR 0xC9, CHR 0x9B, CHR 0xCC, CHR 0x81] @ ''nko''],
       periodsNarrow = [],
       periodsWide = [''s'' @ [CHR 0xC3, CHR 0xA1] @ ''r'' @ [CHR 0xC3, CHR 0xBA] @ ''w'' @ [CHR 0xC3, CHR 0xA1], ''c'' @ [CHR 0xC9, CHR 0x9B, CHR 0xC9, CHR 0x9B, CHR 0xCC, CHR 0x81] @ ''nko''],
       timezones = ksf_CM_timezones\<rparr>"

definition kw_New :: locale_data where
  "kw_New =
     \<lparr>locale_name = ''kw'',
       pluralsCardinal = map PluralRule_of_nat [2, 3, 6],
       pluralsOrdinal = [],
       pluralsRange = [],
       decimal = [],
       group_sym = [],
       minus_sym = [],
       percent = [],
       percentSuffix = [],
       perMille = [],
       timeSeparator = '':'',
       inifinity = [],
       currencies = kw_currencies,
       currencyPositivePrefix = [],
       currencyPositiveSuffix = [],
       currencyNegativePrefix = [],
       currencyNegativeSuffix = [],
       periodsAbbreviated = [''a.m.'', ''p.m.''],
       periodsNarrow = [],
       periodsWide = [''a.m.'', ''p.m.''],
       timezones = kw_timezones\<rparr>"

definition rwk_New :: locale_data where
  "rwk_New =
     \<lparr>locale_name = ''rwk'',
       pluralsCardinal = map PluralRule_of_nat [2, 6],
       pluralsOrdinal = [],
       pluralsRange = [],
       decimal = [],
       group_sym = [],
       minus_sym = [],
       percent = [],
       percentSuffix = [],
       perMille = [],
       timeSeparator = '':'',
       inifinity = [],
       currencies = rwk_currencies,
       currencyPositivePrefix = [],
       currencyPositiveSuffix = [],
       currencyNegativePrefix = [],
       currencyNegativeSuffix = [],
       periodsAbbreviated = [''utuko'', ''kyiukonyi''],
       periodsNarrow = [],
       periodsWide = [''utuko'', ''kyiukonyi''],
       timezones = rwk_timezones\<rparr>"

definition saq_KE_New :: locale_data where
  "saq_KE_New =
     \<lparr>locale_name = ''saq_KE'',
       pluralsCardinal = map PluralRule_of_nat [2, 6],
       pluralsOrdinal = [],
       pluralsRange = [],
       decimal = [],
       group_sym = [],
       minus_sym = [],
       percent = [],
       percentSuffix = [],
       perMille = [],
       timeSeparator = '':'',
       inifinity = [],
       currencies = saq_KE_currencies,
       currencyPositivePrefix = [],
       currencyPositiveSuffix = [],
       currencyNegativePrefix = ''('',
       currencyNegativeSuffix = '')'',
       periodsAbbreviated = [''Tesiran'', ''Teipa''],
       periodsNarrow = [],
       periodsWide = [''Tesiran'', ''Teipa''],
       timezones = saq_KE_timezones\<rparr>"

section \<open>Plural rules\<close>

text \<open>
  The eleven locale packages of the source: \<open>az_Latn_AZ\<close>, \<open>bg_BG\<close>, \<open>bs\<close>, \<open>ca_IT\<close>,
  \<open>chr\<close>, \<open>en_NU\<close>, \<open>es_US\<close>, \<open>ksf_CM\<close>, \<open>kw\<close>, \<open>rwk\<close> and \<open>saq_KE\<close> (the first two
  stand in the file \<open>zapcore/field_test.go\<close>). Each implements the interface
  \<open>locales.Translator\<close>; a value of \<open>translator\<close> selects the implementation, and the
  functions named after the interface's methods dispatch on it.
\<close>

datatype translator =
  T_az_Latn_AZ | T_bg_BG | T_bs | T_ca_IT | T_chr | T_en_NU | T_es_US | T_ksf_CM | T_kw | T_rwk | T_saq_KE

fun New :: "translator \<Rightarrow> locale_data" where
  "New T_az_Latn_AZ = az_Latn_AZ_New"
| "New T_bg_BG = bg_BG_New"
| "New T_bs = bs_New"
| "New T_ca_IT = ca_IT_New"
| "New T_chr = chr_New"
| "New T_en_NU = en_NU_New"
| "New T_es_US = es_US_New"
| "New T_ksf_CM = ksf_CM_New"
| "New T_kw = kw_New"
| "New T_rwk = rwk_New"
| "New T_saq_KE = saq_KE_New"

definition PluralsCardinal :: "translator \<Rightarrow> PluralRule list" where
  "PluralsCardinal L = pluralsCardinal (New L)"

definition PluralsOrdinal :: "translator \<Rightarrow> PluralRule list" where
  "PluralsOrdinal L = pluralsOrdinal (New L)"

definition PluralsRange :: "translator \<Rightarrow> PluralRule list" where
  "PluralsRange L = pluralsRange (New L)"

definition rem :: "int \<Rightarrow> int \<Rightarrow> int" where
  \<comment> \<open>Go's \<open>a % b\<close> on integers, for \<open>b > 0\<close>: the remainder of the division that
      truncates, with the sign of \<open>a\<close>\<close>
  "rem a b = (if 0 \<le> a then a mod b else - ((- a) mod b))"

definition bs_CardinalPluralRule :: "rat \<Rightarrow> uint64 \<Rightarrow> PluralRule" where
  "bs_CardinalPluralRule num v =
     (let n = \<bar>num\<bar>;
          i = int64 n;
          f = F n v;
          iMod10 = rem i 10;
          iMod100 = rem i 100;
          fMod10 = rem f 10;
          fMod100 = rem f 100
      in if (v = 0 \<and> iMod10 = 1 \<and> iMod100 \<noteq> 11) \<or> (fMod10 = 1 \<and> fMod100 \<noteq> 11)
         then PluralRuleOne
         else if (v = 0 \<and> 2 \<le> iMod10 \<and> iMod10 \<le> 4 \<and> (iMod100 < 12 \<or> 14 < iMod100))
                 \<or> (2 \<le> fMod10 \<and> fMod10 \<le> 4 \<and> (fMod100 < 12 \<or> 14 < fMod100))
         then PluralRuleFew
         else PluralRuleOther)"

definition ca_IT_CardinalPluralRule :: "rat \<Rightarrow> uint64 \<Rightarrow> PluralRule" where
  \<comment> \<open>the body of \<open>en_NU\<close> is the same\<close>
  "ca_IT_CardinalPluralRule num v =
     (let n = \<bar>num\<bar>; i = int64 n
      in if i = 1 \<and> v = 0 then PluralRuleOne else PluralRuleOther)"

definition chr_CardinalPluralRule :: "rat \<Rightarrow> uint64 \<Rightarrow> PluralRule" where
  \<comment> \<open>the bodies of \<open>az_Latn_AZ\<close>, \<open>bg_BG\<close>, \<open>es_US\<close>, \<open>rwk\<close> and \<open>saq_KE\<close> are the
      same\<close>
  "chr_CardinalPluralRule num v =
     (let n = \<bar>num\<bar> in if n = 1 then PluralRuleOne else PluralRuleOther)"

definition kw_CardinalPluralRule :: "rat \<Rightarrow> uint64 \<Rightarrow> PluralRule" where
  "kw_CardinalPluralRule num v =
     (let n = \<bar>num\<bar>
      in if n = 1 then PluralRuleOne else if n = 2 then PluralRuleTwo else PluralRuleOther)"

definition ksf_CM_CardinalPluralRule :: "rat \<Rightarrow> uint64 \<Rightarrow> PluralRule" where
  "ksf_CM_CardinalPluralRule num v = PluralRuleUnknown"

fun CardinalPluralRule :: "translator \<Rightarrow> rat \<Rightarrow> uint64 \<Rightarrow> PluralRule" where
  "CardinalPluralRule T_az_Latn_AZ num v = chr_CardinalPluralRule num v"
| "CardinalPluralRule T_bg_BG num v = chr_CardinalPluralRule num v"
| "CardinalPluralRule T_bs num v = bs_CardinalPluralRule num v"
| "CardinalPluralRule T_ca_IT num v = ca_IT_CardinalPluralRule num v"
| "CardinalPluralRule T_chr num v = chr_CardinalPluralRule num v"
| "CardinalPluralRule T_en_NU num v = ca_IT_CardinalPluralRule num v"
| "CardinalPluralRule T_es_US num v = chr_CardinalPluralRule num v"
| "CardinalPluralRule T_ksf_CM num v = ksf_CM_CardinalPluralRule num v"
| "CardinalPluralRule T_kw num v = kw_CardinalPluralRule num v"
| "CardinalPluralRule T_rwk num v = chr_CardinalPluralRule num v"
| "CardinalPluralRule T_saq_KE num v = chr_CardinalPluralRule num v"

definition bs_OrdinalPluralRule :: "rat \<Rightarrow> uint64 \<Rightarrow> PluralRule" where
  "bs_OrdinalPluralRule num v = PluralRuleOther"

definition bs_RangePluralRule :: "rat \<Rightarrow> uint64 \<Rightarrow> rat \<Rightarrow> uint64 \<Rightarrow> PluralRule" where
  "bs_RangePluralRule num1 v1 num2 v2 =
     (let start = bs_CardinalPluralRule num1 v1;
          end = bs_CardinalPluralRule num2 v2
      in if start = PluralRuleOne \<and> end = PluralRuleOne then PluralRuleOne
         else if start = PluralRuleOne \<and> end = PluralRuleFew then PluralRuleFew
         else if start = PluralRuleOne \<and> end = PluralRuleOther then PluralRuleOther
         else if start = PluralRuleFew \<and> end = PluralRuleOne then PluralRuleOne
         else if start = PluralRuleFew \<and> end = PluralRuleFew then PluralRuleFew
         else if start = PluralRuleFew \<and> end = PluralRuleOther then PluralRuleOther
         else if start = PluralRuleOther \<and> end = PluralRuleOne then PluralRuleOne
         else if start = PluralRuleOther \<and> end = PluralRuleFew then PluralRuleFew
         else PluralRuleOther)"

definition bs_range_table :: "((PluralRule \<times> PluralRule) \<times> PluralRule) list" where
  \<comment> \<open>the spec's (start-category, end-category) table for \<open>bs\<close>: the eight pairs that
      \<open>RangePluralRule\<close> tests, in its order\<close>
  "bs_range_table =
     [((PluralRuleOne, PluralRuleOne), PluralRuleOne),
      ((PluralRuleOne, PluralRuleFew), PluralRuleFew),
      ((PluralRuleOne, PluralRuleOther), PluralRuleOther),
      ((PluralRuleFew, PluralRuleOne), PluralRuleOne),
      ((PluralRuleFew, PluralRuleFew), PluralRuleFew),
      ((PluralRuleFew, PluralRuleOther), PluralRuleOther),
      ((PluralRuleOther, PluralRuleOne), PluralRuleOne),
      ((PluralRuleOther, PluralRuleFew), PluralRuleFew)]"

definition range_lookup ::
  "((PluralRule \<times> PluralRule) \<times> PluralRule) list \<Rightarrow> PluralRule \<Rightarrow> PluralRule \<Rightarrow> PluralRule" where
  \<comment> \<open>the spec's table lookup: an unlisted combination defaults to \<open>other\<close>\<close>
  "range_lookup table start end =
     (case map_of table (start, end) of Some c \<Rightarrow> c | None \<Rightarrow> PluralRuleOther)"

section \<open>Number, percent and currency formatters\<close>

text \<open>
  The digit loop shared by \<open>FmtNumber\<close>, \<open>FmtCurrency\<close> and \<open>FmtAccounting\<close>:
  \<^verbatim>\<open>
  for i := len(s) - 1; i >= 0; i-- {
      if s[i] == '.' { b = append(b, L.decimal[0]); inWhole = true; continue }
      if inWhole {
          if count == 3 { b = append(b, L.group[0]); count = 1 } else { count++ }
      }
      b = append(b, s[i])
  }
  \<close>
  The function walks the bytes of \<open>s\<close> from the last to the first (its third argument is
  \<open>rev s\<close>) and threads \<open>inWhole\<close>, \<open>count\<close> and the buffer \<open>b\<close>. What a group
  boundary appends differs between locales and is the argument \<open>sep\<close>: \<open>group_first L\<close>
  for the locales that append \<open>L.group[0]\<close> (a panic when \<open>group\<close> is empty),
  \<open>group_bytes L\<close> for \<open>ksf_CM\<close>, which appends every byte of \<open>group\<close>, last first.
\<close>

fun digit_loop ::
  "string \<Rightarrow> string option \<Rightarrow> string \<Rightarrow> bool \<Rightarrow> nat \<Rightarrow> string \<Rightarrow> string option" where
  "digit_loop dec sep [] inWhole count b = Some b"
| "digit_loop dec sep (c # cs) inWhole count b =
     (if c = CHR ''.'' then
        (case index dec 0 of
           None \<Rightarrow> None
         | Some d \<Rightarrow> digit_loop dec sep cs True count (b @ [d]))
      else if inWhole then
        (if count = 3 then
           (case sep of
              None \<Rightarrow> None
            | Some g \<Rightarrow> digit_loop dec sep cs inWhole 1 (b @ g @ [c]))
         else digit_loop dec sep cs inWhole (count + 1) (b @ [c]))
      else digit_loop dec sep cs inWhole count (b @ [c]))"

definition group_first :: "locale_data \<Rightarrow> string option" where
  "group_first L = map_option (\<lambda>g. [g]) (index (group_sym L) 0)"

definition group_bytes :: "locale_data \<Rightarrow> string option" where
  "group_bytes L = Some (rev (group_sym L))"

text \<open>
  The loop of \<open>FmtPercent\<close>, and of the two currency formats of \<open>bg_BG\<close>, replaces the
  radix point and copies every other byte:
  \<^verbatim>\<open>
  for i := len(s) - 1; i >= 0; i-- {
      if s[i] == '.' { b = append(b, L.decimal[0]); continue }
      b = append(b, s[i])
  }
  \<close>
\<close>

fun percent_loop :: "string \<Rightarrow> string \<Rightarrow> string \<Rightarrow> string option" where
  "percent_loop dec [] b = Some b"
| "percent_loop dec (c # cs) b =
     (if c = CHR ''.'' then
        (case index dec 0 of
           None \<Rightarrow> None
         | Some d \<Rightarrow> percent_loop dec cs (b @ [d]))
      else percent_loop dec cs (b @ [c]))"

definition append_first :: "string \<Rightarrow> string \<Rightarrow> string option" where
  \<comment> \<open>\<open>b = append(b, x[0])\<close>\<close>
  "append_first b x = map_option (\<lambda>c. b @ [c]) (index x 0)"

definition pad_fraction :: "locale_data \<Rightarrow> uint64 \<Rightarrow> string \<Rightarrow> string" where
  \<comment> \<open>\<open>if int(v) < 2 { if v == 0 { b = append(b, L.decimal...) };
      for i := 0; i < 2-int(v); i++ { b = append(b, '0') } }\<close>. The bound \<open>2-int(v)\<close>
      is computed in \<open>int\<close>, where it wraps: its bits are those of the word \<open>2 - v\<close>;
      the loop runs that many times, not at all when the bound is negative\<close>
  "pad_fraction L v b =
     (if sint v < 2
      then (if v = 0 then b @ decimal L else b) @ replicate (nat (sint (2 - v))) CHR ''0''
      else b)"

definition whole_slice :: "string \<Rightarrow> uint64 \<Rightarrow> string option" where
  \<comment> \<open>\<open>s[:len(s)-int(v)-1]\<close>, evaluated for the capacity \<open>l\<close> of the buffer. For
      \<open>int(v) < - 1\<close> the bound is above \<open>len(s)\<close>, or negative where the subtraction
      wraps: the slice panics in both cases, as it does here\<close>
  "whole_slice s v = slice_to s (int (length s) - sint v - 1)"

text \<open>
  In every method the in-place loop \<open>for i, j := 0, len(b)-1; i < j; i, j = i+1, j-1\<close>
  that swaps \<open>b[i]\<close> and \<open>b[j]\<close> reverses \<open>b\<close>: it is \<open>rev b\<close>. The capacity \<open>l\<close> does
  not show in the result; the slice it evaluates can panic and is kept.
\<close>

subsection \<open>FmtNumber\<close>

definition bs_FmtNumber :: "locale_data \<Rightarrow> rat \<Rightarrow> uint64 \<Rightarrow> string option" where
  \<comment> \<open>the bodies of \<open>az_Latn_AZ\<close>, \<open>bs\<close>, \<open>ca_IT\<close>, \<open>chr\<close>, \<open>en_NU\<close> and \<open>es_US\<close> are the
      same; the first argument is the receiver\<close>
  "bs_FmtNumber L num v =
     (let s = FormatFloat \<bar>num\<bar> (sint v) in
      do {
        _ \<leftarrow> whole_slice s v;
        b \<leftarrow> digit_loop (decimal L) (group_first L) (rev s) (v = 0) 0 [];
        b \<leftarrow> (if num < 0 then append_first b (minus_sym L) else Some b);
        Some (rev b)
      })"

definition ksf_CM_FmtNumber :: "locale_data \<Rightarrow> rat \<Rightarrow> uint64 \<Rightarrow> string option" where
  \<comment> \<open>the body of \<open>bg_BG\<close> is the same\<close>
  "ksf_CM_FmtNumber L num v =
     (let s = FormatFloat \<bar>num\<bar> (sint v) in
      do {
        _ \<leftarrow> whole_slice s v;
        b \<leftarrow> digit_loop (decimal L) (group_bytes L) (rev s) (v = 0) 0 [];
        b \<leftarrow> (if num < 0 then append_first b (minus_sym L) else Some b);
        Some (rev b)
      })"

definition kw_FmtNumber :: "locale_data \<Rightarrow> rat \<Rightarrow> uint64 \<Rightarrow> string option" where
  \<comment> \<open>the bodies of \<open>kw\<close>, \<open>rwk\<close> and \<open>saq_KE\<close> are the same\<close>
  "kw_FmtNumber L num v = Some (FormatFloat \<bar>num\<bar> (sint v))"

fun FmtNumber :: "translator \<Rightarrow> rat \<Rightarrow> uint64 \<Rightarrow> string option" where
  "FmtNumber T_az_Latn_AZ = bs_FmtNumber az_Latn_AZ_New"
| "FmtNumber T_bg_BG = ksf_CM_FmtNumber bg_BG_New"
| "FmtNumber T_bs = bs_FmtNumber bs_New"
| "FmtNumber T_ca_IT = bs_FmtNumber ca_IT_New"
| "FmtNumber T_chr = bs_FmtNumber chr_New"
| "FmtNumber T_en_NU = bs_FmtNumber en_NU_New"
| "FmtNumber T_es_US = bs_FmtNumber es_US_New"
| "FmtNumber T_ksf_CM = ksf_CM_FmtNumber ksf_CM_New"
| "FmtNumber T_kw = kw_FmtNumber kw_New"
| "FmtNumber T_rwk = kw_FmtNumber rwk_New"
| "FmtNumber T_saq_KE = kw_FmtNumber saq_KE_New"

subsection \<open>FmtPercent\<close>





subsection \<open>FmtCurrency\<close>

definition bs_FmtCurrency :: "locale_data \<Rightarrow> rat \<Rightarrow> uint64 \<Rightarrow> nat \<Rightarrow> string option" where
  \<comment> \<open>the bodies of \<open>bs\<close>, \<open>ca_IT\<close> and \<open>es_US\<close> are the same\<close>
  "bs_FmtCurrency L num v currency =
     (let s = FormatFloat \<bar>num\<bar> (sint v) in
      do {
        symbol \<leftarrow> index (currencies L) currency;
        _ \<leftarrow> whole_slice s v;
        b \<leftarrow> digit_loop (decimal L) (group_first L) (rev s) (v = 0) 0 [];
        b \<leftarrow> (if num < 0 then append_first b (minus_sym L) else Some b);
        Some (pad_fraction L v (rev b) @ currencyPositiveSuffix L @ symbol)
      })"

definition ksf_CM_FmtCurrency :: "locale_data \<Rightarrow> rat \<Rightarrow> uint64 \<Rightarrow> nat \<Rightarrow> string option" where
  "ksf_CM_FmtCurrency L num v currency =
     (let s = FormatFloat \<bar>num\<bar> (sint v) in
      do {
        symbol \<leftarrow> index (currencies L) currency;
        _ \<leftarrow> whole_slice s v;
        b \<leftarrow> digit_loop (decimal L) (group_bytes L) (rev s) (v = 0) 0 [];
        b \<leftarrow> (if num < 0 then append_first b (minus_sym L) else Some b);
        Some (pad_fraction L v (rev b) @ currencyPositiveSuffix L @ symbol)
      })"

definition chr_FmtCurrency :: "locale_data \<Rightarrow> rat \<Rightarrow> uint64 \<Rightarrow> nat \<Rightarrow> string option" where
  \<comment> \<open>the bodies of \<open>chr\<close>, \<open>en_NU\<close>, \<open>kw\<close> and \<open>saq_KE\<close> are the same; the loop
      \<open>for j := len(symbol) - 1; j >= 0; j--\<close> appends the bytes of \<open>symbol\<close>, last first\<close>
  "chr_FmtCurrency L num v currency =
     (let s = FormatFloat \<bar>num\<bar> (sint v) in
      do {
        symbol \<leftarrow> index (currencies L) currency;
        _ \<leftarrow> whole_slice s v;
        b \<leftarrow> digit_loop (decimal L) (group_first L) (rev s) (v = 0) 0 [];
        b \<leftarrow> Some (b @ rev symbol);
        b \<leftarrow> (if num < 0 then append_first b (minus_sym L) else Some b);
        Some (pad_fraction L v (rev b))
      })"

definition rwk_FmtCurrency :: "locale_data \<Rightarrow> rat \<Rightarrow> uint64 \<Rightarrow> nat \<Rightarrow> string option" where
  "rwk_FmtCurrency L num v currency =
     (let s = FormatFloat \<bar>num\<bar> (sint v) in
      do {
        symbol \<leftarrow> index (currencies L) currency;
        _ \<leftarrow> whole_slice s v;
        b \<leftarrow> digit_loop (decimal L) (group_first L) (rev s) (v = 0) 0 [];
        b \<leftarrow> (if num < 0 then append_first b (minus_sym L) else Some b);
        Some (pad_fraction L v (rev b) @ symbol)
      })"

definition az_Latn_AZ_FmtCurrency ::
  "locale_data \<Rightarrow> rat \<Rightarrow> uint64 \<Rightarrow> nat \<Rightarrow> string option" where
  \<comment> \<open>after the symbol, the loop \<open>for j := len(L.currencyPositivePrefix) - 1; j >= 0; j--\<close>
      appends the bytes of the positive prefix, last first\<close>
  "az_Latn_AZ_FmtCurrency L num v currency =
     (let s = FormatFloat \<bar>num\<bar> (sint v) in
      do {
        symbol \<leftarrow> index (currencies L) currency;
        _ \<leftarrow> whole_slice s v;
        b \<leftarrow> digit_loop (decimal L) (group_first L) (rev s) (v = 0) 0 [];
        b \<leftarrow> Some (b @ rev symbol @ rev (currencyPositivePrefix L));
        b \<leftarrow> (if num < 0 then append_first b (minus_sym L) else Some b);
        Some (pad_fraction L v (rev b))
      })"

definition bg_BG_FmtCurrency ::
  "locale_data \<Rightarrow> rat \<Rightarrow> uint64 \<Rightarrow> nat \<Rightarrow> string option" where
  \<comment> \<open>the loop of \<open>bg_BG\<close> groups no digits and the capacity
      \<open>l := len(s) + len(symbol) + 4\<close> takes no slice\<close>
  "bg_BG_FmtCurrency L num v currency =
     (let s = FormatFloat \<bar>num\<bar> (sint v) in
      do {
        symbol \<leftarrow> index (currencies L) currency;
        b \<leftarrow> percent_loop (decimal L) (rev s) [];
        b \<leftarrow> (if num < 0 then append_first b (minus_sym L) else Some b);
        Some (pad_fraction L v (rev b) @ currencyPositiveSuffix L @ symbol)
      })"

fun FmtCurrency :: "translator \<Rightarrow> rat \<Rightarrow> uint64 \<Rightarrow> nat \<Rightarrow> string option" where
  "FmtCurrency T_az_Latn_AZ = az_Latn_AZ_FmtCurrency az_Latn_AZ_New"
| "FmtCurrency T_bg_BG = bg_BG_FmtCurrency bg_BG_New"
| "FmtCurrency T_bs = bs_FmtCurrency bs_New"
| "FmtCurrency T_ca_IT = bs_FmtCurrency ca_IT_New"
| "FmtCurrency T_chr = chr_FmtCurrency chr_New"
| "FmtCurrency T_en_NU = chr_FmtCurrency en_NU_New"
| "FmtCurrency T_es_US = bs_FmtCurrency es_US_New"
| "FmtCurrency T_ksf_CM = ksf_CM_FmtCurrency ksf_CM_New"
| "FmtCurrency T_kw = chr_FmtCurrency kw_New"
| "FmtCurrency T_rwk = rwk_FmtCurrency rwk_New"
| "FmtCurrency T_saq_KE = chr_FmtCurrency saq_KE_New"

subsection \<open>FmtAccounting\<close>

definition bs_FmtAccounting :: "locale_data \<Rightarrow> rat \<Rightarrow> uint64 \<Rightarrow> nat \<Rightarrow> string option" where
  \<comment> \<open>the body of \<open>es_US\<close> is the same\<close>
  "bs_FmtAccounting L num v currency =
     (let s = FormatFloat \<bar>num\<bar> (sint v) in
      do {
        symbol \<leftarrow> index (currencies L) currency;
        _ \<leftarrow> whole_slice s v;
        b \<leftarrow> digit_loop (decimal L) (group_first L) (rev s) (v = 0) 0 [];
        b \<leftarrow> (if num < 0 then append_first b (minus_sym L) else Some b);
        b \<leftarrow> Some (pad_fraction L v (rev b));
        if num < 0 then Some (b @ currencyNegativeSuffix L @ symbol)
        else Some (b @ currencyPositiveSuffix L @ symbol)
      })"

definition ca_IT_FmtAccounting :: "locale_data \<Rightarrow> rat \<Rightarrow> uint64 \<Rightarrow> nat \<Rightarrow> string option" where
  "ca_IT_FmtAccounting L num v currency =
     (let s = FormatFloat \<bar>num\<bar> (sint v) in
      do {
        symbol \<leftarrow> index (currencies L) currency;
        _ \<leftarrow> whole_slice s v;
        b \<leftarrow> digit_loop (decimal L) (group_first L) (rev s) (v = 0) 0 [];
        b \<leftarrow> (if num < 0 then append_first b (currencyNegativePrefix L) else Some b);
        b \<leftarrow> Some (pad_fraction L v (rev b));
        if num < 0 then Some (b @ currencyNegativeSuffix L @ symbol)
        else Some (b @ currencyPositiveSuffix L @ symbol)
      })"

definition ksf_CM_FmtAccounting :: "locale_data \<Rightarrow> rat \<Rightarrow> uint64 \<Rightarrow> nat \<Rightarrow> string option" where
  "ksf_CM_FmtAccounting L num v currency =
     (let s = FormatFloat \<bar>num\<bar> (sint v) in
      do {
        symbol \<leftarrow> index (currencies L) currency;
        _ \<leftarrow> whole_slice s v;
        b \<leftarrow> digit_loop (decimal L) (group_bytes L) (rev s) (v = 0) 0 [];
        b \<leftarrow> (if num < 0 then append_first b (minus_sym L) else Some b);
        b \<leftarrow> Some (pad_fraction L v (rev b));
        if num < 0 then Some (b @ currencyNegativeSuffix L @ symbol)
        else Some (b @ currencyPositiveSuffix L @ symbol)
      })"

definition chr_FmtAccounting :: "locale_data \<Rightarrow> rat \<Rightarrow> uint64 \<Rightarrow> nat \<Rightarrow> string option" where
  \<comment> \<open>the bodies of \<open>chr\<close>, \<open>en_NU\<close> and \<open>saq_KE\<close> are the same\<close>
  "chr_FmtAccounting L num v currency =
     (let s = FormatFloat \<bar>num\<bar> (sint v) in
      do {
        symbol \<leftarrow> index (currencies L) currency;
        _ \<leftarrow> whole_slice s v;
        b \<leftarrow> digit_loop (decimal L) (group_first L) (rev s) (v = 0) 0 [];
        b \<leftarrow> (if num < 0 then append_first (b @ rev symbol) (currencyNegativePrefix L)
              else Some (b @ rev symbol));
        b \<leftarrow> Some (pad_fraction L v (rev b));
        if num < 0 then Some (b @ currencyNegativeSuffix L) else Some b
      })"

definition kw_FmtAccounting :: "locale_data \<Rightarrow> rat \<Rightarrow> uint64 \<Rightarrow> nat \<Rightarrow> string option" where
  "kw_FmtAccounting L num v currency =
     (let s = FormatFloat \<bar>num\<bar> (sint v) in
      do {
        symbol \<leftarrow> index (currencies L) currency;
        _ \<leftarrow> whole_slice s v;
        b \<leftarrow> digit_loop (decimal L) (group_first L) (rev s) (v = 0) 0 [];
        b \<leftarrow> (if num < 0 then append_first (b @ rev symbol) (minus_sym L)
              else Some (b @ rev symbol));
        Some (pad_fraction L v (rev b))
      })"

definition rwk_FmtAccounting :: "locale_data \<Rightarrow> rat \<Rightarrow> uint64 \<Rightarrow> nat \<Rightarrow> string option" where
  "rwk_FmtAccounting L num v currency =
     (let s = FormatFloat \<bar>num\<bar> (sint v) in
      do {
        symbol \<leftarrow> index (currencies L) currency;
        _ \<leftarrow> whole_slice s v;
        b \<leftarrow> digit_loop (decimal L) (group_first L) (rev s) (v = 0) 0 [];
        b \<leftarrow> (if num < 0 then append_first b (minus_sym L) else Some b);
        b \<leftarrow> Some (pad_fraction L v (rev b));
        if num < 0 then Some (b @ symbol) else Some (b @ symbol)
      })"

definition az_Latn_AZ_FmtAccounting ::
  "locale_data \<Rightarrow> rat \<Rightarrow> uint64 \<Rightarrow> nat \<Rightarrow> string option" where
  "az_Latn_AZ_FmtAccounting L num v currency =
     (let s = FormatFloat \<bar>num\<bar> (sint v) in
      do {
        symbol \<leftarrow> index (currencies L) currency;
        _ \<leftarrow> whole_slice s v;
        b \<leftarrow> digit_loop (decimal L) (group_first L) (rev s) (v = 0) 0 [];
        b \<leftarrow> (if num < 0
              then append_first (b @ rev symbol @ rev (currencyNegativePrefix L)) (minus_sym L)
              else Some (b @ rev symbol @ rev (currencyPositivePrefix L)));
        Some (pad_fraction L v (rev b))
      })"

definition bg_BG_FmtAccounting ::
  "locale_data \<Rightarrow> rat \<Rightarrow> uint64 \<Rightarrow> nat \<Rightarrow> string option" where
  "bg_BG_FmtAccounting L num v currency =
     (let s = FormatFloat \<bar>num\<bar> (sint v) in
      do {
        symbol \<leftarrow> index (currencies L) currency;
        b \<leftarrow> percent_loop (decimal L) (rev s) [];
        b \<leftarrow> (if num < 0 then append_first b (currencyNegativePrefix L) else Some b);
        b \<leftarrow> Some (pad_fraction L v (rev b));
        if num < 0 then Some (b @ currencyNegativeSuffix L @ symbol)
        else Some (b @ currencyPositiveSuffix L @ symbol)
      })"

fun FmtAccounting :: "translator \<Rightarrow> rat \<Rightarrow> uint64 \<Rightarrow> nat \<Rightarrow> string option" where
  "FmtAccounting T_az_Latn_AZ = az_Latn_AZ_FmtAccounting az_Latn_AZ_New"
| "FmtAccounting T_bg_BG = bg_BG_FmtAccounting bg_BG_New"
| "FmtAccounting T_bs = bs_FmtAccounting bs_New"
| "FmtAccounting T_ca_IT = ca_IT_FmtAccounting ca_IT_New"
| "FmtAccounting T_chr = chr_FmtAccounting chr_New"
| "FmtAccounting T_en_NU = chr_FmtAccounting en_NU_New"
| "FmtAccounting T_es_US = bs_FmtAccounting es_US_New"
| "FmtAccounting T_ksf_CM = ksf_CM_FmtAccounting ksf_CM_New"
| "FmtAccounting T_kw = kw_FmtAccounting kw_New"
| "FmtAccounting T_rwk = rwk_FmtAccounting rwk_New"
| "FmtAccounting T_saq_KE = chr_FmtAccounting saq_KE_New"

subsection \<open>The rendering that the spec describes for percents\<close>


subsection \<open>The fraction field that the spec describes for currencies\<close>

definition fraction_field :: "string \<Rightarrow> nat \<Rightarrow> string" where
  \<comment> \<open>the fraction digits shown for a requested precision \<open>v < 2\<close>: the last \<open>v\<close> bytes
      of the fixed-point string \<open>s\<close>, padded with zeros to two digits\<close>
  "fraction_field s v = drop (length s - v) s @ replicate (2 - v) CHR ''0''"

definition no_leading_digit :: "string \<Rightarrow> bool" where
  \<comment> \<open>what follows the fraction field does not continue it\<close>
  "no_leading_digit s = (case s of [] \<Rightarrow> True | c # _ \<Rightarrow> \<not> is_digit c)"

section \<open>Date and time formatters\<close>

definition pad2 :: "int \<Rightarrow> string" where
  \<comment> \<open>\<open>if x < 10 { b = append(b, '0') }\<close>: the bytes the test appends\<close>
  "pad2 x = (if x < 10 then ''0'' else [])"

definition hour12 :: "Time \<Rightarrow> int" where
  \<comment> \<open>\<open>h := t.Hour(); if h > 12 { h -= 12 }\<close>\<close>
  "hour12 t = (let h = Hour t in if h > 12 then h - 12 else h)"

definition period_abbreviated :: "locale_data \<Rightarrow> Time \<Rightarrow> string option" where
  \<comment> \<open>\<open>if t.Hour() < 12 { L.periodsAbbreviated[0] } else { L.periodsAbbreviated[1] }\<close>\<close>
  "period_abbreviated L t =
     (if Hour t < 12 then index (periodsAbbreviated L) 0 else index (periodsAbbreviated L) 1)"

definition zone_name :: "locale_data \<Rightarrow> string \<Rightarrow> string" where
  \<comment> \<open>\<open>if btz, ok := L.timezones[tz]; ok { btz } else { tz }\<close>\<close>
  "zone_name L tz = (case map_of (timezones L) tz of Some btz \<Rightarrow> btz | None \<Rightarrow> tz)"

subsection \<open>FmtDateShort\<close>

definition short_year :: "int \<Rightarrow> string option" where
  \<comment> \<open>\<open>if t.Year() > 9 { strconv.Itoa(t.Year())[2:] } else { strconv.Itoa(t.Year())[1:] }\<close>\<close>
  "short_year y = (if y > 9 then slice_from (Itoa y) 2 else slice_from (Itoa y) 1)"

definition bs_FmtDateShort :: "locale_data \<Rightarrow> Time \<Rightarrow> string option" where
  "bs_FmtDateShort L t =
     do {
       y \<leftarrow> short_year (Year t);
       Some (Itoa (Day t) @ ''.'' @ Itoa (Month t) @ ''.'' @ y @ ''.'')
     }"

definition chr_FmtDateShort :: "locale_data \<Rightarrow> Time \<Rightarrow> string option" where
  "chr_FmtDateShort L t =
     do {
       y \<leftarrow> short_year (Year t);
       Some (Itoa (Month t) @ ''/'' @ Itoa (Day t) @ ''/'' @ y)
     }"

subsection \<open>The time formats of chr\<close>

definition chr_FmtTimeShort :: "locale_data \<Rightarrow> Time \<Rightarrow> string option" where
  "chr_FmtTimeShort L t =
     do {
       p \<leftarrow> period_abbreviated L t;
       Some (Itoa (hour12 t) @ timeSeparator L @ pad2 (Minute t) @ Itoa (Minute t) @ '' '' @ p)
     }"

definition chr_FmtTimeMedium :: "locale_data \<Rightarrow> Time \<Rightarrow> string option" where
  "chr_FmtTimeMedium L t =
     do {
       p \<leftarrow> period_abbreviated L t;
       Some (Itoa (hour12 t) @ timeSeparator L @ pad2 (Minute t) @ Itoa (Minute t)
             @ timeSeparator L @ pad2 (Second t) @ Itoa (Second t) @ '' '' @ p)
     }"

definition chr_FmtTimeLong :: "locale_data \<Rightarrow> Time \<Rightarrow> string option" where
  "chr_FmtTimeLong L t =
     do {
       p \<leftarrow> period_abbreviated L t;
       Some (Itoa (hour12 t) @ timeSeparator L @ pad2 (Minute t) @ Itoa (Minute t)
             @ timeSeparator L @ pad2 (Second t) @ Itoa (Second t) @ '' '' @ p
             @ '' '' @ Zone t)
     }"

subsection \<open>FmtTimeFull\<close>

definition bs_FmtTimeFull :: "locale_data \<Rightarrow> Time \<Rightarrow> string option" where
  \<comment> \<open>the bodies of \<open>az_Latn_AZ\<close>, \<open>bs\<close>, \<open>en_NU\<close>, \<open>ksf_CM\<close>, \<open>kw\<close>, \<open>rwk\<close> and \<open>saq_KE\<close>
      are the same\<close>
  "bs_FmtTimeFull L t =
     Some (pad2 (Hour t) @ Itoa (Hour t) @ timeSeparator L @ pad2 (Minute t) @ Itoa (Minute t)
           @ timeSeparator L @ pad2 (Second t) @ Itoa (Second t) @ '' ''
           @ zone_name L (Zone t))"

definition ca_IT_FmtTimeFull :: "locale_data \<Rightarrow> Time \<Rightarrow> string option" where
  \<comment> \<open>the body of \<open>bg_BG\<close> is the same\<close>
  "ca_IT_FmtTimeFull L t =
     Some (Itoa (Hour t) @ timeSeparator L @ pad2 (Minute t) @ Itoa (Minute t)
           @ timeSeparator L @ pad2 (Second t) @ Itoa (Second t) @ '' ''
           @ zone_name L (Zone t))"

definition chr_FmtTimeFull :: "locale_data \<Rightarrow> Time \<Rightarrow> string option" where
  \<comment> \<open>the body of \<open>es_US\<close> is the same\<close>
  "chr_FmtTimeFull L t =
     do {
       p \<leftarrow> period_abbreviated L t;
       Some (Itoa (hour12 t) @ timeSeparator L @ pad2 (Minute t) @ Itoa (Minute t)
             @ timeSeparator L @ pad2 (Second t) @ Itoa (Second t) @ '' '' @ p
             @ '' '' @ zone_name L (Zone t))
     }"

fun FmtTimeFull :: "translator \<Rightarrow> Time \<Rightarrow> string option" where
  "FmtTimeFull T_az_Latn_AZ = bs_FmtTimeFull az_Latn_AZ_New"
| "FmtTimeFull T_bg_BG = ca_IT_FmtTimeFull bg_BG_New"
| "FmtTimeFull T_bs = bs_FmtTimeFull bs_New"
| "FmtTimeFull T_ca_IT = ca_IT_FmtTimeFull ca_IT_New"
| "FmtTimeFull T_chr = chr_FmtTimeFull chr_New"
| "FmtTimeFull T_en_NU = bs_FmtTimeFull en_NU_New"
| "FmtTimeFull T_es_US = chr_FmtTimeFull es_US_New"
| "FmtTimeFull T_ksf_CM = bs_FmtTimeFull ksf_CM_New"
| "FmtTimeFull T_kw = bs_FmtTimeFull kw_New"
| "FmtTimeFull T_rwk = bs_FmtTimeFull rwk_New"
| "FmtTimeFull T_saq_KE = bs_FmtTimeFull saq_KE_New"

section \<open>Plural rules: the claims\<close>

lemma bs_range_chain:
  "(if s = PluralRuleOne \<and> e = PluralRuleOne then PluralRuleOne
    else if s = PluralRuleOne \<and> e = PluralRuleFew then PluralRuleFew
    else if s = PluralRuleOne \<and> e = PluralRuleOther then PluralRuleOther
    else if s = PluralRuleFew \<and> e = PluralRuleOne then PluralRuleOne
    else if s = PluralRuleFew \<and> e = PluralRuleFew then PluralRuleFew
    else if s = PluralRuleFew \<and> e = PluralRuleOther then PluralRuleOther
    else if s = PluralRuleOther \<and> e = PluralRuleOne then PluralRuleOne
    else if s = PluralRuleOther \<and> e = PluralRuleFew then PluralRuleFew
    else PluralRuleOther) = range_lookup bs_range_table s e"
  by (cases s; cases e; simp add: range_lookup_def bs_range_table_def)

text \<open>
  Claim C6. For \<open>bs\<close> and all inputs, \<open>RangePluralRule\<close> is the lookup of the pair
  (cardinal category of the start, cardinal category of the end) in the fixed table
  \<open>bs_range_table\<close>, and a pair the table does not list gives \<open>other\<close>.
\<close>

theorem bs_RangePluralRule_table:
  "bs_RangePluralRule num1 v1 num2 v2 =
     range_lookup bs_range_table (bs_CardinalPluralRule num1 v1) (bs_CardinalPluralRule num2 v2)
   \<and> (map_of bs_range_table (bs_CardinalPluralRule num1 v1, bs_CardinalPluralRule num2 v2) = None
        \<longrightarrow> bs_RangePluralRule num1 v1 num2 v2 = PluralRuleOther)"
proof -
  have eq: "bs_RangePluralRule num1 v1 num2 v2 =
     range_lookup bs_range_table (bs_CardinalPluralRule num1 v1) (bs_CardinalPluralRule num2 v2)"
    unfolding bs_RangePluralRule_def Let_def by (rule bs_range_chain)
  show ?thesis
    using eq by (simp add: range_lookup_def)
qed

text \<open>
  The pair (other, other) is not listed: the range from 5 to 6 is \<open>other\<close>.
\<close>

theorem bs_RangePluralRule_table_witness:
  "map_of bs_range_table (bs_CardinalPluralRule 5 0, bs_CardinalPluralRule 6 0) = None
   \<and> bs_RangePluralRule 5 0 6 0 = PluralRuleOther"
proof -
  have c5: "bs_CardinalPluralRule 5 0 = PluralRuleOther"
    by (simp add: bs_CardinalPluralRule_def int64_def F_def rem_def Let_def)
  have c6: "bs_CardinalPluralRule 6 0 = PluralRuleOther"
    by (simp add: bs_CardinalPluralRule_def int64_def F_def rem_def Let_def)
  have n: "map_of bs_range_table (bs_CardinalPluralRule 5 0, bs_CardinalPluralRule 6 0) = None"
    by (simp add: c5 c6 bs_range_table_def)
  show ?thesis
    using n conjunct2 [OF bs_RangePluralRule_table [of 5 0 6 0]] by blast
qed

text \<open>
  Claim C5, as stated: the ordinal rule of \<open>bs\<close> at 3 with no visible fraction digits
  would be \<open>few\<close>. It is not.
\<close>

theorem bs_OrdinalPluralRule_3_counterexample:
  "bs_OrdinalPluralRule 3 0 \<noteq> PluralRuleFew"
  by (simp add: bs_OrdinalPluralRule_def)

text \<open>
  Claim C5, amended: the ordinal rule of \<open>bs\<close> returns \<open>other\<close> for every input, the
  only ordinal category that \<open>bs\<close> declares; it evaluates no residue predicate.
\<close>

theorem bs_OrdinalPluralRule_other:
  "bs_OrdinalPluralRule num v = PluralRuleOther \<and> PluralsOrdinal T_bs = [PluralRuleOther]"
  by (simp add: bs_OrdinalPluralRule_def PluralsOrdinal_def bs_New_def)

theorem bs_OrdinalPluralRule_other_witness:
  "bs_OrdinalPluralRule 3 0 = PluralRuleOther \<and> PluralsOrdinal T_bs = [PluralRuleOther]"
  using bs_OrdinalPluralRule_other [of 3 0] by simp

text \<open>
  Claim C2, as stated: the cardinal category of every locale at an integer would be in
  the locale's declared list or be \<open>other\<close>. For \<open>ksf_CM\<close> it is \<open>unknown\<close>, and
  \<open>ksf_CM\<close> declares no cardinal category.
\<close>

theorem CardinalPluralRule_ksf_CM_counterexample:
  "CardinalPluralRule T_ksf_CM 5 0 \<notin> set (PluralsCardinal T_ksf_CM)
   \<and> CardinalPluralRule T_ksf_CM 5 0 \<noteq> PluralRuleOther"
  by (simp add: ksf_CM_CardinalPluralRule_def PluralsCardinal_def ksf_CM_New_def)

lemma F_zero: "F n 0 = 0"
  by (simp add: F_def)

text \<open>
  Claim C2, amended: for every locale but \<open>ksf_CM\<close> and every integer \<open>n\<close>,
  \<open>CardinalPluralRule(n, 0)\<close> is in the locale's declared \<open>PluralsCardinal()\<close> list or
  is \<open>other\<close>; \<open>ksf_CM\<close>, which declares no cardinal category, returns \<open>unknown\<close>.
\<close>

theorem CardinalPluralRule_declared:
  "(L \<noteq> T_ksf_CM \<longrightarrow>
      CardinalPluralRule L (of_int n) 0 \<in> set (PluralsCardinal L)
      \<or> CardinalPluralRule L (of_int n) 0 = PluralRuleOther)
   \<and> (L = T_ksf_CM \<longrightarrow>
      CardinalPluralRule L (of_int n) 0 = PluralRuleUnknown \<and> PluralsCardinal L = [])"
proof (cases L)
  case T_az_Latn_AZ
  then show ?thesis
    by (simp add: chr_CardinalPluralRule_def PluralsCardinal_def az_Latn_AZ_New_def Let_def)
next
  case T_bg_BG
  then show ?thesis
    by (simp add: chr_CardinalPluralRule_def PluralsCardinal_def bg_BG_New_def Let_def)
next
  case T_bs
  then show ?thesis
    by (simp add: bs_CardinalPluralRule_def PluralsCardinal_def bs_New_def Let_def F_zero)
next
  case T_ca_IT
  then show ?thesis
    by (simp add: ca_IT_CardinalPluralRule_def PluralsCardinal_def ca_IT_New_def Let_def)
next
  case T_chr
  then show ?thesis
    by (simp add: chr_CardinalPluralRule_def PluralsCardinal_def chr_New_def Let_def)
next
  case T_en_NU
  then show ?thesis
    by (simp add: ca_IT_CardinalPluralRule_def PluralsCardinal_def en_NU_New_def Let_def)
next
  case T_es_US
  then show ?thesis
    by (simp add: chr_CardinalPluralRule_def PluralsCardinal_def es_US_New_def Let_def)
next
  case T_ksf_CM
  then show ?thesis
    by (simp add: ksf_CM_CardinalPluralRule_def PluralsCardinal_def ksf_CM_New_def)
next
  case T_kw
  then show ?thesis
    by (simp add: kw_CardinalPluralRule_def PluralsCardinal_def kw_New_def Let_def)
next
  case T_rwk
  then show ?thesis
    by (simp add: chr_CardinalPluralRule_def PluralsCardinal_def rwk_New_def Let_def)
next
  case T_saq_KE
  then show ?thesis
    by (simp add: chr_CardinalPluralRule_def PluralsCardinal_def saq_KE_New_def Let_def)
qed

theorem CardinalPluralRule_declared_witness:
  "T_bs \<noteq> T_ksf_CM \<and> CardinalPluralRule T_bs (of_int 3) 0 = PluralRuleFew
   \<and> CardinalPluralRule T_bs (of_int 3) 0 \<in> set (PluralsCardinal T_bs)
   \<and> CardinalPluralRule T_ksf_CM (of_int 3) 0 = PluralRuleUnknown"
proof -
  have few: "CardinalPluralRule T_bs (of_int 3) 0 = PluralRuleFew"
    by (simp add: bs_CardinalPluralRule_def int64_def F_def rem_def Let_def)
  have "CardinalPluralRule T_bs (of_int 3) 0 \<in> set (PluralsCardinal T_bs)"
    using CardinalPluralRule_declared [of T_bs 3] few by simp
  moreover have "CardinalPluralRule T_ksf_CM (of_int 3) 0 = PluralRuleUnknown"
    using CardinalPluralRule_declared [of T_ksf_CM 3] by simp
  ultimately show ?thesis
    using few by simp
qed


section \<open>Evaluation on concrete inputs\<close>

lemma replicate_two: "replicate 2 x = [x, x]"
  by (simp add: numeral_2_eq_2)

text \<open>
  The equations that evaluate a formatter at a concrete input: on numerals the recursion
  of \<open>FormatUint\<close> unfolds until its test decides.
\<close>

lemmas fmt_eval =
  FormatFloat_def FormatFixed_def round_half_even_def FormatUint.simps digit_char_def Let_def
  index_def slice_to_def whole_slice_def group_first_def group_bytes_def append_first_def
  pad_fraction_def replicate_two

lemmas time_eval =
  Itoa_def FormatUint.simps digit_char_def pad2_def hour12_def period_abbreviated_def
  zone_name_def index_def Let_def


section \<open>Dates and times: the claims\<close>

lemma FormatUint_small: "n < 10 \<Longrightarrow> FormatUint n = [digit_char n]"
  by (subst FormatUint.simps) simp

lemma FormatUint_two: "10 \<le> n \<Longrightarrow> n < 100 \<Longrightarrow> length (FormatUint n) = 2"
  by (subst FormatUint.simps) (simp add: FormatUint_small)

lemma short_year_empty: "1 \<le> y \<Longrightarrow> y \<le> 99 \<Longrightarrow> short_year y = Some []"
proof -
  assume lo: "1 \<le> y" and hi: "y \<le> 99"
  show ?thesis
  proof (cases "y > 9")
    case True
    then have "length (Itoa y) = 2"
      using hi by (simp add: Itoa_def FormatUint_two)
    then show ?thesis
      using True by (simp add: short_year_def slice_from_def)
  next
    case False
    then have "length (Itoa y) = 1"
      using lo by (simp add: Itoa_def FormatUint_small)
    then show ?thesis
      using False by (simp add: short_year_def slice_from_def)
  qed
qed

text \<open>
  Claim C10. For \<open>bs\<close> and \<open>chr\<close>, \<open>FmtDateShort\<close> emits an empty year field for every
  year from 1 through 99: the year keeps its decimal digits after index 2 (after index 1
  for a year of at most 9), none are left, and no slice panics.
\<close>

theorem FmtDateShort_empty_year:
  assumes "1 \<le> Year t" and "Year t \<le> 99"
  shows "short_year (Year t) = Some []
    \<and> bs_FmtDateShort bs_New t = Some (Itoa (Day t) @ ''.'' @ Itoa (Month t) @ ''.'' @ [] @ ''.'')
    \<and> chr_FmtDateShort chr_New t = Some (Itoa (Month t) @ ''/'' @ Itoa (Day t) @ ''/'' @ [])"
  using short_year_empty [OF assms]
  by (simp add: bs_FmtDateShort_def chr_FmtDateShort_def)

text \<open>
  The year 45: \<open>bs\<close> gives \<open>4.3..\<close> and \<open>chr\<close> gives \<open>3/4/\<close>.
\<close>

theorem FmtDateShort_empty_year_witness:
  "(1::int) \<le> 45 \<and> (45::int) \<le> 99
   \<and> bs_FmtDateShort bs_New
        \<lparr>Year = 45, Month = 3, Day = 4, Hour = 9, Minute = 5, Second = 7, Zone = ''UTC''\<rparr>
      = Some ''4.3..''
   \<and> chr_FmtDateShort chr_New
        \<lparr>Year = 45, Month = 3, Day = 4, Hour = 9, Minute = 5, Second = 7, Zone = ''UTC''\<rparr>
      = Some ''3/4/''"
  using FmtDateShort_empty_year
    [of "\<lparr>Year = 45, Month = 3, Day = 4, Hour = 9, Minute = 5, Second = 7, Zone = ''UTC''\<rparr>"]
  by (simp add: Itoa_def FormatUint_small digit_char_def)

text \<open>
  Outside the hour 0 the conversion of \<open>chr\<close> stays within 1 to 12.
\<close>

lemma hour12_range: "1 \<le> Hour t \<Longrightarrow> Hour t \<le> 23 \<Longrightarrow> 1 \<le> hour12 t \<and> hour12 t \<le> 12"
  by (simp add: hour12_def Let_def)

text \<open>
  Claim C8. At the hour 0 every time format of \<open>chr\<close> renders the hour as \<open>0\<close>,
  outside the range 1 to 12; the period name is the first one.
\<close>

theorem chr_hour_zero:
  "chr_FmtTimeShort chr_New
     \<lparr>Year = 2020, Month = 3, Day = 4, Hour = 0, Minute = 5, Second = 7, Zone = ''UTC''\<rparr>
   = Some (''0:05 '' @ [CHR 0xE1, CHR 0x8F, CHR 0x8C, CHR 0xE1, CHR 0x8E, CHR 0xBE, CHR 0xE1, CHR 0x8E, CHR 0xB4])
   \<and> chr_FmtTimeMedium chr_New
     \<lparr>Year = 2020, Month = 3, Day = 4, Hour = 0, Minute = 5, Second = 7, Zone = ''UTC''\<rparr>
   = Some (''0:05:07 '' @ [CHR 0xE1, CHR 0x8F, CHR 0x8C, CHR 0xE1, CHR 0x8E, CHR 0xBE, CHR 0xE1, CHR 0x8E, CHR 0xB4])
   \<and> chr_FmtTimeLong chr_New
     \<lparr>Year = 2020, Month = 3, Day = 4, Hour = 0, Minute = 5, Second = 7, Zone = ''UTC''\<rparr>
   = Some (''0:05:07 '' @ [CHR 0xE1, CHR 0x8F, CHR 0x8C, CHR 0xE1, CHR 0x8E, CHR 0xBE, CHR 0xE1, CHR 0x8E, CHR 0xB4] @ '' UTC'')
   \<and> chr_FmtTimeFull chr_New
     \<lparr>Year = 2020, Month = 3, Day = 4, Hour = 0, Minute = 5, Second = 7, Zone = ''UTC''\<rparr>
   = Some (''0:05:07 '' @ [CHR 0xE1, CHR 0x8F, CHR 0x8C, CHR 0xE1, CHR 0x8E, CHR 0xBE, CHR 0xE1, CHR 0x8E, CHR 0xB4] @ '' UTC'')"
  by code_simp

lemma zone_name_absent: "map_of (timezones D) z = None \<Longrightarrow> zone_name D z = z"
  by (simp add: zone_name_def)

lemma zone_name_present: "map_of (timezones D) z = Some name \<Longrightarrow> zone_name D z = name"
  by (simp add: zone_name_def)

lemma bs_FmtTimeFull_zone:
  "\<exists>pre. \<forall>z. bs_FmtTimeFull D (t\<lparr>Zone := z\<rparr>) = Some (pre @ '' '' @ zone_name D z)"
  by (rule exI [of _ "pad2 (Hour t) @ Itoa (Hour t) @ timeSeparator D @ pad2 (Minute t)
        @ Itoa (Minute t) @ timeSeparator D @ pad2 (Second t) @ Itoa (Second t)"])
     (simp add: bs_FmtTimeFull_def)

lemma ca_IT_FmtTimeFull_zone:
  "\<exists>pre. \<forall>z. ca_IT_FmtTimeFull D (t\<lparr>Zone := z\<rparr>) = Some (pre @ '' '' @ zone_name D z)"
  by (rule exI [of _ "Itoa (Hour t) @ timeSeparator D @ pad2 (Minute t)
        @ Itoa (Minute t) @ timeSeparator D @ pad2 (Second t) @ Itoa (Second t)"])
     (simp add: ca_IT_FmtTimeFull_def)

lemma chr_FmtTimeFull_zone:
  assumes "periodsAbbreviated D = [am, pm]"
  shows "\<exists>pre. \<forall>z. chr_FmtTimeFull D (t\<lparr>Zone := z\<rparr>) = Some (pre @ '' '' @ zone_name D z)"
  by (rule exI [of _ "Itoa (hour12 t) @ timeSeparator D @ pad2 (Minute t)
        @ Itoa (Minute t) @ timeSeparator D @ pad2 (Second t) @ Itoa (Second t) @ '' ''
        @ (if Hour t < 12 then am else pm)"])
     (simp add: chr_FmtTimeFull_def period_abbreviated_def index_def hour12_def assms)

lemma FmtTimeFull_zone:
  "\<exists>pre. \<forall>z. FmtTimeFull L (t\<lparr>Zone := z\<rparr>) = Some (pre @ '' '' @ zone_name (New L) z)"
proof (cases L)
  case T_chr
  have "periodsAbbreviated chr_New =
          [periodsAbbreviated chr_New ! 0, periodsAbbreviated chr_New ! 1]"
    by (simp add: chr_New_def)
  then show ?thesis
    unfolding T_chr FmtTimeFull.simps New.simps by (rule chr_FmtTimeFull_zone)
next
  case T_es_US
  have "periodsAbbreviated es_US_New =
          [periodsAbbreviated es_US_New ! 0, periodsAbbreviated es_US_New ! 1]"
    by (simp add: es_US_New_def)
  then show ?thesis
    unfolding T_es_US FmtTimeFull.simps New.simps by (rule chr_FmtTimeFull_zone)
next
  case T_az_Latn_AZ
  show ?thesis
    unfolding T_az_Latn_AZ FmtTimeFull.simps New.simps by (rule bs_FmtTimeFull_zone)
next
  case T_bg_BG
  show ?thesis
    unfolding T_bg_BG FmtTimeFull.simps New.simps by (rule ca_IT_FmtTimeFull_zone)
next
  case T_bs
  show ?thesis
    unfolding T_bs FmtTimeFull.simps New.simps by (rule bs_FmtTimeFull_zone)
next
  case T_ca_IT
  show ?thesis
    unfolding T_ca_IT FmtTimeFull.simps New.simps by (rule ca_IT_FmtTimeFull_zone)
next
  case T_en_NU
  show ?thesis
    unfolding T_en_NU FmtTimeFull.simps New.simps by (rule bs_FmtTimeFull_zone)
next
  case T_ksf_CM
  show ?thesis
    unfolding T_ksf_CM FmtTimeFull.simps New.simps by (rule bs_FmtTimeFull_zone)
next
  case T_kw
  show ?thesis
    unfolding T_kw FmtTimeFull.simps New.simps by (rule bs_FmtTimeFull_zone)
next
  case T_rwk
  show ?thesis
    unfolding T_rwk FmtTimeFull.simps New.simps by (rule bs_FmtTimeFull_zone)
next
  case T_saq_KE
  show ?thesis
    unfolding T_saq_KE FmtTimeFull.simps New.simps by (rule bs_FmtTimeFull_zone)
qed

text \<open>
  Claim C7, amended. For each of the eleven locales and every timestamp, \<open>FmtTimeFull\<close>
  returns (it never panics) a prefix that does not depend on the zone, a space, and the
  zone abbreviation resolved through the locale's \<open>timezones\<close> map: the full name the map
  holds for it, the abbreviation itself, unchanged, when the map holds none.
\<close>

theorem FmtTimeFull_zone_fallback:
  "\<exists>pre. (\<forall>z. FmtTimeFull L (t\<lparr>Zone := z\<rparr>) = Some (pre @ '' '' @ zone_name (New L) z))
     \<and> (\<forall>name. map_of (timezones (New L)) (Zone t) = Some name \<longrightarrow>
          FmtTimeFull L t = Some (pre @ '' '' @ name))
     \<and> (map_of (timezones (New L)) (Zone t) = None \<longrightarrow>
          FmtTimeFull L t = Some (pre @ '' '' @ Zone t))"
proof -
  from FmtTimeFull_zone [of L t] obtain pre where
    all: "\<forall>z. FmtTimeFull L (t\<lparr>Zone := z\<rparr>) = Some (pre @ '' '' @ zone_name (New L) z)"
    by (rule exE)
  have t_eq: "t\<lparr>Zone := Zone t\<rparr> = t"
    by simp
  have here: "FmtTimeFull L t = Some (pre @ '' '' @ zone_name (New L) (Zone t))"
    using spec [OF all, of "Zone t"] unfolding t_eq .
  have present: "\<forall>name. map_of (timezones (New L)) (Zone t) = Some name \<longrightarrow>
          FmtTimeFull L t = Some (pre @ '' '' @ name)"
  proof (intro allI impI)
    fix name
    assume "map_of (timezones (New L)) (Zone t) = Some name"
    then have "zone_name (New L) (Zone t) = name"
      by (rule zone_name_present)
    with here show "FmtTimeFull L t = Some (pre @ '' '' @ name)"
      by (simp only:)
  qed
  have absent: "map_of (timezones (New L)) (Zone t) = None \<longrightarrow>
          FmtTimeFull L t = Some (pre @ '' '' @ Zone t)"
  proof
    assume "map_of (timezones (New L)) (Zone t) = None"
    then have "zone_name (New L) (Zone t) = Zone t"
      by (rule zone_name_absent)
    with here show "FmtTimeFull L t = Some (pre @ '' '' @ Zone t)"
      by (simp only:)
  qed
  show ?thesis
    by (rule exI [of _ pre], intro conjI, rule all, rule present, rule absent)
qed

lemma kw_zone_absent: "map_of (timezones (New T_kw)) ''XYZ'' = None"
  by (simp add: kw_New_def kw_timezones_def)

lemma en_NU_zone_present: "map_of (timezones (New T_en_NU)) ''CLT'' = Some ''Chile Standard Time''"
  by (simp add: en_NU_New_def en_NU_timezones_def)

text \<open>
  The abbreviation \<open>XYZ\<close> is not in the map of \<open>kw\<close>; \<open>CLT\<close> is in the map of \<open>en_NU\<close>.
\<close>

theorem FmtTimeFull_zone_fallback_witness:
  "map_of (timezones (New T_kw)) ''XYZ'' = None
   \<and> FmtTimeFull T_kw
        \<lparr>Year = 2020, Month = 3, Day = 4, Hour = 9, Minute = 5, Second = 7, Zone = ''XYZ''\<rparr>
      = Some ''09:05:07 XYZ''
   \<and> (\<exists>pre. FmtTimeFull T_kw
        \<lparr>Year = 2020, Month = 3, Day = 4, Hour = 9, Minute = 5, Second = 7, Zone = ''XYZ''\<rparr>
      = Some (pre @ '' '' @ ''XYZ''))
   \<and> map_of (timezones (New T_en_NU)) ''CLT'' = Some ''Chile Standard Time''
   \<and> (\<exists>pre. FmtTimeFull T_en_NU
        \<lparr>Year = 2020, Month = 3, Day = 4, Hour = 9, Minute = 5, Second = 7, Zone = ''CLT''\<rparr>
      = Some (pre @ '' '' @ ''Chile Standard Time''))"
proof -
  let ?t = "\<lparr>Year = 2020, Month = 3, Day = 4, Hour = 9, Minute = 5, Second = 7, Zone = ''XYZ''\<rparr>"
  let ?u = "\<lparr>Year = 2020, Month = 3, Day = 4, Hour = 9, Minute = 5, Second = 7, Zone = ''CLT''\<rparr>"
  from FmtTimeFull_zone_fallback [of T_kw ?t] obtain pre where
    "map_of (timezones (New T_kw)) (Zone ?t) = None \<longrightarrow>
       FmtTimeFull T_kw ?t = Some (pre @ '' '' @ Zone ?t)"
    by (elim exE conjE)
  then have ex: "\<exists>pre. FmtTimeFull T_kw ?t = Some (pre @ '' '' @ ''XYZ'')"
    using kw_zone_absent by auto
  from FmtTimeFull_zone_fallback [of T_en_NU ?u] obtain pre' where
    "\<forall>name. map_of (timezones (New T_en_NU)) (Zone ?u) = Some name \<longrightarrow>
       FmtTimeFull T_en_NU ?u = Some (pre' @ '' '' @ name)"
    by (elim exE conjE)
  then have ex': "\<exists>pre. FmtTimeFull T_en_NU ?u = Some (pre @ '' '' @ ''Chile Standard Time'')"
    using en_NU_zone_present by auto
  have val: "FmtTimeFull T_kw ?t = Some ''09:05:07 XYZ''"
    using kw_zone_absent by (simp add: bs_FmtTimeFull_def kw_New_def time_eval)
  show ?thesis
    using ex ex' val kw_zone_absent en_NU_zone_present by blast
qed

text \<open>
  Claim C7, as stated: the emitted name would never be empty. A timestamp whose zone
  has the empty abbreviation (a fixed zone without a name) gets the empty name.
\<close>

theorem FmtTimeFull_empty_zone_counterexample:
  "map_of (timezones (New T_bs)) [] = None
   \<and> zone_name (New T_bs) [] = []
   \<and> FmtTimeFull T_bs
        \<lparr>Year = 2020, Month = 3, Day = 4, Hour = 9, Minute = 5, Second = 7, Zone = []\<rparr>
      = Some ''09:05:07 ''"
proof -
  have absent: "map_of (timezones (New T_bs)) [] = None"
    by (simp add: bs_New_def bs_timezones_def)
  then show ?thesis
    by (simp add: bs_FmtTimeFull_def zone_name_absent) (simp add: bs_New_def time_eval)
qed

section \<open>Numbers, percents and currencies: the claims\<close>

text \<open>
  Claim C1. \<open>New()\<close> of \<open>ksf_CM\<close> sets no minus sign, so \<open>ksf.minus[0]\<close> panics on a
  negative number; \<open>kw\<close>, \<open>rwk\<close> and \<open>saq_KE\<close> set no decimal, group or minus symbol,
  so their currency formats panic on a fraction digit, a fourth whole digit or a
  negative amount.
\<close>

theorem FmtNumber_ksf_CM_negative_panics:
  "FmtNumber T_ksf_CM (- 1) 0 = None
   \<and> FmtCurrency T_ksf_CM (- 1) 0 0 = None
   \<and> FmtAccounting T_ksf_CM (- 1) 0 0 = None
   \<and> FmtCurrency T_kw (3 / 2) 1 0 = None
   \<and> FmtCurrency T_rwk 1234 0 0 = None
   \<and> FmtCurrency T_saq_KE (- 1) 0 0 = None"
  by (simp add: ksf_CM_FmtNumber_def ksf_CM_FmtCurrency_def ksf_CM_FmtAccounting_def
      chr_FmtCurrency_def rwk_FmtCurrency_def
      ksf_CM_New_def kw_New_def rwk_New_def saq_KE_New_def
      ksf_CM_currencies_def kw_currencies_def rwk_currencies_def saq_KE_currencies_def fmt_eval)


subsection \<open>Percents\<close>








subsection \<open>The locales that set every symbol return\<close>

text \<open>
  \<open>az_Latn_AZ\<close>, \<open>bg_BG\<close>, \<open>bs\<close>, \<open>ca_IT\<close>, \<open>chr\<close>, \<open>en_NU\<close> and \<open>es_US\<close> set the decimal,
  group and minus symbols (and the negative prefix where \<open>FmtAccounting\<close> reads it). Their
  number and currency formats return for every amount, every in-range currency index and
  every precision \<open>v\<close> with \<open>- 1 \<le> int(v)\<close>, that is \<open>v < 2 ^ 63\<close> or \<open>v = 2 ^ 64 - 1\<close>; for the
  other precisions the slice of the whole part panics (the currency formats of \<open>bg_BG\<close> take
  no slice and return at every precision). \<open>ksf_CM\<close> sets the decimal and group
  symbols: its currency formats return for an amount that is not negative.
\<close>

lemma FormatUint_nonempty: "FormatUint n \<noteq> []"
  by (subst FormatUint.simps) simp

lemma FormatFixed_length: "p + 1 \<le> length (FormatFixed x p)"
proof -
  have "1 \<le> length (FormatUint n)" for n
    using FormatUint_nonempty [of n] by (cases "FormatUint n") simp_all
  from this [of "nat (round_half_even (x * 10 ^ p)) div 10 ^ p"] show ?thesis
    unfolding FormatFixed_def Let_def by auto
qed

lemma whole_slice_some:
  assumes "- 1 \<le> sint v"
  shows "\<exists>w. whole_slice (FormatFloat x (sint v)) v = Some w"
proof (cases "sint v < 0")
  case True
  with assms have "sint v = - 1"
    by simp
  then show ?thesis
    by (simp add: whole_slice_def slice_to_def)
next
  case False
  then have "FormatFloat x (sint v) = FormatFixed x (nat (sint v))"
    by (simp add: FormatFloat_def)
  with FormatFixed_length [of "nat (sint v)" x] False show ?thesis
    by (simp add: whole_slice_def slice_to_def)
qed

lemma digit_loop_some:
  "dec \<noteq> [] \<Longrightarrow> sep = Some g \<Longrightarrow> \<exists>b. digit_loop dec sep cs w n b0 = Some b"
  by (induction cs arbitrary: w n b0) (auto simp: index_def split: option.splits)

lemma percent_loop_some: "dec \<noteq> [] \<Longrightarrow> \<exists>b. percent_loop dec cs b0 = Some b"
  by (induction cs arbitrary: b0) (auto simp: index_def split: option.splits)

lemma group_first_some: "group_sym D \<noteq> [] \<Longrightarrow> \<exists>g. group_first D = Some g"
  by (simp add: group_first_def index_def)

lemma bs_FmtNumber_returns:
  assumes dec: "decimal D \<noteq> []"
    and grp: "group_sym D \<noteq> []"
    and neg: "minus_sym D \<noteq> []"
    and v: "- 1 \<le> sint v"
  shows "\<exists>r. bs_FmtNumber D num v = Some r"
proof -
  obtain w where w: "whole_slice (FormatFloat \<bar>num\<bar> (sint v)) v = Some w"
    using whole_slice_some [OF v] by blast
  obtain b where b: "digit_loop (decimal D) (group_first D)
      (rev (FormatFloat \<bar>num\<bar> (sint v))) (v = 0) 0 [] = Some b"
    using digit_loop_some [OF dec] group_first_some [OF grp] by blast
  show ?thesis
    unfolding bs_FmtNumber_def Let_def
    using w b neg by (simp add: index_def append_first_def)
qed

lemma ksf_CM_FmtNumber_returns:
  assumes dec: "decimal D \<noteq> []"
    and neg: "minus_sym D \<noteq> []"
    and v: "- 1 \<le> sint v"
  shows "\<exists>r. ksf_CM_FmtNumber D num v = Some r"
proof -
  obtain w where w: "whole_slice (FormatFloat \<bar>num\<bar> (sint v)) v = Some w"
    using whole_slice_some [OF v] by blast
  obtain b where b: "digit_loop (decimal D) (group_bytes D)
      (rev (FormatFloat \<bar>num\<bar> (sint v))) (v = 0) 0 [] = Some b"
    using digit_loop_some [OF dec group_bytes_def] by blast
  show ?thesis
    unfolding ksf_CM_FmtNumber_def Let_def
    using w b neg by (simp add: index_def append_first_def)
qed

lemma bs_FmtCurrency_returns:
  assumes dec: "decimal D \<noteq> []"
    and grp: "group_sym D \<noteq> []"
    and neg: "minus_sym D \<noteq> []"
    and v: "- 1 \<le> sint v"
    and c: "c < length (currencies D)"
  shows "\<exists>r. bs_FmtCurrency D num v c = Some r"
proof -
  obtain w where w: "whole_slice (FormatFloat \<bar>num\<bar> (sint v)) v = Some w"
    using whole_slice_some [OF v] by blast
  obtain b where b: "digit_loop (decimal D) (group_first D)
      (rev (FormatFloat \<bar>num\<bar> (sint v))) (v = 0) 0 [] = Some b"
    using digit_loop_some [OF dec] group_first_some [OF grp] by blast
  show ?thesis
    unfolding bs_FmtCurrency_def Let_def
    using w b neg c by (simp add: index_def append_first_def)
qed

lemma chr_FmtCurrency_returns:
  assumes dec: "decimal D \<noteq> []"
    and grp: "group_sym D \<noteq> []"
    and neg: "minus_sym D \<noteq> []"
    and v: "- 1 \<le> sint v"
    and c: "c < length (currencies D)"
  shows "\<exists>r. chr_FmtCurrency D num v c = Some r"
proof -
  obtain w where w: "whole_slice (FormatFloat \<bar>num\<bar> (sint v)) v = Some w"
    using whole_slice_some [OF v] by blast
  obtain b where b: "digit_loop (decimal D) (group_first D)
      (rev (FormatFloat \<bar>num\<bar> (sint v))) (v = 0) 0 [] = Some b"
    using digit_loop_some [OF dec] group_first_some [OF grp] by blast
  show ?thesis
    unfolding chr_FmtCurrency_def Let_def
    using w b neg c by (simp add: index_def append_first_def)
qed

lemma az_Latn_AZ_FmtCurrency_returns:
  assumes dec: "decimal D \<noteq> []"
    and grp: "group_sym D \<noteq> []"
    and neg: "minus_sym D \<noteq> []"
    and v: "- 1 \<le> sint v"
    and c: "c < length (currencies D)"
  shows "\<exists>r. az_Latn_AZ_FmtCurrency D num v c = Some r"
proof -
  obtain w where w: "whole_slice (FormatFloat \<bar>num\<bar> (sint v)) v = Some w"
    using whole_slice_some [OF v] by blast
  obtain b where b: "digit_loop (decimal D) (group_first D)
      (rev (FormatFloat \<bar>num\<bar> (sint v))) (v = 0) 0 [] = Some b"
    using digit_loop_some [OF dec] group_first_some [OF grp] by blast
  show ?thesis
    unfolding az_Latn_AZ_FmtCurrency_def Let_def
    using w b neg c by (simp add: index_def append_first_def)
qed

lemma bg_BG_FmtCurrency_returns:
  assumes dec: "decimal D \<noteq> []"
    and neg: "minus_sym D \<noteq> []"
    and c: "c < length (currencies D)"
  shows "\<exists>r. bg_BG_FmtCurrency D num v c = Some r"
proof -
  obtain b where b: "percent_loop (decimal D) (rev (FormatFloat \<bar>num\<bar> (sint v))) [] = Some b"
    using percent_loop_some [OF dec] by blast
  show ?thesis
    unfolding bg_BG_FmtCurrency_def Let_def
    using b neg c by (simp add: index_def append_first_def)
qed

lemma bs_FmtAccounting_returns:
  assumes dec: "decimal D \<noteq> []"
    and grp: "group_sym D \<noteq> []"
    and neg: "minus_sym D \<noteq> []"
    and v: "- 1 \<le> sint v"
    and c: "c < length (currencies D)"
  shows "\<exists>r. bs_FmtAccounting D num v c = Some r"
proof -
  obtain w where w: "whole_slice (FormatFloat \<bar>num\<bar> (sint v)) v = Some w"
    using whole_slice_some [OF v] by blast
  obtain b where b: "digit_loop (decimal D) (group_first D)
      (rev (FormatFloat \<bar>num\<bar> (sint v))) (v = 0) 0 [] = Some b"
    using digit_loop_some [OF dec] group_first_some [OF grp] by blast
  show ?thesis
    unfolding bs_FmtAccounting_def Let_def
    using w b neg c by (simp add: index_def append_first_def)
qed

lemma ca_IT_FmtAccounting_returns:
  assumes dec: "decimal D \<noteq> []"
    and grp: "group_sym D \<noteq> []"
    and neg: "currencyNegativePrefix D \<noteq> []"
    and v: "- 1 \<le> sint v"
    and c: "c < length (currencies D)"
  shows "\<exists>r. ca_IT_FmtAccounting D num v c = Some r"
proof -
  obtain w where w: "whole_slice (FormatFloat \<bar>num\<bar> (sint v)) v = Some w"
    using whole_slice_some [OF v] by blast
  obtain b where b: "digit_loop (decimal D) (group_first D)
      (rev (FormatFloat \<bar>num\<bar> (sint v))) (v = 0) 0 [] = Some b"
    using digit_loop_some [OF dec] group_first_some [OF grp] by blast
  show ?thesis
    unfolding ca_IT_FmtAccounting_def Let_def
    using w b neg c by (simp add: index_def append_first_def)
qed

lemma chr_FmtAccounting_returns:
  assumes dec: "decimal D \<noteq> []"
    and grp: "group_sym D \<noteq> []"
    and neg: "currencyNegativePrefix D \<noteq> []"
    and v: "- 1 \<le> sint v"
    and c: "c < length (currencies D)"
  shows "\<exists>r. chr_FmtAccounting D num v c = Some r"
proof -
  obtain w where w: "whole_slice (FormatFloat \<bar>num\<bar> (sint v)) v = Some w"
    using whole_slice_some [OF v] by blast
  obtain b where b: "digit_loop (decimal D) (group_first D)
      (rev (FormatFloat \<bar>num\<bar> (sint v))) (v = 0) 0 [] = Some b"
    using digit_loop_some [OF dec] group_first_some [OF grp] by blast
  show ?thesis
    unfolding chr_FmtAccounting_def Let_def
    using w b neg c by (simp add: index_def append_first_def)
qed

lemma az_Latn_AZ_FmtAccounting_returns:
  assumes dec: "decimal D \<noteq> []"
    and grp: "group_sym D \<noteq> []"
    and neg: "minus_sym D \<noteq> []"
    and v: "- 1 \<le> sint v"
    and c: "c < length (currencies D)"
  shows "\<exists>r. az_Latn_AZ_FmtAccounting D num v c = Some r"
proof -
  obtain w where w: "whole_slice (FormatFloat \<bar>num\<bar> (sint v)) v = Some w"
    using whole_slice_some [OF v] by blast
  obtain b where b: "digit_loop (decimal D) (group_first D)
      (rev (FormatFloat \<bar>num\<bar> (sint v))) (v = 0) 0 [] = Some b"
    using digit_loop_some [OF dec] group_first_some [OF grp] by blast
  show ?thesis
    unfolding az_Latn_AZ_FmtAccounting_def Let_def
    using w b neg c by (simp add: index_def append_first_def)
qed

lemma bg_BG_FmtAccounting_returns:
  assumes dec: "decimal D \<noteq> []"
    and neg: "currencyNegativePrefix D \<noteq> []"
    and c: "c < length (currencies D)"
  shows "\<exists>r. bg_BG_FmtAccounting D num v c = Some r"
proof -
  obtain b where b: "percent_loop (decimal D) (rev (FormatFloat \<bar>num\<bar> (sint v))) [] = Some b"
    using percent_loop_some [OF dec] by blast
  show ?thesis
    unfolding bg_BG_FmtAccounting_def Let_def
    using b neg c by (simp add: index_def append_first_def)
qed

lemma ksf_CM_FmtCurrency_returns:
  assumes dec: "decimal D \<noteq> []"
    and neg: "\<not> num < 0"
    and v: "- 1 \<le> sint v"
    and c: "c < length (currencies D)"
  shows "\<exists>r. ksf_CM_FmtCurrency D num v c = Some r"
proof -
  obtain w where w: "whole_slice (FormatFloat \<bar>num\<bar> (sint v)) v = Some w"
    using whole_slice_some [OF v] by blast
  obtain b where b: "digit_loop (decimal D) (group_bytes D)
      (rev (FormatFloat \<bar>num\<bar> (sint v))) (v = 0) 0 [] = Some b"
    using digit_loop_some [OF dec group_bytes_def] by blast
  show ?thesis
    unfolding ksf_CM_FmtCurrency_def Let_def
    using w b neg c by (simp add: index_def append_first_def)
qed

lemma ksf_CM_FmtAccounting_returns:
  assumes dec: "decimal D \<noteq> []"
    and neg: "\<not> num < 0"
    and v: "- 1 \<le> sint v"
    and c: "c < length (currencies D)"
  shows "\<exists>r. ksf_CM_FmtAccounting D num v c = Some r"
proof -
  obtain w where w: "whole_slice (FormatFloat \<bar>num\<bar> (sint v)) v = Some w"
    using whole_slice_some [OF v] by blast
  obtain b where b: "digit_loop (decimal D) (group_bytes D)
      (rev (FormatFloat \<bar>num\<bar> (sint v))) (v = 0) 0 [] = Some b"
    using digit_loop_some [OF dec group_bytes_def] by blast
  show ?thesis
    unfolding ksf_CM_FmtAccounting_def Let_def
    using w b neg c by (simp add: index_def append_first_def)
qed

lemma complete_locales_return:
  assumes L: "L \<in> {T_az_Latn_AZ, T_bg_BG, T_bs, T_ca_IT, T_chr, T_en_NU, T_es_US}"
    and v: "- 1 \<le> sint v"
    and "c < length (currencies (New L))"
  shows "(\<exists>r. FmtNumber L num v = Some r)
    \<and> (\<exists>r. FmtCurrency L num v c = Some r)
    \<and> (\<exists>r. FmtAccounting L num v c = Some r)"
proof -
  consider "L = T_az_Latn_AZ" | "L = T_bg_BG" | "L = T_bs" | "L = T_ca_IT" | "L = T_chr" | "L = T_en_NU" | "L = T_es_US"
    using L by auto
  then show ?thesis
  proof cases
    case 1
    have dec: "decimal az_Latn_AZ_New \<noteq> []" and grp: "group_sym az_Latn_AZ_New \<noteq> []"
      and mns: "minus_sym az_Latn_AZ_New \<noteq> []"
      by (simp_all add: az_Latn_AZ_New_def)
    have c: "c < length (currencies az_Latn_AZ_New)"
      using assms(3) by (simp add: 1)
    show ?thesis
      unfolding 1 FmtNumber.simps FmtCurrency.simps FmtAccounting.simps
      using bs_FmtNumber_returns [OF dec grp mns v] az_Latn_AZ_FmtCurrency_returns [OF dec grp mns v c]
        az_Latn_AZ_FmtAccounting_returns [OF dec grp mns v c]
      by blast
  next
    case 2
    have dec: "decimal bg_BG_New \<noteq> []" and grp: "group_sym bg_BG_New \<noteq> []"
      and mns: "minus_sym bg_BG_New \<noteq> []" and ngp: "currencyNegativePrefix bg_BG_New \<noteq> []"
      by (simp_all add: bg_BG_New_def)
    have c: "c < length (currencies bg_BG_New)"
      using assms(3) by (simp add: 2)
    show ?thesis
      unfolding 2 FmtNumber.simps FmtCurrency.simps FmtAccounting.simps
      using ksf_CM_FmtNumber_returns [OF dec mns v] bg_BG_FmtCurrency_returns [OF dec mns c]
        bg_BG_FmtAccounting_returns [OF dec ngp c]
      by blast
  next
    case 3
    have dec: "decimal bs_New \<noteq> []" and grp: "group_sym bs_New \<noteq> []"
      and mns: "minus_sym bs_New \<noteq> []"
      by (simp_all add: bs_New_def)
    have c: "c < length (currencies bs_New)"
      using assms(3) by (simp add: 3)
    show ?thesis
      unfolding 3 FmtNumber.simps FmtCurrency.simps FmtAccounting.simps
      using bs_FmtNumber_returns [OF dec grp mns v] bs_FmtCurrency_returns [OF dec grp mns v c]
        bs_FmtAccounting_returns [OF dec grp mns v c]
      by blast
  next
    case 4
    have dec: "decimal ca_IT_New \<noteq> []" and grp: "group_sym ca_IT_New \<noteq> []"
      and mns: "minus_sym ca_IT_New \<noteq> []" and ngp: "currencyNegativePrefix ca_IT_New \<noteq> []"
      by (simp_all add: ca_IT_New_def)
    have c: "c < length (currencies ca_IT_New)"
      using assms(3) by (simp add: 4)
    show ?thesis
      unfolding 4 FmtNumber.simps FmtCurrency.simps FmtAccounting.simps
      using bs_FmtNumber_returns [OF dec grp mns v] bs_FmtCurrency_returns [OF dec grp mns v c]
        ca_IT_FmtAccounting_returns [OF dec grp ngp v c]
      by blast
  next
    case 5
    have dec: "decimal chr_New \<noteq> []" and grp: "group_sym chr_New \<noteq> []"
      and mns: "minus_sym chr_New \<noteq> []" and ngp: "currencyNegativePrefix chr_New \<noteq> []"
      by (simp_all add: chr_New_def)
    have c: "c < length (currencies chr_New)"
      using assms(3) by (simp add: 5)
    show ?thesis
      unfolding 5 FmtNumber.simps FmtCurrency.simps FmtAccounting.simps
      using bs_FmtNumber_returns [OF dec grp mns v] chr_FmtCurrency_returns [OF dec grp mns v c]
        chr_FmtAccounting_returns [OF dec grp ngp v c]
      by blast
  next
    case 6
    have dec: "decimal en_NU_New \<noteq> []" and grp: "group_sym en_NU_New \<noteq> []"
      and mns: "minus_sym en_NU_New \<noteq> []" and ngp: "currencyNegativePrefix en_NU_New \<noteq> []"
      by (simp_all add: en_NU_New_def)
    have c: "c < length (currencies en_NU_New)"
      using assms(3) by (simp add: 6)
    show ?thesis
      unfolding 6 FmtNumber.simps FmtCurrency.simps FmtAccounting.simps
      using bs_FmtNumber_returns [OF dec grp mns v] chr_FmtCurrency_returns [OF dec grp mns v c]
        chr_FmtAccounting_returns [OF dec grp ngp v c]
      by blast
  next
    case 7
    have dec: "decimal es_US_New \<noteq> []" and grp: "group_sym es_US_New \<noteq> []"
      and mns: "minus_sym es_US_New \<noteq> []"
      by (simp_all add: es_US_New_def)
    have c: "c < length (currencies es_US_New)"
      using assms(3) by (simp add: 7)
    show ?thesis
      unfolding 7 FmtNumber.simps FmtCurrency.simps FmtAccounting.simps
      using bs_FmtNumber_returns [OF dec grp mns v] bs_FmtCurrency_returns [OF dec grp mns v c]
        bs_FmtAccounting_returns [OF dec grp mns v c]
      by blast
  qed
qed

lemma ksf_CM_nonnegative_returns:
  assumes "0 \<le> num" and v: "- 1 \<le> sint v" and "c < length (currencies (New T_ksf_CM))"
  shows "(\<exists>r. FmtCurrency T_ksf_CM num v c = Some r)
    \<and> (\<exists>r. FmtAccounting T_ksf_CM num v c = Some r)"
proof -
  have dec: "decimal ksf_CM_New \<noteq> []"
    by (simp add: ksf_CM_New_def)
  have neg: "\<not> num < 0"
    using assms(1) by simp
  have c: "c < length (currencies ksf_CM_New)"
    using assms(3) by simp
  show ?thesis
    unfolding FmtCurrency.simps FmtAccounting.simps
    using ksf_CM_FmtCurrency_returns [OF dec neg v c] ksf_CM_FmtAccounting_returns [OF dec neg v c]
    by blast
qed

subsection \<open>Accounting and currency formats\<close>

text \<open>
  A precision of at least \<open>2 ^ 63\<close> is negative as an \<open>int\<close>: below \<open>- 1\<close> (the precision
  \<open>2 ^ 64 - 1\<close>) the slice \<open>s[:len(s)-int(v)-1]\<close> ends beyond \<open>len(s)\<close> and panics.
\<close>

lemma whole_slice_negative: "sint v < - 1 \<Longrightarrow> whole_slice s v = None"
  by (simp add: whole_slice_def slice_to_def)

text \<open>
  For an amount that is not negative every \<open>FmtAccounting\<close> body takes the branches of
  its \<open>FmtCurrency\<close>: the two calls have the same outcome, the same string or the same
  panic, in all eleven locales.
\<close>

lemma FmtAccounting_outcome:
  assumes "0 \<le> num"
  shows "FmtAccounting L num v currency = FmtCurrency L num v currency"
proof -
  have pos: "\<not> num < 0"
    using assms by simp
  show ?thesis
  proof (cases L)
    case T_az_Latn_AZ
    then show ?thesis
      using pos by (simp add: az_Latn_AZ_FmtAccounting_def az_Latn_AZ_FmtCurrency_def)
  next
    case T_bg_BG
    then show ?thesis
      using pos by (simp add: bg_BG_FmtAccounting_def bg_BG_FmtCurrency_def)
  next
    case T_bs
    then show ?thesis
      using pos by (simp add: bs_FmtAccounting_def bs_FmtCurrency_def)
  next
    case T_ca_IT
    then show ?thesis
      using pos by (simp add: ca_IT_FmtAccounting_def bs_FmtCurrency_def)
  next
    case T_chr
    then show ?thesis
      using pos by (simp add: chr_FmtAccounting_def chr_FmtCurrency_def)
  next
    case T_en_NU
    then show ?thesis
      using pos by (simp add: chr_FmtAccounting_def chr_FmtCurrency_def)
  next
    case T_es_US
    then show ?thesis
      using pos by (simp add: bs_FmtAccounting_def bs_FmtCurrency_def)
  next
    case T_ksf_CM
    then show ?thesis
      using pos by (simp add: ksf_CM_FmtAccounting_def ksf_CM_FmtCurrency_def)
  next
    case T_kw
    then show ?thesis
      using pos by (simp add: kw_FmtAccounting_def chr_FmtCurrency_def)
  next
    case T_rwk
    then show ?thesis
      using pos by (simp add: rwk_FmtAccounting_def rwk_FmtCurrency_def)
  next
    case T_saq_KE
    then show ?thesis
      using pos by (simp add: chr_FmtAccounting_def chr_FmtCurrency_def)
  qed
qed

text \<open>
  Outside \<open>kw\<close>, \<open>rwk\<close> and \<open>saq_KE\<close> the two formats return the same string for every
  amount that is not negative, every in-range currency index and every precision \<open>v\<close>
  with \<open>- 1 \<le> int(v)\<close>.
\<close>

lemma FmtAccounting_returns_same:
  assumes num: "0 \<le> num" and L: "L \<notin> {T_kw, T_rwk, T_saq_KE}"
    and v: "- 1 \<le> sint v" and c: "c < length (currencies (New L))"
  shows "\<exists>r. FmtAccounting L num v c = Some r \<and> FmtCurrency L num v c = Some r"
proof -
  have "\<exists>r. FmtCurrency L num v c = Some r"
  proof (cases "L = T_ksf_CM")
    case True
    from ksf_CM_nonnegative_returns [OF num v] c True show ?thesis
      by blast
  next
    case False
    with L have "L \<in> {T_az_Latn_AZ, T_bg_BG, T_bs, T_ca_IT, T_chr, T_en_NU, T_es_US}"
      by (cases L) simp_all
    from complete_locales_return [OF this v c] show ?thesis
      by blast
  qed
  then obtain r where "FmtCurrency L num v c = Some r"
    by (rule exE)
  with FmtAccounting_outcome [OF num, of L v c] show ?thesis
    by simp
qed

text \<open>
  Claim C9. \<open>kw\<close>, \<open>rwk\<close> and \<open>saq_KE\<close> set no decimal and no group symbol: for an amount
  that is not negative, with a fourth whole digit or with a fraction digit, neither
  \<open>FmtAccounting\<close> nor \<open>FmtCurrency\<close> returns a string, both panic; \<open>en_NU\<close>, which sets
  the symbols, returns the same string from both. At the precision \<open>2 ^ 63\<close> both
  panic in \<open>bs\<close> on the slice of the whole part.
\<close>

theorem FmtAccounting_kw_rwk_saq_KE_panics:
  "FmtAccounting T_kw 2500 0 0 = None \<and> FmtCurrency T_kw 2500 0 0 = None
   \<and> FmtAccounting T_rwk 2500 0 0 = None \<and> FmtCurrency T_rwk 2500 0 0 = None
   \<and> FmtAccounting T_saq_KE 2500 0 0 = None \<and> FmtCurrency T_saq_KE 2500 0 0 = None
   \<and> FmtAccounting T_kw (1 / 4) 2 0 = None \<and> FmtCurrency T_kw (1 / 4) 2 0 = None
   \<and> FmtAccounting T_en_NU 2500 0 0 = Some ''ADP2,500.00''
   \<and> FmtCurrency T_en_NU 2500 0 0 = Some ''ADP2,500.00''
   \<and> FmtAccounting T_bs 5 (2 ^ 63) 0 = None \<and> FmtCurrency T_bs 5 (2 ^ 63) 0 = None"
proof -
  have ws: "whole_slice s ((2::uint64) ^ 63) = None" for s
    by (rule whole_slice_negative) simp
  have big: "FmtAccounting T_bs 5 (2 ^ 63) 0 = None \<and> FmtCurrency T_bs 5 (2 ^ 63) 0 = None"
    unfolding FmtAccounting.simps FmtCurrency.simps bs_FmtAccounting_def bs_FmtCurrency_def
      Let_def ws
    by simp
  have small: "FmtAccounting T_kw 2500 0 0 = None \<and> FmtCurrency T_kw 2500 0 0 = None
   \<and> FmtAccounting T_rwk 2500 0 0 = None \<and> FmtCurrency T_rwk 2500 0 0 = None
   \<and> FmtAccounting T_saq_KE 2500 0 0 = None \<and> FmtCurrency T_saq_KE 2500 0 0 = None
   \<and> FmtAccounting T_kw (1 / 4) 2 0 = None \<and> FmtCurrency T_kw (1 / 4) 2 0 = None"
    by (simp add: kw_FmtAccounting_def rwk_FmtAccounting_def chr_FmtAccounting_def
        chr_FmtCurrency_def rwk_FmtCurrency_def kw_New_def rwk_New_def saq_KE_New_def
        kw_currencies_def rwk_currencies_def saq_KE_currencies_def fmt_eval)
  have sibling: "FmtAccounting T_en_NU 2500 0 0 = Some ''ADP2,500.00''
   \<and> FmtCurrency T_en_NU 2500 0 0 = Some ''ADP2,500.00''"
    by (simp add: chr_FmtAccounting_def chr_FmtCurrency_def en_NU_New_def en_NU_currencies_def
        fmt_eval)
  from small sibling big show ?thesis
    by (simp only: simp_thms)
qed


subsection \<open>The padding of the fraction field\<close>

text \<open>
  In the seven locales that set every symbol, a call of \<open>FmtCurrency\<close> or \<open>FmtAccounting\<close>
  with a precision \<open>v < 2\<close> returns the locale's decimal symbol followed by exactly two
  fraction digits: the \<open>v\<close> fraction digits of the fixed-point string padded with zeros,
  so \<open>00\<close> when \<open>v = 0\<close>; what follows them is not a digit.
\<close>

lemma digit_char_is_digit: "k < 10 \<Longrightarrow> is_digit (digit_char k)"
proof -
  assume "k < 10"
  then have "k \<in> {0, 1, 2, 3, 4, 5, 6, 7, 8, 9}"
    by auto
  then show ?thesis
    by (auto simp: digit_char_def is_digit_def)
qed

lemma point_not_digit: "is_digit d \<Longrightarrow> d \<noteq> CHR ''.''"
  by (auto simp: is_digit_def)

lemma FormatFixed_one:
  "\<exists>w d. FormatFixed x 1 = w @ [CHR ''.'', d] \<and> is_digit d"
proof -
  define n where "n = nat (round_half_even (x * 10))"
  have small: "n mod 10 < 10"
    by simp
  have frac: "FormatUint (n mod 10) = [digit_char (n mod 10)]"
    using small by (rule FormatUint_small)
  have "FormatFixed x 1 = FormatUint (n div 10) @ [CHR ''.'', digit_char (n mod 10)]"
    unfolding FormatFixed_def Let_def by (simp add: n_def [symmetric] frac)
  then show ?thesis
    using digit_char_is_digit [OF small] by blast
qed

lemma precision_cases: "(v::uint64) < 2 \<Longrightarrow> v = 0 \<or> v = 1"
proof -
  assume "v < 2"
  then have "unat v < 2"
    by (simp add: word_less_nat_alt)
  then consider "unat v = 0" | "unat v = 1"
    by linarith
  then show ?thesis
  proof cases
    case 1
    then have "unat v = unat (0::uint64)"
      by simp
    then have "v = 0"
      by (rule unsigned_word_eqI)
    then show ?thesis ..
  next
    case 2
    then have "unat v = unat (1::uint64)"
      by simp
    then have "v = 1"
      by (rule unsigned_word_eqI)
    then show ?thesis ..
  qed
qed

lemma FormatFloat_zero: "FormatFloat x 0 = FormatFixed x 0"
  by (simp add: FormatFloat_def)

lemma FormatFloat_one: "FormatFloat x 1 = FormatFixed x 1"
  by (simp add: FormatFloat_def)

lemma digit_loop_prefix:
  "digit_loop dec sep cs w n b0 = Some b \<Longrightarrow> \<exists>t. b = b0 @ t"
proof (induction cs arbitrary: w n b0)
  case Nil
  then show ?case by simp
next
  case (Cons c cs)
  then show ?case
    by (fastforce split: if_splits option.splits)
qed

lemma percent_loop_prefix:
  "percent_loop dec cs b0 = Some b \<Longrightarrow> \<exists>t. b = b0 @ t"
proof (induction cs arbitrary: b0)
  case Nil
  then show ?case by simp
next
  case (Cons c cs)
  then show ?case
    by (fastforce split: if_splits option.splits)
qed

lemma pad_after_point:
  assumes dec: "length (decimal D) \<le> 1"
    and s: "FormatFixed x 1 = w @ [CHR ''.'', d]"
    and d0: "index (decimal D) 0 = Some d0"
    and b: "b = [d, d0] @ t"
  shows "pad_fraction D 1 (pre0 @ rev b)
          = (pre0 @ rev t) @ decimal D @ fraction_field (FormatFloat x (sint (1::uint64))) (unat (1::uint64))"
proof -
  have decimal: "decimal D = [d0]"
    using d0 dec by (cases "decimal D") (auto simp: index_def)
  show ?thesis
    by (simp add: pad_fraction_def fraction_field_def FormatFloat_one s [simplified] b decimal)
qed

lemma pad_then_post:
  assumes v: "v < 2" and dec: "length (decimal D) \<le> 1"
    and loop: "digit_loop (decimal D) sep (rev (FormatFloat x (sint v))) (v = 0) 0 [] = Some b"
  shows "\<exists>pre. pad_fraction D v (pre0 @ rev b)
           = pre @ decimal D @ fraction_field (FormatFloat x (sint v)) (unat v)"
proof (cases "v = 0")
  case True
  then show ?thesis
    by (simp add: pad_fraction_def fraction_field_def)
next
  case False
  with precision_cases [OF v] have v1: "v = 1"
    by simp
  obtain w d where s: "FormatFixed x 1 = w @ [CHR ''.'', d]" and d: "is_digit d"
    using FormatFixed_one by blast
  have dne: "d \<noteq> CHR ''.''"
    using d by (rule point_not_digit)
  have "digit_loop (decimal D) sep (d # CHR ''.'' # rev w) False 0 [] = Some b"
    using loop by (simp add: v1 FormatFloat_one s [simplified])
  then obtain d0 where d0: "index (decimal D) 0 = Some d0"
    and rest: "digit_loop (decimal D) sep (rev w) True 0 [d, d0] = Some b"
    by (auto simp: dne split: option.splits)
  from rest obtain t where b: "b = [d, d0] @ t"
    using digit_loop_prefix by blast
  from pad_after_point [OF dec s d0 b] show ?thesis
    unfolding v1 by blast
qed

lemma pad_then_post_percent:
  assumes v: "v < 2" and dec: "length (decimal D) \<le> 1"
    and loop: "percent_loop (decimal D) (rev (FormatFloat x (sint v))) [] = Some b"
  shows "\<exists>pre. pad_fraction D v (pre0 @ rev b)
           = pre @ decimal D @ fraction_field (FormatFloat x (sint v)) (unat v)"
proof (cases "v = 0")
  case True
  then show ?thesis
    by (simp add: pad_fraction_def fraction_field_def)
next
  case False
  with precision_cases [OF v] have v1: "v = 1"
    by simp
  obtain w d where s: "FormatFixed x 1 = w @ [CHR ''.'', d]" and d: "is_digit d"
    using FormatFixed_one by blast
  have dne: "d \<noteq> CHR ''.''"
    using d by (rule point_not_digit)
  have "percent_loop (decimal D) (d # CHR ''.'' # rev w) [] = Some b"
    using loop by (simp add: v1 FormatFloat_one s [simplified])
  then obtain d0 where d0: "index (decimal D) 0 = Some d0"
    and rest: "percent_loop (decimal D) (rev w) [d, d0] = Some b"
    by (auto simp: dne split: option.splits)
  from rest obtain t where b: "b = [d, d0] @ t"
    using percent_loop_prefix by blast
  from pad_after_point [OF dec s d0 b] show ?thesis
    unfolding v1 by blast
qed

lemma sign_extends:
  "(if neg then append_first (b @ y) x else Some (b @ z)) = Some b' \<Longrightarrow> \<exists>pre0. rev b' = pre0 @ rev b"
  by (auto simp: append_first_def split: if_split_asm)

lemma sign_extends0:
  "(if neg then append_first b x else Some b) = Some b' \<Longrightarrow> \<exists>pre0. rev b' = pre0 @ rev b"
  by (auto simp: append_first_def split: if_split_asm)

lemma bs_FmtCurrency_fraction:
  assumes "v < 2" and "length (decimal D) \<le> 1" and "bs_FmtCurrency D num v c = Some r"
  shows "c < length (currencies D)
    \<and> (\<exists>pre. r = pre @ decimal D @ fraction_field (FormatFloat \<bar>num\<bar> (sint v)) (unat v)
                   @ currencyPositiveSuffix D @ currencies D ! c)"
proof -
  from assms(3) obtain symbol b b' where
    sym: "index (currencies D) c = Some symbol"
    and loop: "digit_loop (decimal D) (group_first D)
      (rev (FormatFloat \<bar>num\<bar> (sint v))) (v = 0) 0 [] = Some b"
    and sign: "(if num < 0 then append_first b (minus_sym D) else Some b) = Some b'"
    and r: "Some (pad_fraction D v (rev b') @ currencyPositiveSuffix D @ symbol) = Some r"
    unfolding bs_FmtCurrency_def Let_def bind_eq_Some_conv by blast
  have inrange: "c < length (currencies D)" and symbol: "symbol = currencies D ! c"
    using sym by (auto simp: index_def split: if_split_asm)
  from sign obtain pre0 where pre0: "rev b' = pre0 @ rev b"
    using sign_extends0 by blast
  from pad_then_post [OF assms(1,2) loop, of pre0] obtain pre where
    pad: "pad_fraction D v (rev b') = pre @ decimal D @ fraction_field (FormatFloat \<bar>num\<bar> (sint v)) (unat v)"
    unfolding pre0 [symmetric] by blast
  have "r = pre @ decimal D @ fraction_field (FormatFloat \<bar>num\<bar> (sint v)) (unat v)
                   @ currencyPositiveSuffix D @ currencies D ! c"
    using r pad symbol by (auto split: if_split_asm)
  then show ?thesis
    using inrange by blast
qed

lemma chr_FmtCurrency_fraction:
  assumes "v < 2" and "length (decimal D) \<le> 1" and "chr_FmtCurrency D num v c = Some r"
  shows "c < length (currencies D)
    \<and> (\<exists>pre. r = pre @ decimal D @ fraction_field (FormatFloat \<bar>num\<bar> (sint v)) (unat v)
                   @ [])"
proof -
  from assms(3) obtain symbol b b1 b' where
    sym: "index (currencies D) c = Some symbol"
    and loop: "digit_loop (decimal D) (group_first D)
      (rev (FormatFloat \<bar>num\<bar> (sint v))) (v = 0) 0 [] = Some b"
    and b1: "Some (b @ rev symbol) = Some b1"
    and sign: "(if num < 0 then append_first b1 (minus_sym D) else Some b1) = Some b'"
    and r: "Some (pad_fraction D v (rev b')) = Some r"
    unfolding chr_FmtCurrency_def Let_def bind_eq_Some_conv by blast
  have inrange: "c < length (currencies D)" and symbol: "symbol = currencies D ! c"
    using sym by (auto simp: index_def split: if_split_asm)
  from sign obtain pre1 where "rev b' = pre1 @ rev b1"
    using sign_extends0 by blast
  moreover obtain t1 where "rev b1 = t1 @ rev b"
    using b1 by auto
  ultimately have "rev b' = (pre1 @ t1) @ rev b"
    by simp
  then obtain pre0 where pre0: "rev b' = pre0 @ rev b"
    by blast
  from pad_then_post [OF assms(1,2) loop, of pre0] obtain pre where
    pad: "pad_fraction D v (rev b') = pre @ decimal D @ fraction_field (FormatFloat \<bar>num\<bar> (sint v)) (unat v)"
    unfolding pre0 [symmetric] by blast
  have "r = pre @ decimal D @ fraction_field (FormatFloat \<bar>num\<bar> (sint v)) (unat v)
                   @ []"
    using r pad symbol by (auto split: if_split_asm)
  then show ?thesis
    using inrange by blast
qed

lemma az_Latn_AZ_FmtCurrency_fraction:
  assumes "v < 2" and "length (decimal D) \<le> 1" and "az_Latn_AZ_FmtCurrency D num v c = Some r"
  shows "c < length (currencies D)
    \<and> (\<exists>pre. r = pre @ decimal D @ fraction_field (FormatFloat \<bar>num\<bar> (sint v)) (unat v)
                   @ [])"
proof -
  from assms(3) obtain symbol b b1 b' where
    sym: "index (currencies D) c = Some symbol"
    and loop: "digit_loop (decimal D) (group_first D)
      (rev (FormatFloat \<bar>num\<bar> (sint v))) (v = 0) 0 [] = Some b"
    and b1: "Some (b @ rev symbol @ rev (currencyPositivePrefix D)) = Some b1"
    and sign: "(if num < 0 then append_first b1 (minus_sym D) else Some b1) = Some b'"
    and r: "Some (pad_fraction D v (rev b')) = Some r"
    unfolding az_Latn_AZ_FmtCurrency_def Let_def bind_eq_Some_conv by blast
  have inrange: "c < length (currencies D)" and symbol: "symbol = currencies D ! c"
    using sym by (auto simp: index_def split: if_split_asm)
  from sign obtain pre1 where "rev b' = pre1 @ rev b1"
    using sign_extends0 by blast
  moreover obtain t1 where "rev b1 = t1 @ rev b"
    using b1 by auto
  ultimately have "rev b' = (pre1 @ t1) @ rev b"
    by simp
  then obtain pre0 where pre0: "rev b' = pre0 @ rev b"
    by blast
  from pad_then_post [OF assms(1,2) loop, of pre0] obtain pre where
    pad: "pad_fraction D v (rev b') = pre @ decimal D @ fraction_field (FormatFloat \<bar>num\<bar> (sint v)) (unat v)"
    unfolding pre0 [symmetric] by blast
  have "r = pre @ decimal D @ fraction_field (FormatFloat \<bar>num\<bar> (sint v)) (unat v)
                   @ []"
    using r pad symbol by (auto split: if_split_asm)
  then show ?thesis
    using inrange by blast
qed

lemma bg_BG_FmtCurrency_fraction:
  assumes "v < 2" and "length (decimal D) \<le> 1" and "bg_BG_FmtCurrency D num v c = Some r"
  shows "c < length (currencies D)
    \<and> (\<exists>pre. r = pre @ decimal D @ fraction_field (FormatFloat \<bar>num\<bar> (sint v)) (unat v)
                   @ currencyPositiveSuffix D @ currencies D ! c)"
proof -
  from assms(3) obtain symbol b b' where
    sym: "index (currencies D) c = Some symbol"
    and loop: "percent_loop (decimal D) (rev (FormatFloat \<bar>num\<bar> (sint v))) [] = Some b"
    and sign: "(if num < 0 then append_first b (minus_sym D) else Some b) = Some b'"
    and r: "Some (pad_fraction D v (rev b') @ currencyPositiveSuffix D @ symbol) = Some r"
    unfolding bg_BG_FmtCurrency_def Let_def bind_eq_Some_conv by blast
  have inrange: "c < length (currencies D)" and symbol: "symbol = currencies D ! c"
    using sym by (auto simp: index_def split: if_split_asm)
  from sign obtain pre0 where pre0: "rev b' = pre0 @ rev b"
    using sign_extends0 by blast
  from pad_then_post_percent [OF assms(1,2) loop, of pre0] obtain pre where
    pad: "pad_fraction D v (rev b') = pre @ decimal D @ fraction_field (FormatFloat \<bar>num\<bar> (sint v)) (unat v)"
    unfolding pre0 [symmetric] by blast
  have "r = pre @ decimal D @ fraction_field (FormatFloat \<bar>num\<bar> (sint v)) (unat v)
                   @ currencyPositiveSuffix D @ currencies D ! c"
    using r pad symbol by (auto split: if_split_asm)
  then show ?thesis
    using inrange by blast
qed

lemma bs_FmtAccounting_fraction:
  assumes "v < 2" and "length (decimal D) \<le> 1" and "bs_FmtAccounting D num v c = Some r"
  shows "c < length (currencies D)
    \<and> (\<exists>pre. r = pre @ decimal D @ fraction_field (FormatFloat \<bar>num\<bar> (sint v)) (unat v)
                   @ (if num < 0 then currencyNegativeSuffix D else currencyPositiveSuffix D)
                     @ currencies D ! c)"
proof -
  from assms(3) obtain symbol b b' y where
    sym: "index (currencies D) c = Some symbol"
    and loop: "digit_loop (decimal D) (group_first D)
      (rev (FormatFloat \<bar>num\<bar> (sint v))) (v = 0) 0 [] = Some b"
    and sign: "(if num < 0 then append_first b (minus_sym D) else Some b) = Some b'"
    and y: "Some (pad_fraction D v (rev b')) = Some y"
    and r: "(if num < 0 then Some (y @ currencyNegativeSuffix D @ symbol)
             else Some (y @ currencyPositiveSuffix D @ symbol)) = Some r"
    unfolding bs_FmtAccounting_def Let_def bind_eq_Some_conv by blast
  have inrange: "c < length (currencies D)" and symbol: "symbol = currencies D ! c"
    using sym by (auto simp: index_def split: if_split_asm)
  from sign obtain pre0 where pre0: "rev b' = pre0 @ rev b"
    using sign_extends0 by blast
  from pad_then_post [OF assms(1,2) loop, of pre0] obtain pre where
    pad: "pad_fraction D v (rev b') = pre @ decimal D @ fraction_field (FormatFloat \<bar>num\<bar> (sint v)) (unat v)"
    unfolding pre0 [symmetric] by blast
  have "r = pre @ decimal D @ fraction_field (FormatFloat \<bar>num\<bar> (sint v)) (unat v)
                   @ (if num < 0 then currencyNegativeSuffix D else currencyPositiveSuffix D)
                     @ currencies D ! c"
    using y r pad symbol by (auto split: if_split_asm)
  then show ?thesis
    using inrange by blast
qed

lemma ca_IT_FmtAccounting_fraction:
  assumes "v < 2" and "length (decimal D) \<le> 1" and "ca_IT_FmtAccounting D num v c = Some r"
  shows "c < length (currencies D)
    \<and> (\<exists>pre. r = pre @ decimal D @ fraction_field (FormatFloat \<bar>num\<bar> (sint v)) (unat v)
                   @ (if num < 0 then currencyNegativeSuffix D else currencyPositiveSuffix D)
                     @ currencies D ! c)"
proof -
  from assms(3) obtain symbol b b' y where
    sym: "index (currencies D) c = Some symbol"
    and loop: "digit_loop (decimal D) (group_first D)
      (rev (FormatFloat \<bar>num\<bar> (sint v))) (v = 0) 0 [] = Some b"
    and sign: "(if num < 0 then append_first b (currencyNegativePrefix D) else Some b) = Some b'"
    and y: "Some (pad_fraction D v (rev b')) = Some y"
    and r: "(if num < 0 then Some (y @ currencyNegativeSuffix D @ symbol)
             else Some (y @ currencyPositiveSuffix D @ symbol)) = Some r"
    unfolding ca_IT_FmtAccounting_def Let_def bind_eq_Some_conv by blast
  have inrange: "c < length (currencies D)" and symbol: "symbol = currencies D ! c"
    using sym by (auto simp: index_def split: if_split_asm)
  from sign obtain pre0 where pre0: "rev b' = pre0 @ rev b"
    using sign_extends0 by blast
  from pad_then_post [OF assms(1,2) loop, of pre0] obtain pre where
    pad: "pad_fraction D v (rev b') = pre @ decimal D @ fraction_field (FormatFloat \<bar>num\<bar> (sint v)) (unat v)"
    unfolding pre0 [symmetric] by blast
  have "r = pre @ decimal D @ fraction_field (FormatFloat \<bar>num\<bar> (sint v)) (unat v)
                   @ (if num < 0 then currencyNegativeSuffix D else currencyPositiveSuffix D)
                     @ currencies D ! c"
    using y r pad symbol by (auto split: if_split_asm)
  then show ?thesis
    using inrange by blast
qed

lemma chr_FmtAccounting_fraction:
  assumes "v < 2" and "length (decimal D) \<le> 1" and "chr_FmtAccounting D num v c = Some r"
  shows "c < length (currencies D)
    \<and> (\<exists>pre. r = pre @ decimal D @ fraction_field (FormatFloat \<bar>num\<bar> (sint v)) (unat v)
                   @ (if num < 0 then currencyNegativeSuffix D else []))"
proof -
  from assms(3) obtain symbol b b' y where
    sym: "index (currencies D) c = Some symbol"
    and loop: "digit_loop (decimal D) (group_first D)
      (rev (FormatFloat \<bar>num\<bar> (sint v))) (v = 0) 0 [] = Some b"
    and sign: "(if num < 0 then append_first (b @ rev symbol) (currencyNegativePrefix D)
             else Some (b @ rev symbol)) = Some b'"
    and y: "Some (pad_fraction D v (rev b')) = Some y"
    and r: "(if num < 0 then Some (y @ currencyNegativeSuffix D) else Some y) = Some r"
    unfolding chr_FmtAccounting_def Let_def bind_eq_Some_conv by blast
  have inrange: "c < length (currencies D)" and symbol: "symbol = currencies D ! c"
    using sym by (auto simp: index_def split: if_split_asm)
  from sign obtain pre0 where pre0: "rev b' = pre0 @ rev b"
    using sign_extends by blast
  from pad_then_post [OF assms(1,2) loop, of pre0] obtain pre where
    pad: "pad_fraction D v (rev b') = pre @ decimal D @ fraction_field (FormatFloat \<bar>num\<bar> (sint v)) (unat v)"
    unfolding pre0 [symmetric] by blast
  have "r = pre @ decimal D @ fraction_field (FormatFloat \<bar>num\<bar> (sint v)) (unat v)
                   @ (if num < 0 then currencyNegativeSuffix D else [])"
    using y r pad symbol by (auto split: if_split_asm)
  then show ?thesis
    using inrange by blast
qed

lemma az_Latn_AZ_FmtAccounting_fraction:
  assumes "v < 2" and "length (decimal D) \<le> 1" and "az_Latn_AZ_FmtAccounting D num v c = Some r"
  shows "c < length (currencies D)
    \<and> (\<exists>pre. r = pre @ decimal D @ fraction_field (FormatFloat \<bar>num\<bar> (sint v)) (unat v)
                   @ [])"
proof -
  from assms(3) obtain symbol b b' where
    sym: "index (currencies D) c = Some symbol"
    and loop: "digit_loop (decimal D) (group_first D)
      (rev (FormatFloat \<bar>num\<bar> (sint v))) (v = 0) 0 [] = Some b"
    and sign: "(if num < 0
          then append_first (b @ rev symbol @ rev (currencyNegativePrefix D)) (minus_sym D)
          else Some (b @ rev symbol @ rev (currencyPositivePrefix D))) = Some b'"
    and r: "Some (pad_fraction D v (rev b')) = Some r"
    unfolding az_Latn_AZ_FmtAccounting_def Let_def bind_eq_Some_conv by blast
  have inrange: "c < length (currencies D)" and symbol: "symbol = currencies D ! c"
    using sym by (auto simp: index_def split: if_split_asm)
  from sign obtain pre0 where pre0: "rev b' = pre0 @ rev b"
    using sign_extends by blast
  from pad_then_post [OF assms(1,2) loop, of pre0] obtain pre where
    pad: "pad_fraction D v (rev b') = pre @ decimal D @ fraction_field (FormatFloat \<bar>num\<bar> (sint v)) (unat v)"
    unfolding pre0 [symmetric] by blast
  have "r = pre @ decimal D @ fraction_field (FormatFloat \<bar>num\<bar> (sint v)) (unat v)
                   @ []"
    using r pad symbol by (auto split: if_split_asm)
  then show ?thesis
    using inrange by blast
qed

lemma bg_BG_FmtAccounting_fraction:
  assumes "v < 2" and "length (decimal D) \<le> 1" and "bg_BG_FmtAccounting D num v c = Some r"
  shows "c < length (currencies D)
    \<and> (\<exists>pre. r = pre @ decimal D @ fraction_field (FormatFloat \<bar>num\<bar> (sint v)) (unat v)
                   @ (if num < 0 then currencyNegativeSuffix D else currencyPositiveSuffix D)
                     @ currencies D ! c)"
proof -
  from assms(3) obtain symbol b b' y where
    sym: "index (currencies D) c = Some symbol"
    and loop: "percent_loop (decimal D) (rev (FormatFloat \<bar>num\<bar> (sint v))) [] = Some b"
    and sign: "(if num < 0 then append_first b (currencyNegativePrefix D) else Some b) = Some b'"
    and y: "Some (pad_fraction D v (rev b')) = Some y"
    and r: "(if num < 0 then Some (y @ currencyNegativeSuffix D @ symbol)
             else Some (y @ currencyPositiveSuffix D @ symbol)) = Some r"
    unfolding bg_BG_FmtAccounting_def Let_def bind_eq_Some_conv by blast
  have inrange: "c < length (currencies D)" and symbol: "symbol = currencies D ! c"
    using sym by (auto simp: index_def split: if_split_asm)
  from sign obtain pre0 where pre0: "rev b' = pre0 @ rev b"
    using sign_extends0 by blast
  from pad_then_post_percent [OF assms(1,2) loop, of pre0] obtain pre where
    pad: "pad_fraction D v (rev b') = pre @ decimal D @ fraction_field (FormatFloat \<bar>num\<bar> (sint v)) (unat v)"
    unfolding pre0 [symmetric] by blast
  have "r = pre @ decimal D @ fraction_field (FormatFloat \<bar>num\<bar> (sint v)) (unat v)
                   @ (if num < 0 then currencyNegativeSuffix D else currencyPositiveSuffix D)
                     @ currencies D ! c"
    using y r pad symbol by (auto split: if_split_asm)
  then show ?thesis
    using inrange by blast
qed

lemma fraction_field_two:
  assumes "(v::uint64) < 2"
  shows "length (fraction_field (FormatFloat x (sint v)) (unat v)) = 2
    \<and> list_all is_digit (fraction_field (FormatFloat x (sint v)) (unat v))
    \<and> (v = 0 \<longrightarrow> fraction_field (FormatFloat x (sint v)) (unat v) = ''00'')"
proof (cases "v = 0")
  case True
  then show ?thesis
    by (simp add: fraction_field_def is_digit_def numeral_2_eq_2)
next
  case False
  with precision_cases [OF assms] have v1: "v = 1"
    by simp
  obtain w d where s: "FormatFixed x 1 = w @ [CHR ''.'', d]" and d: "is_digit d"
    using FormatFixed_one by blast
  show ?thesis
    using d by (simp add: fraction_field_def v1 FormatFloat_one s [simplified] is_digit_def)
qed

lemma fraction_shape:
  assumes "c < length (currencies D) \<and> (\<exists>pre. r = pre @ decimal D @ ff @ post)"
    and "no_leading_digit post"
  shows "\<exists>pre post. r = pre @ decimal D @ ff @ post \<and> no_leading_digit post"
  using assms by blast

lemma currency_fraction_shape:
  assumes "L \<in> {T_az_Latn_AZ, T_bg_BG, T_bs, T_ca_IT, T_chr, T_en_NU, T_es_US}"
    and "v < 2"
    and "FmtCurrency L num v c = Some r \<or> FmtAccounting L num v c = Some r"
  shows "\<exists>pre post. r = pre @ decimal (New L) @ fraction_field (FormatFloat \<bar>num\<bar> (sint v)) (unat v) @ post
           \<and> no_leading_digit post"
proof -
  consider "L = T_az_Latn_AZ" | "L = T_bg_BG" | "L = T_bs" | "L = T_ca_IT" | "L = T_chr" | "L = T_en_NU" | "L = T_es_US"
    using assms(1) by auto
  then show ?thesis
  proof cases
    case 1
    have dec: "length (decimal az_Latn_AZ_New) \<le> 1"
      by (simp add: az_Latn_AZ_New_def)
    from assms(3) have "az_Latn_AZ_FmtCurrency az_Latn_AZ_New num v c = Some r \<or> az_Latn_AZ_FmtAccounting az_Latn_AZ_New num v c = Some r"
      by (simp add: 1)
    then have "\<exists>pre post. r = pre @ decimal az_Latn_AZ_New @ fraction_field (FormatFloat \<bar>num\<bar> (sint v)) (unat v) @ post
           \<and> no_leading_digit post"
    proof
      assume "az_Latn_AZ_FmtCurrency az_Latn_AZ_New num v c = Some r"
      from az_Latn_AZ_FmtCurrency_fraction [OF assms(2) dec this] show ?thesis
        by (rule fraction_shape) (simp add: az_Latn_AZ_New_def no_leading_digit_def is_digit_def)
    next
      assume "az_Latn_AZ_FmtAccounting az_Latn_AZ_New num v c = Some r"
      from az_Latn_AZ_FmtAccounting_fraction [OF assms(2) dec this] show ?thesis
        by (rule fraction_shape) (simp add: az_Latn_AZ_New_def no_leading_digit_def is_digit_def)
    qed
    then show ?thesis
      by (simp add: 1)
  next
    case 2
    have dec: "length (decimal bg_BG_New) \<le> 1"
      by (simp add: bg_BG_New_def)
    from assms(3) have "bg_BG_FmtCurrency bg_BG_New num v c = Some r \<or> bg_BG_FmtAccounting bg_BG_New num v c = Some r"
      by (simp add: 2)
    then have "\<exists>pre post. r = pre @ decimal bg_BG_New @ fraction_field (FormatFloat \<bar>num\<bar> (sint v)) (unat v) @ post
           \<and> no_leading_digit post"
    proof
      assume "bg_BG_FmtCurrency bg_BG_New num v c = Some r"
      from bg_BG_FmtCurrency_fraction [OF assms(2) dec this] show ?thesis
        by (rule fraction_shape) (simp add: bg_BG_New_def no_leading_digit_def is_digit_def)
    next
      assume "bg_BG_FmtAccounting bg_BG_New num v c = Some r"
      from bg_BG_FmtAccounting_fraction [OF assms(2) dec this] show ?thesis
        by (rule fraction_shape) (simp add: bg_BG_New_def no_leading_digit_def is_digit_def)
    qed
    then show ?thesis
      by (simp add: 2)
  next
    case 3
    have dec: "length (decimal bs_New) \<le> 1"
      by (simp add: bs_New_def)
    from assms(3) have "bs_FmtCurrency bs_New num v c = Some r \<or> bs_FmtAccounting bs_New num v c = Some r"
      by (simp add: 3)
    then have "\<exists>pre post. r = pre @ decimal bs_New @ fraction_field (FormatFloat \<bar>num\<bar> (sint v)) (unat v) @ post
           \<and> no_leading_digit post"
    proof
      assume "bs_FmtCurrency bs_New num v c = Some r"
      from bs_FmtCurrency_fraction [OF assms(2) dec this] show ?thesis
        by (rule fraction_shape) (simp add: bs_New_def no_leading_digit_def is_digit_def)
    next
      assume "bs_FmtAccounting bs_New num v c = Some r"
      from bs_FmtAccounting_fraction [OF assms(2) dec this] show ?thesis
        by (rule fraction_shape) (simp add: bs_New_def no_leading_digit_def is_digit_def)
    qed
    then show ?thesis
      by (simp add: 3)
  next
    case 4
    have dec: "length (decimal ca_IT_New) \<le> 1"
      by (simp add: ca_IT_New_def)
    from assms(3) have "bs_FmtCurrency ca_IT_New num v c = Some r \<or> ca_IT_FmtAccounting ca_IT_New num v c = Some r"
      by (simp add: 4)
    then have "\<exists>pre post. r = pre @ decimal ca_IT_New @ fraction_field (FormatFloat \<bar>num\<bar> (sint v)) (unat v) @ post
           \<and> no_leading_digit post"
    proof
      assume "bs_FmtCurrency ca_IT_New num v c = Some r"
      from bs_FmtCurrency_fraction [OF assms(2) dec this] show ?thesis
        by (rule fraction_shape) (simp add: ca_IT_New_def no_leading_digit_def is_digit_def)
    next
      assume "ca_IT_FmtAccounting ca_IT_New num v c = Some r"
      from ca_IT_FmtAccounting_fraction [OF assms(2) dec this] show ?thesis
        by (rule fraction_shape) (simp add: ca_IT_New_def no_leading_digit_def is_digit_def)
    qed
    then show ?thesis
      by (simp add: 4)
  next
    case 5
    have dec: "length (decimal chr_New) \<le> 1"
      by (simp add: chr_New_def)
    from assms(3) have "chr_FmtCurrency chr_New num v c = Some r \<or> chr_FmtAccounting chr_New num v c = Some r"
      by (simp add: 5)
    then have "\<exists>pre post. r = pre @ decimal chr_New @ fraction_field (FormatFloat \<bar>num\<bar> (sint v)) (unat v) @ post
           \<and> no_leading_digit post"
    proof
      assume "chr_FmtCurrency chr_New num v c = Some r"
      from chr_FmtCurrency_fraction [OF assms(2) dec this] show ?thesis
        by (rule fraction_shape) (simp add: chr_New_def no_leading_digit_def is_digit_def)
    next
      assume "chr_FmtAccounting chr_New num v c = Some r"
      from chr_FmtAccounting_fraction [OF assms(2) dec this] show ?thesis
        by (rule fraction_shape) (simp add: chr_New_def no_leading_digit_def is_digit_def)
    qed
    then show ?thesis
      by (simp add: 5)
  next
    case 6
    have dec: "length (decimal en_NU_New) \<le> 1"
      by (simp add: en_NU_New_def)
    from assms(3) have "chr_FmtCurrency en_NU_New num v c = Some r \<or> chr_FmtAccounting en_NU_New num v c = Some r"
      by (simp add: 6)
    then have "\<exists>pre post. r = pre @ decimal en_NU_New @ fraction_field (FormatFloat \<bar>num\<bar> (sint v)) (unat v) @ post
           \<and> no_leading_digit post"
    proof
      assume "chr_FmtCurrency en_NU_New num v c = Some r"
      from chr_FmtCurrency_fraction [OF assms(2) dec this] show ?thesis
        by (rule fraction_shape) (simp add: en_NU_New_def no_leading_digit_def is_digit_def)
    next
      assume "chr_FmtAccounting en_NU_New num v c = Some r"
      from chr_FmtAccounting_fraction [OF assms(2) dec this] show ?thesis
        by (rule fraction_shape) (simp add: en_NU_New_def no_leading_digit_def is_digit_def)
    qed
    then show ?thesis
      by (simp add: 6)
  next
    case 7
    have dec: "length (decimal es_US_New) \<le> 1"
      by (simp add: es_US_New_def)
    from assms(3) have "bs_FmtCurrency es_US_New num v c = Some r \<or> bs_FmtAccounting es_US_New num v c = Some r"
      by (simp add: 7)
    then have "\<exists>pre post. r = pre @ decimal es_US_New @ fraction_field (FormatFloat \<bar>num\<bar> (sint v)) (unat v) @ post
           \<and> no_leading_digit post"
    proof
      assume "bs_FmtCurrency es_US_New num v c = Some r"
      from bs_FmtCurrency_fraction [OF assms(2) dec this] show ?thesis
        by (rule fraction_shape) (simp add: es_US_New_def no_leading_digit_def is_digit_def)
    next
      assume "bs_FmtAccounting es_US_New num v c = Some r"
      from bs_FmtAccounting_fraction [OF assms(2) dec this] show ?thesis
        by (rule fraction_shape) (simp add: es_US_New_def no_leading_digit_def is_digit_def)
    qed
    then show ?thesis
      by (simp add: 7)
  qed
qed

text \<open>
  Return and shape together: for the seven locales, every amount, a precision below 2 and
  an in-range currency index, each of the two formats returns a string that holds the
  decimal symbol, then the two digits of the fraction field, then no further digit.
\<close>

lemma complete_locales_fraction:
  assumes L: "L \<in> {T_az_Latn_AZ, T_bg_BG, T_bs, T_ca_IT, T_chr, T_en_NU, T_es_US}"
    and v: "v < 2"
    and c: "c < length (currencies (New L))"
  shows "(\<exists>r pre post. FmtCurrency L num v c = Some r
            \<and> r = pre @ decimal (New L) @ fraction_field (FormatFloat \<bar>num\<bar> (sint v)) (unat v) @ post
            \<and> no_leading_digit post)
    \<and> (\<exists>r pre post. FmtAccounting L num v c = Some r
            \<and> r = pre @ decimal (New L) @ fraction_field (FormatFloat \<bar>num\<bar> (sint v)) (unat v) @ post
            \<and> no_leading_digit post)
    \<and> length (fraction_field (FormatFloat \<bar>num\<bar> (sint v)) (unat v)) = 2
    \<and> list_all is_digit (fraction_field (FormatFloat \<bar>num\<bar> (sint v)) (unat v))
    \<and> (v = 0 \<longrightarrow> fraction_field (FormatFloat \<bar>num\<bar> (sint v)) (unat v) = ''00'')"
proof -
  have sv: "- 1 \<le> sint v"
    using precision_cases [OF v] by auto
  from complete_locales_return [OF L sv c, of num] obtain r1 r2 where
    r1: "FmtCurrency L num v c = Some r1" and r2: "FmtAccounting L num v c = Some r2"
    by blast
  from currency_fraction_shape [OF L v disjI1 [OF r1]] obtain pre1 post1 where
    s1: "r1 = pre1 @ decimal (New L) @ fraction_field (FormatFloat \<bar>num\<bar> (sint v)) (unat v) @ post1"
    and n1: "no_leading_digit post1"
    by blast
  from currency_fraction_shape [OF L v disjI2 [OF r2]] obtain pre2 post2 where
    s2: "r2 = pre2 @ decimal (New L) @ fraction_field (FormatFloat \<bar>num\<bar> (sint v)) (unat v) @ post2"
    and n2: "no_leading_digit post2"
    by blast
  have cur: "\<exists>r pre post. FmtCurrency L num v c = Some r
            \<and> r = pre @ decimal (New L) @ fraction_field (FormatFloat \<bar>num\<bar> (sint v)) (unat v) @ post
            \<and> no_leading_digit post"
    using r1 s1 n1 by blast
  have acc: "\<exists>r pre post. FmtAccounting L num v c = Some r
            \<and> r = pre @ decimal (New L) @ fraction_field (FormatFloat \<bar>num\<bar> (sint v)) (unat v) @ post
            \<and> no_leading_digit post"
    using r2 s2 n2 by blast
  show ?thesis
    using cur acc fraction_field_two [OF v, of "\<bar>num\<bar>"] by blast
qed

text \<open>
  Claim C3. The descriptors of \<open>kw\<close>, \<open>rwk\<close> and \<open>saq_KE\<close> hold the empty string as decimal
  symbol. At the precision 1 their \<open>FmtCurrency\<close> and \<open>FmtAccounting\<close> panic on the radix
  point, at \<open>decimal[0]\<close>, and return no string; at the precision 0 no decimal symbol
  stands before the two zeros they append. \<open>en_NU\<close>, which sets the symbol, pads to two
  fraction digits after it.
\<close>

theorem FmtCurrency_kw_rwk_saq_KE_no_decimal:
  "decimal (New T_kw) = [] \<and> decimal (New T_rwk) = [] \<and> decimal (New T_saq_KE) = []
   \<and> FmtCurrency T_kw (1 / 2) 1 0 = None \<and> FmtAccounting T_kw (1 / 2) 1 0 = None
   \<and> FmtCurrency T_rwk (5 / 2) 1 0 = None \<and> FmtAccounting T_rwk (5 / 2) 1 0 = None
   \<and> FmtCurrency T_saq_KE (29 / 4) 1 0 = None \<and> FmtAccounting T_saq_KE (29 / 4) 1 0 = None
   \<and> FmtCurrency T_kw 5 0 0 = Some ''ADP500''
   \<and> FmtCurrency T_rwk 5 0 0 = Some ''500ADP''
   \<and> FmtCurrency T_saq_KE 5 0 0 = Some ''ADP500''
   \<and> FmtCurrency T_en_NU 5 0 0 = Some ''ADP5.00''
   \<and> FmtCurrency T_en_NU (5 / 2) 1 0 = Some ''ADP2.50''"
proof -
  have panics: "FmtCurrency T_kw (1 / 2) 1 0 = None \<and> FmtAccounting T_kw (1 / 2) 1 0 = None
   \<and> FmtCurrency T_rwk (5 / 2) 1 0 = None \<and> FmtAccounting T_rwk (5 / 2) 1 0 = None
   \<and> FmtCurrency T_saq_KE (29 / 4) 1 0 = None \<and> FmtAccounting T_saq_KE (29 / 4) 1 0 = None"
    by (simp add: kw_FmtAccounting_def rwk_FmtAccounting_def chr_FmtAccounting_def
        chr_FmtCurrency_def rwk_FmtCurrency_def kw_New_def rwk_New_def saq_KE_New_def
        kw_currencies_def rwk_currencies_def saq_KE_currencies_def fmt_eval)
  have bare: "FmtCurrency T_kw 5 0 0 = Some ''ADP500''
   \<and> FmtCurrency T_rwk 5 0 0 = Some ''500ADP''
   \<and> FmtCurrency T_saq_KE 5 0 0 = Some ''ADP500''"
    by (simp add: chr_FmtCurrency_def rwk_FmtCurrency_def kw_New_def rwk_New_def saq_KE_New_def
        kw_currencies_def rwk_currencies_def saq_KE_currencies_def fmt_eval)
  have sibling: "FmtCurrency T_en_NU 5 0 0 = Some ''ADP5.00''
   \<and> FmtCurrency T_en_NU (5 / 2) 1 0 = Some ''ADP2.50''"
    by (simp add: chr_FmtCurrency_def en_NU_New_def en_NU_currencies_def fmt_eval)
  have symbols: "decimal (New T_kw) = [] \<and> decimal (New T_rwk) = [] \<and> decimal (New T_saq_KE) = []"
    by (simp add: kw_New_def rwk_New_def saq_KE_New_def)
  from symbols panics bare sibling show ?thesis
    by (simp only: simp_thms)
qed

end
